(* ===== verification/Prelude.thy ===== *)
theory Prelude
  imports Main "HOL-Library.Word"
begin

text \<open>
  Shared vocabulary of the development: the machine integers of the C and Go sources,
  Go byte slices and strings, little-endian encodings of unsigned integers, and the
  generic facts on lists, options and maps that several components use.

  A Go \<open>[]byte\<close> (and a C byte array) is a list of 8-bit words, a Go \<open>string\<close> is a
  \<^typ>\<open>string\<close> (a list of 8-bit characters): both are byte sequences, and the conversions
  \<open>string(b)\<close> and \<open>[]byte(s)\<close> copy the bytes.
\<close>

type_synonym u8 = "8 word"
type_synonym u16 = "16 word"
type_synonym u32 = "32 word"
type_synonym u64 = "64 word"
type_synonym bytes = "8 word list"

named_theorems wire_simps \<open>sizes and round trips of the wire structures\<close>
named_theorems layout_simps \<open>computed sizes and alignments of C types\<close>

section \<open>Bytes and strings\<close>

lemma unat_lt: "unat (x :: 'a::len word) < 2 ^ LENGTH('a)"
  by (rule unsigned_less)

lemma word_unat_eqI: "unat (v :: 'a::len word) = unat w \<Longrightarrow> v = w"
  by (rule unsigned_word_eqI)

lemma unat_byte_less [simp]: "unat (x :: u8) < 256"
  using unat_lt [of x] by simp

lemma unat_byte_mod [simp]: "unat (x :: u8) mod 256 = unat x"
  by simp

definition string_of :: "bytes \<Rightarrow> string" where
  "string_of b = map (\<lambda>x. char_of (unat x)) b"

definition bytes_of :: "string \<Rightarrow> bytes" where
  "bytes_of s = map (\<lambda>c. of_nat (of_char c)) s"

lemma of_char_char_of_byte [simp]: "(of_nat (of_char (char_of (unat (x :: u8)) :: char)) :: u8) = x"
proof -
  have "unat x < 256" using unat_lt [of x] by simp
  then show ?thesis by (simp add: of_char_of)
qed

lemma bytes_of_string_of [simp]: "bytes_of (string_of b) = b"
  by (simp add: bytes_of_def string_of_def comp_def map_idI)

lemma unat_of_nat_of_char [simp]: "unat (of_nat (of_char c) :: u8) = of_char c"
proof -
  have "(of_char c :: nat) < 256" by simp
  then show ?thesis by (simp add: unat_of_nat)
qed

lemma string_of_bytes_of [simp]: "string_of (bytes_of s) = s"
  by (simp add: bytes_of_def string_of_def comp_def map_idI)

lemma length_string_of [simp]: "length (string_of b) = length b"
  by (simp add: string_of_def)

lemma length_bytes_of [simp]: "length (bytes_of s) = length s"
  by (simp add: bytes_of_def)

lemma string_of_eq_iff [simp]: "string_of a = string_of b \<longleftrightarrow> a = b"
  by (metis bytes_of_string_of)

lemma bytes_of_eq_iff [simp]: "bytes_of a = bytes_of b \<longleftrightarrow> a = b"
  by (metis string_of_bytes_of)

lemma string_of_Nil [simp]: "string_of [] = []"
  by (simp add: string_of_def)

lemma string_of_append [simp]: "string_of (a @ b) = string_of a @ string_of b"
  by (simp add: string_of_def)

lemma bytes_of_append [simp]: "bytes_of (a @ b) = bytes_of a @ bytes_of b"
  by (simp add: bytes_of_def)

lemma bytes_of_Nil [simp]: "bytes_of [] = []"
  by (simp add: bytes_of_def)

section \<open>Little-endian integers\<close>

text \<open>
  \<open>le_enc k n\<close> is the little-endian representation of \<open>n\<close> in \<open>k\<close> bytes, as a C store
  of an unsigned integer on a little-endian machine and as Go's
  \<open>binary.LittleEndian.PutUint32\<close> and \<open>PutUint64\<close> write it; \<open>le_dec\<close> reads it back.
\<close>

fun le_enc :: "nat \<Rightarrow> nat \<Rightarrow> bytes" where
  "le_enc 0 n = []"
| "le_enc (Suc k) n = of_nat n # le_enc k (n div 256)"

fun le_dec :: "bytes \<Rightarrow> nat" where
  "le_dec [] = 0"
| "le_dec (b # bs) = unat b + 256 * le_dec bs"

definition put32 :: "u32 \<Rightarrow> bytes" where
  "put32 w = le_enc 4 (unat w)"

definition put64 :: "u64 \<Rightarrow> bytes" where
  "put64 w = le_enc 8 (unat w)"

definition get32 :: "bytes \<Rightarrow> u32" where
  "get32 b = of_nat (le_dec (take 4 b))"

definition get64 :: "bytes \<Rightarrow> u64" where
  "get64 b = of_nat (le_dec (take 8 b))"

lemma length_le_enc [simp]: "length (le_enc k n) = k"
  by (induction k arbitrary: n) simp_all

lemma unat_of_nat_byte [simp]: "unat (of_nat n :: u8) = n mod 256"
  by (simp add: unat_of_nat)

lemma le_dec_enc: "le_dec (le_enc k n) = n mod 256 ^ k"
  by (induction k arbitrary: n) (simp_all add: mod_mult2_eq)

lemma digit_less: "(a :: nat) < 256 \<Longrightarrow> b < m \<Longrightarrow> a + 256 * b < 256 * m"
  by linarith

lemma le_dec_less: "le_dec bs < 256 ^ length bs"
  by (induction bs) (simp_all add: digit_less)

lemma byte_256: "(256 :: u8) * x = 0"
proof -
  have "(256 :: u8) = 0" by simp
  then show ?thesis by (metis mult_zero_left)
qed

lemma le_enc_dec: "le_enc (length bs) (le_dec bs) = bs"
proof (induction bs)
  case Nil
  then show ?case by simp
next
  case (Cons b bs)
  have b: "unat b < 256" using unat_lt [of b] by simp
  then have "(unat b + 256 * le_dec bs) div 256 = le_dec bs" by simp
  moreover have "(of_nat (unat b + 256 * le_dec bs) :: u8) = b"
    by (simp add: byte_256 del: unsigned_of_nat)
  ultimately show ?case using Cons by simp
qed

lemma length_put32 [simp]: "length (put32 w) = 4"
  by (simp add: put32_def)

lemma length_put64 [simp]: "length (put64 w) = 8"
  by (simp add: put64_def)

lemma get32_put32_append [simp]: "get32 (put32 w @ r) = w"
proof -
  have "unat w < 256 ^ 4" using unat_lt [of w] by simp
  then show ?thesis by (simp add: get32_def put32_def le_dec_enc)
qed

lemma get64_put64_append [simp]: "get64 (put64 w @ r) = w"
proof -
  have "unat w < 256 ^ 8" using unat_lt [of w] by simp
  then show ?thesis by (simp add: get64_def put64_def le_dec_enc)
qed

lemma get32_put32 [simp]: "get32 (put32 w) = w"
  using get32_put32_append [of w "[]"] by simp

lemma get64_put64 [simp]: "get64 (put64 w) = w"
  using get64_put64_append [of w "[]"] by simp

lemma put32_get32: "length b = 4 \<Longrightarrow> put32 (get32 b) = b"
proof -
  assume l: "length b = 4"
  have "le_dec b < 256 ^ 4" using le_dec_less [of b] l by simp
  then have "unat (get32 b) = le_dec b"
    by (simp add: get32_def l unat_of_nat)
  then show ?thesis using le_enc_dec [of b] l by (simp add: put32_def)
qed

lemma put64_get64: "length b = 8 \<Longrightarrow> put64 (get64 b) = b"
proof -
  assume l: "length b = 8"
  have "le_dec b < 256 ^ 8" using le_dec_less [of b] l by simp
  then have "unat (get64 b) = le_dec b"
    by (simp add: get64_def l unat_of_nat)
  then show ?thesis using le_enc_dec [of b] l by (simp add: put64_def)
qed

lemma put32_inject [simp]: "put32 a = put32 b \<longleftrightarrow> a = b"
  by (metis get32_put32)

lemma put64_inject [simp]: "put64 a = put64 b \<longleftrightarrow> a = b"
  by (metis get64_put64)

section \<open>Truncation\<close>

lemma ucast_of_int [simp]: "(ucast (of_int i :: u64) :: u32) = of_int i"
  by (rule bit_word_eqI) (simp add: bit_simps)

lemma ucast_of_nat [simp]: "(ucast (of_nat n :: u64) :: u32) = of_nat n"
  using ucast_of_int [of "int n"] by simp

end
