(* ===== verification/CLayout.thy ===== *)
theory CLayout
  imports Prelude
begin

text \<open>
  C object types and their layout, as the BPF compiler lays out the structures of
  \<open>bpf/*.h\<close>: 64-bit pointers, naturally aligned scalars, members in declaration order,
  bit-fields packed into the storage unit of their declared type unless they would
  straddle it. The type expressions of the kernel headers and of the event structures are
  transcribed into the type \<open>ctype\<close>, and the same functions compute the sizes and member
  offsets of both.
\<close>

section \<open>Type expressions\<close>

text \<open>
  \<open>CInt sg n\<close> is an integer type of \<open>n\<close> bytes (\<open>sg\<close>: signed), \<open>CPtr p\<close> a pointer whose
  pointee is spelled \<open>p\<close>, \<open>CEnum e\<close> an enumeration. A member is a field or a bit-field;
  the empty name is an anonymous structure, an anonymous union or an unnamed bit-field.
\<close>

datatype ctype =
    CInt bool nat
  | CPtr string
  | CEnum string
  | CArr ctype nat
  | CStruct "member list"
  | CUnion "member list"
and member =
    Fld string ctype
  | Bit string ctype nat

text \<open>The arithmetic types of C on the BPF target.\<close>

abbreviation "c_char \<equiv> CInt True 1"
abbreviation "c_schar \<equiv> CInt True 1"
abbreviation "c_uchar \<equiv> CInt False 1"
abbreviation "c_bool \<equiv> CInt False 1"
abbreviation "c_short \<equiv> CInt True 2"
abbreviation "c_ushort \<equiv> CInt False 2"
abbreviation "c_int \<equiv> CInt True 4"
abbreviation "c_uint \<equiv> CInt False 4"
abbreviation "c_long \<equiv> CInt True 8"
abbreviation "c_ulong \<equiv> CInt False 8"
abbreviation "c_llong \<equiv> CInt True 8"
abbreviation "c_ullong \<equiv> CInt False 8"
abbreviation "c_u128 \<equiv> CInt False 16"

section \<open>Sizes, alignments, offsets\<close>

definition roundup :: "nat \<Rightarrow> nat \<Rightarrow> nat" where
  "roundup a n = (n + a - 1) div a * a"

fun alignof :: "ctype \<Rightarrow> nat" and aligns :: "member list \<Rightarrow> nat" where
  "alignof (CInt sg n) = n"
| "alignof (CPtr p) = 8"
| "alignof (CEnum e) = 4"
| "alignof (CArr t n) = alignof t"
| "alignof (CStruct ms) = aligns ms"
| "alignof (CUnion ms) = aligns ms"
| "aligns [] = 1"
| "aligns (Fld f t # ms) = max (alignof t) (aligns ms)"
| "aligns (Bit f t w # ms) = max (if f = [] then 1 else alignof t) (aligns ms)"

text \<open>
  Positions are counted in bits. \<open>send p ms\<close> is the end of a structure's last member when
  its first one is placed from \<open>p\<close> on; \<open>uend ms\<close> is the width of a union's widest member.
\<close>

fun sizeof :: "ctype \<Rightarrow> nat" and send :: "nat \<Rightarrow> member list \<Rightarrow> nat" and uend :: "member list \<Rightarrow> nat" where
  "sizeof (CInt sg n) = n"
| "sizeof (CPtr p) = 8"
| "sizeof (CEnum e) = 4"
| "sizeof (CArr t n) = sizeof t * n"
| "sizeof (CStruct ms) = roundup (8 * aligns ms) (send 0 ms) div 8"
| "sizeof (CUnion ms) = roundup (8 * aligns ms) (uend ms) div 8"
| "send p [] = p"
| "send p (Fld f t # ms) = send (roundup (8 * alignof t) p + 8 * sizeof t) ms"
| "send p (Bit f t w # ms) =
     send ((if w = 0 \<or> 8 * sizeof t < p mod (8 * alignof t) + w
            then roundup (8 * alignof t) p else p) + w) ms"
| "uend [] = 0"
| "uend (Fld f t # ms) = max (8 * sizeof t) (uend ms)"
| "uend (Bit f t w # ms) = max w (uend ms)"

definition place :: "nat \<Rightarrow> member \<Rightarrow> nat" where
  "place p m = (case m of
     Fld f t \<Rightarrow> roundup (8 * alignof t) p
   | Bit f t w \<Rightarrow> if w = 0 \<or> 8 * sizeof t < p mod (8 * alignof t) + w
                 then roundup (8 * alignof t) p else p)"

definition mwidth :: "member \<Rightarrow> nat" where
  "mwidth m = (case m of Fld f t \<Rightarrow> 8 * sizeof t | Bit f t w \<Rightarrow> w)"

text \<open>
  Member access. \<open>member_of t f\<close> is the bit offset and the type of the field \<open>f\<close> of \<open>t\<close>,
  looking through anonymous structures and unions as C does; a bit-field has no address.
  \<open>designate t [f, g]\<close> is the access \<open>.f.g\<close>.
\<close>

fun member_of :: "ctype \<Rightarrow> string \<Rightarrow> (nat \<times> ctype) option"
  and smember :: "nat \<Rightarrow> member list \<Rightarrow> string \<Rightarrow> (nat \<times> ctype) option"
  and umember :: "member list \<Rightarrow> string \<Rightarrow> (nat \<times> ctype) option" where
  "member_of (CInt sg n) f = None"
| "member_of (CPtr p) f = None"
| "member_of (CEnum e) f = None"
| "member_of (CArr t n) f = None"
| "member_of (CStruct ms) f = smember 0 ms f"
| "member_of (CUnion ms) f = umember ms f"
| "smember p [] f = None"
| "smember p (Fld g t # ms) f =
     (if g = f then Some (roundup (8 * alignof t) p, t)
      else case (if g = [] then member_of t f else None) of
        Some (q, u) \<Rightarrow> Some (roundup (8 * alignof t) p + q, u)
      | None \<Rightarrow> smember (roundup (8 * alignof t) p + 8 * sizeof t) ms f)"
| "smember p (Bit g t w # ms) f = smember (place p (Bit g t w) + w) ms f"
| "umember [] f = None"
| "umember (Fld g t # ms) f =
     (if g = f then Some (0, t)
      else case (if g = [] then member_of t f else None) of
        Some (q, u) \<Rightarrow> Some (q, u)
      | None \<Rightarrow> umember ms f)"
| "umember (Bit g t w # ms) f = umember ms f"

fun designate :: "ctype \<Rightarrow> string list \<Rightarrow> (nat \<times> ctype) option" where
  "designate t [] = Some (0, t)"
| "designate t (f # fs) =
     (case member_of t f of
        None \<Rightarrow> None
      | Some (p, u) \<Rightarrow> (case designate u fs of None \<Rightarrow> None | Some (q, v) \<Rightarrow> Some (p + q, v)))"

text \<open>Well-formed types: scalars whose size is a power of two of at most 16 bytes.\<close>

fun wf_ctype :: "ctype \<Rightarrow> bool" and wf_members :: "member list \<Rightarrow> bool" where
  "wf_ctype (CInt sg n) = (n \<in> {1, 2, 4, 8, 16})"
| "wf_ctype (CPtr p) = True"
| "wf_ctype (CEnum e) = True"
| "wf_ctype (CArr t n) = wf_ctype t"
| "wf_ctype (CStruct ms) = wf_members ms"
| "wf_ctype (CUnion ms) = wf_members ms"
| "wf_members [] = True"
| "wf_members (Fld f t # ms) = (wf_ctype t \<and> wf_members ms)"
| "wf_members (Bit f t w # ms) = (wf_ctype t \<and> w \<le> 8 * sizeof t \<and> wf_members ms)"

section \<open>Facts on layouts\<close>

lemma roundup_ge: "0 < a \<Longrightarrow> n \<le> roundup a n"
proof -
  assume a: "0 < a"
  have "n + a - 1 = (n + a - 1) div a * a + (n + a - 1) mod a" by simp
  moreover have "(n + a - 1) mod a < a" using a by simp
  ultimately show ?thesis using a unfolding roundup_def by linarith
qed

lemma roundup_dvd [simp, intro]: "a dvd roundup a n"
  by (simp add: roundup_def)

lemma roundup_less: "0 < a \<Longrightarrow> roundup a n < n + a"
proof -
  assume a: "0 < a"
  have "(n + a - 1) div a * a \<le> n + a - 1" by simp
  with a show ?thesis unfolding roundup_def by linarith
qed

lemma roundup_dvd_trans: "b dvd a \<Longrightarrow> b dvd roundup a n"
  using roundup_dvd dvd_trans by blast

definition pow2_align :: "nat \<Rightarrow> bool" where
  "pow2_align a \<longleftrightarrow> a \<in> {1, 2, 4, 8, 16}"

lemma pow2_align_pos: "pow2_align a \<Longrightarrow> 0 < a"
  by (auto simp: pow2_align_def)

lemma pow2_align_max: "pow2_align a \<Longrightarrow> pow2_align b \<Longrightarrow>
    pow2_align (max a b) \<and> a dvd max a b \<and> b dvd max a b"
  unfolding pow2_align_def by auto

lemma alignof_pow2:
  "wf_ctype t \<Longrightarrow> pow2_align (alignof t)"
  "wf_members ms \<Longrightarrow> pow2_align (aligns ms)"
  by (induction t and ms rule: alignof_aligns.induct)
    (auto simp: pow2_align_max, auto simp: pow2_align_def)

lemma alignof_pos: "wf_ctype t \<Longrightarrow> 0 < alignof t"
  by (simp add: alignof_pow2 pow2_align_pos)

lemma aligns_pos: "wf_members ms \<Longrightarrow> 0 < aligns ms"
  by (simp add: alignof_pow2 pow2_align_pos)

lemma roundup_div_8: "8 * (roundup (8 * a) n div 8) = roundup (8 * a) n"
proof -
  have "8 dvd roundup (8 * a) n" by (rule roundup_dvd_trans) simp
  then show ?thesis by simp
qed

lemma dvd_roundup_div_8: "a dvd roundup (8 * a) n div 8"
proof -
  have "8 * a dvd 8 * (roundup (8 * a) n div 8)"
    by (simp only: roundup_div_8 roundup_dvd)
  then show ?thesis by simp
qed

lemma alignof_dvd_sizeof: "wf_ctype t \<Longrightarrow> alignof t dvd sizeof t"
  by (induction t rule: wf_ctype_wf_members.induct(1) [where Q = "\<lambda>_. True"])
    (auto simp: dvd_roundup_div_8)

lemma place_ge: "wf_members (m # ms) \<Longrightarrow> p \<le> place p m"
  by (cases m) (auto simp: place_def roundup_ge alignof_pos)

lemma send_Cons: "send p (m # ms) = send (place p m + mwidth m) ms"
  by (cases m) (simp_all add: place_def mwidth_def)

lemma wf_members_tl: "wf_members (m # ms) \<Longrightarrow> wf_members ms"
  by (cases m) simp_all

lemma send_ge: "wf_members ms \<Longrightarrow> p \<le> send p ms"
proof (induction ms arbitrary: p)
  case Nil
  then show ?case by simp
next
  case (Cons m ms)
  have "p \<le> place p m + mwidth m" using place_ge [OF Cons.prems, of p] by simp
  also have "\<dots> \<le> send (place p m + mwidth m) ms"
    by (rule Cons.IH [OF wf_members_tl [OF Cons.prems]])
  finally show ?case by (simp only: send_Cons)
qed

text \<open>
  Where a designated field lies: inside the object (\<open>lo\<close> to \<open>hi\<close>, in bits), at a multiple
  of its own alignment, which divides the alignment \<open>al\<close> of the object.
\<close>

definition fits :: "nat \<Rightarrow> nat \<Rightarrow> nat \<Rightarrow> nat \<times> ctype \<Rightarrow> bool" where
  "fits al lo hi r \<longleftrightarrow> (case r of (q, u) \<Rightarrow>
     wf_ctype u \<and> 8 * alignof u dvd q \<and> lo \<le> q \<and> q + 8 * sizeof u \<le> hi \<and> alignof u dvd al)"

lemma fits_mono: "fits al lo hi r \<Longrightarrow> lo' \<le> lo \<Longrightarrow> hi \<le> hi' \<Longrightarrow> al dvd al' \<Longrightarrow> fits al' lo' hi' r"
proof -
  assume f: "fits al lo hi r" and le: "lo' \<le> lo" "hi \<le> hi'" and dvd: "al dvd al'"
  obtain q u where r: "r = (q, u)" by (cases r)
  from f have "alignof u dvd al" by (simp add: fits_def r)
  then have "alignof u dvd al'" using dvd by (rule dvd_trans)
  with f le show ?thesis by (simp add: fits_def r)
qed

lemma fits_shift: "fits al lo hi (q, u) \<Longrightarrow> 8 * al dvd b \<Longrightarrow> fits al (b + lo) (b + hi) (b + q, u)"
proof -
  assume f: "fits al lo hi (q, u)" and b: "8 * al dvd b"
  from f have "8 * alignof u dvd 8 * al" by (simp add: fits_def)
  then have "8 * alignof u dvd b" using b by (rule dvd_trans)
  with f show ?thesis by (simp add: fits_def)
qed

lemma fits_whole: "wf_ctype t \<Longrightarrow> 8 * alignof t dvd b \<Longrightarrow> fits (alignof t) b (b + 8 * sizeof t) (b, t)"
  by (simp add: fits_def)

lemma aligns_Fld_dvd: "wf_members (Fld g t # ms) \<Longrightarrow>
    alignof t dvd aligns (Fld g t # ms) \<and> aligns ms dvd aligns (Fld g t # ms)"
  using pow2_align_max [of "alignof t" "aligns ms"] by (simp add: alignof_pow2)

lemma aligns_Bit_dvd: "wf_members (Bit g t w # ms) \<Longrightarrow> aligns ms dvd aligns (Bit g t w # ms)"
proof -
  assume wf: "wf_members (Bit g t w # ms)"
  have "pow2_align (if g = [] then 1 else alignof t)" and "pow2_align (aligns ms)"
    using wf by (auto simp: alignof_pow2) (simp add: pow2_align_def)
  from pow2_align_max [OF this] show ?thesis by simp
qed

lemma sizeof_CStruct_ge: "wf_members ms \<Longrightarrow> send 0 ms \<le> 8 * sizeof (CStruct ms)"
  by (simp add: roundup_div_8 roundup_ge aligns_pos)

lemma sizeof_CUnion_ge: "wf_members ms \<Longrightarrow> uend ms \<le> 8 * sizeof (CUnion ms)"
  by (simp add: roundup_div_8 roundup_ge aligns_pos)

lemma smember_Fld_cases:
  assumes "smember p (Fld g t # ms) f = Some r"
  defines "b \<equiv> roundup (8 * alignof t) p"
  obtains (here) "r = (b, t)"
    | (anon) q u where "g = []" "member_of t f = Some (q, u)" "r = (b + q, u)"
    | (later) "smember (b + 8 * sizeof t) ms f = Some r"
proof (cases "g = f")
  case True
  then show ?thesis using assms(1) here by (simp add: b_def)
next
  case False
  show ?thesis
  proof (cases "if g = [] then member_of t f else None")
    case None
    with False show ?thesis using assms(1) later by (simp only: smember.simps if_False option.case b_def)
  next
    case (Some qu)
    obtain q u where qu: "qu = (q, u)" by (cases qu)
    from Some have "g = []" "member_of t f = Some (q, u)" by (simp_all add: qu split: if_splits)
    moreover have "r = (b + q, u)"
      using assms(1) False Some by (simp only: smember.simps if_False option.case b_def qu prod.case option.inject)
    ultimately show ?thesis by (rule anon)
  qed
qed

lemma fits_smember_Fld:
  assumes wf: "wf_members (Fld g t # ms)"
    and r: "smember p (Fld g t # ms) f = Some r"
    and inner: "\<And>r. g = [] \<Longrightarrow> member_of t f = Some r \<Longrightarrow> fits (alignof t) 0 (8 * sizeof t) r"
    and rest: "\<And>q r. smember q ms f = Some r \<Longrightarrow> fits (aligns ms) q (send q ms) r"
  shows "fits (aligns (Fld g t # ms)) p (send p (Fld g t # ms)) r"
proof -
  define b where "b = roundup (8 * alignof t) p"
  have wft: "wf_ctype t" and wfm: "wf_members ms" using wf by simp_all
  have pb: "p \<le> b" using wft by (simp add: b_def roundup_ge alignof_pos)
  have dvd: "8 * alignof t dvd b" by (simp add: b_def)
  note al = conjunct1 [OF aligns_Fld_dvd [OF wf]] conjunct2 [OF aligns_Fld_dvd [OF wf]]
  have hi: "b + 8 * sizeof t \<le> send p (Fld g t # ms)"
    using send_ge [OF wfm, of "b + 8 * sizeof t"] by (simp add: b_def)
  consider (here) "r = (b, t)" | (anon) q u where "g = []" "member_of t f = Some (q, u)" "r = (b + q, u)"
    | (later) "smember (b + 8 * sizeof t) ms f = Some r"
    using smember_Fld_cases [OF r] unfolding b_def by metis
  then show ?thesis
  proof cases
    case here
    have "fits (alignof t) b (b + 8 * sizeof t) r" unfolding here by (rule fits_whole [OF wft dvd])
    then show ?thesis by (rule fits_mono [OF _ pb hi al(1)])
  next
    case anon
    have "fits (alignof t) (b + 0) (b + 8 * sizeof t) r"
      unfolding anon(3) by (rule fits_shift [OF inner [OF anon(1,2)] dvd])
    then show ?thesis by (rule fits_mono [OF _ _ hi al(1)]) (simp add: pb)
  next
    case later
    have "fits (aligns ms) (b + 8 * sizeof t) (send p (Fld g t # ms)) r"
      using rest [OF later] by (simp add: b_def)
    then show ?thesis by (rule fits_mono [OF _ _ order_refl al(2)]) (simp add: pb trans_le_add1)
  qed
qed

lemma umember_Fld_cases:
  assumes "umember (Fld g t # ms) f = Some r"
  obtains (here) "r = (0, t)" | (anon) "g = []" "member_of t f = Some r" | (later) "umember ms f = Some r"
proof (cases "g = f")
  case True
  then show ?thesis using assms(1) here by simp
next
  case False
  show ?thesis
  proof (cases "if g = [] then member_of t f else None")
    case None
    with False show ?thesis using assms(1) later by (simp only: umember.simps if_False option.case)
  next
    case (Some qu)
    then have "g = []" "member_of t f = Some qu" by (simp_all split: if_splits)
    moreover have "r = qu"
      using assms(1) False Some
      by (cases qu) (simp only: umember.simps if_False option.case prod.case option.inject)
    ultimately show ?thesis using anon by simp
  qed
qed

lemma fits_umember_Fld:
  assumes wf: "wf_members (Fld g t # ms)"
    and r: "umember (Fld g t # ms) f = Some r"
    and inner: "\<And>r. g = [] \<Longrightarrow> member_of t f = Some r \<Longrightarrow> fits (alignof t) 0 (8 * sizeof t) r"
    and rest: "\<And>r. umember ms f = Some r \<Longrightarrow> fits (aligns ms) 0 (uend ms) r"
  shows "fits (aligns (Fld g t # ms)) 0 (uend (Fld g t # ms)) r"
proof -
  note al = aligns_Fld_dvd [OF wf]
  have le: "8 * sizeof t \<le> uend (Fld g t # ms)" "uend ms \<le> uend (Fld g t # ms)" by simp_all
  from r show ?thesis
  proof (cases rule: umember_Fld_cases)
    case here
    have "fits (alignof t) 0 (8 * sizeof t) r" unfolding here using fits_whole [of t 0] wf by simp
    then show ?thesis by (rule fits_mono [OF _ order_refl le(1) conjunct1 [OF al]])
  next
    case anon
    show ?thesis by (rule fits_mono [OF inner [OF anon] order_refl le(1) conjunct1 [OF al]])
  next
    case later
    show ?thesis by (rule fits_mono [OF rest [OF later] order_refl le(2) conjunct2 [OF al]])
  qed
qed

lemma fits_smember_Bit:
  assumes wf: "wf_members (Bit g t w # ms)"
    and rest: "fits (aligns ms) (place p (Bit g t w) + w) (send (place p (Bit g t w) + w) ms) r"
  shows "fits (aligns (Bit g t w # ms)) p (send p (Bit g t w # ms)) r"
proof (rule fits_mono [OF rest])
  show "p \<le> place p (Bit g t w) + w" using place_ge [OF wf, of p] by simp
  show "send (place p (Bit g t w) + w) ms \<le> send p (Bit g t w # ms)"
    unfolding send_Cons by (simp add: mwidth_def)
  show "aligns ms dvd aligns (Bit g t w # ms)" by (rule aligns_Bit_dvd [OF wf])
qed

lemma fits_umember_Bit:
  assumes wf: "wf_members (Bit g t w # ms)" and rest: "fits (aligns ms) 0 (uend ms) r"
  shows "fits (aligns (Bit g t w # ms)) 0 (uend (Bit g t w # ms)) r"
  by (rule fits_mono [OF rest order_refl _ aligns_Bit_dvd [OF wf]]) simp

lemma member_fits_aux:
  "wf_ctype t \<Longrightarrow> member_of t f = Some r \<Longrightarrow> fits (alignof t) 0 (8 * sizeof t) r"
  "wf_members ms \<Longrightarrow> (smember p ms f = Some r \<longrightarrow> fits (aligns ms) p (send p ms) r) \<and>
     (umember ms f = Some r \<longrightarrow> fits (aligns ms) 0 (uend ms) r)"
proof (induction t and ms arbitrary: r and p r rule: alignof_aligns.induct)
  case (5 ms)
  have wf: "wf_members ms" and m: "smember 0 ms f = Some r" using "5.prems" by simp_all
  have "fits (aligns ms) 0 (send 0 ms) r" using "5.IH" [OF wf] m by blast
  from fits_mono [OF this order_refl sizeof_CStruct_ge [OF wf] dvd_refl] show ?case by simp
next
  case (6 ms)
  have wf: "wf_members ms" and m: "umember ms f = Some r" using "6.prems" by simp_all
  have "fits (aligns ms) 0 (uend ms) r" using "6.IH" [OF wf] m by blast
  from fits_mono [OF this order_refl sizeof_CUnion_ge [OF wf] dvd_refl] show ?case by simp
next
  case (8 g t ms)
  have wf: "wf_ctype t" "wf_members ms" using "8.prems" by simp_all
  note inner = "8.IH"(1) [OF wf(1)]
  have rest: "\<And>q r. smember q ms f = Some r \<Longrightarrow> fits (aligns ms) q (send q ms) r"
    "\<And>r. umember ms f = Some r \<Longrightarrow> fits (aligns ms) 0 (uend ms) r"
    using "8.IH"(2) [OF wf(2)] by blast+
  show ?case
    using fits_smember_Fld [OF "8.prems" _ inner rest(1)] fits_umember_Fld [OF "8.prems" _ inner rest(2)]
    by blast
next
  case (9 g t w ms)
  have wf: "wf_members ms" using "9.prems" by simp
  note IH = "9.IH"(2) [OF wf]
  show ?case
  proof (intro conjI impI)
    assume "smember p (Bit g t w # ms) f = Some r"
    then have "smember (place p (Bit g t w) + w) ms f = Some r" by (simp only: smember.simps)
    then show "fits (aligns (Bit g t w # ms)) p (send p (Bit g t w # ms)) r"
      by (intro fits_smember_Bit [OF "9.prems"] IH [THEN conjunct1, THEN mp])
  next
    assume "umember (Bit g t w # ms) f = Some r"
    then have "umember ms f = Some r" by (simp only: umember.simps)
    then show "fits (aligns (Bit g t w # ms)) 0 (uend (Bit g t w # ms)) r"
      by (intro fits_umember_Bit [OF "9.prems"] IH [THEN conjunct2, THEN mp])
  qed
qed simp_all

lemmas member_fits = member_fits_aux(1)

text \<open>A designator chain stays inside the object and is aligned.\<close>

lemma designate_fits:
  "wf_ctype t \<Longrightarrow> designate t fs = Some r \<Longrightarrow> fits (alignof t) 0 (8 * sizeof t) r"
proof (induction t fs arbitrary: r rule: designate.induct)
  case (1 t)
  then show ?case using fits_whole [of t 0] by simp
next
  case (2 t f fs)
  from "2.prems"(2) obtain p u q v where m: "member_of t f = Some (p, u)"
    and d: "designate u fs = Some (q, v)" and r: "r = (p + q, v)"
    by (auto split: option.splits)
  have fu: "fits (alignof t) 0 (8 * sizeof t) (p, u)" using "2.prems"(1) m by (rule member_fits)
  then have u: "wf_ctype u" "8 * alignof u dvd p" "p + 8 * sizeof u \<le> 8 * sizeof t" "alignof u dvd alignof t"
    by (simp_all add: fits_def)
  have "fits (alignof u) (p + 0) (p + 8 * sizeof u) (p + q, v)"
    using "2.IH" [OF m refl u(1) d] u(2) by (rule fits_shift)
  then show ?case unfolding r by (rule fits_mono [OF _ _ u(3,4)]) simp
qed

section \<open>Structures declared in several parts\<close>

lemma send_append [simp]: "send p (xs @ ys) = send (send p xs) ys"
  by (induction xs arbitrary: p) (simp_all only: append_Nil append_Cons send_Cons send.simps)

lemma aligns_append [simp]: "aligns (xs @ ys) = max (aligns xs) (aligns ys)"
proof (induction xs)
  case Nil
  have "1 \<le> aligns ys"
    by (induction ys rule: alignof_aligns.induct(2) [where P = "\<lambda>_. True"]) auto
  then show ?case by simp
next
  case (Cons m xs)
  then show ?case by (cases m) (simp_all add: max.assoc)
qed

lemma wf_members_append [simp]: "wf_members (xs @ ys) \<longleftrightarrow> wf_members xs \<and> wf_members ys"
proof (induction xs)
  case (Cons m xs)
  then show ?case by (cases m) auto
qed simp

lemma smember_append:
  "smember p (xs @ ys) f = (case smember p xs f of Some r \<Rightarrow> Some r | None \<Rightarrow> smember (send p xs) ys f)"
proof (induction xs arbitrary: p)
  case (Cons m xs)
  show ?case
  proof (cases m)
    case (Fld g t)
    show ?thesis unfolding Fld append_Cons smember.simps send.simps
      by (simp only: Cons.IH split: option.split) (simp split: option.split)
  next
    case (Bit g t w)
    show ?thesis unfolding Bit append_Cons smember.simps send_Cons
      by (simp only: Cons.IH mwidth_def member.case)
  qed
qed simp

lemmas layout_eval = roundup_def place_def smember_append

end
