(* ===== verification/Wire.thy ===== *)
theory Wire
  imports CLayout
begin

text \<open>
  The records that travel through the ring buffer: \<open>struct event\<close> of \<open>bpf/common.h\<close> and
  \<open>struct exec_event\<close>, \<open>fork_event\<close> and \<open>exit_event\<close> of \<open>bpf/process.bpf.c\<close>. Each
  structure is given twice: as a C type expression, which fixes its layout, and as a
  record with the function that writes its memory image. The lemmas show that the image
  is the C layout: every field's bytes are at the field's offset, there are no padding
  holes, and the sizes are those the decoder expects.
\<close>

section \<open>Constants of the headers\<close>

definition TASK_COMM_LEN :: nat where "TASK_COMM_LEN = 16"
definition MAX_FILENAME_LEN :: nat where "MAX_FILENAME_LEN = 512"
definition MAX_ARGV_LEN :: nat where "MAX_ARGV_LEN = 4096"

definition EVENT_EXEC :: u32 where "EVENT_EXEC = 1"
definition EVENT_FORK :: u32 where "EVENT_FORK = 2"
definition EVENT_EXIT :: u32 where "EVENT_EXIT = 3"

definition DROP_RINGBUF_FULL :: u32 where "DROP_RINGBUF_FULL = 0"
definition DROP_REASON_MAX :: u32 where "DROP_REASON_MAX = 1"

section \<open>C declarations\<close>

definition event_t :: ctype where
  "event_t = CStruct [
     Fld ''type'' c_uint,
     Fld ''pid'' c_uint,
     Fld ''tgid'' c_uint,
     Fld ''ppid'' c_uint,
     Fld ''uid'' c_uint,
     Fld ''gid'' c_uint,
     Fld ''timestamp'' c_ullong,
     Fld ''cgroup_id'' c_ullong,
     Fld ''start_time'' c_ullong,
     Fld ''parent_start_time'' c_ullong]"

definition exec_event_t :: ctype where
  "exec_event_t = CStruct [
     Fld ''hdr'' event_t,
     Fld ''comm'' (CArr c_uchar TASK_COMM_LEN),
     Fld ''filename'' (CArr c_uchar MAX_FILENAME_LEN),
     Fld ''argv_len'' c_uint,
     Fld ''argv_truncated'' c_uchar,
     Fld ''argv_read_failed'' c_uchar,
     Fld ''filename_truncated'' c_uchar,
     Fld ''_pad'' c_uchar,
     Fld ''argv'' (CArr c_uchar MAX_ARGV_LEN)]"

definition fork_event_t :: ctype where
  "fork_event_t = CStruct [
     Fld ''hdr'' event_t,
     Fld ''comm'' (CArr c_uchar TASK_COMM_LEN)]"

definition exit_event_t :: ctype where
  "exit_event_t = CStruct [
     Fld ''hdr'' event_t,
     Fld ''comm'' (CArr c_uchar TASK_COMM_LEN),
     Fld ''exit_code'' c_uint,
     Fld ''_pad'' c_uint]"

section \<open>Values of these types\<close>

record event =
  h_type :: u32
  h_pid :: u32
  h_tgid :: u32
  h_ppid :: u32
  h_uid :: u32
  h_gid :: u32
  h_timestamp :: u64
  h_cgroup_id :: u64
  h_start_time :: u64
  h_parent_start_time :: u64

record exec_event =
  x_hdr :: event
  x_comm :: bytes
  x_filename :: bytes
  x_argv_len :: u32
  x_argv_truncated :: u8
  x_argv_read_failed :: u8
  x_filename_truncated :: u8
  x_pad :: u8
  x_argv :: bytes

record fork_event =
  f_hdr :: event
  f_comm :: bytes

record exit_event =
  q_hdr :: event
  q_comm :: bytes
  q_exit_code :: u32
  q_pad :: u32

text \<open>The arrays have the lengths of their declarations.\<close>

definition wf_exec_event :: "exec_event \<Rightarrow> bool" where
  "wf_exec_event e \<longleftrightarrow> length (x_comm e) = TASK_COMM_LEN \<and>
     length (x_filename e) = MAX_FILENAME_LEN \<and> length (x_argv e) = MAX_ARGV_LEN"

definition wf_fork_event :: "fork_event \<Rightarrow> bool" where
  "wf_fork_event e \<longleftrightarrow> length (f_comm e) = TASK_COMM_LEN"

definition wf_exit_event :: "exit_event \<Rightarrow> bool" where
  "wf_exit_event e \<longleftrightarrow> length (q_comm e) = TASK_COMM_LEN"

section \<open>Memory images\<close>

definition image_event :: "event \<Rightarrow> bytes" where
  "image_event h = put32 (h_type h) @ put32 (h_pid h) @ put32 (h_tgid h) @ put32 (h_ppid h) @
     put32 (h_uid h) @ put32 (h_gid h) @ put64 (h_timestamp h) @ put64 (h_cgroup_id h) @
     put64 (h_start_time h) @ put64 (h_parent_start_time h)"

definition image_exec :: "exec_event \<Rightarrow> bytes" where
  "image_exec e = image_event (x_hdr e) @ x_comm e @ x_filename e @ put32 (x_argv_len e) @
     [x_argv_truncated e, x_argv_read_failed e, x_filename_truncated e, x_pad e] @ x_argv e"

definition image_fork :: "fork_event \<Rightarrow> bytes" where
  "image_fork e = image_event (f_hdr e) @ f_comm e"

definition image_exit :: "exit_event \<Rightarrow> bytes" where
  "image_exit e = image_event (q_hdr e) @ q_comm e @ put32 (q_exit_code e) @ put32 (q_pad e)"

text \<open>
  Reading an image back: what a pointer of the structure type sees in a block of memory.
\<close>

definition load_event :: "bytes \<Rightarrow> event" where
  "load_event b = \<lparr>h_type = get32 b, h_pid = get32 (drop 4 b), h_tgid = get32 (drop 8 b),
     h_ppid = get32 (drop 12 b), h_uid = get32 (drop 16 b), h_gid = get32 (drop 20 b),
     h_timestamp = get64 (drop 24 b), h_cgroup_id = get64 (drop 32 b),
     h_start_time = get64 (drop 40 b), h_parent_start_time = get64 (drop 48 b)\<rparr>"

definition load_exec :: "bytes \<Rightarrow> exec_event" where
  "load_exec b = \<lparr>x_hdr = load_event b, x_comm = take 16 (drop 56 b), x_filename = take 512 (drop 72 b),
     x_argv_len = get32 (drop 584 b), x_argv_truncated = b ! 588, x_argv_read_failed = b ! 589,
     x_filename_truncated = b ! 590, x_pad = b ! 591, x_argv = take 4096 (drop 592 b)\<rparr>"

definition load_fork :: "bytes \<Rightarrow> fork_event" where
  "load_fork b = \<lparr>f_hdr = load_event b, f_comm = take 16 (drop 56 b)\<rparr>"

definition load_exit :: "bytes \<Rightarrow> exit_event" where
  "load_exit b = \<lparr>q_hdr = load_event b, q_comm = take 16 (drop 56 b),
     q_exit_code = get32 (drop 72 b), q_pad = get32 (drop 76 b)\<rparr>"

text \<open>The bytes of the field that a designator selects in an image.\<close>

definition field_bytes :: "ctype \<Rightarrow> string list \<Rightarrow> bytes \<Rightarrow> bytes option" where
  "field_bytes t fs b = (case designate t fs of
     None \<Rightarrow> None
   | Some (p, u) \<Rightarrow> Some (take (sizeof u) (drop (p div 8) b)))"

section \<open>The images follow the C layout\<close>

lemmas wire_consts = TASK_COMM_LEN_def MAX_FILENAME_LEN_def MAX_ARGV_LEN_def
  EVENT_EXEC_def EVENT_FORK_def EVENT_EXIT_def DROP_RINGBUF_FULL_def DROP_REASON_MAX_def

lemma event_t_layout [wire_simps]: "sizeof event_t = 56" "alignof event_t = 8" "wf_ctype event_t"
  by (simp_all add: event_t_def layout_eval)

lemma wire_sizes [wire_simps]:
  "sizeof exec_event_t = 4688" "sizeof fork_event_t = 72" "sizeof exit_event_t = 80"
  by (simp_all add: exec_event_t_def fork_event_t_def exit_event_t_def wire_simps wire_consts layout_eval)

lemma length_image_event [wire_simps]: "length (image_event h) = 56"
  by (simp add: image_event_def)

lemma length_image_exec [wire_simps]: "wf_exec_event e \<Longrightarrow> length (image_exec e) = 4688"
  by (simp add: image_exec_def wf_exec_event_def wire_simps wire_consts)

lemma length_image_fork [wire_simps]: "wf_fork_event e \<Longrightarrow> length (image_fork e) = 72"
  by (simp add: image_fork_def wf_fork_event_def wire_simps wire_consts)

lemma length_image_exit [wire_simps]: "wf_exit_event e \<Longrightarrow> length (image_exit e) = 80"
  by (simp add: image_exit_def wf_exit_event_def wire_simps wire_consts)

lemma event_offsets [wire_simps]:
  "designate event_t [''type''] = Some (0, c_uint)"
  "designate event_t [''pid''] = Some (32, c_uint)"
  "designate event_t [''tgid''] = Some (64, c_uint)"
  "designate event_t [''ppid''] = Some (96, c_uint)"
  "designate event_t [''uid''] = Some (128, c_uint)"
  "designate event_t [''gid''] = Some (160, c_uint)"
  "designate event_t [''timestamp''] = Some (192, c_ullong)"
  "designate event_t [''cgroup_id''] = Some (256, c_ullong)"
  "designate event_t [''start_time''] = Some (320, c_ullong)"
  "designate event_t [''parent_start_time''] = Some (384, c_ullong)"
  by (simp_all add: event_t_def layout_eval)

lemma exec_event_offsets [wire_simps]:
  "designate exec_event_t [''hdr''] = Some (0, event_t)"
  "designate exec_event_t [''comm''] = Some (448, CArr c_uchar 16)"
  "designate exec_event_t [''filename''] = Some (576, CArr c_uchar 512)"
  "designate exec_event_t [''argv_len''] = Some (4672, c_uint)"
  "designate exec_event_t [''argv_truncated''] = Some (4704, c_uchar)"
  "designate exec_event_t [''argv_read_failed''] = Some (4712, c_uchar)"
  "designate exec_event_t [''filename_truncated''] = Some (4720, c_uchar)"
  "designate exec_event_t [''_pad''] = Some (4728, c_uchar)"
  "designate exec_event_t [''argv''] = Some (4736, CArr c_uchar 4096)"
  by (simp_all add: exec_event_t_def wire_simps wire_consts layout_eval)

lemma fork_event_offsets [wire_simps]:
  "designate fork_event_t [''hdr''] = Some (0, event_t)"
  "designate fork_event_t [''comm''] = Some (448, CArr c_uchar 16)"
  by (simp_all add: fork_event_t_def wire_simps wire_consts layout_eval)

lemma exit_event_offsets [wire_simps]:
  "designate exit_event_t [''hdr''] = Some (0, event_t)"
  "designate exit_event_t [''comm''] = Some (448, CArr c_uchar 16)"
  "designate exit_event_t [''exit_code''] = Some (576, c_uint)"
  "designate exit_event_t [''_pad''] = Some (608, c_uint)"
  by (simp_all add: exit_event_t_def wire_simps wire_consts layout_eval)



lemma image_event_layout:
  "field_bytes event_t [''type''] (image_event h) = Some (put32 (h_type h))"
  "field_bytes event_t [''pid''] (image_event h) = Some (put32 (h_pid h))"
  "field_bytes event_t [''tgid''] (image_event h) = Some (put32 (h_tgid h))"
  "field_bytes event_t [''ppid''] (image_event h) = Some (put32 (h_ppid h))"
  "field_bytes event_t [''uid''] (image_event h) = Some (put32 (h_uid h))"
  "field_bytes event_t [''gid''] (image_event h) = Some (put32 (h_gid h))"
  "field_bytes event_t [''timestamp''] (image_event h) = Some (put64 (h_timestamp h))"
  "field_bytes event_t [''cgroup_id''] (image_event h) = Some (put64 (h_cgroup_id h))"
  "field_bytes event_t [''start_time''] (image_event h) = Some (put64 (h_start_time h))"
  "field_bytes event_t [''parent_start_time''] (image_event h) = Some (put64 (h_parent_start_time h))"
  by (simp_all add: field_bytes_def wire_simps image_event_def del: designate.simps)

section \<open>Loading inverts the image\<close>

lemma drop_image_event [simp]: "56 \<le> n \<Longrightarrow> drop n (image_event h @ r) = drop (n - 56) r"
  by (simp add: wire_simps)

lemma load_image_event [wire_simps]: "load_event (image_event h @ r) = h"
  by (simp add: load_event_def image_event_def)

lemma load_image_exec [wire_simps]: "wf_exec_event e \<Longrightarrow> load_exec (image_exec e) = e"
  by (simp add: load_exec_def image_exec_def wf_exec_event_def wire_simps wire_consts nth_append)

lemma load_image_fork [wire_simps]: "wf_fork_event e \<Longrightarrow> load_fork (image_fork e) = e"
  by (simp add: load_fork_def image_fork_def wf_fork_event_def wire_simps wire_consts)

lemma load_image_exit [wire_simps]: "wf_exit_event e \<Longrightarrow> load_exit (image_exit e) = e"
  by (simp add: load_exit_def image_exit_def wf_exit_event_def wire_simps wire_consts)

lemma wf_load_exec [simp]: "length b = 4688 \<Longrightarrow> wf_exec_event (load_exec b)"
  by (simp add: load_exec_def wf_exec_event_def wire_consts)

lemma wf_load_fork [simp]: "length b = 72 \<Longrightarrow> wf_fork_event (load_fork b)"
  by (simp add: load_fork_def wf_fork_event_def wire_consts)

lemma wf_load_exit [simp]: "length b = 80 \<Longrightarrow> wf_exit_event (load_exit b)"
  by (simp add: load_exit_def wf_exit_event_def wire_consts)

lemma get32_image_event: "get32 (image_event h @ r) = h_type h"
  by (simp add: image_event_def)

end
