(* ===== verification/Bpf.thy ===== *)
theory Bpf
  imports Wire
begin

unbundle bit_operations_syntax

text \<open>
  The BPF programs: the maps and inline functions of \<open>bpf/common.h\<close> and the three
  handlers of \<open>bpf/process.bpf.c\<close>.

  The state is what outlives a program run: the constant \<open>mode_host\<close>, the map
  \<open>target_cgroups\<close>, the per-CPU array \<open>drop_count\<close> and the ring buffer \<open>events\<close> (the records
  submitted and not yet read, oldest first, and the number of records reserved and not
  yet submitted). What a run reads from the kernel through helpers and through libbpf's
  \<open>BPF_CORE_READ\<close> is a parameter, a record with one field per helper the sources call; a
  helper that fills a buffer takes the old contents and returns its return value and the
  new contents. A reserved record holds whatever the ring buffer held before.
\<close>

section \<open>Maps\<close>

record bpf_map_def =
  map_type :: string
  max_entries :: nat
  key_size :: nat
  value_size :: nat

definition target_cgroups_decl :: bpf_map_def where
  "target_cgroups_decl = \<lparr>map_type = ''BPF_MAP_TYPE_HASH'', max_entries = 64,
     key_size = 8, value_size = 1\<rparr>"

definition drop_count_decl :: bpf_map_def where
  "drop_count_decl = \<lparr>map_type = ''BPF_MAP_TYPE_PERCPU_ARRAY'', max_entries = unat DROP_REASON_MAX,
     key_size = 4, value_size = 8\<rparr>"

definition events_decl :: bpf_map_def where
  "events_decl = \<lparr>map_type = ''BPF_MAP_TYPE_RINGBUF'', max_entries = 2 ^ 24,
     key_size = 0, value_size = 0\<rparr>"

record bpf_state =
  mode_host :: bool
  target_cgroups :: "u64 \<rightharpoonup> u8"
  drop_count :: "nat \<Rightarrow> u64 list"
  ring :: "bytes list"
  reserved :: nat

text \<open>The state right after loading: empty maps, zeroed counters on every CPU.\<close>

definition bpf_init :: "bool \<Rightarrow> bpf_state" where
  "bpf_init host = \<lparr>mode_host = host, target_cgroups = Map.empty,
     drop_count = (\<lambda>_. replicate (max_entries drop_count_decl) 0), ring = [], reserved = 0\<rparr>"

section \<open>Kernel helpers\<close>

type_synonym designator = "string list"

record kernel =
  cpu :: nat
  bpf_get_current_task_btf :: u64
  BPF_CORE_READ :: "u64 \<Rightarrow> designator list \<Rightarrow> u64"
  BPF_CORE_READ_STR_INTO :: "u64 \<Rightarrow> designator list \<Rightarrow> bytes \<Rightarrow> int \<times> bytes"
  bpf_get_current_comm :: "bytes \<Rightarrow> int \<times> bytes"
  bpf_ktime_get_boot_ns :: u64
  bpf_probe_read_user :: "u64 \<Rightarrow> nat \<Rightarrow> bytes \<Rightarrow> int \<times> bytes"
  bpf_probe_read_kernel_str :: "u64 \<Rightarrow> nat \<Rightarrow> bytes \<Rightarrow> int \<times> bytes"
  bpf_ringbuf_reserve :: "nat \<Rightarrow> bytes option"

text \<open>The context of the exec tracepoint: its address and its \<open>__data_loc_filename\<close> field.\<close>

record exec_ctx =
  ctx_addr :: u64
  data_loc_filename :: u32

section \<open>Inline functions of common.h\<close>

definition count_drop :: "kernel \<Rightarrow> u32 \<Rightarrow> bpf_state \<Rightarrow> bpf_state" where
  "count_drop k reason s =
     (let vs = drop_count s (cpu k); i = unat reason in
      if i < length vs
      then s\<lparr>drop_count := (drop_count s)(cpu k := vs[i := vs ! i + 1])\<rparr>
      else s)"

definition task_cgroup_id :: "kernel \<Rightarrow> u64 \<Rightarrow> u64" where
  "task_cgroup_id k task = BPF_CORE_READ k task [[''cgroups''], [''dfl_cgrp''], [''kn''], [''id'']]"

definition should_capture :: "bpf_state \<Rightarrow> u64 \<Rightarrow> bool" where
  "should_capture s cgroup_id =
     (if mode_host s then True else target_cgroups s cgroup_id \<noteq> None)"

definition fill_header :: "kernel \<Rightarrow> u32 \<Rightarrow> u64 \<Rightarrow> u64 \<Rightarrow> event" where
  "fill_header k ty task cgroup_id =
     (let parent = BPF_CORE_READ k task [[''real_parent'']] in
      \<lparr>h_type = ty,
       h_pid = ucast (BPF_CORE_READ k task [[''pid'']]),
       h_tgid = ucast (BPF_CORE_READ k task [[''tgid'']]),
       h_ppid = ucast (BPF_CORE_READ k parent [[''tgid'']]),
       h_uid = ucast (BPF_CORE_READ k task [[''cred''], [''uid'', ''val'']]),
       h_gid = ucast (BPF_CORE_READ k task [[''cred''], [''gid'', ''val'']]),
       h_timestamp = bpf_ktime_get_boot_ns k,
       h_cgroup_id = cgroup_id,
       h_start_time = BPF_CORE_READ k task [[''group_leader''], [''start_boottime'']],
       h_parent_start_time = BPF_CORE_READ k parent [[''group_leader''], [''start_boottime'']]\<rparr>)"

text \<open>
  \<open>bpf_ringbuf_reserve(&events, size, 0)\<close> and \<open>bpf_ringbuf_submit\<close>: the reservation count
  goes up and down again, and a submitted record is appended.
\<close>

definition ringbuf_reserve :: "kernel \<Rightarrow> nat \<Rightarrow> bpf_state \<Rightarrow> bytes option \<times> bpf_state" where
  "ringbuf_reserve k n s =
     (case bpf_ringbuf_reserve k n of
        None \<Rightarrow> (None, s)
      | Some b \<Rightarrow> (Some b, s\<lparr>reserved := Suc (reserved s)\<rparr>))"

definition ringbuf_submit :: "bytes \<Rightarrow> bpf_state \<Rightarrow> bpf_state" where
  "ringbuf_submit b s = s\<lparr>ring := ring s @ [b], reserved := reserved s - 1\<rparr>"

section \<open>handle_exec\<close>

text \<open>
  The file name: low 16 bits of \<open>__data_loc\<close> are its offset from the context, the high 16
  bits its length with the NUL.
\<close>

definition exec_filename :: "kernel \<Rightarrow> exec_ctx \<Rightarrow> exec_event \<Rightarrow> exec_event" where
  "exec_filename k ctx e =
     (let loc = data_loc_filename ctx;
          off = loc AND 0xFFFF;
          flen = drop_bit 16 loc;
          e = e\<lparr>x_filename_truncated := (if flen > of_nat MAX_FILENAME_LEN then 1 else 0)\<rparr>;
          (r, fn) = bpf_probe_read_kernel_str k (ctx_addr ctx + ucast off) MAX_FILENAME_LEN (x_filename e)
      in e\<lparr>x_filename := (if r < 0 then fn[0 := 0] else fn)\<rparr>)"

definition argv_length :: "kernel \<Rightarrow> u64 \<Rightarrow> u64" where
  "argv_length k task =
     (let arg_start = BPF_CORE_READ k task [[''mm''], [''arg_start'']];
          arg_end = BPF_CORE_READ k task [[''mm''], [''arg_end'']]
      in if arg_end > arg_start then arg_end - arg_start else 0)"

definition exec_argv :: "kernel \<Rightarrow> u64 \<Rightarrow> exec_event \<Rightarrow> exec_event" where
  "exec_argv k task e =
     (let arg_start = BPF_CORE_READ k task [[''mm''], [''arg_start'']];
          len = argv_length k task;
          e = e\<lparr>x_argv_truncated := 0, x_argv_read_failed := 0, x_pad := 0\<rparr>;
          (e, len, n) =
            (if len \<ge> of_nat MAX_ARGV_LEN
             then (e\<lparr>x_argv_truncated := (if len > of_nat MAX_ARGV_LEN then 1 else 0)\<rparr>,
                   of_nat MAX_ARGV_LEN, MAX_ARGV_LEN)
             else (e, len AND of_nat (MAX_ARGV_LEN - 1), unat (len AND of_nat (MAX_ARGV_LEN - 1))));
          (r, argv) = bpf_probe_read_user k arg_start n (x_argv e);
          e = e\<lparr>x_argv := argv\<rparr>
      in if r < 0 then e\<lparr>x_argv_len := 0, x_argv_read_failed := 1\<rparr>
         else e\<lparr>x_argv_len := ucast len\<rparr>)"

definition exec_record :: "kernel \<Rightarrow> exec_ctx \<Rightarrow> u64 \<Rightarrow> u64 \<Rightarrow> exec_event \<Rightarrow> exec_event" where
  "exec_record k ctx task cgid e =
     (let e = e\<lparr>x_hdr := fill_header k EVENT_EXEC task cgid\<rparr>;
          e = e\<lparr>x_comm := snd (bpf_get_current_comm k (x_comm e))\<rparr>
      in exec_argv k task (exec_filename k ctx e))"

definition handle_exec :: "kernel \<Rightarrow> exec_ctx \<Rightarrow> bpf_state \<Rightarrow> bpf_state" where
  "handle_exec k ctx s =
     (let task = bpf_get_current_task_btf k; cgid = task_cgroup_id k task in
      if \<not> should_capture s cgid then s
      else case ringbuf_reserve k (sizeof exec_event_t) s of
          (None, s) \<Rightarrow> count_drop k DROP_RINGBUF_FULL s
        | (Some b, s) \<Rightarrow> ringbuf_submit (image_exec (exec_record k ctx task cgid (load_exec b))) s)"

section \<open>handle_fork\<close>

definition fork_record :: "kernel \<Rightarrow> u64 \<Rightarrow> u64 \<Rightarrow> fork_event \<Rightarrow> fork_event" where
  "fork_record k child cgid e =
     e\<lparr>f_hdr := fill_header k EVENT_FORK child cgid,
       f_comm := snd (BPF_CORE_READ_STR_INTO k child [[''comm'']] (f_comm e))\<rparr>"

text \<open>The first argument of the tracepoint, the parent task, is not used by the handler.\<close>

definition handle_fork :: "kernel \<Rightarrow> u64 \<Rightarrow> u64 \<Rightarrow> bpf_state \<Rightarrow> bpf_state" where
  "handle_fork k parent child s =
     (if (ucast (BPF_CORE_READ k child [[''pid'']]) :: u32) \<noteq> ucast (BPF_CORE_READ k child [[''tgid'']]) then s
      else let cgid = task_cgroup_id k child in
      if \<not> should_capture s cgid then s
      else case ringbuf_reserve k (sizeof fork_event_t) s of
          (None, s) \<Rightarrow> count_drop k DROP_RINGBUF_FULL s
        | (Some b, s) \<Rightarrow> ringbuf_submit (image_fork (fork_record k child cgid (load_fork b))) s)"

section \<open>handle_exit\<close>

definition exit_record :: "kernel \<Rightarrow> u64 \<Rightarrow> u64 \<Rightarrow> exit_event \<Rightarrow> exit_event" where
  "exit_record k task cgid e =
     e\<lparr>q_hdr := fill_header k EVENT_EXIT task cgid,
       q_comm := snd (bpf_get_current_comm k (q_comm e)),
       q_exit_code := ucast (BPF_CORE_READ k task [[''exit_code'']]),
       q_pad := 0\<rparr>"

definition handle_exit :: "kernel \<Rightarrow> bpf_state \<Rightarrow> bpf_state" where
  "handle_exit k s =
     (let task = bpf_get_current_task_btf k in
      if (ucast (BPF_CORE_READ k task [[''signal''], [''live'', ''counter'']]) :: u32) \<noteq> 0 then s
      else let cgid = task_cgroup_id k task in
      if \<not> should_capture s cgid then s
      else case ringbuf_reserve k (sizeof exit_event_t) s of
          (None, s) \<Rightarrow> count_drop k DROP_RINGBUF_FULL s
        | (Some b, s) \<Rightarrow> ringbuf_submit (image_exit (exit_record k task cgid (load_exit b))) s)"

section \<open>Hook runs\<close>

text \<open>
  One run of one of the attached programs, with the kernel it sees, and a sequence of
  runs. The programs run one after the other: helpers on other CPUs only interleave
  between runs here.
\<close>

datatype hook =
    OnExec kernel exec_ctx
  | OnFork kernel u64 u64
  | OnExit kernel

fun run_hook :: "hook \<Rightarrow> bpf_state \<Rightarrow> bpf_state" where
  "run_hook (OnExec k ctx) = handle_exec k ctx"
| "run_hook (OnFork k parent child) = handle_fork k parent child"
| "run_hook (OnExit k) = handle_exit k"

definition run_hooks :: "hook list \<Rightarrow> bpf_state \<Rightarrow> bpf_state" where
  "run_hooks hs s = fold run_hook hs s"

text \<open>
  What makes a run relevant, read off the guards in front of the scope check: every exec,
  the fork of a new process (not of a thread), the exit of the last thread.
\<close>

fun hook_fires :: "hook \<Rightarrow> bool" where
  "hook_fires (OnExec k ctx) = True"
| "hook_fires (OnFork k parent child) =
     ((ucast (BPF_CORE_READ k child [[''pid'']]) :: u32) = ucast (BPF_CORE_READ k child [[''tgid'']]))"
| "hook_fires (OnExit k) =
     ((ucast (BPF_CORE_READ k (bpf_get_current_task_btf k) [[''signal''], [''live'', ''counter'']]) :: u32) = 0)"

fun hook_kernel :: "hook \<Rightarrow> kernel" where
  "hook_kernel (OnExec k ctx) = k"
| "hook_kernel (OnFork k parent child) = k"
| "hook_kernel (OnExit k) = k"

fun hook_task :: "hook \<Rightarrow> u64" where
  "hook_task (OnExec k ctx) = bpf_get_current_task_btf k"
| "hook_task (OnFork k parent child) = child"
| "hook_task (OnExit k) = bpf_get_current_task_btf k"

abbreviation hook_cgroup :: "hook \<Rightarrow> u64" where
  "hook_cgroup h \<equiv> task_cgroup_id (hook_kernel h) (hook_task h)"

fun hook_size :: "hook \<Rightarrow> nat" where
  "hook_size (OnExec k ctx) = sizeof exec_event_t"
| "hook_size (OnFork k parent child) = sizeof fork_event_t"
| "hook_size (OnExit k) = sizeof exit_event_t"

text \<open>The record the run writes into the reserved block \<open>b\<close>.\<close>

fun hook_record :: "hook \<Rightarrow> bytes \<Rightarrow> bytes" where
  "hook_record (OnExec k ctx) b =
     (let task = bpf_get_current_task_btf k in
      image_exec (exec_record k ctx task (task_cgroup_id k task) (load_exec b)))"
| "hook_record (OnFork k parent child) b =
     image_fork (fork_record k child (task_cgroup_id k child) (load_fork b))"
| "hook_record (OnExit k) b =
     (let task = bpf_get_current_task_btf k in
      image_exit (exit_record k task (task_cgroup_id k task) (load_exit b)))"

definition hook_attempts :: "bpf_state \<Rightarrow> hook \<Rightarrow> bool" where
  "hook_attempts s h \<longleftrightarrow> hook_fires h \<and> should_capture s (hook_cgroup h)"

text \<open>The drop counters of \<open>n\<close> CPUs, added up.\<close>

definition total_drops :: "nat \<Rightarrow> bpf_state \<Rightarrow> nat" where
  "total_drops n s = (\<Sum>c<n. unat (drop_count s c ! unat DROP_RINGBUF_FULL))"

definition counters_ok :: "bpf_state \<Rightarrow> bool" where
  "counters_ok s \<longleftrightarrow> (\<forall>c. length (drop_count s c) = max_entries drop_count_decl)"

lemma counters_ok_init [simp]: "counters_ok (bpf_init host)"
  by (simp add: counters_ok_def bpf_init_def)

lemma counters_ok_count_drop [simp]: "counters_ok s \<Longrightarrow> counters_ok (count_drop k r s)"
  by (simp add: counters_ok_def count_drop_def Let_def)

lemma unat_Suc: "unat (w :: u64) + 1 < 2 ^ 64 \<Longrightarrow> unat (w + 1) = unat w + 1"
  by (simp add: unat_word_ariths)

lemma total_drops_count_drop:
  assumes ok: "counters_ok s" and c: "cpu k < n" and small: "total_drops n s + 1 < 2 ^ 64"
  shows "total_drops n (count_drop k DROP_RINGBUF_FULL s) = total_drops n s + 1"
proof -
  let ?d = "\<lambda>s c. unat (drop_count s c ! unat DROP_RINGBUF_FULL)"
  let ?s = "count_drop k DROP_RINGBUF_FULL s"
  have len: "length (drop_count s (cpu k)) = 1"
    using ok by (simp add: counters_ok_def drop_count_decl_def wire_consts)
  have split: "total_drops n t = ?d t (cpu k) + (\<Sum>c\<in>{..<n} - {cpu k}. ?d t c)" for t
    unfolding total_drops_def using c by (simp add: sum.remove [of "{..<n}" "cpu k"])
  have "?d s (cpu k) \<le> total_drops n s" unfolding split by simp
  then have "unat (drop_count s (cpu k) ! 0 + 1) = unat (drop_count s (cpu k) ! 0) + 1"
    using small by (intro unat_Suc) (simp add: wire_consts)
  then have "?d ?s (cpu k) = ?d s (cpu k) + 1"
    using len by (auto simp: count_drop_def Let_def wire_consts)
  moreover have "?d ?s c' = ?d s c'" if "c' \<noteq> cpu k" for c'
    using that by (simp add: count_drop_def Let_def)
  ultimately show ?thesis unfolding split by simp
qed

section \<open>The contract every program keeps\<close>

text \<open>
  A program that filters, reserves, and then submits or counts a drop. The facts that do
  not depend on which record is written are proved once for this interface.
\<close>

locale capture_program =
  fixes run :: "'h \<Rightarrow> bpf_state \<Rightarrow> bpf_state"
    and kern :: "'h \<Rightarrow> kernel"
    and attempts :: "bpf_state \<Rightarrow> 'h \<Rightarrow> bool"
    and rsize :: "'h \<Rightarrow> nat"
    and record_of :: "'h \<Rightarrow> bytes \<Rightarrow> bytes"
  assumes run_skip: "\<not> attempts s h \<Longrightarrow> run h s = s"
    and run_full: "attempts s h \<Longrightarrow> bpf_ringbuf_reserve (kern h) (rsize h) = None \<Longrightarrow>
      run h s = count_drop (kern h) DROP_RINGBUF_FULL s"
    and run_submit: "attempts s h \<Longrightarrow> bpf_ringbuf_reserve (kern h) (rsize h) = Some b \<Longrightarrow>
      run h s = s\<lparr>ring := ring s @ [record_of h b]\<rparr>"
    and attempts_frame: "mode_host s = mode_host t \<Longrightarrow> target_cgroups s = target_cgroups t \<Longrightarrow>
      attempts s h = attempts t h"
begin

lemma run_cases:
  obtains (skip) "\<not> attempts s h" "run h s = s"
    | (full) "attempts s h" "run h s = count_drop (kern h) DROP_RINGBUF_FULL s"
    | (submit) b where "attempts s h" "bpf_ringbuf_reserve (kern h) (rsize h) = Some b"
        "run h s = s\<lparr>ring := ring s @ [record_of h b]\<rparr>"
  using run_skip run_full run_submit by (metis not_Some_eq)

lemma run_frame [simp]:
  "mode_host (run h s) = mode_host s"
  "target_cgroups (run h s) = target_cgroups s"
  "reserved (run h s) = reserved s"
  by (cases rule: run_cases [of s h]; simp add: count_drop_def Let_def)+

lemma ring_extends: "\<exists>rs. ring (run h s) = ring s @ rs \<and> length rs \<le> 1"
  by (cases rule: run_cases [of s h]; force simp: count_drop_def Let_def)

lemma attempts_run [simp]: "attempts (run h s) g = attempts s g"
  by (rule attempts_frame) simp_all

lemma fold_frame [simp]:
  "mode_host (fold run hs s) = mode_host s"
  "target_cgroups (fold run hs s) = target_cgroups s"
  "reserved (fold run hs s) = reserved s"
  by (induction hs arbitrary: s) simp_all

lemma counters_ok_run: "counters_ok s \<Longrightarrow> counters_ok (run h s)"
  by (cases rule: run_cases [of s h]) (simp_all add: counters_ok_def [of "_\<lparr>ring := _\<rparr>"] flip: counters_ok_def)

lemma accounting_step:
  assumes ok: "counters_ok s" and c: "cpu (kern h) < n" and small: "total_drops n s + 1 < 2 ^ 64"
  shows "length (ring (run h s)) + total_drops n (run h s) =
    length (ring s) + total_drops n s + (if attempts s h then 1 else 0)"
proof (cases rule: run_cases [of s h])
  case full
  have "ring (run h s) = ring s" by (simp add: full count_drop_def Let_def)
  with full total_drops_count_drop [OF ok c small] show ?thesis by simp
qed (simp_all add: total_drops_def)

lemma accounting_fold:
  assumes "counters_ok s" and "\<forall>h \<in> set hs. cpu (kern h) < n" and "total_drops n s + length hs < 2 ^ 64"
  shows "length (ring (fold run hs s)) + total_drops n (fold run hs s) =
    length (ring s) + total_drops n s + length (filter (attempts s) hs)"
  using assms
proof (induction hs arbitrary: s)
  case (Cons h hs)
  have step: "length (ring (run h s)) + total_drops n (run h s) =
      length (ring s) + total_drops n s + (if attempts s h then 1 else 0)"
    using Cons.prems by (intro accounting_step) auto
  obtain rs where "ring (run h s) = ring s @ rs" using ring_extends by blast
  then have "total_drops n (run h s) \<le> total_drops n s + 1" using step by (auto split: if_splits)
  then have "total_drops n (run h s) + length hs < 2 ^ 64" using Cons.prems by simp
  then have "length (ring (fold run hs (run h s))) + total_drops n (fold run hs (run h s)) =
      length (ring (run h s)) + total_drops n (run h s) + length (filter (attempts (run h s)) hs)"
    using Cons.prems counters_ok_run by (intro Cons.IH) auto
  moreover have "attempts (run h s) = attempts s" by (rule ext) simp
  ultimately show ?case using step by simp
qed simp

text \<open>What a sequence of runs appends to the ring, run by run.\<close>

lemma ring_fold:
  "ring (fold run hs s) = ring s @ concat (map (\<lambda>h. if attempts s h
     then (case bpf_ringbuf_reserve (kern h) (rsize h) of None \<Rightarrow> [] | Some b \<Rightarrow> [record_of h b])
     else []) hs)"
proof (induction hs arbitrary: s)
  case (Cons h hs)
  have "attempts (run h s) = attempts s" by (rule ext) simp
  moreover have "ring (count_drop k r s) = ring s" for k r by (simp add: count_drop_def Let_def)
  ultimately show ?case
    using run_skip [of s h] run_full [of s h] run_submit [of s h]
    by (simp add: Cons.IH split: option.splits)
qed simp

text \<open>Every record in the ring comes from a run that was in scope.\<close>

lemma ring_fold_source:
  "r \<in> set (ring (fold run hs s)) \<Longrightarrow> r \<in> set (ring s) \<or>
     (\<exists>h \<in> set hs. \<exists>b. attempts s h \<and> bpf_ringbuf_reserve (kern h) (rsize h) = Some b \<and> r = record_of h b)"
proof (induction hs arbitrary: s)
  case (Cons h hs)
  have "attempts (run h s) = attempts s" by (rule ext) simp
  with Cons have "r \<in> set (ring (run h s)) \<or> (\<exists>g \<in> set hs. \<exists>b. attempts s g \<and>
      bpf_ringbuf_reserve (kern g) (rsize g) = Some b \<and> r = record_of g b)"
    by fastforce
  then show ?case
    by (cases rule: run_cases [of s h]) (auto simp: count_drop_def Let_def split: if_splits)
qed simp

end

section \<open>The three handlers keep it\<close>

interpretation hooks: capture_program run_hook hook_kernel hook_attempts hook_size hook_record
proof
  fix s h
  assume "\<not> hook_attempts s h"
  then show "run_hook h s = s"
    by (cases h) (auto simp: hook_attempts_def handle_exec_def handle_fork_def handle_exit_def Let_def)
next
  fix s h
  assume "hook_attempts s h" "bpf_ringbuf_reserve (hook_kernel h) (hook_size h) = None"
  then show "run_hook h s = count_drop (hook_kernel h) DROP_RINGBUF_FULL s"
    by (cases h) (simp_all add: hook_attempts_def handle_exec_def handle_fork_def handle_exit_def
        ringbuf_reserve_def Let_def)
next
  fix s h b
  assume "hook_attempts s h" "bpf_ringbuf_reserve (hook_kernel h) (hook_size h) = Some b"
  then show "run_hook h s = s\<lparr>ring := ring s @ [hook_record h b]\<rparr>"
    by (cases h) (simp_all add: hook_attempts_def handle_exec_def handle_fork_def handle_exit_def
        ringbuf_reserve_def ringbuf_submit_def Let_def)
next
  fix s t :: bpf_state and h
  assume "mode_host s = mode_host t" "target_cgroups s = target_cgroups t"
  then show "hook_attempts s h = hook_attempts t h"
    by (simp add: hook_attempts_def should_capture_def)
qed

end
