(* ===== verification/BpfRecords.thy ===== *)
theory BpfRecords
  imports Bpf
begin

unbundle bit_operations_syntax

text \<open>
  What the records written by the handlers contain: their size and type tag, the bounds on
  the argument area, and which fields depend on what the ring buffer held before. The
  documented behaviour of the helpers is the predicate \<open>helpers_ok\<close>.
\<close>

section \<open>Documented behaviour of the helpers\<close>

text \<open>
  A helper writes inside the buffer it is given, up to the size it is given; a successful
  string read of non-zero size leaves a NUL inside that size; a reservation has the size
  asked for.
\<close>

definition helpers_ok :: "kernel \<Rightarrow> bool" where
  "helpers_ok k \<longleftrightarrow>
     (\<forall>d. length (snd (bpf_get_current_comm k d)) = length d) \<and>
     (\<forall>a p d. length (snd (BPF_CORE_READ_STR_INTO k a p d)) = length d) \<and>
     (\<forall>a n d. n \<le> length d \<longrightarrow> length (snd (bpf_probe_read_user k a n d)) = length d) \<and>
     (\<forall>a n d. n \<le> length d \<longrightarrow> length (snd (bpf_probe_read_kernel_str k a n d)) = length d) \<and>
     (\<forall>a n d. 0 < n \<longrightarrow> n \<le> length d \<longrightarrow> 0 \<le> fst (bpf_probe_read_kernel_str k a n d) \<longrightarrow>
        0 \<in> set (take n (snd (bpf_probe_read_kernel_str k a n d)))) \<and>
     (\<forall>n b. bpf_ringbuf_reserve k n = Some b \<longrightarrow> length b = n)"

lemma helpers_okD:
  assumes "helpers_ok k"
  shows "length (snd (bpf_get_current_comm k d)) = length d"
    and "length (snd (BPF_CORE_READ_STR_INTO k a p d)) = length d"
    and "n \<le> length d \<Longrightarrow> length (snd (bpf_probe_read_user k a n d)) = length d"
    and "n \<le> length d \<Longrightarrow> length (snd (bpf_probe_read_kernel_str k a n d)) = length d"
    and "0 < n \<Longrightarrow> n \<le> length d \<Longrightarrow> 0 \<le> fst (bpf_probe_read_kernel_str k a n d) \<Longrightarrow>
      0 \<in> set (take n (snd (bpf_probe_read_kernel_str k a n d)))"
    and "bpf_ringbuf_reserve k n = Some b \<Longrightarrow> length b = n"
  using assms by (simp_all add: helpers_ok_def)

section \<open>The argument area\<close>

lemma argv_mask_noop: "(len :: u64) < of_nat MAX_ARGV_LEN \<Longrightarrow> len AND of_nat (MAX_ARGV_LEN - 1) = len"
proof -
  assume "len < of_nat MAX_ARGV_LEN"
  then have "unat len < 4096" by (simp add: wire_consts word_less_nat_alt)
  then have "take_bit 12 len = len"
    by (intro word_unat_eqI) (simp add: unsigned_take_bit_eq take_bit_nat_eq_self)
  moreover have "of_nat (MAX_ARGV_LEN - 1) = (mask 12 :: u64)" by (simp add: wire_consts mask_eq_exp_minus_1)
  ultimately show ?thesis by (simp add: take_bit_eq_mask)
qed

text \<open>The number of argument bytes asked for: at most the size of the array.\<close>

definition argv_wanted :: "kernel \<Rightarrow> u64 \<Rightarrow> nat" where
  "argv_wanted k task = min (unat (argv_length k task)) MAX_ARGV_LEN"

lemma argv_wanted_le: "argv_wanted k task \<le> MAX_ARGV_LEN"
  by (simp add: argv_wanted_def)

text \<open>
  Both branches of the argument copy in one equation: ask for \<open>argv_wanted\<close> bytes, record how
  many are valid, flag a longer area and a failed read.
\<close>

lemma exec_argv_eq:
  "exec_argv k task e =
     (let (r, argv) = bpf_probe_read_user k (BPF_CORE_READ k task [[''mm''], [''arg_start'']])
            (argv_wanted k task) (x_argv e)
      in e\<lparr>x_argv_truncated := (if unat (argv_length k task) > MAX_ARGV_LEN then 1 else 0),
           x_argv_read_failed := (if r < 0 then 1 else 0), x_pad := 0, x_argv := argv,
           x_argv_len := (if r < 0 then 0 else of_nat (argv_wanted k task))\<rparr>)"
proof (cases "argv_length k task \<ge> of_nat MAX_ARGV_LEN")
  case True
  then have "MAX_ARGV_LEN \<le> unat (argv_length k task)" by (simp add: wire_consts word_le_nat_alt)
  then have w: "argv_wanted k task = MAX_ARGV_LEN" by (simp add: argv_wanted_def)
  have gt: "argv_length k task > of_nat MAX_ARGV_LEN \<longleftrightarrow> unat (argv_length k task) > MAX_ARGV_LEN"
    by (simp add: wire_consts word_less_nat_alt)
  show ?thesis using True
    unfolding exec_argv_def Let_def w gt by (simp add: split_beta wire_consts)
next
  case False
  then have lt: "argv_length k task < of_nat MAX_ARGV_LEN" by simp
  then have "unat (argv_length k task) < MAX_ARGV_LEN" by (simp add: wire_consts word_less_nat_alt)
  then have w: "argv_wanted k task = unat (argv_length k task)"
    and "\<not> unat (argv_length k task) > MAX_ARGV_LEN" by (simp_all add: argv_wanted_def)
  with False show ?thesis
    unfolding exec_argv_def Let_def argv_mask_noop [OF lt] w by (simp add: split_beta unsigned_ucast_eq)
qed

lemma exec_record_fields:
  fixes task cgid :: u64 and ctx :: exec_ctx
  assumes ok: "helpers_ok k" and wf: "wf_exec_event e"
  defines "x \<equiv> exec_record k ctx task cgid e"
  shows "wf_exec_event x"
    and "x_hdr x = fill_header k EVENT_EXEC task cgid"
    and "unat (x_argv_len x) \<le> argv_wanted k task"
    and "0 \<in> set (x_filename x)"
proof -
  have len: "length (x_comm e) = 16" "length (x_filename e) = 512" "length (x_argv e) = 4096"
    using wf by (simp_all add: wf_exec_event_def wire_consts)
  have w: "argv_wanted k task \<le> 4096" using argv_wanted_le [of k task] by (simp add: wire_consts)
  then have "unat (of_nat (argv_wanted k task) :: u32) = argv_wanted k task"
    by (simp add: unat_of_nat)
  then show "unat (x_argv_len x) \<le> argv_wanted k task"
    unfolding x_def exec_record_def exec_argv_eq Let_def by (simp add: split_beta)
  show "x_hdr x = fill_header k EVENT_EXEC task cgid"
    unfolding x_def exec_record_def exec_argv_eq exec_filename_def Let_def by (simp add: split_beta)
  show "wf_exec_event x"
    using len w unfolding x_def exec_record_def exec_argv_eq exec_filename_def Let_def wf_exec_event_def
    by (simp add: split_beta helpers_okD [OF ok] wire_consts)
  let ?r = "bpf_probe_read_kernel_str k (ctx_addr ctx + ucast (data_loc_filename ctx AND 0xFFFF)) 512 (x_filename e)"
  have le: "512 \<le> length (x_filename e)" using len by simp
  note str = helpers_okD(5) [OF ok _ le, of "ctx_addr ctx + ucast (data_loc_filename ctx AND 0xFFFF)"]
    and ln = helpers_okD(4) [OF ok le, of "ctx_addr ctx + ucast (data_loc_filename ctx AND 0xFFFF)"]
  have "x_filename x = (if fst ?r < 0 then (snd ?r)[0 := 0] else snd ?r)"
    unfolding x_def exec_record_def exec_argv_eq exec_filename_def Let_def by (simp add: split_beta wire_consts)
  with str ln len show "0 \<in> set (x_filename x)"
    by (auto simp: not_less set_update_memI dest: in_set_takeD)
qed

section \<open>Size and type of every submitted record\<close>

lemma wf_fork_record: "helpers_ok k \<Longrightarrow> wf_fork_event e \<Longrightarrow> wf_fork_event (fork_record k child cgid e)"
  by (simp add: wf_fork_event_def fork_record_def helpers_okD)

lemma wf_exit_record: "helpers_ok k \<Longrightarrow> wf_exit_event e \<Longrightarrow> wf_exit_event (exit_record k task cgid e)"
  by (simp add: wf_exit_event_def exit_record_def helpers_okD)

fun hook_type :: "hook \<Rightarrow> u32" where
  "hook_type (OnExec k ctx) = EVENT_EXEC"
| "hook_type (OnFork k parent child) = EVENT_FORK"
| "hook_type (OnExit k) = EVENT_EXIT"

definition hook_header :: "hook \<Rightarrow> event" where
  "hook_header h = fill_header (hook_kernel h) (hook_type h) (hook_task h) (hook_cgroup h)"

text \<open>A record block of the right size, as the ring buffer hands it out.\<close>

lemma hook_record_shape:
  assumes ok: "helpers_ok (hook_kernel h)" and b: "length b = hook_size h"
  shows "length (hook_record h b) = hook_size h"
    and "\<exists>r. hook_record h b = image_event (hook_header h) @ r"
proof -
  have "length (hook_record h b) = hook_size h \<and> (\<exists>r. hook_record h b = image_event (hook_header h) @ r)"
  proof (cases h)
    case (OnExec k ctx)
    let ?t = "bpf_get_current_task_btf k"
    have wf: "wf_exec_event (load_exec b)" using b OnExec by (simp add: wire_simps)
    have "helpers_ok k" using ok OnExec by simp
    from exec_record_fields [OF this wf, of ctx ?t "task_cgroup_id k ?t"]
    show ?thesis using OnExec
      by (simp add: Let_def wire_simps hook_header_def) (simp add: image_exec_def)
  next
    case (OnFork k parent child)
    then have "wf_fork_event (fork_record k child (task_cgroup_id k child) (load_fork b))"
      using ok b by (simp add: wf_fork_record wire_simps)
    then show ?thesis using OnFork
      by (simp add: wire_simps hook_header_def) (simp add: image_fork_def fork_record_def)
  next
    case (OnExit k)
    let ?t = "bpf_get_current_task_btf k"
    from OnExit have "wf_exit_event (exit_record k ?t (task_cgroup_id k ?t) (load_exit b))"
      using ok b by (simp add: wf_exit_record wire_simps)
    then show ?thesis using OnExit
      by (simp add: Let_def wire_simps hook_header_def) (simp add: image_exit_def exit_record_def)
  qed
  then show "length (hook_record h b) = hook_size h" "\<exists>r. hook_record h b = image_event (hook_header h) @ r"
    by simp_all
qed

end
