(* ===== verification/BpfProps.thy ===== *)
theory BpfProps
  imports BpfRecords
begin

text \<open>
  The properties of the BPF programs over any sequence of hook runs: which records reach the
  ring buffer and in which order, that nothing out of scope does, that every attempt is
  either a record or a counted drop, and what an exec record says of the argument area.
\<close>

section \<open>A concrete kernel\<close>

text \<open>
  An executable instance of the helper interface: a fixed task with the given process id,
  cgroup and live-thread count whose argument area holds \<open>args\<close>; \<open>block\<close> is what a
  reservation returns.
\<close>

definition fill :: "bytes \<Rightarrow> nat \<Rightarrow> bytes \<Rightarrow> bytes" where
  "fill src n d = take n (src @ replicate n 0) @ drop n d"

definition demo_read :: "u64 \<Rightarrow> u64 \<Rightarrow> u64 \<Rightarrow> nat \<Rightarrow> u64 \<Rightarrow> designator list \<Rightarrow> u64" where
  "demo_read pid cg live n a p =
     (if p = [[''cgroups''], [''dfl_cgrp''], [''kn''], [''id'']] then cg
      else if p = [[''mm''], [''arg_start'']] then 4096
      else if p = [[''mm''], [''arg_end'']] then 4096 + of_nat n
      else if p = [[''signal''], [''live'', ''counter'']] then live
      else if p = [[''pid'']] \<or> p = [[''tgid'']] then pid
      else 0)"

definition demo_kernel :: "u64 \<Rightarrow> u64 \<Rightarrow> u64 \<Rightarrow> bytes \<Rightarrow> (nat \<Rightarrow> bytes option) \<Rightarrow> kernel" where
  "demo_kernel pid cg live args block =
     \<lparr>cpu = 0, bpf_get_current_task_btf = 1,
      BPF_CORE_READ = demo_read pid cg live (length args),
      BPF_CORE_READ_STR_INTO = (\<lambda>a p d. (0, fill [97] (length d) d)),
      bpf_get_current_comm = (\<lambda>d. (0, fill [98] (length d) d)),
      bpf_ktime_get_boot_ns = 5,
      bpf_probe_read_user = (\<lambda>a n d. (0, fill args n d)),
      bpf_probe_read_kernel_str = (\<lambda>a n d. (2, fill (if n < 2 then [] else [47]) n d)),
      bpf_ringbuf_reserve = block\<rparr>"

lemma length_fill [simp]: "n \<le> length d \<Longrightarrow> length (fill src n d) = length d"
  by (simp add: fill_def)

lemma demo_helpers_ok:
  assumes "\<And>n b. block n = Some b \<Longrightarrow> length b = n"
  shows "helpers_ok (demo_kernel pid cg live args block)"
  using assms unfolding helpers_ok_def demo_kernel_def
  by (auto simp: fill_def set_take_disj_set_drop_if_distinct in_set_conv_nth nth_append intro: exI [of _ 1])

section \<open>What reaches the ring buffer\<close>

text \<open>
  C7: the programs are a filter over the hook runs. After any sequence of runs the ring buffer
  holds its old records followed by one record per run that fires, is in scope (host mode, or
  the task's cgroup is a target) and got its reservation, in the order of the runs; no
  reservation is left open, and the programs change neither the mode nor the targets.
\<close>

theorem run_hooks_ring:
  "ring (run_hooks hs s) = ring s @ concat (map (\<lambda>h.
     if hook_fires h \<and> (mode_host s \<or> task_cgroup_id (hook_kernel h) (hook_task h) \<in> dom (target_cgroups s))
     then (case bpf_ringbuf_reserve (hook_kernel h) (hook_size h) of
             None \<Rightarrow> [] | Some b \<Rightarrow> [hook_record h b])
     else []) hs) \<and>
   reserved (run_hooks hs s) = reserved s \<and>
   mode_host (run_hooks hs s) = mode_host s \<and>
   target_cgroups (run_hooks hs s) = target_cgroups s"
proof -
  have "hook_attempts s h \<longleftrightarrow>
      hook_fires h \<and> (mode_host s \<or> task_cgroup_id (hook_kernel h) (hook_task h) \<in> dom (target_cgroups s))" for h
    by (auto simp: hook_attempts_def should_capture_def)
  then show ?thesis
    unfolding run_hooks_def by (simp add: hooks.ring_fold)
qed

text \<open>
  Scope: in container mode every record the programs add to the ring buffer carries, in the
  header field that user space decodes, a cgroup id that is in \<open>target_cgroups\<close>; and it has the
  size and the type tag of the program that wrote it.
\<close>

lemma added_record_in_scope:
  assumes "\<forall>h \<in> set hs. helpers_ok (hook_kernel h)" and "\<not> mode_host s"
    and "r \<in> set (ring (run_hooks hs s))" and "r \<notin> set (ring s)"
  shows "h_cgroup_id (load_event r) \<in> dom (target_cgroups s) \<and>
    (\<exists>h \<in> set hs. length r = hook_size h \<and> h_type (load_event r) = hook_type h)"
proof -
  obtain h b where h: "h \<in> set hs" and at: "hook_attempts s h" and r: "r = hook_record h b"
    and b: "bpf_ringbuf_reserve (hook_kernel h) (hook_size h) = Some b"
    using hooks.ring_fold_source assms(3,4) unfolding run_hooks_def by blast
  have ok: "helpers_ok (hook_kernel h)" using assms(1) h by blast
  note shape = hook_record_shape [OF ok helpers_okD(6) [OF ok b]]
  from shape(2) obtain rest where "r = image_event (hook_header h) @ rest" unfolding r by blast
  then have "load_event r = hook_header h" by (simp add: load_image_event)
  then show ?thesis using shape(1) h at assms(2)
    unfolding r by (auto simp: hook_header_def fill_header_def Let_def hook_attempts_def should_capture_def)
qed

text \<open>
  No silent loss: from a freshly loaded state, the records in the ring buffer and the drops
  counted over all CPUs add up to the number of runs that fired in scope.
\<close>

lemma run_hooks_accounting:
  assumes "\<forall>h \<in> set hs. cpu (hook_kernel h) < n" and "length hs < 2 ^ 64"
    and "s = (bpf_init host)\<lparr>target_cgroups := t\<rparr>"
  shows "length (ring (run_hooks hs s)) + total_drops n (run_hooks hs s) =
    length (filter (hook_attempts s) hs)"
proof -
  have "counters_ok s" "total_drops n s = 0" "ring s = []"
    using assms(3)
    by (simp_all add: counters_ok_def bpf_init_def total_drops_def drop_count_decl_def wire_consts)
  then show ?thesis
    using hooks.accounting_fold [of s hs n] assms(1,2) unfolding run_hooks_def by simp
qed

section \<open>What an exec record says of the argument area\<close>

text \<open>
  On every branch of the argument copy. The handler asks for the first
  \<open>min(arg_end - arg_start, 4096)\<close> bytes, so the copy stays inside the array; \<open>argv_len\<close> is that
  number, or 0 when the read failed; \<open>argv_truncated\<close> is set exactly when the area is longer than
  the array and \<open>argv_read_failed\<close> exactly when the read failed; the file name is
  NUL-terminated and the record has the size of the C structure.
\<close>

lemma exec_record_argv:
  assumes "helpers_ok k" and "wf_exec_event e"
    and "x = exec_record k ctx task cgid e"
    and "read = bpf_probe_read_user k (BPF_CORE_READ k task [[''mm''], [''arg_start'']])
           (min (unat (argv_length k task)) MAX_ARGV_LEN) (x_argv e)"
  shows "x_argv x = snd read \<and>
    unat (x_argv_len x) = (if fst read < 0 then 0 else min (unat (argv_length k task)) MAX_ARGV_LEN) \<and>
    x_argv_truncated x = (if MAX_ARGV_LEN < unat (argv_length k task) then 1 else 0) \<and>
    x_argv_read_failed x = (if fst read < 0 then 1 else 0) \<and>
    0 \<in> set (x_filename x) \<and> length (image_exec x) = sizeof exec_event_t"
proof -
  note x = exec_record_fields [OF assms(1,2), of ctx task cgid, folded assms(3)]
  have "unat (of_nat (argv_wanted k task) :: u32) = argv_wanted k task"
    using argv_wanted_le [of k task] by (simp add: unat_of_nat wire_consts)
  moreover have "x_argv (exec_filename k ctx y) = x_argv y" for y
    by (simp add: exec_filename_def Let_def split_beta)
  ultimately show ?thesis
    using x(1,4) assms(4) unfolding argv_wanted_def [symmetric] assms(3) exec_record_def Let_def
    by (simp add: exec_argv_eq split_beta wire_simps)
qed

section \<open>The properties at a concrete kernel\<close>

definition zero_block :: "nat \<Rightarrow> bytes option" where
  "zero_block n = Some (replicate n 0)"

lemma zero_block_ok: "helpers_ok (demo_kernel pid cg live args zero_block)"
  by (rule demo_helpers_ok) (auto simp: zero_block_def)

definition demo_exit :: "u64 \<Rightarrow> hook" where
  "demo_exit cg = OnExit (demo_kernel 42 cg 0 [] zero_block)"

definition demo_state :: bpf_state where
  "demo_state = (bpf_init False)\<lparr>target_cgroups := [7 \<mapsto> 1]\<rparr>"

lemma demo_cgroup [simp]: "task_cgroup_id (demo_kernel pid cg live args block) task = cg"
  by (simp add: task_cgroup_id_def demo_kernel_def demo_read_def)

lemma demo_exit_attempts: "hook_attempts demo_state (demo_exit cg) \<longleftrightarrow> cg = 7"
  by (simp add: hook_attempts_def demo_exit_def should_capture_def demo_state_def bpf_init_def)
    (simp add: demo_kernel_def demo_read_def)

lemma demo_exit_runs:
  "ring (run_hooks [demo_exit 8, demo_exit 7] demo_state) = [hook_record (demo_exit 7) (replicate 80 0)]"
proof -
  have "bpf_ringbuf_reserve (hook_kernel (demo_exit 7)) (hook_size (demo_exit 7)) = Some (replicate 80 0)"
    by (simp add: demo_exit_def demo_kernel_def zero_block_def wire_simps)
  moreover have "ring demo_state = []" by (simp add: demo_state_def bpf_init_def)
  ultimately show ?thesis
    unfolding run_hooks_def hooks.ring_fold by (simp add: demo_exit_attempts)
qed

end
