(* ===== verification/Vmlinux_amd64.thy ===== *)
theory Vmlinux_amd64
  imports CLayout
begin

text \<open>
  The kernel types of \<open>bpf/headers/vmlinux_amd64.h\<close> (x86-64) that the BPF programs read
  through: \<open>task_struct\<close>, \<open>mm_struct\<close>, \<open>signal_struct\<close>, \<open>cred\<close>, \<open>css_set\<close>, \<open>cgroup\<close>,
  \<open>kernfs_node\<close>, the contexts of the three scheduler tracepoints, every type these contain
  by value, and the BPF enumerations that the map declarations, the program sections and
  the helper calls refer to. Each definition transcribes one declaration of the header,
  member by member; a pointer records the spelling of its pointee.

  The lemmas compute each type's size and alignment, and the offsets of the fields that
  \<open>common.h\<close> and \<open>process.bpf.c\<close> access.
\<close>

section \<open>Type declarations\<close>

definition amd64___u32 :: ctype where
  "amd64___u32 = c_uint"

definition amd64_u32 :: ctype where
  "amd64_u32 = amd64___u32"

definition amd64_thread_info :: ctype where
  "amd64_thread_info = CStruct [
     Fld ''flags'' c_ulong,
     Fld ''syscall_work'' c_ulong,
     Fld ''status'' amd64_u32,
     Fld ''cpu'' amd64_u32]"

definition amd64_atomic_t :: ctype where
  "amd64_atomic_t = CStruct [
     Fld ''counter'' c_int]"

definition amd64_refcount_struct :: ctype where
  "amd64_refcount_struct = CStruct [
     Fld ''refs'' amd64_atomic_t]"

definition amd64_refcount_t :: ctype where
  "amd64_refcount_t = amd64_refcount_struct"

definition amd64_llist_node :: ctype where
  "amd64_llist_node = CStruct [
     Fld ''next'' (CPtr ''struct llist_node'')]"

definition amd64___u16 :: ctype where
  "amd64___u16 = c_ushort"

definition amd64_u16 :: ctype where
  "amd64_u16 = amd64___u16"

definition amd64___call_single_node :: ctype where
  "amd64___call_single_node = CStruct [
     Fld ''llist'' amd64_llist_node,
     Fld '''' (CUnion [
       Fld ''u_flags'' c_uint,
       Fld ''a_flags'' amd64_atomic_t]),
     Fld ''src'' amd64_u16,
     Fld ''dst'' amd64_u16]"

definition amd64_load_weight :: ctype where
  "amd64_load_weight = CStruct [
     Fld ''weight'' c_ulong,
     Fld ''inv_weight'' amd64_u32]"

definition amd64_rb_node :: ctype where
  "amd64_rb_node = CStruct [
     Fld ''__rb_parent_color'' c_ulong,
     Fld ''rb_right'' (CPtr ''struct rb_node''),
     Fld ''rb_left'' (CPtr ''struct rb_node'')]"

definition amd64___u64 :: ctype where
  "amd64___u64 = c_ullong"

definition amd64_u64 :: ctype where
  "amd64_u64 = amd64___u64"

definition amd64_list_head :: ctype where
  "amd64_list_head = CStruct [
     Fld ''next'' (CPtr ''struct list_head''),
     Fld ''prev'' (CPtr ''struct list_head'')]"

definition amd64___s64 :: ctype where
  "amd64___s64 = c_llong"

definition amd64_s64 :: ctype where
  "amd64_s64 = amd64___s64"

definition amd64_sched_avg :: ctype where
  "amd64_sched_avg = CStruct [
     Fld ''last_update_time'' amd64_u64,
     Fld ''load_sum'' amd64_u64,
     Fld ''runnable_sum'' amd64_u64,
     Fld ''util_sum'' amd64_u32,
     Fld ''period_contrib'' amd64_u32,
     Fld ''load_avg'' c_ulong,
     Fld ''runnable_avg'' c_ulong,
     Fld ''util_avg'' c_ulong,
     Fld ''util_est'' c_uint]"

definition amd64_sched_entity :: ctype where
  "amd64_sched_entity = CStruct [
     Fld ''load'' amd64_load_weight,
     Fld ''run_node'' amd64_rb_node,
     Fld ''deadline'' amd64_u64,
     Fld ''min_vruntime'' amd64_u64,
     Fld ''group_node'' amd64_list_head,
     Fld ''on_rq'' c_uint,
     Fld ''exec_start'' amd64_u64,
     Fld ''sum_exec_runtime'' amd64_u64,
     Fld ''prev_sum_exec_runtime'' amd64_u64,
     Fld ''vruntime'' amd64_u64,
     Fld ''vlag'' amd64_s64,
     Fld ''slice'' amd64_u64,
     Fld ''nr_migrations'' amd64_u64,
     Fld ''depth'' c_int,
     Fld ''parent'' (CPtr ''struct sched_entity''),
     Fld ''cfs_rq'' (CPtr ''struct cfs_rq''),
     Fld ''my_q'' (CPtr ''struct cfs_rq''),
     Fld ''runnable_weight'' c_ulong,
     Bit '''' c_long 64,
     Bit '''' c_long 64,
     Fld ''avg'' amd64_sched_avg]"

definition amd64_sched_rt_entity :: ctype where
  "amd64_sched_rt_entity = CStruct [
     Fld ''run_list'' amd64_list_head,
     Fld ''timeout'' c_ulong,
     Fld ''watchdog_stamp'' c_ulong,
     Fld ''time_slice'' c_uint,
     Fld ''on_rq'' c_ushort,
     Fld ''on_list'' c_ushort,
     Fld ''back'' (CPtr ''struct sched_rt_entity'')]"

definition amd64_ktime_t :: ctype where
  "amd64_ktime_t = amd64_s64"

definition amd64_timerqueue_node :: ctype where
  "amd64_timerqueue_node = CStruct [
     Fld ''node'' amd64_rb_node,
     Fld ''expires'' amd64_ktime_t]"

definition amd64___u8 :: ctype where
  "amd64___u8 = c_uchar"

definition amd64_u8 :: ctype where
  "amd64_u8 = amd64___u8"

definition amd64_hrtimer :: ctype where
  "amd64_hrtimer = CStruct [
     Fld ''node'' amd64_timerqueue_node,
     Fld ''_softexpires'' amd64_ktime_t,
     Fld ''function'' (CPtr ''(*)()''),
     Fld ''base'' (CPtr ''struct hrtimer_clock_base''),
     Fld ''state'' amd64_u8,
     Fld ''is_rel'' amd64_u8,
     Fld ''is_soft'' amd64_u8,
     Fld ''is_hard'' amd64_u8]"

definition amd64_dl_server_has_tasks_f :: ctype where
  "amd64_dl_server_has_tasks_f = CPtr ''(*)()''"

definition amd64_dl_server_pick_f :: ctype where
  "amd64_dl_server_pick_f = CPtr ''(*)()''"

definition amd64_sched_dl_entity :: ctype where
  "amd64_sched_dl_entity = CStruct [
     Fld ''rb_node'' amd64_rb_node,
     Fld ''dl_runtime'' amd64_u64,
     Fld ''dl_deadline'' amd64_u64,
     Fld ''dl_period'' amd64_u64,
     Fld ''dl_bw'' amd64_u64,
     Fld ''dl_density'' amd64_u64,
     Fld ''runtime'' amd64_s64,
     Fld ''deadline'' amd64_u64,
     Fld ''flags'' c_uint,
     Bit ''dl_throttled'' c_uint 1,
     Bit ''dl_yielded'' c_uint 1,
     Bit ''dl_non_contending'' c_uint 1,
     Bit ''dl_overrun'' c_uint 1,
     Bit ''dl_server'' c_uint 1,
     Fld ''dl_timer'' amd64_hrtimer,
     Fld ''inactive_timer'' amd64_hrtimer,
     Fld ''rq'' (CPtr ''struct rq''),
     Fld ''server_has_tasks'' amd64_dl_server_has_tasks_f,
     Fld ''server_pick'' amd64_dl_server_pick_f,
     Fld ''pi_se'' (CPtr ''struct sched_dl_entity'')]"

definition amd64_uclamp_se :: ctype where
  "amd64_uclamp_se = CStruct [
     Bit ''value'' c_uint 11,
     Bit ''bucket_id'' c_uint 3,
     Bit ''active'' c_uint 1,
     Bit ''user_defined'' c_uint 1]"

definition amd64_sched_statistics :: ctype where
  "amd64_sched_statistics = CStruct [
     Fld ''wait_start'' amd64_u64,
     Fld ''wait_max'' amd64_u64,
     Fld ''wait_count'' amd64_u64,
     Fld ''wait_sum'' amd64_u64,
     Fld ''iowait_count'' amd64_u64,
     Fld ''iowait_sum'' amd64_u64,
     Fld ''sleep_start'' amd64_u64,
     Fld ''sleep_max'' amd64_u64,
     Fld ''sum_sleep_runtime'' amd64_s64,
     Fld ''block_start'' amd64_u64,
     Fld ''block_max'' amd64_u64,
     Fld ''sum_block_runtime'' amd64_s64,
     Fld ''exec_max'' amd64_s64,
     Fld ''slice_max'' amd64_u64,
     Fld ''nr_migrations_cold'' amd64_u64,
     Fld ''nr_failed_migrations_affine'' amd64_u64,
     Fld ''nr_failed_migrations_running'' amd64_u64,
     Fld ''nr_failed_migrations_hot'' amd64_u64,
     Fld ''nr_forced_migrations'' amd64_u64,
     Fld ''nr_wakeups'' amd64_u64,
     Fld ''nr_wakeups_sync'' amd64_u64,
     Fld ''nr_wakeups_migrate'' amd64_u64,
     Fld ''nr_wakeups_local'' amd64_u64,
     Fld ''nr_wakeups_remote'' amd64_u64,
     Fld ''nr_wakeups_affine'' amd64_u64,
     Fld ''nr_wakeups_affine_attempts'' amd64_u64,
     Fld ''nr_wakeups_passive'' amd64_u64,
     Fld ''nr_wakeups_idle'' amd64_u64,
     Fld ''core_forceidle_sum'' amd64_u64,
     Bit '''' c_long 64,
     Bit '''' c_long 64,
     Bit '''' c_long 64]"

definition amd64_hlist_head :: ctype where
  "amd64_hlist_head = CStruct [
     Fld ''first'' (CPtr ''struct hlist_node'')]"

definition amd64_cpumask :: ctype where
  "amd64_cpumask = CStruct [
     Fld ''bits'' (CArr c_ulong 128)]"

definition amd64_cpumask_t :: ctype where
  "amd64_cpumask_t = amd64_cpumask"

definition amd64_rcu_special :: ctype where
  "amd64_rcu_special = CUnion [
     Fld ''b'' (CStruct [
       Fld ''blocked'' amd64_u8,
       Fld ''need_qs'' amd64_u8,
       Fld ''exp_hint'' amd64_u8,
       Fld ''need_mb'' amd64_u8]),
     Fld ''s'' amd64_u32]"

definition amd64_sched_info :: ctype where
  "amd64_sched_info = CStruct [
     Fld ''pcount'' c_ulong,
     Fld ''run_delay'' c_ullong,
     Fld ''last_arrival'' c_ullong,
     Fld ''last_queued'' c_ullong]"

definition amd64_plist_node :: ctype where
  "amd64_plist_node = CStruct [
     Fld ''prio'' c_int,
     Fld ''prio_list'' amd64_list_head,
     Fld ''node_list'' amd64_list_head]"

definition amd64___kernel_clockid_t :: ctype where
  "amd64___kernel_clockid_t = c_int"

definition amd64_clockid_t :: ctype where
  "amd64_clockid_t = amd64___kernel_clockid_t"

definition amd64_timespec_type :: ctype where
  "amd64_timespec_type = CEnum ''timespec_type''"

definition amd64_restart_block :: ctype where
  "amd64_restart_block = CStruct [
     Fld ''arch_data'' c_ulong,
     Fld ''fn'' (CPtr ''(*)()''),
     Fld '''' (CUnion [
       Fld ''futex'' (CStruct [
         Fld ''uaddr'' (CPtr ''u32''),
         Fld ''val'' amd64_u32,
         Fld ''flags'' amd64_u32,
         Fld ''bitset'' amd64_u32,
         Fld ''time'' amd64_u64,
         Fld ''uaddr2'' (CPtr ''u32'')]),
       Fld ''nanosleep'' (CStruct [
         Fld ''clockid'' amd64_clockid_t,
         Fld ''type'' amd64_timespec_type,
         Fld '''' (CUnion [
           Fld ''rmtp'' (CPtr ''struct __kernel_timespec''),
           Fld ''compat_rmtp'' (CPtr ''struct old_timespec32'')]),
         Fld ''expires'' amd64_u64]),
       Fld ''poll'' (CStruct [
         Fld ''ufds'' (CPtr ''struct pollfd''),
         Fld ''nfds'' c_int,
         Fld ''has_timeout'' c_int,
         Fld ''tv_sec'' c_ulong,
         Fld ''tv_nsec'' c_ulong])])]"

definition amd64___kernel_pid_t :: ctype where
  "amd64___kernel_pid_t = c_int"

definition amd64_pid_t :: ctype where
  "amd64_pid_t = amd64___kernel_pid_t"

definition amd64_hlist_node :: ctype where
  "amd64_hlist_node = CStruct [
     Fld ''next'' (CPtr ''struct hlist_node''),
     Fld ''pprev'' (CPtr ''struct hlist_node *'')]"

definition amd64_qspinlock :: ctype where
  "amd64_qspinlock = CStruct [
     Fld '''' (CUnion [
       Fld ''val'' amd64_atomic_t,
       Fld '''' (CStruct [
         Fld ''locked'' amd64_u8,
         Fld ''pending'' amd64_u8]),
       Fld '''' (CStruct [
         Fld ''locked_pending'' amd64_u16,
         Fld ''tail'' amd64_u16])])]"

definition amd64_arch_spinlock_t :: ctype where
  "amd64_arch_spinlock_t = amd64_qspinlock"

definition amd64_raw_spinlock :: ctype where
  "amd64_raw_spinlock = CStruct [
     Fld ''raw_lock'' amd64_arch_spinlock_t]"

definition amd64_raw_spinlock_t :: ctype where
  "amd64_raw_spinlock_t = amd64_raw_spinlock"

definition amd64_prev_cputime :: ctype where
  "amd64_prev_cputime = CStruct [
     Fld ''utime'' amd64_u64,
     Fld ''stime'' amd64_u64,
     Fld ''lock'' amd64_raw_spinlock_t]"

definition amd64_seqcount :: ctype where
  "amd64_seqcount = CStruct [
     Fld ''sequence'' c_uint]"

definition amd64_seqcount_t :: ctype where
  "amd64_seqcount_t = amd64_seqcount"

definition amd64_vtime_state :: ctype where
  "amd64_vtime_state = CEnum ''vtime_state''"

definition amd64_vtime :: ctype where
  "amd64_vtime = CStruct [
     Fld ''seqcount'' amd64_seqcount_t,
     Fld ''starttime'' c_ullong,
     Fld ''state'' amd64_vtime_state,
     Fld ''cpu'' c_uint,
     Fld ''utime'' amd64_u64,
     Fld ''stime'' amd64_u64,
     Fld ''gtime'' amd64_u64]"

definition amd64_rb_root :: ctype where
  "amd64_rb_root = CStruct [
     Fld ''rb_node'' (CPtr ''struct rb_node'')]"

definition amd64_rb_root_cached :: ctype where
  "amd64_rb_root_cached = CStruct [
     Fld ''rb_root'' amd64_rb_root,
     Fld ''rb_leftmost'' (CPtr ''struct rb_node'')]"

definition amd64_timerqueue_head :: ctype where
  "amd64_timerqueue_head = CStruct [
     Fld ''rb_root'' amd64_rb_root_cached]"

definition amd64_posix_cputimer_base :: ctype where
  "amd64_posix_cputimer_base = CStruct [
     Fld ''nextevt'' amd64_u64,
     Fld ''tqhead'' amd64_timerqueue_head]"

definition amd64_posix_cputimers :: ctype where
  "amd64_posix_cputimers = CStruct [
     Fld ''bases'' (CArr amd64_posix_cputimer_base 3),
     Fld ''timers_active'' c_uint,
     Fld ''expiry_active'' c_uint]"

definition amd64_callback_head :: ctype where
  "amd64_callback_head = CStruct [
     Fld ''next'' (CPtr ''struct callback_head''),
     Fld ''func'' (CPtr ''(*)()'')]"

definition amd64_atomic64_t :: ctype where
  "amd64_atomic64_t = CStruct [
     Fld ''counter'' amd64_s64]"

definition amd64_atomic_long_t :: ctype where
  "amd64_atomic_long_t = amd64_atomic64_t"

definition amd64_optimistic_spin_queue :: ctype where
  "amd64_optimistic_spin_queue = CStruct [
     Fld ''tail'' amd64_atomic_t]"

definition amd64_mutex :: ctype where
  "amd64_mutex = CStruct [
     Fld ''owner'' amd64_atomic_long_t,
     Fld ''wait_lock'' amd64_raw_spinlock_t,
     Fld ''osq'' amd64_optimistic_spin_queue,
     Fld ''wait_list'' amd64_list_head]"

definition amd64_posix_cputimers_work :: ctype where
  "amd64_posix_cputimers_work = CStruct [
     Fld ''work'' amd64_callback_head,
     Fld ''mutex'' amd64_mutex,
     Fld ''scheduled'' c_uint]"

definition amd64_sysv_sem :: ctype where
  "amd64_sysv_sem = CStruct [
     Fld ''undo_list'' (CPtr ''struct sem_undo_list'')]"

definition amd64_sysv_shm :: ctype where
  "amd64_sysv_shm = CStruct [
     Fld ''shm_clist'' amd64_list_head]"

definition amd64_sigset_t :: ctype where
  "amd64_sigset_t = CStruct [
     Fld ''sig'' (CArr c_ulong 1)]"

definition amd64_sigpending :: ctype where
  "amd64_sigpending = CStruct [
     Fld ''list'' amd64_list_head,
     Fld ''signal'' amd64_sigset_t]"

definition amd64___kernel_ulong_t :: ctype where
  "amd64___kernel_ulong_t = c_ulong"

definition amd64___kernel_size_t :: ctype where
  "amd64___kernel_size_t = amd64___kernel_ulong_t"

definition amd64_size_t :: ctype where
  "amd64_size_t = amd64___kernel_size_t"

definition amd64___kernel_uid32_t :: ctype where
  "amd64___kernel_uid32_t = c_uint"

definition amd64_uid_t :: ctype where
  "amd64_uid_t = amd64___kernel_uid32_t"

definition amd64_kuid_t :: ctype where
  "amd64_kuid_t = CStruct [
     Fld ''val'' amd64_uid_t]"

definition amd64_seccomp :: ctype where
  "amd64_seccomp = CStruct [
     Fld ''mode'' c_int,
     Fld ''filter_count'' amd64_atomic_t,
     Fld ''filter'' (CPtr ''struct seccomp_filter'')]"

definition amd64_syscall_user_dispatch :: ctype where
  "amd64_syscall_user_dispatch = CStruct [
     Fld ''selector'' (CPtr ''char''),
     Fld ''offset'' c_ulong,
     Fld ''len'' c_ulong,
     Fld ''on_dispatch'' c_bool]"

definition amd64_spinlock :: ctype where
  "amd64_spinlock = CStruct [
     Fld '''' (CUnion [
       Fld ''rlock'' amd64_raw_spinlock])]"

definition amd64_spinlock_t :: ctype where
  "amd64_spinlock_t = amd64_spinlock"

definition amd64_wake_q_node :: ctype where
  "amd64_wake_q_node = CStruct [
     Fld ''next'' (CPtr ''struct wake_q_node'')]"

definition amd64_task_io_accounting :: ctype where
  "amd64_task_io_accounting = CStruct [
     Fld ''rchar'' amd64_u64,
     Fld ''wchar'' amd64_u64,
     Fld ''syscr'' amd64_u64,
     Fld ''syscw'' amd64_u64,
     Fld ''read_bytes'' amd64_u64,
     Fld ''write_bytes'' amd64_u64,
     Fld ''cancelled_write_bytes'' amd64_u64]"

definition amd64_nodemask_t :: ctype where
  "amd64_nodemask_t = CStruct [
     Fld ''bits'' (CArr c_ulong 16)]"

definition amd64_seqcount_spinlock :: ctype where
  "amd64_seqcount_spinlock = CStruct [
     Fld ''seqcount'' amd64_seqcount_t]"

definition amd64_seqcount_spinlock_t :: ctype where
  "amd64_seqcount_spinlock_t = amd64_seqcount_spinlock"

definition amd64_arch_tlbflush_unmap_batch :: ctype where
  "amd64_arch_tlbflush_unmap_batch = CStruct [
     Fld ''cpumask'' amd64_cpumask]"

definition amd64_tlbflush_unmap_batch :: ctype where
  "amd64_tlbflush_unmap_batch = CStruct [
     Fld ''arch'' amd64_arch_tlbflush_unmap_batch,
     Fld ''flush_required'' c_bool,
     Fld ''writable'' c_bool]"

definition amd64_page_frag :: ctype where
  "amd64_page_frag = CStruct [
     Fld ''page'' (CPtr ''struct page''),
     Fld ''offset'' amd64___u32,
     Fld ''size'' amd64___u32]"

definition amd64_latency_record :: ctype where
  "amd64_latency_record = CStruct [
     Fld ''backtrace'' (CArr c_ulong 12),
     Fld ''count'' c_uint,
     Fld ''time'' c_ulong,
     Fld ''max'' c_ulong]"

definition amd64_gfp_t :: ctype where
  "amd64_gfp_t = c_uint"

definition amd64_kmap_ctrl :: ctype where
  "amd64_kmap_ctrl = CStruct []"

definition amd64_timer_list :: ctype where
  "amd64_timer_list = CStruct [
     Fld ''entry'' amd64_hlist_node,
     Fld ''expires'' c_ulong,
     Fld ''function'' (CPtr ''(*)()''),
     Fld ''flags'' amd64_u32]"

definition amd64_llist_head :: ctype where
  "amd64_llist_head = CStruct [
     Fld ''first'' (CPtr ''struct llist_node'')]"

definition amd64_da_monitor :: ctype where
  "amd64_da_monitor = CStruct [
     Fld ''monitoring'' c_bool,
     Fld ''curr_state'' c_uint]"

definition amd64_rv_task_monitor :: ctype where
  "amd64_rv_task_monitor = CUnion [
     Fld ''da_mon'' amd64_da_monitor]"

definition amd64_desc_struct :: ctype where
  "amd64_desc_struct = CStruct [
     Fld ''limit0'' amd64_u16,
     Fld ''base0'' amd64_u16,
     Bit ''base1'' amd64_u16 8,
     Bit ''type'' amd64_u16 4,
     Bit ''s'' amd64_u16 1,
     Bit ''dpl'' amd64_u16 2,
     Bit ''p'' amd64_u16 1,
     Bit ''limit1'' amd64_u16 4,
     Bit ''avl'' amd64_u16 1,
     Bit ''l'' amd64_u16 1,
     Bit ''d'' amd64_u16 1,
     Bit ''g'' amd64_u16 1,
     Bit ''base2'' amd64_u16 8]"

definition amd64_thread_shstk :: ctype where
  "amd64_thread_shstk = CStruct [
     Fld ''base'' amd64_u64,
     Fld ''size'' amd64_u64]"

definition amd64_fpu_state_perm :: ctype where
  "amd64_fpu_state_perm = CStruct [
     Fld ''__state_perm'' amd64_u64,
     Fld ''__state_size'' c_uint,
     Fld ''__user_state_size'' c_uint]"

definition amd64_fregs_state :: ctype where
  "amd64_fregs_state = CStruct [
     Fld ''cwd'' amd64_u32,
     Fld ''swd'' amd64_u32,
     Fld ''twd'' amd64_u32,
     Fld ''fip'' amd64_u32,
     Fld ''fcs'' amd64_u32,
     Fld ''foo'' amd64_u32,
     Fld ''fos'' amd64_u32,
     Fld ''st_space'' (CArr amd64_u32 20),
     Fld ''status'' amd64_u32]"

definition amd64_fxregs_state :: ctype where
  "amd64_fxregs_state = CStruct [
     Fld ''cwd'' amd64_u16,
     Fld ''swd'' amd64_u16,
     Fld ''twd'' amd64_u16,
     Fld ''fop'' amd64_u16,
     Fld '''' (CUnion [
       Fld '''' (CStruct [
         Fld ''rip'' amd64_u64,
         Fld ''rdp'' amd64_u64]),
       Fld '''' (CStruct [
         Fld ''fip'' amd64_u32,
         Fld ''fcs'' amd64_u32,
         Fld ''foo'' amd64_u32,
         Fld ''fos'' amd64_u32])]),
     Fld ''mxcsr'' amd64_u32,
     Fld ''mxcsr_mask'' amd64_u32,
     Fld ''st_space'' (CArr amd64_u32 32),
     Fld ''xmm_space'' (CArr amd64_u32 64),
     Fld ''padding'' (CArr amd64_u32 12),
     Fld '''' (CUnion [
       Fld ''padding1'' (CArr amd64_u32 12),
       Fld ''sw_reserved'' (CArr amd64_u32 12)])]"

definition amd64_swregs_state :: ctype where
  "amd64_swregs_state = CStruct [
     Fld ''cwd'' amd64_u32,
     Fld ''swd'' amd64_u32,
     Fld ''twd'' amd64_u32,
     Fld ''fip'' amd64_u32,
     Fld ''fcs'' amd64_u32,
     Fld ''foo'' amd64_u32,
     Fld ''fos'' amd64_u32,
     Fld ''st_space'' (CArr amd64_u32 20),
     Fld ''ftop'' amd64_u8,
     Fld ''changed'' amd64_u8,
     Fld ''lookahead'' amd64_u8,
     Fld ''no_update'' amd64_u8,
     Fld ''rm'' amd64_u8,
     Fld ''alimit'' amd64_u8,
     Fld ''info'' (CPtr ''struct math_emu_info''),
     Fld ''entry_eip'' amd64_u32]"

definition amd64_xstate_header :: ctype where
  "amd64_xstate_header = CStruct [
     Fld ''xfeatures'' amd64_u64,
     Fld ''xcomp_bv'' amd64_u64,
     Fld ''reserved'' (CArr amd64_u64 6)]"

definition amd64_xregs_state :: ctype where
  "amd64_xregs_state = CStruct [
     Fld ''i387'' amd64_fxregs_state,
     Fld ''header'' amd64_xstate_header,
     Fld ''extended_state_area'' (CArr amd64_u8 0)]"

definition amd64_fpregs_state :: ctype where
  "amd64_fpregs_state = CUnion [
     Fld ''fsave'' amd64_fregs_state,
     Fld ''fxsave'' amd64_fxregs_state,
     Fld ''soft'' amd64_swregs_state,
     Fld ''xsave'' amd64_xregs_state,
     Fld ''__padding'' (CArr amd64_u8 4096)]"

definition amd64_fpstate :: ctype where
  "amd64_fpstate = CStruct [
     Fld ''size'' c_uint,
     Fld ''user_size'' c_uint,
     Fld ''xfeatures'' amd64_u64,
     Fld ''user_xfeatures'' amd64_u64,
     Fld ''xfd'' amd64_u64,
     Bit ''is_valloc'' c_uint 1,
     Bit ''is_guest'' c_uint 1,
     Bit ''is_confidential'' c_uint 1,
     Bit ''in_use'' c_uint 1,
     Bit '''' c_long 64,
     Bit '''' c_long 64,
     Bit '''' c_long 64,
     Fld ''regs'' amd64_fpregs_state]"

definition amd64_fpu :: ctype where
  "amd64_fpu = CStruct [
     Fld ''last_cpu'' c_uint,
     Fld ''avx512_timestamp'' c_ulong,
     Fld ''fpstate'' (CPtr ''struct fpstate''),
     Fld ''__task_fpstate'' (CPtr ''struct fpstate''),
     Fld ''perm'' amd64_fpu_state_perm,
     Fld ''guest_perm'' amd64_fpu_state_perm,
     Fld ''__fpstate'' amd64_fpstate]"

definition amd64_thread_struct :: ctype where
  "amd64_thread_struct = CStruct [
     Fld ''tls_array'' (CArr amd64_desc_struct 3),
     Fld ''sp'' c_ulong,
     Fld ''es'' c_ushort,
     Fld ''ds'' c_ushort,
     Fld ''fsindex'' c_ushort,
     Fld ''gsindex'' c_ushort,
     Fld ''fsbase'' c_ulong,
     Fld ''gsbase'' c_ulong,
     Fld ''ptrace_bps'' (CArr (CPtr ''struct perf_event'') 4),
     Fld ''virtual_dr6'' c_ulong,
     Fld ''ptrace_dr7'' c_ulong,
     Fld ''cr2'' c_ulong,
     Fld ''trap_nr'' c_ulong,
     Fld ''error_code'' c_ulong,
     Fld ''io_bitmap'' (CPtr ''struct io_bitmap''),
     Fld ''iopl_emul'' c_ulong,
     Bit ''iopl_warn'' c_uint 1,
     Fld ''pkru'' amd64_u32,
     Fld ''features'' c_ulong,
     Fld ''features_locked'' c_ulong,
     Fld ''shstk'' amd64_thread_shstk,
     Bit '''' c_long 64,
     Fld ''fpu'' amd64_fpu]"

definition amd64_task_struct_1 :: "member list" where
  "amd64_task_struct_1 = [
     Fld ''thread_info'' amd64_thread_info,
     Fld ''__state'' c_uint,
     Fld ''saved_state'' c_uint,
     Fld ''stack'' (CPtr ''void''),
     Fld ''usage'' amd64_refcount_t,
     Fld ''flags'' c_uint,
     Fld ''ptrace'' c_uint,
     Fld ''on_cpu'' c_int,
     Fld ''wake_entry'' amd64___call_single_node,
     Fld ''wakee_flips'' c_uint,
     Fld ''wakee_flip_decay_ts'' c_ulong,
     Fld ''last_wakee'' (CPtr ''struct task_struct''),
     Fld ''recent_used_cpu'' c_int,
     Fld ''wake_cpu'' c_int,
     Fld ''on_rq'' c_int,
     Fld ''prio'' c_int,
     Fld ''static_prio'' c_int,
     Fld ''normal_prio'' c_int,
     Fld ''rt_priority'' c_uint,
     Fld ''se'' amd64_sched_entity,
     Fld ''rt'' amd64_sched_rt_entity,
     Fld ''dl'' amd64_sched_dl_entity,
     Fld ''dl_server'' (CPtr ''struct sched_dl_entity''),
     Fld ''sched_class'' (CPtr ''struct sched_class'')]"

definition amd64_task_struct_2 :: "member list" where
  "amd64_task_struct_2 = [
     Fld ''core_node'' amd64_rb_node,
     Fld ''core_cookie'' c_ulong,
     Fld ''core_occupation'' c_uint,
     Fld ''sched_task_group'' (CPtr ''struct task_group''),
     Fld ''uclamp_req'' (CArr amd64_uclamp_se 2),
     Fld ''uclamp'' (CArr amd64_uclamp_se 2),
     Bit '''' c_long 64,
     Fld ''stats'' amd64_sched_statistics,
     Fld ''preempt_notifiers'' amd64_hlist_head,
     Fld ''btrace_seq'' c_uint,
     Fld ''policy'' c_uint,
     Fld ''nr_cpus_allowed'' c_int,
     Fld ''cpus_ptr'' (CPtr ''cpumask_t''),
     Fld ''user_cpus_ptr'' (CPtr ''cpumask_t''),
     Fld ''cpus_mask'' amd64_cpumask_t,
     Fld ''migration_pending'' (CPtr ''void''),
     Fld ''migration_disabled'' c_ushort,
     Fld ''migration_flags'' c_ushort,
     Fld ''rcu_read_lock_nesting'' c_int,
     Fld ''rcu_read_unlock_special'' amd64_rcu_special,
     Fld ''rcu_node_entry'' amd64_list_head,
     Fld ''rcu_blocked_node'' (CPtr ''struct rcu_node''),
     Fld ''rcu_tasks_nvcsw'' c_ulong,
     Fld ''rcu_tasks_holdout'' amd64_u8]"

definition amd64_task_struct_3 :: "member list" where
  "amd64_task_struct_3 = [
     Fld ''rcu_tasks_idx'' amd64_u8,
     Fld ''rcu_tasks_idle_cpu'' c_int,
     Fld ''rcu_tasks_holdout_list'' amd64_list_head,
     Fld ''rcu_tasks_exit_cpu'' c_int,
     Fld ''rcu_tasks_exit_list'' amd64_list_head,
     Fld ''trc_reader_nesting'' c_int,
     Fld ''trc_ipi_to_cpu'' c_int,
     Fld ''trc_reader_special'' amd64_rcu_special,
     Fld ''trc_holdout_list'' amd64_list_head,
     Fld ''trc_blkd_node'' amd64_list_head,
     Fld ''trc_blkd_cpu'' c_int,
     Fld ''sched_info'' amd64_sched_info,
     Fld ''tasks'' amd64_list_head,
     Fld ''pushable_tasks'' amd64_plist_node,
     Fld ''pushable_dl_tasks'' amd64_rb_node,
     Fld ''mm'' (CPtr ''struct mm_struct''),
     Fld ''active_mm'' (CPtr ''struct mm_struct''),
     Fld ''faults_disabled_mapping'' (CPtr ''struct address_space''),
     Fld ''exit_state'' c_int,
     Fld ''exit_code'' c_int,
     Fld ''exit_signal'' c_int,
     Fld ''pdeath_signal'' c_int,
     Fld ''jobctl'' c_ulong,
     Fld ''personality'' c_uint]"

definition amd64_task_struct_4 :: "member list" where
  "amd64_task_struct_4 = [
     Bit ''sched_reset_on_fork'' c_uint 1,
     Bit ''sched_contributes_to_load'' c_uint 1,
     Bit ''sched_migrated'' c_uint 1,
     Bit ''sched_task_hot'' c_uint 1,
     Bit '''' c_long 28,
     Bit ''sched_remote_wakeup'' c_uint 1,
     Bit ''sched_rt_mutex'' c_uint 1,
     Bit ''user_dumpable'' c_uint 1,
     Bit ''in_execve'' c_uint 1,
     Bit ''in_iowait'' c_uint 1,
     Bit ''restore_sigmask'' c_uint 1,
     Bit ''in_user_fault'' c_uint 1,
     Bit ''in_lru_fault'' c_uint 1,
     Bit ''no_cgroup_migration'' c_uint 1,
     Bit ''frozen'' c_uint 1,
     Bit ''use_memdelay'' c_uint 1,
     Bit ''in_memstall'' c_uint 1,
     Bit ''in_eventfd'' c_uint 1,
     Bit ''pasid_activated'' c_uint 1,
     Bit ''reported_split_lock'' c_uint 1,
     Bit ''in_thrashing'' c_uint 1,
     Fld ''atomic_flags'' c_ulong,
     Fld ''restart_block'' amd64_restart_block,
     Fld ''pid'' amd64_pid_t]"

definition amd64_task_struct_5 :: "member list" where
  "amd64_task_struct_5 = [
     Fld ''tgid'' amd64_pid_t,
     Fld ''stack_canary'' c_ulong,
     Fld ''real_parent'' (CPtr ''struct task_struct''),
     Fld ''parent'' (CPtr ''struct task_struct''),
     Fld ''children'' amd64_list_head,
     Fld ''sibling'' amd64_list_head,
     Fld ''group_leader'' (CPtr ''struct task_struct''),
     Fld ''ptraced'' amd64_list_head,
     Fld ''ptrace_entry'' amd64_list_head,
     Fld ''thread_pid'' (CPtr ''struct pid''),
     Fld ''pid_links'' (CArr amd64_hlist_node 4),
     Fld ''thread_node'' amd64_list_head,
     Fld ''vfork_done'' (CPtr ''struct completion''),
     Fld ''set_child_tid'' (CPtr ''int''),
     Fld ''clear_child_tid'' (CPtr ''int''),
     Fld ''worker_private'' (CPtr ''void''),
     Fld ''utime'' amd64_u64,
     Fld ''stime'' amd64_u64,
     Fld ''gtime'' amd64_u64,
     Fld ''prev_cputime'' amd64_prev_cputime,
     Fld ''vtime'' amd64_vtime,
     Fld ''tick_dep_mask'' amd64_atomic_t,
     Fld ''nvcsw'' c_ulong,
     Fld ''nivcsw'' c_ulong]"

definition amd64_task_struct_6 :: "member list" where
  "amd64_task_struct_6 = [
     Fld ''start_time'' amd64_u64,
     Fld ''start_boottime'' amd64_u64,
     Fld ''min_flt'' c_ulong,
     Fld ''maj_flt'' c_ulong,
     Fld ''posix_cputimers'' amd64_posix_cputimers,
     Fld ''posix_cputimers_work'' amd64_posix_cputimers_work,
     Fld ''ptracer_cred'' (CPtr ''struct cred''),
     Fld ''real_cred'' (CPtr ''struct cred''),
     Fld ''cred'' (CPtr ''struct cred''),
     Fld ''cached_requested_key'' (CPtr ''struct key''),
     Fld ''comm'' (CArr c_char 16),
     Fld ''nameidata'' (CPtr ''struct nameidata''),
     Fld ''sysvsem'' amd64_sysv_sem,
     Fld ''sysvshm'' amd64_sysv_shm,
     Fld ''last_switch_count'' c_ulong,
     Fld ''last_switch_time'' c_ulong,
     Fld ''fs'' (CPtr ''struct fs_struct''),
     Fld ''files'' (CPtr ''struct files_struct''),
     Fld ''io_uring'' (CPtr ''struct io_uring_task''),
     Fld ''nsproxy'' (CPtr ''struct nsproxy''),
     Fld ''signal'' (CPtr ''struct signal_struct''),
     Fld ''sighand'' (CPtr ''struct sighand_struct''),
     Fld ''blocked'' amd64_sigset_t,
     Fld ''real_blocked'' amd64_sigset_t]"

definition amd64_task_struct_7 :: "member list" where
  "amd64_task_struct_7 = [
     Fld ''saved_sigmask'' amd64_sigset_t,
     Fld ''pending'' amd64_sigpending,
     Fld ''sas_ss_sp'' c_ulong,
     Fld ''sas_ss_size'' amd64_size_t,
     Fld ''sas_ss_flags'' c_uint,
     Fld ''task_works'' (CPtr ''struct callback_head''),
     Fld ''audit_context'' (CPtr ''struct audit_context''),
     Fld ''loginuid'' amd64_kuid_t,
     Fld ''sessionid'' c_uint,
     Fld ''seccomp'' amd64_seccomp,
     Fld ''syscall_dispatch'' amd64_syscall_user_dispatch,
     Fld ''parent_exec_id'' amd64_u64,
     Fld ''self_exec_id'' amd64_u64,
     Fld ''alloc_lock'' amd64_spinlock_t,
     Fld ''pi_lock'' amd64_raw_spinlock_t,
     Fld ''wake_q'' amd64_wake_q_node,
     Fld ''pi_waiters'' amd64_rb_root_cached,
     Fld ''pi_top_task'' (CPtr ''struct task_struct''),
     Fld ''pi_blocked_on'' (CPtr ''struct rt_mutex_waiter''),
     Fld ''in_ubsan'' c_uint,
     Fld ''journal_info'' (CPtr ''void''),
     Fld ''bio_list'' (CPtr ''struct bio_list''),
     Fld ''plug'' (CPtr ''struct blk_plug''),
     Fld ''reclaim_state'' (CPtr ''struct reclaim_state'')]"

definition amd64_task_struct_8 :: "member list" where
  "amd64_task_struct_8 = [
     Fld ''io_context'' (CPtr ''struct io_context''),
     Fld ''capture_control'' (CPtr ''struct capture_control''),
     Fld ''ptrace_message'' c_ulong,
     Fld ''last_siginfo'' (CPtr ''kernel_siginfo_t''),
     Fld ''ioac'' amd64_task_io_accounting,
     Fld ''psi_flags'' c_uint,
     Fld ''acct_rss_mem1'' amd64_u64,
     Fld ''acct_vm_mem1'' amd64_u64,
     Fld ''acct_timexpd'' amd64_u64,
     Fld ''mems_allowed'' amd64_nodemask_t,
     Fld ''mems_allowed_seq'' amd64_seqcount_spinlock_t,
     Fld ''cpuset_mem_spread_rotor'' c_int,
     Fld ''cpuset_slab_spread_rotor'' c_int,
     Fld ''cgroups'' (CPtr ''struct css_set''),
     Fld ''cg_list'' amd64_list_head,
     Fld ''closid'' amd64_u32,
     Fld ''rmid'' amd64_u32,
     Fld ''robust_list'' (CPtr ''struct robust_list_head''),
     Fld ''compat_robust_list'' (CPtr ''struct compat_robust_list_head''),
     Fld ''pi_state_list'' amd64_list_head,
     Fld ''pi_state_cache'' (CPtr ''struct futex_pi_state''),
     Fld ''futex_exit_mutex'' amd64_mutex,
     Fld ''futex_state'' c_uint,
     Fld ''perf_event_ctxp'' (CPtr ''struct perf_event_context'')]"

definition amd64_task_struct_9 :: "member list" where
  "amd64_task_struct_9 = [
     Fld ''perf_event_mutex'' amd64_mutex,
     Fld ''perf_event_list'' amd64_list_head,
     Fld ''mempolicy'' (CPtr ''struct mempolicy''),
     Fld ''il_prev'' c_short,
     Fld ''pref_node_fork'' c_short,
     Fld ''numa_scan_seq'' c_int,
     Fld ''numa_scan_period'' c_uint,
     Fld ''numa_scan_period_max'' c_uint,
     Fld ''numa_preferred_nid'' c_int,
     Fld ''numa_migrate_retry'' c_ulong,
     Fld ''node_stamp'' amd64_u64,
     Fld ''last_task_numa_placement'' amd64_u64,
     Fld ''last_sum_exec_runtime'' amd64_u64,
     Fld ''numa_work'' amd64_callback_head,
     Fld ''numa_group'' (CPtr ''struct numa_group''),
     Fld ''numa_faults'' (CPtr ''long unsigned int''),
     Fld ''total_numa_faults'' c_ulong,
     Fld ''numa_faults_locality'' (CArr c_ulong 3),
     Fld ''numa_pages_migrated'' c_ulong,
     Fld ''rseq'' (CPtr ''struct rseq''),
     Fld ''rseq_len'' amd64_u32,
     Fld ''rseq_sig'' amd64_u32,
     Fld ''rseq_event_mask'' c_ulong,
     Fld ''mm_cid'' c_int]"

definition amd64_task_struct_10 :: "member list" where
  "amd64_task_struct_10 = [
     Fld ''last_mm_cid'' c_int,
     Fld ''migrate_from_cpu'' c_int,
     Fld ''mm_cid_active'' c_int,
     Fld ''cid_work'' amd64_callback_head,
     Fld ''tlb_ubc'' amd64_tlbflush_unmap_batch,
     Fld ''splice_pipe'' (CPtr ''struct pipe_inode_info''),
     Fld ''task_frag'' amd64_page_frag,
     Fld ''delays'' (CPtr ''struct task_delay_info''),
     Fld ''nr_dirtied'' c_int,
     Fld ''nr_dirtied_pause'' c_int,
     Fld ''dirty_paused_when'' c_ulong,
     Fld ''latency_record_count'' c_int,
     Fld ''latency_record'' (CArr amd64_latency_record 32),
     Fld ''timer_slack_ns'' amd64_u64,
     Fld ''default_timer_slack_ns'' amd64_u64,
     Fld ''curr_ret_stack'' c_int,
     Fld ''curr_ret_depth'' c_int,
     Fld ''ret_stack'' (CPtr ''struct ftrace_ret_stack''),
     Fld ''ftrace_timestamp'' c_ullong,
     Fld ''trace_overrun'' amd64_atomic_t,
     Fld ''tracing_graph_pause'' amd64_atomic_t,
     Fld ''trace_recursion'' c_ulong,
     Fld ''memcg_in_oom'' (CPtr ''struct mem_cgroup''),
     Fld ''memcg_oom_gfp_mask'' amd64_gfp_t]"

definition amd64_task_struct_11 :: "member list" where
  "amd64_task_struct_11 = [
     Fld ''memcg_oom_order'' c_int,
     Fld ''memcg_nr_pages_over_high'' c_uint,
     Fld ''active_memcg'' (CPtr ''struct mem_cgroup''),
     Fld ''objcg'' (CPtr ''struct obj_cgroup''),
     Fld ''throttle_disk'' (CPtr ''struct gendisk''),
     Fld ''utask'' (CPtr ''struct uprobe_task''),
     Fld ''sequential_io'' c_uint,
     Fld ''sequential_io_avg'' c_uint,
     Fld ''kmap_ctrl'' amd64_kmap_ctrl,
     Fld ''rcu'' amd64_callback_head,
     Fld ''rcu_users'' amd64_refcount_t,
     Fld ''pagefault_disabled'' c_int,
     Fld ''oom_reaper_list'' (CPtr ''struct task_struct''),
     Fld ''oom_reaper_timer'' amd64_timer_list,
     Fld ''stack_vm_area'' (CPtr ''struct vm_struct''),
     Fld ''stack_refcount'' amd64_refcount_t,
     Fld ''patch_state'' c_int,
     Fld ''security'' (CPtr ''void''),
     Fld ''bpf_storage'' (CPtr ''struct bpf_local_storage''),
     Fld ''bpf_ctx'' (CPtr ''struct bpf_run_ctx''),
     Fld ''kstack_offset'' amd64_u32,
     Fld ''mce_vaddr'' (CPtr ''void''),
     Fld ''mce_kflags'' amd64___u64,
     Fld ''mce_addr'' amd64_u64]"

definition amd64_task_struct_12 :: "member list" where
  "amd64_task_struct_12 = [
     Bit ''mce_ripv'' amd64___u64 1,
     Bit ''mce_whole_page'' amd64___u64 1,
     Bit ''__mce_reserved'' amd64___u64 62,
     Fld ''mce_kill_me'' amd64_callback_head,
     Fld ''mce_count'' c_int,
     Fld ''kretprobe_instances'' amd64_llist_head,
     Fld ''rethooks'' amd64_llist_head,
     Fld ''l1d_flush_kill'' amd64_callback_head,
     Fld ''rv'' (CArr amd64_rv_task_monitor 1),
     Fld ''user_event_mm'' (CPtr ''struct user_event_mm''),
     Bit '''' c_long 64,
     Bit '''' c_long 64,
     Bit '''' c_long 64,
     Bit '''' c_long 64,
     Bit '''' c_long 64,
     Bit '''' c_long 64,
     Bit '''' c_long 64,
     Fld ''thread'' amd64_thread_struct]"

definition amd64_task_struct :: ctype where
  "amd64_task_struct = CStruct (amd64_task_struct_1 @ amd64_task_struct_2 @ amd64_task_struct_3 @ amd64_task_struct_4 @ amd64_task_struct_5 @ amd64_task_struct_6 @ amd64_task_struct_7 @ amd64_task_struct_8 @ amd64_task_struct_9 @ amd64_task_struct_10 @ amd64_task_struct_11 @ amd64_task_struct_12)"

definition amd64_lockdep_map_p :: ctype where
  "amd64_lockdep_map_p = CStruct []"

definition amd64_maple_tree :: ctype where
  "amd64_maple_tree = CStruct [
     Fld '''' (CUnion [
       Fld ''ma_lock'' amd64_spinlock_t,
       Fld ''ma_external_lock'' amd64_lockdep_map_p]),
     Fld ''ma_flags'' c_uint,
     Fld ''ma_root'' (CPtr ''void'')]"

definition amd64_rw_semaphore :: ctype where
  "amd64_rw_semaphore = CStruct [
     Fld ''count'' amd64_atomic_long_t,
     Fld ''owner'' amd64_atomic_long_t,
     Fld ''osq'' amd64_optimistic_spin_queue,
     Fld ''wait_lock'' amd64_raw_spinlock_t,
     Fld ''wait_list'' amd64_list_head]"

definition amd64_percpu_counter :: ctype where
  "amd64_percpu_counter = CStruct [
     Fld ''lock'' amd64_raw_spinlock_t,
     Fld ''count'' amd64_s64,
     Fld ''list'' amd64_list_head,
     Fld ''counters'' (CPtr ''s32'')]"

definition amd64___s16 :: ctype where
  "amd64___s16 = c_short"

definition amd64_s16 :: ctype where
  "amd64_s16 = amd64___s16"

definition amd64_mm_context_t :: ctype where
  "amd64_mm_context_t = CStruct [
     Fld ''ctx_id'' amd64_u64,
     Fld ''tlb_gen'' amd64_atomic64_t,
     Fld ''next_trim_cpumask'' c_ulong,
     Fld ''ldt_usr_sem'' amd64_rw_semaphore,
     Fld ''ldt'' (CPtr ''struct ldt_struct''),
     Fld ''flags'' c_ulong,
     Fld ''lock'' amd64_mutex,
     Fld ''vdso'' (CPtr ''void''),
     Fld ''vdso_image'' (CPtr ''struct vdso_image''),
     Fld ''perf_rdpmc_allowed'' amd64_atomic_t,
     Fld ''pkey_allocation_map'' amd64_u16,
     Fld ''execute_only_pkey'' amd64_s16]"

definition amd64_uprobes_state :: ctype where
  "amd64_uprobes_state = CStruct [
     Fld ''xol_area'' (CPtr ''struct xol_area'')]"

definition amd64_work_func_t :: ctype where
  "amd64_work_func_t = CPtr ''(*)()''"

definition amd64_work_struct :: ctype where
  "amd64_work_struct = CStruct [
     Fld ''data'' amd64_atomic_long_t,
     Fld ''entry'' amd64_list_head,
     Fld ''func'' amd64_work_func_t]"

definition amd64_mm_struct :: ctype where
  "amd64_mm_struct = CStruct [
     Fld '''' (CStruct [
       Fld '''' (CStruct [
         Fld ''mm_count'' amd64_atomic_t,
         Bit '''' c_long 64,
         Bit '''' c_long 64,
         Bit '''' c_long 64,
         Bit '''' c_long 64,
         Bit '''' c_long 64,
         Bit '''' c_long 64,
         Bit '''' c_long 64]),
       Fld ''mm_mt'' amd64_maple_tree,
       Fld ''get_unmapped_area'' (CPtr ''(*)()''),
       Fld ''mmap_base'' c_ulong,
       Fld ''mmap_legacy_base'' c_ulong,
       Fld ''mmap_compat_base'' c_ulong,
       Fld ''mmap_compat_legacy_base'' c_ulong,
       Fld ''task_size'' c_ulong,
       Fld ''pgd'' (CPtr ''pgd_t''),
       Fld ''membarrier_state'' amd64_atomic_t,
       Fld ''mm_users'' amd64_atomic_t,
       Fld ''pcpu_cid'' (CPtr ''struct mm_cid''),
       Fld ''mm_cid_next_scan'' c_ulong,
       Fld ''pgtables_bytes'' amd64_atomic_long_t,
       Fld ''map_count'' c_int,
       Fld ''page_table_lock'' amd64_spinlock_t,
       Fld ''mmap_lock'' amd64_rw_semaphore,
       Fld ''mmlist'' amd64_list_head,
       Fld ''mm_lock_seq'' c_int,
       Fld ''hiwater_rss'' c_ulong,
       Fld ''hiwater_vm'' c_ulong,
       Fld ''total_vm'' c_ulong,
       Fld ''locked_vm'' c_ulong,
       Fld ''pinned_vm'' amd64_atomic64_t,
       Fld ''data_vm'' c_ulong,
       Fld ''exec_vm'' c_ulong,
       Fld ''stack_vm'' c_ulong,
       Fld ''def_flags'' c_ulong,
       Fld ''write_protect_seq'' amd64_seqcount_t,
       Fld ''arg_lock'' amd64_spinlock_t,
       Fld ''start_code'' c_ulong,
       Fld ''end_code'' c_ulong,
       Fld ''start_data'' c_ulong,
       Fld ''end_data'' c_ulong,
       Fld ''start_brk'' c_ulong,
       Fld ''brk'' c_ulong,
       Fld ''start_stack'' c_ulong,
       Fld ''arg_start'' c_ulong,
       Fld ''arg_end'' c_ulong,
       Fld ''env_start'' c_ulong,
       Fld ''env_end'' c_ulong,
       Fld ''saved_auxv'' (CArr c_ulong 52),
       Fld ''rss_stat'' (CArr amd64_percpu_counter 4),
       Fld ''binfmt'' (CPtr ''struct linux_binfmt''),
       Fld ''context'' amd64_mm_context_t,
       Fld ''flags'' c_ulong,
       Fld ''ioctx_lock'' amd64_spinlock_t,
       Fld ''ioctx_table'' (CPtr ''struct kioctx_table''),
       Fld ''owner'' (CPtr ''struct task_struct''),
       Fld ''user_ns'' (CPtr ''struct user_namespace''),
       Fld ''exe_file'' (CPtr ''struct file''),
       Fld ''notifier_subscriptions'' (CPtr ''struct mmu_notifier_subscriptions''),
       Fld ''numa_next_scan'' c_ulong,
       Fld ''numa_scan_offset'' c_ulong,
       Fld ''numa_scan_seq'' c_int,
       Fld ''tlb_flush_pending'' amd64_atomic_t,
       Fld ''tlb_flush_batched'' amd64_atomic_t,
       Fld ''uprobes_state'' amd64_uprobes_state,
       Fld ''hugetlb_usage'' amd64_atomic_long_t,
       Fld ''async_put_work'' amd64_work_struct,
       Fld ''iommu_mm'' (CPtr ''struct iommu_mm_data''),
       Fld ''ksm_merging_pages'' c_ulong,
       Fld ''ksm_rmap_items'' c_ulong,
       Fld ''ksm_zero_pages'' amd64_atomic_long_t,
       Fld ''lru_gen'' (CStruct [
         Fld ''list'' amd64_list_head,
         Fld ''bitmap'' c_ulong,
         Fld ''memcg'' (CPtr ''struct mem_cgroup'')]),
       Bit '''' c_long 64,
       Bit '''' c_long 64]),
     Fld ''cpu_bitmap'' (CArr c_ulong 0)]"

definition amd64_wait_queue_head :: ctype where
  "amd64_wait_queue_head = CStruct [
     Fld ''lock'' amd64_spinlock_t,
     Fld ''head'' amd64_list_head]"

definition amd64_wait_queue_head_t :: ctype where
  "amd64_wait_queue_head_t = amd64_wait_queue_head"

definition amd64_cpu_itimer :: ctype where
  "amd64_cpu_itimer = CStruct [
     Fld ''expires'' amd64_u64,
     Fld ''incr'' amd64_u64]"

definition amd64_task_cputime_atomic :: ctype where
  "amd64_task_cputime_atomic = CStruct [
     Fld ''utime'' amd64_atomic64_t,
     Fld ''stime'' amd64_atomic64_t,
     Fld ''sum_exec_runtime'' amd64_atomic64_t]"

definition amd64_thread_group_cputimer :: ctype where
  "amd64_thread_group_cputimer = CStruct [
     Fld ''cputime_atomic'' amd64_task_cputime_atomic]"

definition amd64_seqlock_t :: ctype where
  "amd64_seqlock_t = CStruct [
     Fld ''seqcount'' amd64_seqcount_spinlock_t,
     Fld ''lock'' amd64_spinlock_t]"

definition amd64_rlimit :: ctype where
  "amd64_rlimit = CStruct [
     Fld ''rlim_cur'' amd64___kernel_ulong_t,
     Fld ''rlim_max'' amd64___kernel_ulong_t]"

definition amd64_pacct_struct :: ctype where
  "amd64_pacct_struct = CStruct [
     Fld ''ac_flag'' c_int,
     Fld ''ac_exitcode'' c_long,
     Fld ''ac_mem'' c_ulong,
     Fld ''ac_utime'' amd64_u64,
     Fld ''ac_stime'' amd64_u64,
     Fld ''ac_minflt'' c_ulong,
     Fld ''ac_majflt'' c_ulong]"

definition amd64_signal_struct :: ctype where
  "amd64_signal_struct = CStruct [
     Fld ''sigcnt'' amd64_refcount_t,
     Fld ''live'' amd64_atomic_t,
     Fld ''nr_threads'' c_int,
     Fld ''quick_threads'' c_int,
     Fld ''thread_head'' amd64_list_head,
     Fld ''wait_chldexit'' amd64_wait_queue_head_t,
     Fld ''curr_target'' (CPtr ''struct task_struct''),
     Fld ''shared_pending'' amd64_sigpending,
     Fld ''multiprocess'' amd64_hlist_head,
     Fld ''group_exit_code'' c_int,
     Fld ''notify_count'' c_int,
     Fld ''group_exec_task'' (CPtr ''struct task_struct''),
     Fld ''group_stop_count'' c_int,
     Fld ''flags'' c_uint,
     Fld ''core_state'' (CPtr ''struct core_state''),
     Bit ''is_child_subreaper'' c_uint 1,
     Bit ''has_child_subreaper'' c_uint 1,
     Fld ''next_posix_timer_id'' c_uint,
     Fld ''posix_timers'' amd64_list_head,
     Fld ''real_timer'' amd64_hrtimer,
     Fld ''it_real_incr'' amd64_ktime_t,
     Fld ''it'' (CArr amd64_cpu_itimer 2),
     Fld ''cputimer'' amd64_thread_group_cputimer,
     Fld ''posix_cputimers'' amd64_posix_cputimers,
     Fld ''pids'' (CArr (CPtr ''struct pid'') 4),
     Fld ''tick_dep_mask'' amd64_atomic_t,
     Fld ''tty_old_pgrp'' (CPtr ''struct pid''),
     Fld ''leader'' c_int,
     Fld ''tty'' (CPtr ''struct tty_struct''),
     Fld ''autogroup'' (CPtr ''struct autogroup''),
     Fld ''stats_lock'' amd64_seqlock_t,
     Fld ''utime'' amd64_u64,
     Fld ''stime'' amd64_u64,
     Fld ''cutime'' amd64_u64,
     Fld ''cstime'' amd64_u64,
     Fld ''gtime'' amd64_u64,
     Fld ''cgtime'' amd64_u64,
     Fld ''prev_cputime'' amd64_prev_cputime,
     Fld ''nvcsw'' c_ulong,
     Fld ''nivcsw'' c_ulong,
     Fld ''cnvcsw'' c_ulong,
     Fld ''cnivcsw'' c_ulong,
     Fld ''min_flt'' c_ulong,
     Fld ''maj_flt'' c_ulong,
     Fld ''cmin_flt'' c_ulong,
     Fld ''cmaj_flt'' c_ulong,
     Fld ''inblock'' c_ulong,
     Fld ''oublock'' c_ulong,
     Fld ''cinblock'' c_ulong,
     Fld ''coublock'' c_ulong,
     Fld ''maxrss'' c_ulong,
     Fld ''cmaxrss'' c_ulong,
     Fld ''ioac'' amd64_task_io_accounting,
     Fld ''sum_sched_runtime'' c_ullong,
     Fld ''rlim'' (CArr amd64_rlimit 16),
     Fld ''pacct'' amd64_pacct_struct,
     Fld ''stats'' (CPtr ''struct taskstats''),
     Fld ''audit_tty'' c_uint,
     Fld ''tty_audit_buf'' (CPtr ''struct tty_audit_buf''),
     Fld ''oom_flag_origin'' c_bool,
     Fld ''oom_score_adj'' c_short,
     Fld ''oom_score_adj_min'' c_short,
     Fld ''oom_mm'' (CPtr ''struct mm_struct''),
     Fld ''cred_guard_mutex'' amd64_mutex,
     Fld ''exec_update_lock'' amd64_rw_semaphore]"

definition amd64___kernel_gid32_t :: ctype where
  "amd64___kernel_gid32_t = c_uint"

definition amd64_gid_t :: ctype where
  "amd64_gid_t = amd64___kernel_gid32_t"

definition amd64_kgid_t :: ctype where
  "amd64_kgid_t = CStruct [
     Fld ''val'' amd64_gid_t]"

definition amd64_kernel_cap_t :: ctype where
  "amd64_kernel_cap_t = CStruct [
     Fld ''val'' amd64_u64]"

definition amd64_cred :: ctype where
  "amd64_cred = CStruct [
     Fld ''usage'' amd64_atomic_long_t,
     Fld ''uid'' amd64_kuid_t,
     Fld ''gid'' amd64_kgid_t,
     Fld ''suid'' amd64_kuid_t,
     Fld ''sgid'' amd64_kgid_t,
     Fld ''euid'' amd64_kuid_t,
     Fld ''egid'' amd64_kgid_t,
     Fld ''fsuid'' amd64_kuid_t,
     Fld ''fsgid'' amd64_kgid_t,
     Fld ''securebits'' c_uint,
     Fld ''cap_inheritable'' amd64_kernel_cap_t,
     Fld ''cap_permitted'' amd64_kernel_cap_t,
     Fld ''cap_effective'' amd64_kernel_cap_t,
     Fld ''cap_bset'' amd64_kernel_cap_t,
     Fld ''cap_ambient'' amd64_kernel_cap_t,
     Fld ''jit_keyring'' c_uchar,
     Fld ''session_keyring'' (CPtr ''struct key''),
     Fld ''process_keyring'' (CPtr ''struct key''),
     Fld ''thread_keyring'' (CPtr ''struct key''),
     Fld ''request_key_auth'' (CPtr ''struct key''),
     Fld ''security'' (CPtr ''void''),
     Fld ''user'' (CPtr ''struct user_struct''),
     Fld ''user_ns'' (CPtr ''struct user_namespace''),
     Fld ''ucounts'' (CPtr ''struct ucounts''),
     Fld ''group_info'' (CPtr ''struct group_info''),
     Fld '''' (CUnion [
       Fld ''non_rcu'' c_int,
       Fld ''rcu'' amd64_callback_head])]"

definition amd64_css_set :: ctype where
  "amd64_css_set = CStruct [
     Fld ''subsys'' (CArr (CPtr ''struct cgroup_subsys_state'') 14),
     Fld ''refcount'' amd64_refcount_t,
     Fld ''dom_cset'' (CPtr ''struct css_set''),
     Fld ''dfl_cgrp'' (CPtr ''struct cgroup''),
     Fld ''nr_tasks'' c_int,
     Fld ''tasks'' amd64_list_head,
     Fld ''mg_tasks'' amd64_list_head,
     Fld ''dying_tasks'' amd64_list_head,
     Fld ''task_iters'' amd64_list_head,
     Fld ''e_cset_node'' (CArr amd64_list_head 14),
     Fld ''threaded_csets'' amd64_list_head,
     Fld ''threaded_csets_node'' amd64_list_head,
     Fld ''hlist'' amd64_hlist_node,
     Fld ''cgrp_links'' amd64_list_head,
     Fld ''mg_src_preload_node'' amd64_list_head,
     Fld ''mg_dst_preload_node'' amd64_list_head,
     Fld ''mg_node'' amd64_list_head,
     Fld ''mg_src_cgrp'' (CPtr ''struct cgroup''),
     Fld ''mg_dst_cgrp'' (CPtr ''struct cgroup''),
     Fld ''mg_dst_cset'' (CPtr ''struct css_set''),
     Fld ''dead'' c_bool,
     Fld ''callback_head'' amd64_callback_head]"

definition amd64_percpu_ref :: ctype where
  "amd64_percpu_ref = CStruct [
     Fld ''percpu_count_ptr'' c_ulong,
     Fld ''data'' (CPtr ''struct percpu_ref_data'')]"

definition amd64_rcu_work :: ctype where
  "amd64_rcu_work = CStruct [
     Fld ''work'' amd64_work_struct,
     Fld ''rcu'' amd64_callback_head,
     Fld ''wq'' (CPtr ''struct workqueue_struct'')]"

definition amd64_cgroup_subsys_state :: ctype where
  "amd64_cgroup_subsys_state = CStruct [
     Fld ''cgroup'' (CPtr ''struct cgroup''),
     Fld ''ss'' (CPtr ''struct cgroup_subsys''),
     Fld ''refcnt'' amd64_percpu_ref,
     Fld ''sibling'' amd64_list_head,
     Fld ''children'' amd64_list_head,
     Fld ''rstat_css_node'' amd64_list_head,
     Fld ''id'' c_int,
     Fld ''flags'' c_uint,
     Fld ''serial_nr'' amd64_u64,
     Fld ''online_cnt'' amd64_atomic_t,
     Fld ''destroy_work'' amd64_work_struct,
     Fld ''destroy_rwork'' amd64_rcu_work,
     Fld ''parent'' (CPtr ''struct cgroup_subsys_state'')]"

definition amd64_cgroup_file :: ctype where
  "amd64_cgroup_file = CStruct [
     Fld ''kn'' (CPtr ''struct kernfs_node''),
     Fld ''notified_at'' c_ulong,
     Fld ''notify_timer'' amd64_timer_list]"

definition amd64_cacheline_padding :: ctype where
  "amd64_cacheline_padding = CStruct [
     Fld ''x'' (CArr c_char 0)]"

definition amd64_task_cputime :: ctype where
  "amd64_task_cputime = CStruct [
     Fld ''stime'' amd64_u64,
     Fld ''utime'' amd64_u64,
     Fld ''sum_exec_runtime'' c_ullong]"

definition amd64_cgroup_base_stat :: ctype where
  "amd64_cgroup_base_stat = CStruct [
     Fld ''cputime'' amd64_task_cputime,
     Fld ''forceidle_sum'' amd64_u64]"

definition amd64_cgroup_bpf :: ctype where
  "amd64_cgroup_bpf = CStruct [
     Fld ''effective'' (CArr (CPtr ''struct bpf_prog_array'') 38),
     Fld ''progs'' (CArr amd64_hlist_head 38),
     Fld ''flags'' (CArr amd64_u8 38),
     Fld ''storages'' amd64_list_head,
     Fld ''inactive'' (CPtr ''struct bpf_prog_array''),
     Fld ''refcnt'' amd64_percpu_ref,
     Fld ''release_work'' amd64_work_struct]"

definition amd64_cgroup_freezer_state :: ctype where
  "amd64_cgroup_freezer_state = CStruct [
     Fld ''freeze'' c_bool,
     Fld ''e_freeze'' c_int,
     Fld ''nr_frozen_descendants'' c_int,
     Fld ''nr_frozen_tasks'' c_int]"

definition amd64_cgroup :: ctype where
  "amd64_cgroup = CStruct [
     Fld ''self'' amd64_cgroup_subsys_state,
     Fld ''flags'' c_ulong,
     Fld ''level'' c_int,
     Fld ''max_depth'' c_int,
     Fld ''nr_descendants'' c_int,
     Fld ''nr_dying_descendants'' c_int,
     Fld ''max_descendants'' c_int,
     Fld ''nr_populated_csets'' c_int,
     Fld ''nr_populated_domain_children'' c_int,
     Fld ''nr_populated_threaded_children'' c_int,
     Fld ''nr_threaded_children'' c_int,
     Fld ''kill_seq'' c_uint,
     Fld ''kn'' (CPtr ''struct kernfs_node''),
     Fld ''procs_file'' amd64_cgroup_file,
     Fld ''events_file'' amd64_cgroup_file,
     Fld ''psi_files'' (CArr amd64_cgroup_file 3),
     Fld ''subtree_control'' amd64_u16,
     Fld ''subtree_ss_mask'' amd64_u16,
     Fld ''old_subtree_control'' amd64_u16,
     Fld ''old_subtree_ss_mask'' amd64_u16,
     Fld ''subsys'' (CArr (CPtr ''struct cgroup_subsys_state'') 14),
     Fld ''root'' (CPtr ''struct cgroup_root''),
     Fld ''cset_links'' amd64_list_head,
     Fld ''e_csets'' (CArr amd64_list_head 14),
     Fld ''dom_cgrp'' (CPtr ''struct cgroup''),
     Fld ''old_dom_cgrp'' (CPtr ''struct cgroup''),
     Fld ''rstat_cpu'' (CPtr ''struct cgroup_rstat_cpu''),
     Fld ''rstat_css_list'' amd64_list_head,
     Bit '''' c_long 64,
     Bit '''' c_long 64,
     Fld ''_pad_'' amd64_cacheline_padding,
     Fld ''rstat_flush_next'' (CPtr ''struct cgroup''),
     Fld ''last_bstat'' amd64_cgroup_base_stat,
     Fld ''bstat'' amd64_cgroup_base_stat,
     Fld ''prev_cputime'' amd64_prev_cputime,
     Fld ''pidlists'' amd64_list_head,
     Fld ''pidlist_mutex'' amd64_mutex,
     Fld ''offline_waitq'' amd64_wait_queue_head_t,
     Fld ''release_agent_work'' amd64_work_struct,
     Fld ''psi'' (CPtr ''struct psi_group''),
     Fld ''bpf'' amd64_cgroup_bpf,
     Fld ''congestion_count'' amd64_atomic_t,
     Fld ''freezer'' amd64_cgroup_freezer_state,
     Fld ''bpf_cgrp_storage'' (CPtr ''struct bpf_local_storage''),
     Fld ''ancestors'' (CArr (CPtr ''struct cgroup'') 0)]"

definition amd64_kernfs_elem_dir :: ctype where
  "amd64_kernfs_elem_dir = CStruct [
     Fld ''subdirs'' c_ulong,
     Fld ''children'' amd64_rb_root,
     Fld ''root'' (CPtr ''struct kernfs_root''),
     Fld ''rev'' c_ulong]"

definition amd64_kernfs_elem_symlink :: ctype where
  "amd64_kernfs_elem_symlink = CStruct [
     Fld ''target_kn'' (CPtr ''struct kernfs_node'')]"

definition amd64___kernel_loff_t :: ctype where
  "amd64___kernel_loff_t = c_llong"

definition amd64_loff_t :: ctype where
  "amd64_loff_t = amd64___kernel_loff_t"

definition amd64_kernfs_elem_attr :: ctype where
  "amd64_kernfs_elem_attr = CStruct [
     Fld ''ops'' (CPtr ''struct kernfs_ops''),
     Fld ''open'' (CPtr ''struct kernfs_open_node''),
     Fld ''size'' amd64_loff_t,
     Fld ''notify_next'' (CPtr ''struct kernfs_node'')]"

definition amd64_umode_t :: ctype where
  "amd64_umode_t = c_ushort"

definition amd64_kernfs_node :: ctype where
  "amd64_kernfs_node = CStruct [
     Fld ''count'' amd64_atomic_t,
     Fld ''active'' amd64_atomic_t,
     Fld ''parent'' (CPtr ''struct kernfs_node''),
     Fld ''name'' (CPtr ''char''),
     Fld ''rb'' amd64_rb_node,
     Fld ''ns'' (CPtr ''void''),
     Fld ''hash'' c_uint,
     Fld '''' (CUnion [
       Fld ''dir'' amd64_kernfs_elem_dir,
       Fld ''symlink'' amd64_kernfs_elem_symlink,
       Fld ''attr'' amd64_kernfs_elem_attr]),
     Fld ''priv'' (CPtr ''void''),
     Fld ''id'' amd64_u64,
     Fld ''flags'' c_ushort,
     Fld ''mode'' amd64_umode_t,
     Fld ''iattr'' (CPtr ''struct kernfs_iattrs''),
     Fld ''rcu'' amd64_callback_head]"

definition amd64_trace_entry :: ctype where
  "amd64_trace_entry = CStruct [
     Fld ''type'' c_ushort,
     Fld ''flags'' c_uchar,
     Fld ''preempt_count'' c_uchar,
     Fld ''pid'' c_int]"

definition amd64_trace_event_raw_sched_process_exec :: ctype where
  "amd64_trace_event_raw_sched_process_exec = CStruct [
     Fld ''ent'' amd64_trace_entry,
     Fld ''__data_loc_filename'' amd64_u32,
     Fld ''pid'' amd64_pid_t,
     Fld ''old_pid'' amd64_pid_t,
     Fld ''__data'' (CArr c_char 0)]"

definition amd64_trace_event_raw_sched_process_fork :: ctype where
  "amd64_trace_event_raw_sched_process_fork = CStruct [
     Fld ''ent'' amd64_trace_entry,
     Fld ''parent_comm'' (CArr c_char 16),
     Fld ''parent_pid'' amd64_pid_t,
     Fld ''child_comm'' (CArr c_char 16),
     Fld ''child_pid'' amd64_pid_t,
     Fld ''__data'' (CArr c_char 0)]"

definition amd64_trace_event_raw_sched_process_template :: ctype where
  "amd64_trace_event_raw_sched_process_template = CStruct [
     Fld ''ent'' amd64_trace_entry,
     Fld ''comm'' (CArr c_char 16),
     Fld ''pid'' amd64_pid_t,
     Fld ''prio'' c_int,
     Fld ''__data'' (CArr c_char 0)]"

section \<open>BPF enumerations\<close>

definition amd64_bpf_map_type :: "(string \<times> nat) list" where
  "amd64_bpf_map_type = [
     (''BPF_MAP_TYPE_UNSPEC'', 0),
     (''BPF_MAP_TYPE_HASH'', 1),
     (''BPF_MAP_TYPE_ARRAY'', 2),
     (''BPF_MAP_TYPE_PROG_ARRAY'', 3),
     (''BPF_MAP_TYPE_PERF_EVENT_ARRAY'', 4),
     (''BPF_MAP_TYPE_PERCPU_HASH'', 5),
     (''BPF_MAP_TYPE_PERCPU_ARRAY'', 6),
     (''BPF_MAP_TYPE_STACK_TRACE'', 7),
     (''BPF_MAP_TYPE_CGROUP_ARRAY'', 8),
     (''BPF_MAP_TYPE_LRU_HASH'', 9),
     (''BPF_MAP_TYPE_LRU_PERCPU_HASH'', 10),
     (''BPF_MAP_TYPE_LPM_TRIE'', 11),
     (''BPF_MAP_TYPE_ARRAY_OF_MAPS'', 12),
     (''BPF_MAP_TYPE_HASH_OF_MAPS'', 13),
     (''BPF_MAP_TYPE_DEVMAP'', 14),
     (''BPF_MAP_TYPE_SOCKMAP'', 15),
     (''BPF_MAP_TYPE_CPUMAP'', 16),
     (''BPF_MAP_TYPE_XSKMAP'', 17),
     (''BPF_MAP_TYPE_SOCKHASH'', 18),
     (''BPF_MAP_TYPE_CGROUP_STORAGE_DEPRECATED'', 19),
     (''BPF_MAP_TYPE_CGROUP_STORAGE'', 19),
     (''BPF_MAP_TYPE_REUSEPORT_SOCKARRAY'', 20),
     (''BPF_MAP_TYPE_PERCPU_CGROUP_STORAGE_DEPRECATED'', 21),
     (''BPF_MAP_TYPE_PERCPU_CGROUP_STORAGE'', 21),
     (''BPF_MAP_TYPE_QUEUE'', 22),
     (''BPF_MAP_TYPE_STACK'', 23),
     (''BPF_MAP_TYPE_SK_STORAGE'', 24),
     (''BPF_MAP_TYPE_DEVMAP_HASH'', 25),
     (''BPF_MAP_TYPE_STRUCT_OPS'', 26),
     (''BPF_MAP_TYPE_RINGBUF'', 27),
     (''BPF_MAP_TYPE_INODE_STORAGE'', 28),
     (''BPF_MAP_TYPE_TASK_STORAGE'', 29),
     (''BPF_MAP_TYPE_BLOOM_FILTER'', 30),
     (''BPF_MAP_TYPE_USER_RINGBUF'', 31),
     (''BPF_MAP_TYPE_CGRP_STORAGE'', 32)]"

definition amd64_bpf_prog_type :: "(string \<times> nat) list" where
  "amd64_bpf_prog_type = [
     (''BPF_PROG_TYPE_UNSPEC'', 0),
     (''BPF_PROG_TYPE_SOCKET_FILTER'', 1),
     (''BPF_PROG_TYPE_KPROBE'', 2),
     (''BPF_PROG_TYPE_SCHED_CLS'', 3),
     (''BPF_PROG_TYPE_SCHED_ACT'', 4),
     (''BPF_PROG_TYPE_TRACEPOINT'', 5),
     (''BPF_PROG_TYPE_XDP'', 6),
     (''BPF_PROG_TYPE_PERF_EVENT'', 7),
     (''BPF_PROG_TYPE_CGROUP_SKB'', 8),
     (''BPF_PROG_TYPE_CGROUP_SOCK'', 9),
     (''BPF_PROG_TYPE_LWT_IN'', 10),
     (''BPF_PROG_TYPE_LWT_OUT'', 11),
     (''BPF_PROG_TYPE_LWT_XMIT'', 12),
     (''BPF_PROG_TYPE_SOCK_OPS'', 13),
     (''BPF_PROG_TYPE_SK_SKB'', 14),
     (''BPF_PROG_TYPE_CGROUP_DEVICE'', 15),
     (''BPF_PROG_TYPE_SK_MSG'', 16),
     (''BPF_PROG_TYPE_RAW_TRACEPOINT'', 17),
     (''BPF_PROG_TYPE_CGROUP_SOCK_ADDR'', 18),
     (''BPF_PROG_TYPE_LWT_SEG6LOCAL'', 19),
     (''BPF_PROG_TYPE_LIRC_MODE2'', 20),
     (''BPF_PROG_TYPE_SK_REUSEPORT'', 21),
     (''BPF_PROG_TYPE_FLOW_DISSECTOR'', 22),
     (''BPF_PROG_TYPE_CGROUP_SYSCTL'', 23),
     (''BPF_PROG_TYPE_RAW_TRACEPOINT_WRITABLE'', 24),
     (''BPF_PROG_TYPE_CGROUP_SOCKOPT'', 25),
     (''BPF_PROG_TYPE_TRACING'', 26),
     (''BPF_PROG_TYPE_STRUCT_OPS'', 27),
     (''BPF_PROG_TYPE_EXT'', 28),
     (''BPF_PROG_TYPE_LSM'', 29),
     (''BPF_PROG_TYPE_SK_LOOKUP'', 30),
     (''BPF_PROG_TYPE_SYSCALL'', 31),
     (''BPF_PROG_TYPE_NETFILTER'', 32),
     (''__MAX_BPF_PROG_TYPE'', 33)]"

definition amd64_bpf_attach_type :: "(string \<times> nat) list" where
  "amd64_bpf_attach_type = [
     (''BPF_CGROUP_INET_INGRESS'', 0),
     (''BPF_CGROUP_INET_EGRESS'', 1),
     (''BPF_CGROUP_INET_SOCK_CREATE'', 2),
     (''BPF_CGROUP_SOCK_OPS'', 3),
     (''BPF_SK_SKB_STREAM_PARSER'', 4),
     (''BPF_SK_SKB_STREAM_VERDICT'', 5),
     (''BPF_CGROUP_DEVICE'', 6),
     (''BPF_SK_MSG_VERDICT'', 7),
     (''BPF_CGROUP_INET4_BIND'', 8),
     (''BPF_CGROUP_INET6_BIND'', 9),
     (''BPF_CGROUP_INET4_CONNECT'', 10),
     (''BPF_CGROUP_INET6_CONNECT'', 11),
     (''BPF_CGROUP_INET4_POST_BIND'', 12),
     (''BPF_CGROUP_INET6_POST_BIND'', 13),
     (''BPF_CGROUP_UDP4_SENDMSG'', 14),
     (''BPF_CGROUP_UDP6_SENDMSG'', 15),
     (''BPF_LIRC_MODE2'', 16),
     (''BPF_FLOW_DISSECTOR'', 17),
     (''BPF_CGROUP_SYSCTL'', 18),
     (''BPF_CGROUP_UDP4_RECVMSG'', 19),
     (''BPF_CGROUP_UDP6_RECVMSG'', 20),
     (''BPF_CGROUP_GETSOCKOPT'', 21),
     (''BPF_CGROUP_SETSOCKOPT'', 22),
     (''BPF_TRACE_RAW_TP'', 23),
     (''BPF_TRACE_FENTRY'', 24),
     (''BPF_TRACE_FEXIT'', 25),
     (''BPF_MODIFY_RETURN'', 26),
     (''BPF_LSM_MAC'', 27),
     (''BPF_TRACE_ITER'', 28),
     (''BPF_CGROUP_INET4_GETPEERNAME'', 29),
     (''BPF_CGROUP_INET6_GETPEERNAME'', 30),
     (''BPF_CGROUP_INET4_GETSOCKNAME'', 31),
     (''BPF_CGROUP_INET6_GETSOCKNAME'', 32),
     (''BPF_XDP_DEVMAP'', 33),
     (''BPF_CGROUP_INET_SOCK_RELEASE'', 34),
     (''BPF_XDP_CPUMAP'', 35),
     (''BPF_SK_LOOKUP'', 36),
     (''BPF_XDP'', 37),
     (''BPF_SK_SKB_VERDICT'', 38),
     (''BPF_SK_REUSEPORT_SELECT'', 39),
     (''BPF_SK_REUSEPORT_SELECT_OR_MIGRATE'', 40),
     (''BPF_PERF_EVENT'', 41),
     (''BPF_TRACE_KPROBE_MULTI'', 42),
     (''BPF_LSM_CGROUP'', 43),
     (''BPF_STRUCT_OPS'', 44),
     (''BPF_NETFILTER'', 45),
     (''BPF_TCX_INGRESS'', 46),
     (''BPF_TCX_EGRESS'', 47),
     (''BPF_TRACE_UPROBE_MULTI'', 48),
     (''BPF_CGROUP_UNIX_CONNECT'', 49),
     (''BPF_CGROUP_UNIX_SENDMSG'', 50),
     (''BPF_CGROUP_UNIX_RECVMSG'', 51),
     (''BPF_CGROUP_UNIX_GETPEERNAME'', 52),
     (''BPF_CGROUP_UNIX_GETSOCKNAME'', 53),
     (''BPF_NETKIT_PRIMARY'', 54),
     (''BPF_NETKIT_PEER'', 55),
     (''__MAX_BPF_ATTACH_TYPE'', 56)]"

definition amd64_bpf_func_id_1 :: "(string \<times> nat) list" where
  "amd64_bpf_func_id_1 = [
     (''BPF_FUNC_unspec'', 0),
     (''BPF_FUNC_map_lookup_elem'', 1),
     (''BPF_FUNC_map_update_elem'', 2),
     (''BPF_FUNC_map_delete_elem'', 3),
     (''BPF_FUNC_probe_read'', 4),
     (''BPF_FUNC_ktime_get_ns'', 5),
     (''BPF_FUNC_trace_printk'', 6),
     (''BPF_FUNC_get_prandom_u32'', 7),
     (''BPF_FUNC_get_smp_processor_id'', 8),
     (''BPF_FUNC_skb_store_bytes'', 9),
     (''BPF_FUNC_l3_csum_replace'', 10),
     (''BPF_FUNC_l4_csum_replace'', 11),
     (''BPF_FUNC_tail_call'', 12),
     (''BPF_FUNC_clone_redirect'', 13),
     (''BPF_FUNC_get_current_pid_tgid'', 14),
     (''BPF_FUNC_get_current_uid_gid'', 15),
     (''BPF_FUNC_get_current_comm'', 16),
     (''BPF_FUNC_get_cgroup_classid'', 17),
     (''BPF_FUNC_skb_vlan_push'', 18),
     (''BPF_FUNC_skb_vlan_pop'', 19),
     (''BPF_FUNC_skb_get_tunnel_key'', 20),
     (''BPF_FUNC_skb_set_tunnel_key'', 21),
     (''BPF_FUNC_perf_event_read'', 22),
     (''BPF_FUNC_redirect'', 23),
     (''BPF_FUNC_get_route_realm'', 24),
     (''BPF_FUNC_perf_event_output'', 25),
     (''BPF_FUNC_skb_load_bytes'', 26),
     (''BPF_FUNC_get_stackid'', 27),
     (''BPF_FUNC_csum_diff'', 28),
     (''BPF_FUNC_skb_get_tunnel_opt'', 29),
     (''BPF_FUNC_skb_set_tunnel_opt'', 30),
     (''BPF_FUNC_skb_change_proto'', 31),
     (''BPF_FUNC_skb_change_type'', 32),
     (''BPF_FUNC_skb_under_cgroup'', 33),
     (''BPF_FUNC_get_hash_recalc'', 34),
     (''BPF_FUNC_get_current_task'', 35),
     (''BPF_FUNC_probe_write_user'', 36),
     (''BPF_FUNC_current_task_under_cgroup'', 37),
     (''BPF_FUNC_skb_change_tail'', 38),
     (''BPF_FUNC_skb_pull_data'', 39),
     (''BPF_FUNC_csum_update'', 40),
     (''BPF_FUNC_set_hash_invalid'', 41),
     (''BPF_FUNC_get_numa_node_id'', 42),
     (''BPF_FUNC_skb_change_head'', 43),
     (''BPF_FUNC_xdp_adjust_head'', 44),
     (''BPF_FUNC_probe_read_str'', 45),
     (''BPF_FUNC_get_socket_cookie'', 46),
     (''BPF_FUNC_get_socket_uid'', 47),
     (''BPF_FUNC_set_hash'', 48),
     (''BPF_FUNC_setsockopt'', 49),
     (''BPF_FUNC_skb_adjust_room'', 50),
     (''BPF_FUNC_redirect_map'', 51),
     (''BPF_FUNC_sk_redirect_map'', 52),
     (''BPF_FUNC_sock_map_update'', 53),
     (''BPF_FUNC_xdp_adjust_meta'', 54),
     (''BPF_FUNC_perf_event_read_value'', 55),
     (''BPF_FUNC_perf_prog_read_value'', 56),
     (''BPF_FUNC_getsockopt'', 57),
     (''BPF_FUNC_override_return'', 58),
     (''BPF_FUNC_sock_ops_cb_flags_set'', 59),
     (''BPF_FUNC_msg_redirect_map'', 60),
     (''BPF_FUNC_msg_apply_bytes'', 61),
     (''BPF_FUNC_msg_cork_bytes'', 62),
     (''BPF_FUNC_msg_pull_data'', 63),
     (''BPF_FUNC_bind'', 64),
     (''BPF_FUNC_xdp_adjust_tail'', 65),
     (''BPF_FUNC_skb_get_xfrm_state'', 66),
     (''BPF_FUNC_get_stack'', 67),
     (''BPF_FUNC_skb_load_bytes_relative'', 68),
     (''BPF_FUNC_fib_lookup'', 69),
     (''BPF_FUNC_sock_hash_update'', 70),
     (''BPF_FUNC_msg_redirect_hash'', 71),
     (''BPF_FUNC_sk_redirect_hash'', 72),
     (''BPF_FUNC_lwt_push_encap'', 73),
     (''BPF_FUNC_lwt_seg6_store_bytes'', 74),
     (''BPF_FUNC_lwt_seg6_adjust_srh'', 75),
     (''BPF_FUNC_lwt_seg6_action'', 76),
     (''BPF_FUNC_rc_repeat'', 77),
     (''BPF_FUNC_rc_keydown'', 78),
     (''BPF_FUNC_skb_cgroup_id'', 79),
     (''BPF_FUNC_get_current_cgroup_id'', 80),
     (''BPF_FUNC_get_local_storage'', 81),
     (''BPF_FUNC_sk_select_reuseport'', 82),
     (''BPF_FUNC_skb_ancestor_cgroup_id'', 83),
     (''BPF_FUNC_sk_lookup_tcp'', 84),
     (''BPF_FUNC_sk_lookup_udp'', 85),
     (''BPF_FUNC_sk_release'', 86),
     (''BPF_FUNC_map_push_elem'', 87),
     (''BPF_FUNC_map_pop_elem'', 88),
     (''BPF_FUNC_map_peek_elem'', 89),
     (''BPF_FUNC_msg_push_data'', 90),
     (''BPF_FUNC_msg_pop_data'', 91),
     (''BPF_FUNC_rc_pointer_rel'', 92),
     (''BPF_FUNC_spin_lock'', 93),
     (''BPF_FUNC_spin_unlock'', 94),
     (''BPF_FUNC_sk_fullsock'', 95),
     (''BPF_FUNC_tcp_sock'', 96),
     (''BPF_FUNC_skb_ecn_set_ce'', 97),
     (''BPF_FUNC_get_listener_sock'', 98),
     (''BPF_FUNC_skc_lookup_tcp'', 99),
     (''BPF_FUNC_tcp_check_syncookie'', 100),
     (''BPF_FUNC_sysctl_get_name'', 101),
     (''BPF_FUNC_sysctl_get_current_value'', 102),
     (''BPF_FUNC_sysctl_get_new_value'', 103),
     (''BPF_FUNC_sysctl_set_new_value'', 104),
     (''BPF_FUNC_strtol'', 105),
     (''BPF_FUNC_strtoul'', 106),
     (''BPF_FUNC_sk_storage_get'', 107),
     (''BPF_FUNC_sk_storage_delete'', 108),
     (''BPF_FUNC_send_signal'', 109),
     (''BPF_FUNC_tcp_gen_syncookie'', 110),
     (''BPF_FUNC_skb_output'', 111),
     (''BPF_FUNC_probe_read_user'', 112),
     (''BPF_FUNC_probe_read_kernel'', 113),
     (''BPF_FUNC_probe_read_user_str'', 114),
     (''BPF_FUNC_probe_read_kernel_str'', 115),
     (''BPF_FUNC_tcp_send_ack'', 116),
     (''BPF_FUNC_send_signal_thread'', 117),
     (''BPF_FUNC_jiffies64'', 118),
     (''BPF_FUNC_read_branch_records'', 119),
     (''BPF_FUNC_get_ns_current_pid_tgid'', 120),
     (''BPF_FUNC_xdp_output'', 121),
     (''BPF_FUNC_get_netns_cookie'', 122),
     (''BPF_FUNC_get_current_ancestor_cgroup_id'', 123),
     (''BPF_FUNC_sk_assign'', 124),
     (''BPF_FUNC_ktime_get_boot_ns'', 125),
     (''BPF_FUNC_seq_printf'', 126),
     (''BPF_FUNC_seq_write'', 127),
     (''BPF_FUNC_sk_cgroup_id'', 128),
     (''BPF_FUNC_sk_ancestor_cgroup_id'', 129),
     (''BPF_FUNC_ringbuf_output'', 130),
     (''BPF_FUNC_ringbuf_reserve'', 131),
     (''BPF_FUNC_ringbuf_submit'', 132),
     (''BPF_FUNC_ringbuf_discard'', 133),
     (''BPF_FUNC_ringbuf_query'', 134),
     (''BPF_FUNC_csum_level'', 135),
     (''BPF_FUNC_skc_to_tcp6_sock'', 136),
     (''BPF_FUNC_skc_to_tcp_sock'', 137),
     (''BPF_FUNC_skc_to_tcp_timewait_sock'', 138),
     (''BPF_FUNC_skc_to_tcp_request_sock'', 139)]"

definition amd64_bpf_func_id_2 :: "(string \<times> nat) list" where
  "amd64_bpf_func_id_2 = [
     (''BPF_FUNC_skc_to_udp6_sock'', 140),
     (''BPF_FUNC_get_task_stack'', 141),
     (''BPF_FUNC_load_hdr_opt'', 142),
     (''BPF_FUNC_store_hdr_opt'', 143),
     (''BPF_FUNC_reserve_hdr_opt'', 144),
     (''BPF_FUNC_inode_storage_get'', 145),
     (''BPF_FUNC_inode_storage_delete'', 146),
     (''BPF_FUNC_d_path'', 147),
     (''BPF_FUNC_copy_from_user'', 148),
     (''BPF_FUNC_snprintf_btf'', 149),
     (''BPF_FUNC_seq_printf_btf'', 150),
     (''BPF_FUNC_skb_cgroup_classid'', 151),
     (''BPF_FUNC_redirect_neigh'', 152),
     (''BPF_FUNC_per_cpu_ptr'', 153),
     (''BPF_FUNC_this_cpu_ptr'', 154),
     (''BPF_FUNC_redirect_peer'', 155),
     (''BPF_FUNC_task_storage_get'', 156),
     (''BPF_FUNC_task_storage_delete'', 157),
     (''BPF_FUNC_get_current_task_btf'', 158),
     (''BPF_FUNC_bprm_opts_set'', 159),
     (''BPF_FUNC_ktime_get_coarse_ns'', 160),
     (''BPF_FUNC_ima_inode_hash'', 161),
     (''BPF_FUNC_sock_from_file'', 162),
     (''BPF_FUNC_check_mtu'', 163),
     (''BPF_FUNC_for_each_map_elem'', 164),
     (''BPF_FUNC_snprintf'', 165),
     (''BPF_FUNC_sys_bpf'', 166),
     (''BPF_FUNC_btf_find_by_name_kind'', 167),
     (''BPF_FUNC_sys_close'', 168),
     (''BPF_FUNC_timer_init'', 169),
     (''BPF_FUNC_timer_set_callback'', 170),
     (''BPF_FUNC_timer_start'', 171),
     (''BPF_FUNC_timer_cancel'', 172),
     (''BPF_FUNC_get_func_ip'', 173),
     (''BPF_FUNC_get_attach_cookie'', 174),
     (''BPF_FUNC_task_pt_regs'', 175),
     (''BPF_FUNC_get_branch_snapshot'', 176),
     (''BPF_FUNC_trace_vprintk'', 177),
     (''BPF_FUNC_skc_to_unix_sock'', 178),
     (''BPF_FUNC_kallsyms_lookup_name'', 179),
     (''BPF_FUNC_find_vma'', 180),
     (''BPF_FUNC_loop'', 181),
     (''BPF_FUNC_strncmp'', 182),
     (''BPF_FUNC_get_func_arg'', 183),
     (''BPF_FUNC_get_func_ret'', 184),
     (''BPF_FUNC_get_func_arg_cnt'', 185),
     (''BPF_FUNC_get_retval'', 186),
     (''BPF_FUNC_set_retval'', 187),
     (''BPF_FUNC_xdp_get_buff_len'', 188),
     (''BPF_FUNC_xdp_load_bytes'', 189),
     (''BPF_FUNC_xdp_store_bytes'', 190),
     (''BPF_FUNC_copy_from_user_task'', 191),
     (''BPF_FUNC_skb_set_tstamp'', 192),
     (''BPF_FUNC_ima_file_hash'', 193),
     (''BPF_FUNC_kptr_xchg'', 194),
     (''BPF_FUNC_map_lookup_percpu_elem'', 195),
     (''BPF_FUNC_skc_to_mptcp_sock'', 196),
     (''BPF_FUNC_dynptr_from_mem'', 197),
     (''BPF_FUNC_ringbuf_reserve_dynptr'', 198),
     (''BPF_FUNC_ringbuf_submit_dynptr'', 199),
     (''BPF_FUNC_ringbuf_discard_dynptr'', 200),
     (''BPF_FUNC_dynptr_read'', 201),
     (''BPF_FUNC_dynptr_write'', 202),
     (''BPF_FUNC_dynptr_data'', 203),
     (''BPF_FUNC_tcp_raw_gen_syncookie_ipv4'', 204),
     (''BPF_FUNC_tcp_raw_gen_syncookie_ipv6'', 205),
     (''BPF_FUNC_tcp_raw_check_syncookie_ipv4'', 206),
     (''BPF_FUNC_tcp_raw_check_syncookie_ipv6'', 207),
     (''BPF_FUNC_ktime_get_tai_ns'', 208),
     (''BPF_FUNC_user_ringbuf_drain'', 209),
     (''BPF_FUNC_cgrp_storage_get'', 210),
     (''BPF_FUNC_cgrp_storage_delete'', 211),
     (''__BPF_FUNC_MAX_ID'', 212)]"

definition amd64_bpf_func_id :: "(string \<times> nat) list" where
  "amd64_bpf_func_id = amd64_bpf_func_id_1 @ amd64_bpf_func_id_2"

section \<open>Sizes and alignments\<close>

lemma amd64___u32_layout [layout_simps]:
  "sizeof amd64___u32 = 4 \<and> alignof amd64___u32 = 4 \<and> wf_ctype amd64___u32"
  by (simp add: amd64___u32_def layout_simps layout_eval)

lemma amd64_u32_layout [layout_simps]:
  "sizeof amd64_u32 = 4 \<and> alignof amd64_u32 = 4 \<and> wf_ctype amd64_u32"
  by (simp add: amd64_u32_def layout_simps layout_eval)

lemma amd64_thread_info_layout [layout_simps]:
  "sizeof amd64_thread_info = 24 \<and> alignof amd64_thread_info = 8 \<and> wf_ctype amd64_thread_info"
  by (simp add: amd64_thread_info_def layout_simps layout_eval)

lemma amd64_atomic_t_layout [layout_simps]:
  "sizeof amd64_atomic_t = 4 \<and> alignof amd64_atomic_t = 4 \<and> wf_ctype amd64_atomic_t"
  by (simp add: amd64_atomic_t_def layout_simps layout_eval)

lemma amd64_refcount_struct_layout [layout_simps]:
  "sizeof amd64_refcount_struct = 4 \<and> alignof amd64_refcount_struct = 4 \<and> wf_ctype amd64_refcount_struct"
  by (simp add: amd64_refcount_struct_def layout_simps layout_eval)

lemma amd64_refcount_t_layout [layout_simps]:
  "sizeof amd64_refcount_t = 4 \<and> alignof amd64_refcount_t = 4 \<and> wf_ctype amd64_refcount_t"
  by (simp add: amd64_refcount_t_def layout_simps layout_eval)

lemma amd64_llist_node_layout [layout_simps]:
  "sizeof amd64_llist_node = 8 \<and> alignof amd64_llist_node = 8 \<and> wf_ctype amd64_llist_node"
  by (simp add: amd64_llist_node_def layout_simps layout_eval)

lemma amd64___u16_layout [layout_simps]:
  "sizeof amd64___u16 = 2 \<and> alignof amd64___u16 = 2 \<and> wf_ctype amd64___u16"
  by (simp add: amd64___u16_def layout_simps layout_eval)

lemma amd64_u16_layout [layout_simps]:
  "sizeof amd64_u16 = 2 \<and> alignof amd64_u16 = 2 \<and> wf_ctype amd64_u16"
  by (simp add: amd64_u16_def layout_simps layout_eval)

lemma amd64___call_single_node_layout [layout_simps]:
  "sizeof amd64___call_single_node = 16 \<and> alignof amd64___call_single_node = 8 \<and> wf_ctype amd64___call_single_node"
  by (simp add: amd64___call_single_node_def layout_simps layout_eval)

lemma amd64_load_weight_layout [layout_simps]:
  "sizeof amd64_load_weight = 16 \<and> alignof amd64_load_weight = 8 \<and> wf_ctype amd64_load_weight"
  by (simp add: amd64_load_weight_def layout_simps layout_eval)

lemma amd64_rb_node_layout [layout_simps]:
  "sizeof amd64_rb_node = 24 \<and> alignof amd64_rb_node = 8 \<and> wf_ctype amd64_rb_node"
  by (simp add: amd64_rb_node_def layout_simps layout_eval)

lemma amd64___u64_layout [layout_simps]:
  "sizeof amd64___u64 = 8 \<and> alignof amd64___u64 = 8 \<and> wf_ctype amd64___u64"
  by (simp add: amd64___u64_def layout_simps layout_eval)

lemma amd64_u64_layout [layout_simps]:
  "sizeof amd64_u64 = 8 \<and> alignof amd64_u64 = 8 \<and> wf_ctype amd64_u64"
  by (simp add: amd64_u64_def layout_simps layout_eval)

lemma amd64_list_head_layout [layout_simps]:
  "sizeof amd64_list_head = 16 \<and> alignof amd64_list_head = 8 \<and> wf_ctype amd64_list_head"
  by (simp add: amd64_list_head_def layout_simps layout_eval)

lemma amd64___s64_layout [layout_simps]:
  "sizeof amd64___s64 = 8 \<and> alignof amd64___s64 = 8 \<and> wf_ctype amd64___s64"
  by (simp add: amd64___s64_def layout_simps layout_eval)

lemma amd64_s64_layout [layout_simps]:
  "sizeof amd64_s64 = 8 \<and> alignof amd64_s64 = 8 \<and> wf_ctype amd64_s64"
  by (simp add: amd64_s64_def layout_simps layout_eval)

lemma amd64_sched_avg_layout [layout_simps]:
  "sizeof amd64_sched_avg = 64 \<and> alignof amd64_sched_avg = 8 \<and> wf_ctype amd64_sched_avg"
  by (simp add: amd64_sched_avg_def layout_simps layout_eval)

lemma amd64_sched_entity_layout [layout_simps]:
  "sizeof amd64_sched_entity = 256 \<and> alignof amd64_sched_entity = 8 \<and> wf_ctype amd64_sched_entity"
  by (simp add: amd64_sched_entity_def layout_simps layout_eval)

lemma amd64_sched_rt_entity_layout [layout_simps]:
  "sizeof amd64_sched_rt_entity = 48 \<and> alignof amd64_sched_rt_entity = 8 \<and> wf_ctype amd64_sched_rt_entity"
  by (simp add: amd64_sched_rt_entity_def layout_simps layout_eval)

lemma amd64_ktime_t_layout [layout_simps]:
  "sizeof amd64_ktime_t = 8 \<and> alignof amd64_ktime_t = 8 \<and> wf_ctype amd64_ktime_t"
  by (simp add: amd64_ktime_t_def layout_simps layout_eval)

lemma amd64_timerqueue_node_layout [layout_simps]:
  "sizeof amd64_timerqueue_node = 32 \<and> alignof amd64_timerqueue_node = 8 \<and> wf_ctype amd64_timerqueue_node"
  by (simp add: amd64_timerqueue_node_def layout_simps layout_eval)

lemma amd64___u8_layout [layout_simps]:
  "sizeof amd64___u8 = 1 \<and> alignof amd64___u8 = 1 \<and> wf_ctype amd64___u8"
  by (simp add: amd64___u8_def layout_simps layout_eval)

lemma amd64_u8_layout [layout_simps]:
  "sizeof amd64_u8 = 1 \<and> alignof amd64_u8 = 1 \<and> wf_ctype amd64_u8"
  by (simp add: amd64_u8_def layout_simps layout_eval)

lemma amd64_hrtimer_layout [layout_simps]:
  "sizeof amd64_hrtimer = 64 \<and> alignof amd64_hrtimer = 8 \<and> wf_ctype amd64_hrtimer"
  by (simp add: amd64_hrtimer_def layout_simps layout_eval)

lemma amd64_dl_server_has_tasks_f_layout [layout_simps]:
  "sizeof amd64_dl_server_has_tasks_f = 8 \<and> alignof amd64_dl_server_has_tasks_f = 8 \<and> wf_ctype amd64_dl_server_has_tasks_f"
  by (simp add: amd64_dl_server_has_tasks_f_def layout_simps layout_eval)

lemma amd64_dl_server_pick_f_layout [layout_simps]:
  "sizeof amd64_dl_server_pick_f = 8 \<and> alignof amd64_dl_server_pick_f = 8 \<and> wf_ctype amd64_dl_server_pick_f"
  by (simp add: amd64_dl_server_pick_f_def layout_simps layout_eval)

lemma amd64_sched_dl_entity_layout [layout_simps]:
  "sizeof amd64_sched_dl_entity = 248 \<and> alignof amd64_sched_dl_entity = 8 \<and> wf_ctype amd64_sched_dl_entity"
  by (simp add: amd64_sched_dl_entity_def layout_simps layout_eval)

lemma amd64_uclamp_se_layout [layout_simps]:
  "sizeof amd64_uclamp_se = 4 \<and> alignof amd64_uclamp_se = 4 \<and> wf_ctype amd64_uclamp_se"
  by (simp add: amd64_uclamp_se_def layout_simps layout_eval)

lemma amd64_sched_statistics_layout [layout_simps]:
  "sizeof amd64_sched_statistics = 256 \<and> alignof amd64_sched_statistics = 8 \<and> wf_ctype amd64_sched_statistics"
  by (simp add: amd64_sched_statistics_def layout_simps layout_eval)

lemma amd64_hlist_head_layout [layout_simps]:
  "sizeof amd64_hlist_head = 8 \<and> alignof amd64_hlist_head = 8 \<and> wf_ctype amd64_hlist_head"
  by (simp add: amd64_hlist_head_def layout_simps layout_eval)

lemma amd64_cpumask_layout [layout_simps]:
  "sizeof amd64_cpumask = 1024 \<and> alignof amd64_cpumask = 8 \<and> wf_ctype amd64_cpumask"
  by (simp add: amd64_cpumask_def layout_simps layout_eval)

lemma amd64_cpumask_t_layout [layout_simps]:
  "sizeof amd64_cpumask_t = 1024 \<and> alignof amd64_cpumask_t = 8 \<and> wf_ctype amd64_cpumask_t"
  by (simp add: amd64_cpumask_t_def layout_simps layout_eval)

lemma amd64_rcu_special_layout [layout_simps]:
  "sizeof amd64_rcu_special = 4 \<and> alignof amd64_rcu_special = 4 \<and> wf_ctype amd64_rcu_special"
  by (simp add: amd64_rcu_special_def layout_simps layout_eval)

lemma amd64_sched_info_layout [layout_simps]:
  "sizeof amd64_sched_info = 32 \<and> alignof amd64_sched_info = 8 \<and> wf_ctype amd64_sched_info"
  by (simp add: amd64_sched_info_def layout_simps layout_eval)

lemma amd64_plist_node_layout [layout_simps]:
  "sizeof amd64_plist_node = 40 \<and> alignof amd64_plist_node = 8 \<and> wf_ctype amd64_plist_node"
  by (simp add: amd64_plist_node_def layout_simps layout_eval)

lemma amd64___kernel_clockid_t_layout [layout_simps]:
  "sizeof amd64___kernel_clockid_t = 4 \<and> alignof amd64___kernel_clockid_t = 4 \<and> wf_ctype amd64___kernel_clockid_t"
  by (simp add: amd64___kernel_clockid_t_def layout_simps layout_eval)

lemma amd64_clockid_t_layout [layout_simps]:
  "sizeof amd64_clockid_t = 4 \<and> alignof amd64_clockid_t = 4 \<and> wf_ctype amd64_clockid_t"
  by (simp add: amd64_clockid_t_def layout_simps layout_eval)

lemma amd64_timespec_type_layout [layout_simps]:
  "sizeof amd64_timespec_type = 4 \<and> alignof amd64_timespec_type = 4 \<and> wf_ctype amd64_timespec_type"
  by (simp add: amd64_timespec_type_def layout_simps layout_eval)

lemma amd64_restart_block_layout [layout_simps]:
  "sizeof amd64_restart_block = 56 \<and> alignof amd64_restart_block = 8 \<and> wf_ctype amd64_restart_block"
  by (simp add: amd64_restart_block_def layout_simps layout_eval)

lemma amd64___kernel_pid_t_layout [layout_simps]:
  "sizeof amd64___kernel_pid_t = 4 \<and> alignof amd64___kernel_pid_t = 4 \<and> wf_ctype amd64___kernel_pid_t"
  by (simp add: amd64___kernel_pid_t_def layout_simps layout_eval)

lemma amd64_pid_t_layout [layout_simps]:
  "sizeof amd64_pid_t = 4 \<and> alignof amd64_pid_t = 4 \<and> wf_ctype amd64_pid_t"
  by (simp add: amd64_pid_t_def layout_simps layout_eval)

lemma amd64_hlist_node_layout [layout_simps]:
  "sizeof amd64_hlist_node = 16 \<and> alignof amd64_hlist_node = 8 \<and> wf_ctype amd64_hlist_node"
  by (simp add: amd64_hlist_node_def layout_simps layout_eval)

lemma amd64_qspinlock_layout [layout_simps]:
  "sizeof amd64_qspinlock = 4 \<and> alignof amd64_qspinlock = 4 \<and> wf_ctype amd64_qspinlock"
  by (simp add: amd64_qspinlock_def layout_simps layout_eval)

lemma amd64_arch_spinlock_t_layout [layout_simps]:
  "sizeof amd64_arch_spinlock_t = 4 \<and> alignof amd64_arch_spinlock_t = 4 \<and> wf_ctype amd64_arch_spinlock_t"
  by (simp add: amd64_arch_spinlock_t_def layout_simps layout_eval)

lemma amd64_raw_spinlock_layout [layout_simps]:
  "sizeof amd64_raw_spinlock = 4 \<and> alignof amd64_raw_spinlock = 4 \<and> wf_ctype amd64_raw_spinlock"
  by (simp add: amd64_raw_spinlock_def layout_simps layout_eval)

lemma amd64_raw_spinlock_t_layout [layout_simps]:
  "sizeof amd64_raw_spinlock_t = 4 \<and> alignof amd64_raw_spinlock_t = 4 \<and> wf_ctype amd64_raw_spinlock_t"
  by (simp add: amd64_raw_spinlock_t_def layout_simps layout_eval)

lemma amd64_prev_cputime_layout [layout_simps]:
  "sizeof amd64_prev_cputime = 24 \<and> alignof amd64_prev_cputime = 8 \<and> wf_ctype amd64_prev_cputime"
  by (simp add: amd64_prev_cputime_def layout_simps layout_eval)

lemma amd64_seqcount_layout [layout_simps]:
  "sizeof amd64_seqcount = 4 \<and> alignof amd64_seqcount = 4 \<and> wf_ctype amd64_seqcount"
  by (simp add: amd64_seqcount_def layout_simps layout_eval)

lemma amd64_seqcount_t_layout [layout_simps]:
  "sizeof amd64_seqcount_t = 4 \<and> alignof amd64_seqcount_t = 4 \<and> wf_ctype amd64_seqcount_t"
  by (simp add: amd64_seqcount_t_def layout_simps layout_eval)

lemma amd64_vtime_state_layout [layout_simps]:
  "sizeof amd64_vtime_state = 4 \<and> alignof amd64_vtime_state = 4 \<and> wf_ctype amd64_vtime_state"
  by (simp add: amd64_vtime_state_def layout_simps layout_eval)

lemma amd64_vtime_layout [layout_simps]:
  "sizeof amd64_vtime = 48 \<and> alignof amd64_vtime = 8 \<and> wf_ctype amd64_vtime"
  by (simp add: amd64_vtime_def layout_simps layout_eval)

lemma amd64_rb_root_layout [layout_simps]:
  "sizeof amd64_rb_root = 8 \<and> alignof amd64_rb_root = 8 \<and> wf_ctype amd64_rb_root"
  by (simp add: amd64_rb_root_def layout_simps layout_eval)

lemma amd64_rb_root_cached_layout [layout_simps]:
  "sizeof amd64_rb_root_cached = 16 \<and> alignof amd64_rb_root_cached = 8 \<and> wf_ctype amd64_rb_root_cached"
  by (simp add: amd64_rb_root_cached_def layout_simps layout_eval)

lemma amd64_timerqueue_head_layout [layout_simps]:
  "sizeof amd64_timerqueue_head = 16 \<and> alignof amd64_timerqueue_head = 8 \<and> wf_ctype amd64_timerqueue_head"
  by (simp add: amd64_timerqueue_head_def layout_simps layout_eval)

lemma amd64_posix_cputimer_base_layout [layout_simps]:
  "sizeof amd64_posix_cputimer_base = 24 \<and> alignof amd64_posix_cputimer_base = 8 \<and> wf_ctype amd64_posix_cputimer_base"
  by (simp add: amd64_posix_cputimer_base_def layout_simps layout_eval)

lemma amd64_posix_cputimers_layout [layout_simps]:
  "sizeof amd64_posix_cputimers = 80 \<and> alignof amd64_posix_cputimers = 8 \<and> wf_ctype amd64_posix_cputimers"
  by (simp add: amd64_posix_cputimers_def layout_simps layout_eval)

lemma amd64_callback_head_layout [layout_simps]:
  "sizeof amd64_callback_head = 16 \<and> alignof amd64_callback_head = 8 \<and> wf_ctype amd64_callback_head"
  by (simp add: amd64_callback_head_def layout_simps layout_eval)

lemma amd64_atomic64_t_layout [layout_simps]:
  "sizeof amd64_atomic64_t = 8 \<and> alignof amd64_atomic64_t = 8 \<and> wf_ctype amd64_atomic64_t"
  by (simp add: amd64_atomic64_t_def layout_simps layout_eval)

lemma amd64_atomic_long_t_layout [layout_simps]:
  "sizeof amd64_atomic_long_t = 8 \<and> alignof amd64_atomic_long_t = 8 \<and> wf_ctype amd64_atomic_long_t"
  by (simp add: amd64_atomic_long_t_def layout_simps layout_eval)

lemma amd64_optimistic_spin_queue_layout [layout_simps]:
  "sizeof amd64_optimistic_spin_queue = 4 \<and> alignof amd64_optimistic_spin_queue = 4 \<and> wf_ctype amd64_optimistic_spin_queue"
  by (simp add: amd64_optimistic_spin_queue_def layout_simps layout_eval)

lemma amd64_mutex_layout [layout_simps]:
  "sizeof amd64_mutex = 32 \<and> alignof amd64_mutex = 8 \<and> wf_ctype amd64_mutex"
  by (simp add: amd64_mutex_def layout_simps layout_eval)

lemma amd64_posix_cputimers_work_layout [layout_simps]:
  "sizeof amd64_posix_cputimers_work = 56 \<and> alignof amd64_posix_cputimers_work = 8 \<and> wf_ctype amd64_posix_cputimers_work"
  by (simp add: amd64_posix_cputimers_work_def layout_simps layout_eval)

lemma amd64_sysv_sem_layout [layout_simps]:
  "sizeof amd64_sysv_sem = 8 \<and> alignof amd64_sysv_sem = 8 \<and> wf_ctype amd64_sysv_sem"
  by (simp add: amd64_sysv_sem_def layout_simps layout_eval)

lemma amd64_sysv_shm_layout [layout_simps]:
  "sizeof amd64_sysv_shm = 16 \<and> alignof amd64_sysv_shm = 8 \<and> wf_ctype amd64_sysv_shm"
  by (simp add: amd64_sysv_shm_def layout_simps layout_eval)

lemma amd64_sigset_t_layout [layout_simps]:
  "sizeof amd64_sigset_t = 8 \<and> alignof amd64_sigset_t = 8 \<and> wf_ctype amd64_sigset_t"
  by (simp add: amd64_sigset_t_def layout_simps layout_eval)

lemma amd64_sigpending_layout [layout_simps]:
  "sizeof amd64_sigpending = 24 \<and> alignof amd64_sigpending = 8 \<and> wf_ctype amd64_sigpending"
  by (simp add: amd64_sigpending_def layout_simps layout_eval)

lemma amd64___kernel_ulong_t_layout [layout_simps]:
  "sizeof amd64___kernel_ulong_t = 8 \<and> alignof amd64___kernel_ulong_t = 8 \<and> wf_ctype amd64___kernel_ulong_t"
  by (simp add: amd64___kernel_ulong_t_def layout_simps layout_eval)

lemma amd64___kernel_size_t_layout [layout_simps]:
  "sizeof amd64___kernel_size_t = 8 \<and> alignof amd64___kernel_size_t = 8 \<and> wf_ctype amd64___kernel_size_t"
  by (simp add: amd64___kernel_size_t_def layout_simps layout_eval)

lemma amd64_size_t_layout [layout_simps]:
  "sizeof amd64_size_t = 8 \<and> alignof amd64_size_t = 8 \<and> wf_ctype amd64_size_t"
  by (simp add: amd64_size_t_def layout_simps layout_eval)

lemma amd64___kernel_uid32_t_layout [layout_simps]:
  "sizeof amd64___kernel_uid32_t = 4 \<and> alignof amd64___kernel_uid32_t = 4 \<and> wf_ctype amd64___kernel_uid32_t"
  by (simp add: amd64___kernel_uid32_t_def layout_simps layout_eval)

lemma amd64_uid_t_layout [layout_simps]:
  "sizeof amd64_uid_t = 4 \<and> alignof amd64_uid_t = 4 \<and> wf_ctype amd64_uid_t"
  by (simp add: amd64_uid_t_def layout_simps layout_eval)

lemma amd64_kuid_t_layout [layout_simps]:
  "sizeof amd64_kuid_t = 4 \<and> alignof amd64_kuid_t = 4 \<and> wf_ctype amd64_kuid_t"
  by (simp add: amd64_kuid_t_def layout_simps layout_eval)

lemma amd64_seccomp_layout [layout_simps]:
  "sizeof amd64_seccomp = 16 \<and> alignof amd64_seccomp = 8 \<and> wf_ctype amd64_seccomp"
  by (simp add: amd64_seccomp_def layout_simps layout_eval)

lemma amd64_syscall_user_dispatch_layout [layout_simps]:
  "sizeof amd64_syscall_user_dispatch = 32 \<and> alignof amd64_syscall_user_dispatch = 8 \<and> wf_ctype amd64_syscall_user_dispatch"
  by (simp add: amd64_syscall_user_dispatch_def layout_simps layout_eval)

lemma amd64_spinlock_layout [layout_simps]:
  "sizeof amd64_spinlock = 4 \<and> alignof amd64_spinlock = 4 \<and> wf_ctype amd64_spinlock"
  by (simp add: amd64_spinlock_def layout_simps layout_eval)

lemma amd64_spinlock_t_layout [layout_simps]:
  "sizeof amd64_spinlock_t = 4 \<and> alignof amd64_spinlock_t = 4 \<and> wf_ctype amd64_spinlock_t"
  by (simp add: amd64_spinlock_t_def layout_simps layout_eval)

lemma amd64_wake_q_node_layout [layout_simps]:
  "sizeof amd64_wake_q_node = 8 \<and> alignof amd64_wake_q_node = 8 \<and> wf_ctype amd64_wake_q_node"
  by (simp add: amd64_wake_q_node_def layout_simps layout_eval)

lemma amd64_task_io_accounting_layout [layout_simps]:
  "sizeof amd64_task_io_accounting = 56 \<and> alignof amd64_task_io_accounting = 8 \<and> wf_ctype amd64_task_io_accounting"
  by (simp add: amd64_task_io_accounting_def layout_simps layout_eval)

lemma amd64_nodemask_t_layout [layout_simps]:
  "sizeof amd64_nodemask_t = 128 \<and> alignof amd64_nodemask_t = 8 \<and> wf_ctype amd64_nodemask_t"
  by (simp add: amd64_nodemask_t_def layout_simps layout_eval)

lemma amd64_seqcount_spinlock_layout [layout_simps]:
  "sizeof amd64_seqcount_spinlock = 4 \<and> alignof amd64_seqcount_spinlock = 4 \<and> wf_ctype amd64_seqcount_spinlock"
  by (simp add: amd64_seqcount_spinlock_def layout_simps layout_eval)

lemma amd64_seqcount_spinlock_t_layout [layout_simps]:
  "sizeof amd64_seqcount_spinlock_t = 4 \<and> alignof amd64_seqcount_spinlock_t = 4 \<and> wf_ctype amd64_seqcount_spinlock_t"
  by (simp add: amd64_seqcount_spinlock_t_def layout_simps layout_eval)

lemma amd64_arch_tlbflush_unmap_batch_layout [layout_simps]:
  "sizeof amd64_arch_tlbflush_unmap_batch = 1024 \<and> alignof amd64_arch_tlbflush_unmap_batch = 8 \<and> wf_ctype amd64_arch_tlbflush_unmap_batch"
  by (simp add: amd64_arch_tlbflush_unmap_batch_def layout_simps layout_eval)

lemma amd64_tlbflush_unmap_batch_layout [layout_simps]:
  "sizeof amd64_tlbflush_unmap_batch = 1032 \<and> alignof amd64_tlbflush_unmap_batch = 8 \<and> wf_ctype amd64_tlbflush_unmap_batch"
  by (simp add: amd64_tlbflush_unmap_batch_def layout_simps layout_eval)

lemma amd64_page_frag_layout [layout_simps]:
  "sizeof amd64_page_frag = 16 \<and> alignof amd64_page_frag = 8 \<and> wf_ctype amd64_page_frag"
  by (simp add: amd64_page_frag_def layout_simps layout_eval)

lemma amd64_latency_record_layout [layout_simps]:
  "sizeof amd64_latency_record = 120 \<and> alignof amd64_latency_record = 8 \<and> wf_ctype amd64_latency_record"
  by (simp add: amd64_latency_record_def layout_simps layout_eval)

lemma amd64_gfp_t_layout [layout_simps]:
  "sizeof amd64_gfp_t = 4 \<and> alignof amd64_gfp_t = 4 \<and> wf_ctype amd64_gfp_t"
  by (simp add: amd64_gfp_t_def layout_simps layout_eval)

lemma amd64_kmap_ctrl_layout [layout_simps]:
  "sizeof amd64_kmap_ctrl = 0 \<and> alignof amd64_kmap_ctrl = 1 \<and> wf_ctype amd64_kmap_ctrl"
  by (simp add: amd64_kmap_ctrl_def layout_simps layout_eval)

lemma amd64_timer_list_layout [layout_simps]:
  "sizeof amd64_timer_list = 40 \<and> alignof amd64_timer_list = 8 \<and> wf_ctype amd64_timer_list"
  by (simp add: amd64_timer_list_def layout_simps layout_eval)

lemma amd64_llist_head_layout [layout_simps]:
  "sizeof amd64_llist_head = 8 \<and> alignof amd64_llist_head = 8 \<and> wf_ctype amd64_llist_head"
  by (simp add: amd64_llist_head_def layout_simps layout_eval)

lemma amd64_da_monitor_layout [layout_simps]:
  "sizeof amd64_da_monitor = 8 \<and> alignof amd64_da_monitor = 4 \<and> wf_ctype amd64_da_monitor"
  by (simp add: amd64_da_monitor_def layout_simps layout_eval)

lemma amd64_rv_task_monitor_layout [layout_simps]:
  "sizeof amd64_rv_task_monitor = 8 \<and> alignof amd64_rv_task_monitor = 4 \<and> wf_ctype amd64_rv_task_monitor"
  by (simp add: amd64_rv_task_monitor_def layout_simps layout_eval)

lemma amd64_desc_struct_layout [layout_simps]:
  "sizeof amd64_desc_struct = 8 \<and> alignof amd64_desc_struct = 2 \<and> wf_ctype amd64_desc_struct"
  by (simp add: amd64_desc_struct_def layout_simps layout_eval)

lemma amd64_thread_shstk_layout [layout_simps]:
  "sizeof amd64_thread_shstk = 16 \<and> alignof amd64_thread_shstk = 8 \<and> wf_ctype amd64_thread_shstk"
  by (simp add: amd64_thread_shstk_def layout_simps layout_eval)

lemma amd64_fpu_state_perm_layout [layout_simps]:
  "sizeof amd64_fpu_state_perm = 16 \<and> alignof amd64_fpu_state_perm = 8 \<and> wf_ctype amd64_fpu_state_perm"
  by (simp add: amd64_fpu_state_perm_def layout_simps layout_eval)

lemma amd64_fregs_state_layout [layout_simps]:
  "sizeof amd64_fregs_state = 112 \<and> alignof amd64_fregs_state = 4 \<and> wf_ctype amd64_fregs_state"
  by (simp add: amd64_fregs_state_def layout_simps layout_eval)

lemma amd64_fxregs_state_layout [layout_simps]:
  "sizeof amd64_fxregs_state = 512 \<and> alignof amd64_fxregs_state = 8 \<and> wf_ctype amd64_fxregs_state"
  by (simp add: amd64_fxregs_state_def layout_simps layout_eval)

lemma amd64_swregs_state_layout [layout_simps]:
  "sizeof amd64_swregs_state = 136 \<and> alignof amd64_swregs_state = 8 \<and> wf_ctype amd64_swregs_state"
  by (simp add: amd64_swregs_state_def layout_simps layout_eval)

lemma amd64_xstate_header_layout [layout_simps]:
  "sizeof amd64_xstate_header = 64 \<and> alignof amd64_xstate_header = 8 \<and> wf_ctype amd64_xstate_header"
  by (simp add: amd64_xstate_header_def layout_simps layout_eval)

lemma amd64_xregs_state_layout [layout_simps]:
  "sizeof amd64_xregs_state = 576 \<and> alignof amd64_xregs_state = 8 \<and> wf_ctype amd64_xregs_state"
  by (simp add: amd64_xregs_state_def layout_simps layout_eval)

lemma amd64_fpregs_state_layout [layout_simps]:
  "sizeof amd64_fpregs_state = 4096 \<and> alignof amd64_fpregs_state = 8 \<and> wf_ctype amd64_fpregs_state"
  by (simp add: amd64_fpregs_state_def layout_simps layout_eval)

lemma amd64_fpstate_layout [layout_simps]:
  "sizeof amd64_fpstate = 4160 \<and> alignof amd64_fpstate = 8 \<and> wf_ctype amd64_fpstate"
  by (simp add: amd64_fpstate_def layout_simps layout_eval)

lemma amd64_fpu_layout [layout_simps]:
  "sizeof amd64_fpu = 4224 \<and> alignof amd64_fpu = 8 \<and> wf_ctype amd64_fpu"
  by (simp add: amd64_fpu_def layout_simps layout_eval)

lemma amd64_thread_struct_layout [layout_simps]:
  "sizeof amd64_thread_struct = 4416 \<and> alignof amd64_thread_struct = 8 \<and> wf_ctype amd64_thread_struct"
  by (simp add: amd64_thread_struct_def layout_simps layout_eval)

lemma amd64_task_struct_1_layout [layout_simps]:
  "send 0 amd64_task_struct_1 = 5568 \<and> aligns amd64_task_struct_1 = 8 \<and> wf_members amd64_task_struct_1"
  by (simp add: amd64_task_struct_1_def layout_simps layout_eval)

lemma amd64_task_struct_2_layout [layout_simps]:
  "send 5568 amd64_task_struct_2 = 17160 \<and> aligns amd64_task_struct_2 = 8 \<and> wf_members amd64_task_struct_2"
  by (simp add: amd64_task_struct_2_def layout_simps layout_eval)

lemma amd64_task_struct_3_layout [layout_simps]:
  "send 17160 amd64_task_struct_3 = 19296 \<and> aligns amd64_task_struct_3 = 8 \<and> wf_members amd64_task_struct_3"
  by (simp add: amd64_task_struct_3_def layout_simps layout_eval)

lemma amd64_task_struct_4_layout [layout_simps]:
  "send 19296 amd64_task_struct_4 = 19936 \<and> aligns amd64_task_struct_4 = 8 \<and> wf_members amd64_task_struct_4"
  by (simp add: amd64_task_struct_4_def layout_simps layout_eval)

lemma amd64_task_struct_5_layout [layout_simps]:
  "send 19936 amd64_task_struct_5 = 22656 \<and> aligns amd64_task_struct_5 = 8 \<and> wf_members amd64_task_struct_5"
  by (simp add: amd64_task_struct_5_def layout_simps layout_eval)

lemma amd64_task_struct_6_layout [layout_simps]:
  "send 22656 amd64_task_struct_6 = 25280 \<and> aligns amd64_task_struct_6 = 8 \<and> wf_members amd64_task_struct_6"
  by (simp add: amd64_task_struct_6_def layout_simps layout_eval)

lemma amd64_task_struct_7_layout [layout_simps]:
  "send 25280 amd64_task_struct_7 = 27136 \<and> aligns amd64_task_struct_7 = 8 \<and> wf_members amd64_task_struct_7"
  by (simp add: amd64_task_struct_7_def layout_simps layout_eval)

lemma amd64_task_struct_8_layout [layout_simps]:
  "send 27136 amd64_task_struct_8 = 30208 \<and> aligns amd64_task_struct_8 = 8 \<and> wf_members amd64_task_struct_8"
  by (simp add: amd64_task_struct_8_def layout_simps layout_eval)

lemma amd64_task_struct_9_layout [layout_simps]:
  "send 30208 amd64_task_struct_9 = 31904 \<and> aligns amd64_task_struct_9 = 8 \<and> wf_members amd64_task_struct_9"
  by (simp add: amd64_task_struct_9_def layout_simps layout_eval)

lemma amd64_task_struct_10_layout [layout_simps]:
  "send 31904 amd64_task_struct_10 = 72096 \<and> aligns amd64_task_struct_10 = 8 \<and> wf_members amd64_task_struct_10"
  by (simp add: amd64_task_struct_10_def layout_simps layout_eval)

lemma amd64_task_struct_11_layout [layout_simps]:
  "send 72096 amd64_task_struct_11 = 73664 \<and> aligns amd64_task_struct_11 = 8 \<and> wf_members amd64_task_struct_11"
  by (simp add: amd64_task_struct_11_def layout_simps layout_eval)

lemma amd64_task_struct_12_layout [layout_simps]:
  "send 73664 amd64_task_struct_12 = 110080 \<and> aligns amd64_task_struct_12 = 8 \<and> wf_members amd64_task_struct_12"
  by (simp add: amd64_task_struct_12_def layout_simps layout_eval)

lemma amd64_task_struct_layout [layout_simps]:
  "sizeof amd64_task_struct = 13760 \<and> alignof amd64_task_struct = 8 \<and> wf_ctype amd64_task_struct"
  by (simp add: amd64_task_struct_def layout_simps layout_eval)

lemma amd64_lockdep_map_p_layout [layout_simps]:
  "sizeof amd64_lockdep_map_p = 0 \<and> alignof amd64_lockdep_map_p = 1 \<and> wf_ctype amd64_lockdep_map_p"
  by (simp add: amd64_lockdep_map_p_def layout_simps layout_eval)

lemma amd64_maple_tree_layout [layout_simps]:
  "sizeof amd64_maple_tree = 16 \<and> alignof amd64_maple_tree = 8 \<and> wf_ctype amd64_maple_tree"
  by (simp add: amd64_maple_tree_def layout_simps layout_eval)

lemma amd64_rw_semaphore_layout [layout_simps]:
  "sizeof amd64_rw_semaphore = 40 \<and> alignof amd64_rw_semaphore = 8 \<and> wf_ctype amd64_rw_semaphore"
  by (simp add: amd64_rw_semaphore_def layout_simps layout_eval)

lemma amd64_percpu_counter_layout [layout_simps]:
  "sizeof amd64_percpu_counter = 40 \<and> alignof amd64_percpu_counter = 8 \<and> wf_ctype amd64_percpu_counter"
  by (simp add: amd64_percpu_counter_def layout_simps layout_eval)

lemma amd64___s16_layout [layout_simps]:
  "sizeof amd64___s16 = 2 \<and> alignof amd64___s16 = 2 \<and> wf_ctype amd64___s16"
  by (simp add: amd64___s16_def layout_simps layout_eval)

lemma amd64_s16_layout [layout_simps]:
  "sizeof amd64_s16 = 2 \<and> alignof amd64_s16 = 2 \<and> wf_ctype amd64_s16"
  by (simp add: amd64_s16_def layout_simps layout_eval)

lemma amd64_mm_context_t_layout [layout_simps]:
  "sizeof amd64_mm_context_t = 136 \<and> alignof amd64_mm_context_t = 8 \<and> wf_ctype amd64_mm_context_t"
  by (simp add: amd64_mm_context_t_def layout_simps layout_eval)

lemma amd64_uprobes_state_layout [layout_simps]:
  "sizeof amd64_uprobes_state = 8 \<and> alignof amd64_uprobes_state = 8 \<and> wf_ctype amd64_uprobes_state"
  by (simp add: amd64_uprobes_state_def layout_simps layout_eval)

lemma amd64_work_func_t_layout [layout_simps]:
  "sizeof amd64_work_func_t = 8 \<and> alignof amd64_work_func_t = 8 \<and> wf_ctype amd64_work_func_t"
  by (simp add: amd64_work_func_t_def layout_simps layout_eval)

lemma amd64_work_struct_layout [layout_simps]:
  "sizeof amd64_work_struct = 32 \<and> alignof amd64_work_struct = 8 \<and> wf_ctype amd64_work_struct"
  by (simp add: amd64_work_struct_def layout_simps layout_eval)

lemma amd64_mm_struct_layout [layout_simps]:
  "sizeof amd64_mm_struct = 1344 \<and> alignof amd64_mm_struct = 8 \<and> wf_ctype amd64_mm_struct"
  by (simp add: amd64_mm_struct_def layout_simps layout_eval)

lemma amd64_wait_queue_head_layout [layout_simps]:
  "sizeof amd64_wait_queue_head = 24 \<and> alignof amd64_wait_queue_head = 8 \<and> wf_ctype amd64_wait_queue_head"
  by (simp add: amd64_wait_queue_head_def layout_simps layout_eval)

lemma amd64_wait_queue_head_t_layout [layout_simps]:
  "sizeof amd64_wait_queue_head_t = 24 \<and> alignof amd64_wait_queue_head_t = 8 \<and> wf_ctype amd64_wait_queue_head_t"
  by (simp add: amd64_wait_queue_head_t_def layout_simps layout_eval)

lemma amd64_cpu_itimer_layout [layout_simps]:
  "sizeof amd64_cpu_itimer = 16 \<and> alignof amd64_cpu_itimer = 8 \<and> wf_ctype amd64_cpu_itimer"
  by (simp add: amd64_cpu_itimer_def layout_simps layout_eval)

lemma amd64_task_cputime_atomic_layout [layout_simps]:
  "sizeof amd64_task_cputime_atomic = 24 \<and> alignof amd64_task_cputime_atomic = 8 \<and> wf_ctype amd64_task_cputime_atomic"
  by (simp add: amd64_task_cputime_atomic_def layout_simps layout_eval)

lemma amd64_thread_group_cputimer_layout [layout_simps]:
  "sizeof amd64_thread_group_cputimer = 24 \<and> alignof amd64_thread_group_cputimer = 8 \<and> wf_ctype amd64_thread_group_cputimer"
  by (simp add: amd64_thread_group_cputimer_def layout_simps layout_eval)

lemma amd64_seqlock_t_layout [layout_simps]:
  "sizeof amd64_seqlock_t = 8 \<and> alignof amd64_seqlock_t = 4 \<and> wf_ctype amd64_seqlock_t"
  by (simp add: amd64_seqlock_t_def layout_simps layout_eval)

lemma amd64_rlimit_layout [layout_simps]:
  "sizeof amd64_rlimit = 16 \<and> alignof amd64_rlimit = 8 \<and> wf_ctype amd64_rlimit"
  by (simp add: amd64_rlimit_def layout_simps layout_eval)

lemma amd64_pacct_struct_layout [layout_simps]:
  "sizeof amd64_pacct_struct = 56 \<and> alignof amd64_pacct_struct = 8 \<and> wf_ctype amd64_pacct_struct"
  by (simp add: amd64_pacct_struct_def layout_simps layout_eval)

lemma amd64_signal_struct_layout [layout_simps]:
  "sizeof amd64_signal_struct = 1112 \<and> alignof amd64_signal_struct = 8 \<and> wf_ctype amd64_signal_struct"
  by (simp add: amd64_signal_struct_def layout_simps layout_eval)

lemma amd64___kernel_gid32_t_layout [layout_simps]:
  "sizeof amd64___kernel_gid32_t = 4 \<and> alignof amd64___kernel_gid32_t = 4 \<and> wf_ctype amd64___kernel_gid32_t"
  by (simp add: amd64___kernel_gid32_t_def layout_simps layout_eval)

lemma amd64_gid_t_layout [layout_simps]:
  "sizeof amd64_gid_t = 4 \<and> alignof amd64_gid_t = 4 \<and> wf_ctype amd64_gid_t"
  by (simp add: amd64_gid_t_def layout_simps layout_eval)

lemma amd64_kgid_t_layout [layout_simps]:
  "sizeof amd64_kgid_t = 4 \<and> alignof amd64_kgid_t = 4 \<and> wf_ctype amd64_kgid_t"
  by (simp add: amd64_kgid_t_def layout_simps layout_eval)

lemma amd64_kernel_cap_t_layout [layout_simps]:
  "sizeof amd64_kernel_cap_t = 8 \<and> alignof amd64_kernel_cap_t = 8 \<and> wf_ctype amd64_kernel_cap_t"
  by (simp add: amd64_kernel_cap_t_def layout_simps layout_eval)

lemma amd64_cred_layout [layout_simps]:
  "sizeof amd64_cred = 184 \<and> alignof amd64_cred = 8 \<and> wf_ctype amd64_cred"
  by (simp add: amd64_cred_def layout_simps layout_eval)

lemma amd64_css_set_layout [layout_simps]:
  "sizeof amd64_css_set = 592 \<and> alignof amd64_css_set = 8 \<and> wf_ctype amd64_css_set"
  by (simp add: amd64_css_set_def layout_simps layout_eval)

lemma amd64_percpu_ref_layout [layout_simps]:
  "sizeof amd64_percpu_ref = 16 \<and> alignof amd64_percpu_ref = 8 \<and> wf_ctype amd64_percpu_ref"
  by (simp add: amd64_percpu_ref_def layout_simps layout_eval)

lemma amd64_rcu_work_layout [layout_simps]:
  "sizeof amd64_rcu_work = 56 \<and> alignof amd64_rcu_work = 8 \<and> wf_ctype amd64_rcu_work"
  by (simp add: amd64_rcu_work_def layout_simps layout_eval)

lemma amd64_cgroup_subsys_state_layout [layout_simps]:
  "sizeof amd64_cgroup_subsys_state = 200 \<and> alignof amd64_cgroup_subsys_state = 8 \<and> wf_ctype amd64_cgroup_subsys_state"
  by (simp add: amd64_cgroup_subsys_state_def layout_simps layout_eval)

lemma amd64_cgroup_file_layout [layout_simps]:
  "sizeof amd64_cgroup_file = 56 \<and> alignof amd64_cgroup_file = 8 \<and> wf_ctype amd64_cgroup_file"
  by (simp add: amd64_cgroup_file_def layout_simps layout_eval)

lemma amd64_cacheline_padding_layout [layout_simps]:
  "sizeof amd64_cacheline_padding = 0 \<and> alignof amd64_cacheline_padding = 1 \<and> wf_ctype amd64_cacheline_padding"
  by (simp add: amd64_cacheline_padding_def layout_simps layout_eval)

lemma amd64_task_cputime_layout [layout_simps]:
  "sizeof amd64_task_cputime = 24 \<and> alignof amd64_task_cputime = 8 \<and> wf_ctype amd64_task_cputime"
  by (simp add: amd64_task_cputime_def layout_simps layout_eval)

lemma amd64_cgroup_base_stat_layout [layout_simps]:
  "sizeof amd64_cgroup_base_stat = 32 \<and> alignof amd64_cgroup_base_stat = 8 \<and> wf_ctype amd64_cgroup_base_stat"
  by (simp add: amd64_cgroup_base_stat_def layout_simps layout_eval)

lemma amd64_cgroup_bpf_layout [layout_simps]:
  "sizeof amd64_cgroup_bpf = 720 \<and> alignof amd64_cgroup_bpf = 8 \<and> wf_ctype amd64_cgroup_bpf"
  by (simp add: amd64_cgroup_bpf_def layout_simps layout_eval)

lemma amd64_cgroup_freezer_state_layout [layout_simps]:
  "sizeof amd64_cgroup_freezer_state = 16 \<and> alignof amd64_cgroup_freezer_state = 4 \<and> wf_ctype amd64_cgroup_freezer_state"
  by (simp add: amd64_cgroup_freezer_state_def layout_simps layout_eval)

lemma amd64_cgroup_layout [layout_simps]:
  "sizeof amd64_cgroup = 1920 \<and> alignof amd64_cgroup = 8 \<and> wf_ctype amd64_cgroup"
  by (simp add: amd64_cgroup_def layout_simps layout_eval)

lemma amd64_kernfs_elem_dir_layout [layout_simps]:
  "sizeof amd64_kernfs_elem_dir = 32 \<and> alignof amd64_kernfs_elem_dir = 8 \<and> wf_ctype amd64_kernfs_elem_dir"
  by (simp add: amd64_kernfs_elem_dir_def layout_simps layout_eval)

lemma amd64_kernfs_elem_symlink_layout [layout_simps]:
  "sizeof amd64_kernfs_elem_symlink = 8 \<and> alignof amd64_kernfs_elem_symlink = 8 \<and> wf_ctype amd64_kernfs_elem_symlink"
  by (simp add: amd64_kernfs_elem_symlink_def layout_simps layout_eval)

lemma amd64___kernel_loff_t_layout [layout_simps]:
  "sizeof amd64___kernel_loff_t = 8 \<and> alignof amd64___kernel_loff_t = 8 \<and> wf_ctype amd64___kernel_loff_t"
  by (simp add: amd64___kernel_loff_t_def layout_simps layout_eval)

lemma amd64_loff_t_layout [layout_simps]:
  "sizeof amd64_loff_t = 8 \<and> alignof amd64_loff_t = 8 \<and> wf_ctype amd64_loff_t"
  by (simp add: amd64_loff_t_def layout_simps layout_eval)

lemma amd64_kernfs_elem_attr_layout [layout_simps]:
  "sizeof amd64_kernfs_elem_attr = 32 \<and> alignof amd64_kernfs_elem_attr = 8 \<and> wf_ctype amd64_kernfs_elem_attr"
  by (simp add: amd64_kernfs_elem_attr_def layout_simps layout_eval)

lemma amd64_umode_t_layout [layout_simps]:
  "sizeof amd64_umode_t = 2 \<and> alignof amd64_umode_t = 2 \<and> wf_ctype amd64_umode_t"
  by (simp add: amd64_umode_t_def layout_simps layout_eval)

lemma amd64_kernfs_node_layout [layout_simps]:
  "sizeof amd64_kernfs_node = 144 \<and> alignof amd64_kernfs_node = 8 \<and> wf_ctype amd64_kernfs_node"
  by (simp add: amd64_kernfs_node_def layout_simps layout_eval)

lemma amd64_trace_entry_layout [layout_simps]:
  "sizeof amd64_trace_entry = 8 \<and> alignof amd64_trace_entry = 4 \<and> wf_ctype amd64_trace_entry"
  by (simp add: amd64_trace_entry_def layout_simps layout_eval)

lemma amd64_trace_event_raw_sched_process_exec_layout [layout_simps]:
  "sizeof amd64_trace_event_raw_sched_process_exec = 20 \<and> alignof amd64_trace_event_raw_sched_process_exec = 4 \<and> wf_ctype amd64_trace_event_raw_sched_process_exec"
  by (simp add: amd64_trace_event_raw_sched_process_exec_def layout_simps layout_eval)

lemma amd64_trace_event_raw_sched_process_fork_layout [layout_simps]:
  "sizeof amd64_trace_event_raw_sched_process_fork = 48 \<and> alignof amd64_trace_event_raw_sched_process_fork = 4 \<and> wf_ctype amd64_trace_event_raw_sched_process_fork"
  by (simp add: amd64_trace_event_raw_sched_process_fork_def layout_simps layout_eval)

lemma amd64_trace_event_raw_sched_process_template_layout [layout_simps]:
  "sizeof amd64_trace_event_raw_sched_process_template = 32 \<and> alignof amd64_trace_event_raw_sched_process_template = 4 \<and> wf_ctype amd64_trace_event_raw_sched_process_template"
  by (simp add: amd64_trace_event_raw_sched_process_template_def layout_simps layout_eval)

section \<open>Fields read by the programs\<close>

lemmas amd64_task_struct_parts =
  amd64_task_struct_1_def
  amd64_task_struct_2_def
  amd64_task_struct_3_def
  amd64_task_struct_4_def
  amd64_task_struct_5_def
  amd64_task_struct_6_def
  amd64_task_struct_7_def
  amd64_task_struct_8_def
  amd64_task_struct_9_def
  amd64_task_struct_10_def
  amd64_task_struct_11_def
  amd64_task_struct_12_def

lemma amd64_task_struct_pid [layout_simps]:
  "designate amd64_task_struct [''pid''] = Some (19904, amd64_pid_t)"
  by (simp only: designate.simps amd64_task_struct_def member_of.simps smember_append layout_simps)
    (simp add: amd64_task_struct_parts layout_simps layout_eval)

lemma amd64_task_struct_tgid [layout_simps]:
  "designate amd64_task_struct [''tgid''] = Some (19936, amd64_pid_t)"
  by (simp only: designate.simps amd64_task_struct_def member_of.simps smember_append layout_simps)
    (simp add: amd64_task_struct_parts layout_simps layout_eval)

lemma amd64_task_struct_real_parent [layout_simps]:
  "designate amd64_task_struct [''real_parent''] = Some (20032, CPtr ''struct task_struct'')"
  by (simp only: designate.simps amd64_task_struct_def member_of.simps smember_append layout_simps)
    (simp add: amd64_task_struct_parts layout_simps layout_eval)

lemma amd64_task_struct_group_leader [layout_simps]:
  "designate amd64_task_struct [''group_leader''] = Some (20416, CPtr ''struct task_struct'')"
  by (simp only: designate.simps amd64_task_struct_def member_of.simps smember_append layout_simps)
    (simp add: amd64_task_struct_parts layout_simps layout_eval)

lemma amd64_task_struct_start_boottime [layout_simps]:
  "designate amd64_task_struct [''start_boottime''] = Some (22720, amd64_u64)"
  by (simp only: designate.simps amd64_task_struct_def member_of.simps smember_append layout_simps)
    (simp add: amd64_task_struct_parts layout_simps layout_eval)

lemma amd64_task_struct_cred [layout_simps]:
  "designate amd64_task_struct [''cred''] = Some (24128, CPtr ''struct cred'')"
  by (simp only: designate.simps amd64_task_struct_def member_of.simps smember_append layout_simps)
    (simp add: amd64_task_struct_parts layout_simps layout_eval)

lemma amd64_task_struct_mm [layout_simps]:
  "designate amd64_task_struct [''mm''] = Some (18880, CPtr ''struct mm_struct'')"
  by (simp only: designate.simps amd64_task_struct_def member_of.simps smember_append layout_simps)
    (simp add: amd64_task_struct_parts layout_simps layout_eval)

lemma amd64_task_struct_signal [layout_simps]:
  "designate amd64_task_struct [''signal''] = Some (25024, CPtr ''struct signal_struct'')"
  by (simp only: designate.simps amd64_task_struct_def member_of.simps smember_append layout_simps)
    (simp add: amd64_task_struct_parts layout_simps layout_eval)

lemma amd64_task_struct_cgroups [layout_simps]:
  "designate amd64_task_struct [''cgroups''] = Some (29248, CPtr ''struct css_set'')"
  by (simp only: designate.simps amd64_task_struct_def member_of.simps smember_append layout_simps)
    (simp add: amd64_task_struct_parts layout_simps layout_eval)

lemma amd64_task_struct_exit_code [layout_simps]:
  "designate amd64_task_struct [''exit_code''] = Some (19104, c_int)"
  by (simp only: designate.simps amd64_task_struct_def member_of.simps smember_append layout_simps)
    (simp add: amd64_task_struct_parts layout_simps layout_eval)

lemma amd64_task_struct_comm [layout_simps]:
  "designate amd64_task_struct [''comm''] = Some (24256, CArr c_char 16)"
  by (simp only: designate.simps amd64_task_struct_def member_of.simps smember_append layout_simps)
    (simp add: amd64_task_struct_parts layout_simps layout_eval)

lemma amd64_cred_uid_val [layout_simps]:
  "designate amd64_cred [''uid'', ''val''] = Some (64, amd64_uid_t)"
  by (simp add: amd64_cred_def amd64_kuid_t_def layout_simps layout_eval)

lemma amd64_cred_gid_val [layout_simps]:
  "designate amd64_cred [''gid'', ''val''] = Some (96, amd64_gid_t)"
  by (simp add: amd64_cred_def amd64_kgid_t_def layout_simps layout_eval)

lemma amd64_mm_struct_arg_start [layout_simps]:
  "designate amd64_mm_struct [''arg_start''] = Some (3008, c_ulong)"
  by (simp add: amd64_mm_struct_def layout_simps layout_eval)

lemma amd64_mm_struct_arg_end [layout_simps]:
  "designate amd64_mm_struct [''arg_end''] = Some (3072, c_ulong)"
  by (simp add: amd64_mm_struct_def layout_simps layout_eval)

lemma amd64_signal_struct_live_counter [layout_simps]:
  "designate amd64_signal_struct [''live'', ''counter''] = Some (32, c_int)"
  by (simp add: amd64_signal_struct_def amd64_atomic_t_def layout_simps layout_eval)

lemma amd64_css_set_dfl_cgrp [layout_simps]:
  "designate amd64_css_set [''dfl_cgrp''] = Some (1024, CPtr ''struct cgroup'')"
  by (simp add: amd64_css_set_def layout_simps layout_eval)

lemma amd64_cgroup_kn [layout_simps]:
  "designate amd64_cgroup [''kn''] = Some (1984, CPtr ''struct kernfs_node'')"
  by (simp add: amd64_cgroup_def layout_simps layout_eval)

lemma amd64_kernfs_node_id [layout_simps]:
  "designate amd64_kernfs_node [''id''] = Some (832, amd64_u64)"
  by (simp add: amd64_kernfs_node_def layout_simps layout_eval)

lemma amd64_trace_event_raw_sched_process_exec_data_loc_filename [layout_simps]:
  "designate amd64_trace_event_raw_sched_process_exec [''__data_loc_filename''] = Some (64, amd64_u32)"
  by (simp add: amd64_trace_event_raw_sched_process_exec_def layout_simps layout_eval)

end
