(* ===== verification/Vmlinux_arm64.thy ===== *)
theory Vmlinux_arm64
  imports CLayout
begin

text \<open>
  The kernel types of \<open>bpf/headers/vmlinux_arm64.h\<close> (AArch64) that the BPF programs read
  through: \<open>task_struct\<close>, \<open>mm_struct\<close>, \<open>signal_struct\<close>, \<open>cred\<close>, \<open>css_set\<close>, \<open>cgroup\<close>,
  \<open>kernfs_node\<close>, the contexts of the three scheduler tracepoints, every type these contain
  by value, and the BPF enumerations that the map declarations, the program sections and
  the helper calls refer to. Each definition transcribes one declaration of the header,
  member by member; a pointer records the spelling of its pointee.

  The lemmas compute each type's size and alignment, and the offsets of the fields that
  \<open>common.h\<close> and \<open>process.bpf.c\<close> access.
\<close>

section \<open>Type declarations\<close>

definition arm64___u64 :: ctype where
  "arm64___u64 = c_ullong"

definition arm64_u64 :: ctype where
  "arm64_u64 = arm64___u64"

definition arm64___u32 :: ctype where
  "arm64___u32 = c_uint"

definition arm64_u32 :: ctype where
  "arm64_u32 = arm64___u32"

definition arm64_thread_info :: ctype where
  "arm64_thread_info = CStruct [
     Fld ''flags'' c_ulong,
     Fld ''ttbr0'' arm64_u64,
     Fld '''' (CUnion [
       Fld ''preempt_count'' arm64_u64,
       Fld ''preempt'' (CStruct [
         Fld ''count'' arm64_u32,
         Fld ''need_resched'' arm64_u32])]),
     Fld ''scs_base'' (CPtr ''void''),
     Fld ''scs_sp'' (CPtr ''void''),
     Fld ''cpu'' arm64_u32]"

definition arm64_atomic_t :: ctype where
  "arm64_atomic_t = CStruct [
     Fld ''counter'' c_int]"

definition arm64_refcount_struct :: ctype where
  "arm64_refcount_struct = CStruct [
     Fld ''refs'' arm64_atomic_t]"

definition arm64_refcount_t :: ctype where
  "arm64_refcount_t = arm64_refcount_struct"

definition arm64_llist_node :: ctype where
  "arm64_llist_node = CStruct [
     Fld ''next'' (CPtr ''struct llist_node'')]"

definition arm64___u16 :: ctype where
  "arm64___u16 = c_ushort"

definition arm64_u16 :: ctype where
  "arm64_u16 = arm64___u16"

definition arm64___call_single_node :: ctype where
  "arm64___call_single_node = CStruct [
     Fld ''llist'' arm64_llist_node,
     Fld '''' (CUnion [
       Fld ''u_flags'' c_uint,
       Fld ''a_flags'' arm64_atomic_t]),
     Fld ''src'' arm64_u16,
     Fld ''dst'' arm64_u16]"

definition arm64_load_weight :: ctype where
  "arm64_load_weight = CStruct [
     Fld ''weight'' c_ulong,
     Fld ''inv_weight'' arm64_u32]"

definition arm64_rb_node :: ctype where
  "arm64_rb_node = CStruct [
     Fld ''__rb_parent_color'' c_ulong,
     Fld ''rb_right'' (CPtr ''struct rb_node''),
     Fld ''rb_left'' (CPtr ''struct rb_node'')]"

definition arm64_list_head :: ctype where
  "arm64_list_head = CStruct [
     Fld ''next'' (CPtr ''struct list_head''),
     Fld ''prev'' (CPtr ''struct list_head'')]"

definition arm64___s64 :: ctype where
  "arm64___s64 = c_llong"

definition arm64_s64 :: ctype where
  "arm64_s64 = arm64___s64"

definition arm64_sched_avg :: ctype where
  "arm64_sched_avg = CStruct [
     Fld ''last_update_time'' arm64_u64,
     Fld ''load_sum'' arm64_u64,
     Fld ''runnable_sum'' arm64_u64,
     Fld ''util_sum'' arm64_u32,
     Fld ''period_contrib'' arm64_u32,
     Fld ''load_avg'' c_ulong,
     Fld ''runnable_avg'' c_ulong,
     Fld ''util_avg'' c_ulong,
     Fld ''util_est'' c_uint]"

definition arm64_sched_entity :: ctype where
  "arm64_sched_entity = CStruct [
     Fld ''load'' arm64_load_weight,
     Fld ''run_node'' arm64_rb_node,
     Fld ''deadline'' arm64_u64,
     Fld ''min_vruntime'' arm64_u64,
     Fld ''group_node'' arm64_list_head,
     Fld ''on_rq'' c_uint,
     Fld ''exec_start'' arm64_u64,
     Fld ''sum_exec_runtime'' arm64_u64,
     Fld ''prev_sum_exec_runtime'' arm64_u64,
     Fld ''vruntime'' arm64_u64,
     Fld ''vlag'' arm64_s64,
     Fld ''slice'' arm64_u64,
     Fld ''nr_migrations'' arm64_u64,
     Fld ''depth'' c_int,
     Fld ''parent'' (CPtr ''struct sched_entity''),
     Fld ''cfs_rq'' (CPtr ''struct cfs_rq''),
     Fld ''my_q'' (CPtr ''struct cfs_rq''),
     Fld ''runnable_weight'' c_ulong,
     Bit '''' c_long 64,
     Bit '''' c_long 64,
     Fld ''avg'' arm64_sched_avg]"

definition arm64_sched_rt_entity :: ctype where
  "arm64_sched_rt_entity = CStruct [
     Fld ''run_list'' arm64_list_head,
     Fld ''timeout'' c_ulong,
     Fld ''watchdog_stamp'' c_ulong,
     Fld ''time_slice'' c_uint,
     Fld ''on_rq'' c_ushort,
     Fld ''on_list'' c_ushort,
     Fld ''back'' (CPtr ''struct sched_rt_entity'')]"

definition arm64_ktime_t :: ctype where
  "arm64_ktime_t = arm64_s64"

definition arm64_timerqueue_node :: ctype where
  "arm64_timerqueue_node = CStruct [
     Fld ''node'' arm64_rb_node,
     Fld ''expires'' arm64_ktime_t]"

definition arm64___u8 :: ctype where
  "arm64___u8 = c_uchar"

definition arm64_u8 :: ctype where
  "arm64_u8 = arm64___u8"

definition arm64_hrtimer :: ctype where
  "arm64_hrtimer = CStruct [
     Fld ''node'' arm64_timerqueue_node,
     Fld ''_softexpires'' arm64_ktime_t,
     Fld ''function'' (CPtr ''(*)()''),
     Fld ''base'' (CPtr ''struct hrtimer_clock_base''),
     Fld ''state'' arm64_u8,
     Fld ''is_rel'' arm64_u8,
     Fld ''is_soft'' arm64_u8,
     Fld ''is_hard'' arm64_u8]"

definition arm64_dl_server_has_tasks_f :: ctype where
  "arm64_dl_server_has_tasks_f = CPtr ''(*)()''"

definition arm64_dl_server_pick_f :: ctype where
  "arm64_dl_server_pick_f = CPtr ''(*)()''"

definition arm64_sched_dl_entity :: ctype where
  "arm64_sched_dl_entity = CStruct [
     Fld ''rb_node'' arm64_rb_node,
     Fld ''dl_runtime'' arm64_u64,
     Fld ''dl_deadline'' arm64_u64,
     Fld ''dl_period'' arm64_u64,
     Fld ''dl_bw'' arm64_u64,
     Fld ''dl_density'' arm64_u64,
     Fld ''runtime'' arm64_s64,
     Fld ''deadline'' arm64_u64,
     Fld ''flags'' c_uint,
     Bit ''dl_throttled'' c_uint 1,
     Bit ''dl_yielded'' c_uint 1,
     Bit ''dl_non_contending'' c_uint 1,
     Bit ''dl_overrun'' c_uint 1,
     Bit ''dl_server'' c_uint 1,
     Fld ''dl_timer'' arm64_hrtimer,
     Fld ''inactive_timer'' arm64_hrtimer,
     Fld ''rq'' (CPtr ''struct rq''),
     Fld ''server_has_tasks'' arm64_dl_server_has_tasks_f,
     Fld ''server_pick'' arm64_dl_server_pick_f,
     Fld ''pi_se'' (CPtr ''struct sched_dl_entity'')]"

definition arm64_uclamp_se :: ctype where
  "arm64_uclamp_se = CStruct [
     Bit ''value'' c_uint 11,
     Bit ''bucket_id'' c_uint 3,
     Bit ''active'' c_uint 1,
     Bit ''user_defined'' c_uint 1]"

definition arm64_sched_statistics :: ctype where
  "arm64_sched_statistics = CStruct [
     Fld ''wait_start'' arm64_u64,
     Fld ''wait_max'' arm64_u64,
     Fld ''wait_count'' arm64_u64,
     Fld ''wait_sum'' arm64_u64,
     Fld ''iowait_count'' arm64_u64,
     Fld ''iowait_sum'' arm64_u64,
     Fld ''sleep_start'' arm64_u64,
     Fld ''sleep_max'' arm64_u64,
     Fld ''sum_sleep_runtime'' arm64_s64,
     Fld ''block_start'' arm64_u64,
     Fld ''block_max'' arm64_u64,
     Fld ''sum_block_runtime'' arm64_s64,
     Fld ''exec_max'' arm64_s64,
     Fld ''slice_max'' arm64_u64,
     Fld ''nr_migrations_cold'' arm64_u64,
     Fld ''nr_failed_migrations_affine'' arm64_u64,
     Fld ''nr_failed_migrations_running'' arm64_u64,
     Fld ''nr_failed_migrations_hot'' arm64_u64,
     Fld ''nr_forced_migrations'' arm64_u64,
     Fld ''nr_wakeups'' arm64_u64,
     Fld ''nr_wakeups_sync'' arm64_u64,
     Fld ''nr_wakeups_migrate'' arm64_u64,
     Fld ''nr_wakeups_local'' arm64_u64,
     Fld ''nr_wakeups_remote'' arm64_u64,
     Fld ''nr_wakeups_affine'' arm64_u64,
     Fld ''nr_wakeups_affine_attempts'' arm64_u64,
     Fld ''nr_wakeups_passive'' arm64_u64,
     Fld ''nr_wakeups_idle'' arm64_u64,
     Fld ''core_forceidle_sum'' arm64_u64,
     Bit '''' c_long 64,
     Bit '''' c_long 64,
     Bit '''' c_long 64]"

definition arm64_hlist_head :: ctype where
  "arm64_hlist_head = CStruct [
     Fld ''first'' (CPtr ''struct hlist_node'')]"

definition arm64_cpumask :: ctype where
  "arm64_cpumask = CStruct [
     Fld ''bits'' (CArr c_ulong 8)]"

definition arm64_cpumask_t :: ctype where
  "arm64_cpumask_t = arm64_cpumask"

definition arm64_rcu_special :: ctype where
  "arm64_rcu_special = CUnion [
     Fld ''b'' (CStruct [
       Fld ''blocked'' arm64_u8,
       Fld ''need_qs'' arm64_u8,
       Fld ''exp_hint'' arm64_u8,
       Fld ''need_mb'' arm64_u8]),
     Fld ''s'' arm64_u32]"

definition arm64_sched_info :: ctype where
  "arm64_sched_info = CStruct [
     Fld ''pcount'' c_ulong,
     Fld ''run_delay'' c_ullong,
     Fld ''last_arrival'' c_ullong,
     Fld ''last_queued'' c_ullong]"

definition arm64_plist_node :: ctype where
  "arm64_plist_node = CStruct [
     Fld ''prio'' c_int,
     Fld ''prio_list'' arm64_list_head,
     Fld ''node_list'' arm64_list_head]"

definition arm64___kernel_clockid_t :: ctype where
  "arm64___kernel_clockid_t = c_int"

definition arm64_clockid_t :: ctype where
  "arm64_clockid_t = arm64___kernel_clockid_t"

definition arm64_timespec_type :: ctype where
  "arm64_timespec_type = CEnum ''timespec_type''"

definition arm64_restart_block :: ctype where
  "arm64_restart_block = CStruct [
     Fld ''arch_data'' c_ulong,
     Fld ''fn'' (CPtr ''(*)()''),
     Fld '''' (CUnion [
       Fld ''futex'' (CStruct [
         Fld ''uaddr'' (CPtr ''u32''),
         Fld ''val'' arm64_u32,
         Fld ''flags'' arm64_u32,
         Fld ''bitset'' arm64_u32,
         Fld ''time'' arm64_u64,
         Fld ''uaddr2'' (CPtr ''u32'')]),
       Fld ''nanosleep'' (CStruct [
         Fld ''clockid'' arm64_clockid_t,
         Fld ''type'' arm64_timespec_type,
         Fld '''' (CUnion [
           Fld ''rmtp'' (CPtr ''struct __kernel_timespec''),
           Fld ''compat_rmtp'' (CPtr ''struct old_timespec32'')]),
         Fld ''expires'' arm64_u64]),
       Fld ''poll'' (CStruct [
         Fld ''ufds'' (CPtr ''struct pollfd''),
         Fld ''nfds'' c_int,
         Fld ''has_timeout'' c_int,
         Fld ''tv_sec'' c_ulong,
         Fld ''tv_nsec'' c_ulong])])]"

definition arm64___kernel_pid_t :: ctype where
  "arm64___kernel_pid_t = c_int"

definition arm64_pid_t :: ctype where
  "arm64_pid_t = arm64___kernel_pid_t"

definition arm64_hlist_node :: ctype where
  "arm64_hlist_node = CStruct [
     Fld ''next'' (CPtr ''struct hlist_node''),
     Fld ''pprev'' (CPtr ''struct hlist_node *'')]"

definition arm64_qspinlock :: ctype where
  "arm64_qspinlock = CStruct [
     Fld '''' (CUnion [
       Fld ''val'' arm64_atomic_t,
       Fld '''' (CStruct [
         Fld ''locked'' arm64_u8,
         Fld ''pending'' arm64_u8]),
       Fld '''' (CStruct [
         Fld ''locked_pending'' arm64_u16,
         Fld ''tail'' arm64_u16])])]"

definition arm64_arch_spinlock_t :: ctype where
  "arm64_arch_spinlock_t = arm64_qspinlock"

definition arm64_raw_spinlock :: ctype where
  "arm64_raw_spinlock = CStruct [
     Fld ''raw_lock'' arm64_arch_spinlock_t]"

definition arm64_raw_spinlock_t :: ctype where
  "arm64_raw_spinlock_t = arm64_raw_spinlock"

definition arm64_prev_cputime :: ctype where
  "arm64_prev_cputime = CStruct [
     Fld ''utime'' arm64_u64,
     Fld ''stime'' arm64_u64,
     Fld ''lock'' arm64_raw_spinlock_t]"

definition arm64_seqcount :: ctype where
  "arm64_seqcount = CStruct [
     Fld ''sequence'' c_uint]"

definition arm64_seqcount_t :: ctype where
  "arm64_seqcount_t = arm64_seqcount"

definition arm64_vtime_state :: ctype where
  "arm64_vtime_state = CEnum ''vtime_state''"

definition arm64_vtime :: ctype where
  "arm64_vtime = CStruct [
     Fld ''seqcount'' arm64_seqcount_t,
     Fld ''starttime'' c_ullong,
     Fld ''state'' arm64_vtime_state,
     Fld ''cpu'' c_uint,
     Fld ''utime'' arm64_u64,
     Fld ''stime'' arm64_u64,
     Fld ''gtime'' arm64_u64]"

definition arm64_rb_root :: ctype where
  "arm64_rb_root = CStruct [
     Fld ''rb_node'' (CPtr ''struct rb_node'')]"

definition arm64_rb_root_cached :: ctype where
  "arm64_rb_root_cached = CStruct [
     Fld ''rb_root'' arm64_rb_root,
     Fld ''rb_leftmost'' (CPtr ''struct rb_node'')]"

definition arm64_timerqueue_head :: ctype where
  "arm64_timerqueue_head = CStruct [
     Fld ''rb_root'' arm64_rb_root_cached]"

definition arm64_posix_cputimer_base :: ctype where
  "arm64_posix_cputimer_base = CStruct [
     Fld ''nextevt'' arm64_u64,
     Fld ''tqhead'' arm64_timerqueue_head]"

definition arm64_posix_cputimers :: ctype where
  "arm64_posix_cputimers = CStruct [
     Fld ''bases'' (CArr arm64_posix_cputimer_base 3),
     Fld ''timers_active'' c_uint,
     Fld ''expiry_active'' c_uint]"

definition arm64_callback_head :: ctype where
  "arm64_callback_head = CStruct [
     Fld ''next'' (CPtr ''struct callback_head''),
     Fld ''func'' (CPtr ''(*)()'')]"

definition arm64_atomic64_t :: ctype where
  "arm64_atomic64_t = CStruct [
     Fld ''counter'' arm64_s64]"

definition arm64_atomic_long_t :: ctype where
  "arm64_atomic_long_t = arm64_atomic64_t"

definition arm64_optimistic_spin_queue :: ctype where
  "arm64_optimistic_spin_queue = CStruct [
     Fld ''tail'' arm64_atomic_t]"

definition arm64_mutex :: ctype where
  "arm64_mutex = CStruct [
     Fld ''owner'' arm64_atomic_long_t,
     Fld ''wait_lock'' arm64_raw_spinlock_t,
     Fld ''osq'' arm64_optimistic_spin_queue,
     Fld ''wait_list'' arm64_list_head]"

definition arm64_posix_cputimers_work :: ctype where
  "arm64_posix_cputimers_work = CStruct [
     Fld ''work'' arm64_callback_head,
     Fld ''mutex'' arm64_mutex,
     Fld ''scheduled'' c_uint]"

definition arm64_sysv_sem :: ctype where
  "arm64_sysv_sem = CStruct [
     Fld ''undo_list'' (CPtr ''struct sem_undo_list'')]"

definition arm64_sysv_shm :: ctype where
  "arm64_sysv_shm = CStruct [
     Fld ''shm_clist'' arm64_list_head]"

definition arm64_sigset_t :: ctype where
  "arm64_sigset_t = CStruct [
     Fld ''sig'' (CArr c_ulong 1)]"

definition arm64_sigpending :: ctype where
  "arm64_sigpending = CStruct [
     Fld ''list'' arm64_list_head,
     Fld ''signal'' arm64_sigset_t]"

definition arm64___kernel_ulong_t :: ctype where
  "arm64___kernel_ulong_t = c_ulong"

definition arm64___kernel_size_t :: ctype where
  "arm64___kernel_size_t = arm64___kernel_ulong_t"

definition arm64_size_t :: ctype where
  "arm64_size_t = arm64___kernel_size_t"

definition arm64___kernel_uid32_t :: ctype where
  "arm64___kernel_uid32_t = c_uint"

definition arm64_uid_t :: ctype where
  "arm64_uid_t = arm64___kernel_uid32_t"

definition arm64_kuid_t :: ctype where
  "arm64_kuid_t = CStruct [
     Fld ''val'' arm64_uid_t]"

definition arm64_seccomp :: ctype where
  "arm64_seccomp = CStruct [
     Fld ''mode'' c_int,
     Fld ''filter_count'' arm64_atomic_t,
     Fld ''filter'' (CPtr ''struct seccomp_filter'')]"

definition arm64_syscall_user_dispatch :: ctype where
  "arm64_syscall_user_dispatch = CStruct []"

definition arm64_spinlock :: ctype where
  "arm64_spinlock = CStruct [
     Fld '''' (CUnion [
       Fld ''rlock'' arm64_raw_spinlock])]"

definition arm64_spinlock_t :: ctype where
  "arm64_spinlock_t = arm64_spinlock"

definition arm64_wake_q_node :: ctype where
  "arm64_wake_q_node = CStruct [
     Fld ''next'' (CPtr ''struct wake_q_node'')]"

definition arm64_task_io_accounting :: ctype where
  "arm64_task_io_accounting = CStruct [
     Fld ''rchar'' arm64_u64,
     Fld ''wchar'' arm64_u64,
     Fld ''syscr'' arm64_u64,
     Fld ''syscw'' arm64_u64,
     Fld ''read_bytes'' arm64_u64,
     Fld ''write_bytes'' arm64_u64,
     Fld ''cancelled_write_bytes'' arm64_u64]"

definition arm64_nodemask_t :: ctype where
  "arm64_nodemask_t = CStruct [
     Fld ''bits'' (CArr c_ulong 1)]"

definition arm64_seqcount_spinlock :: ctype where
  "arm64_seqcount_spinlock = CStruct [
     Fld ''seqcount'' arm64_seqcount_t]"

definition arm64_seqcount_spinlock_t :: ctype where
  "arm64_seqcount_spinlock_t = arm64_seqcount_spinlock"

definition arm64_arch_tlbflush_unmap_batch :: ctype where
  "arm64_arch_tlbflush_unmap_batch = CStruct []"

definition arm64_tlbflush_unmap_batch :: ctype where
  "arm64_tlbflush_unmap_batch = CStruct [
     Fld ''arch'' arm64_arch_tlbflush_unmap_batch,
     Fld ''flush_required'' c_bool,
     Fld ''writable'' c_bool]"

definition arm64_page_frag :: ctype where
  "arm64_page_frag = CStruct [
     Fld ''page'' (CPtr ''struct page''),
     Fld ''offset'' arm64___u32,
     Fld ''size'' arm64___u32]"

definition arm64_latency_record :: ctype where
  "arm64_latency_record = CStruct [
     Fld ''backtrace'' (CArr c_ulong 12),
     Fld ''count'' c_uint,
     Fld ''time'' c_ulong,
     Fld ''max'' c_ulong]"

definition arm64_gfp_t :: ctype where
  "arm64_gfp_t = c_uint"

definition arm64_kmap_ctrl :: ctype where
  "arm64_kmap_ctrl = CStruct []"

definition arm64_timer_list :: ctype where
  "arm64_timer_list = CStruct [
     Fld ''entry'' arm64_hlist_node,
     Fld ''expires'' c_ulong,
     Fld ''function'' (CPtr ''(*)()''),
     Fld ''flags'' arm64_u32]"

definition arm64_llist_head :: ctype where
  "arm64_llist_head = CStruct [
     Fld ''first'' (CPtr ''struct llist_node'')]"

definition arm64_da_monitor :: ctype where
  "arm64_da_monitor = CStruct [
     Fld ''monitoring'' c_bool,
     Fld ''curr_state'' c_uint]"

definition arm64_rv_task_monitor :: ctype where
  "arm64_rv_task_monitor = CUnion [
     Fld ''da_mon'' arm64_da_monitor]"

definition arm64_cpu_context :: ctype where
  "arm64_cpu_context = CStruct [
     Fld ''x19'' c_ulong,
     Fld ''x20'' c_ulong,
     Fld ''x21'' c_ulong,
     Fld ''x22'' c_ulong,
     Fld ''x23'' c_ulong,
     Fld ''x24'' c_ulong,
     Fld ''x25'' c_ulong,
     Fld ''x26'' c_ulong,
     Fld ''x27'' c_ulong,
     Fld ''x28'' c_ulong,
     Fld ''fp'' c_ulong,
     Fld ''sp'' c_ulong,
     Fld ''pc'' c_ulong]"

definition arm64_user_fpsimd_state :: ctype where
  "arm64_user_fpsimd_state = CStruct [
     Fld ''vregs'' (CArr c_u128 32),
     Fld ''fpsr'' arm64___u32,
     Fld ''fpcr'' arm64___u32,
     Fld ''__reserved'' (CArr arm64___u32 2)]"

definition arm64_fp_type :: ctype where
  "arm64_fp_type = CEnum ''fp_type''"

definition arm64_debug_info :: ctype where
  "arm64_debug_info = CStruct [
     Fld ''suspended_step'' c_int,
     Fld ''bps_disabled'' c_int,
     Fld ''wps_disabled'' c_int,
     Fld ''hbp_break'' (CArr (CPtr ''struct perf_event'') 16),
     Fld ''hbp_watch'' (CArr (CPtr ''struct perf_event'') 16)]"

definition arm64_ptrauth_key :: ctype where
  "arm64_ptrauth_key = CStruct [
     Fld ''lo'' c_ulong,
     Fld ''hi'' c_ulong]"

definition arm64_ptrauth_keys_user :: ctype where
  "arm64_ptrauth_keys_user = CStruct [
     Fld ''apia'' arm64_ptrauth_key,
     Fld ''apib'' arm64_ptrauth_key,
     Fld ''apda'' arm64_ptrauth_key,
     Fld ''apdb'' arm64_ptrauth_key,
     Fld ''apga'' arm64_ptrauth_key]"

definition arm64_ptrauth_keys_kernel :: ctype where
  "arm64_ptrauth_keys_kernel = CStruct [
     Fld ''apia'' arm64_ptrauth_key]"

definition arm64_thread_struct :: ctype where
  "arm64_thread_struct = CStruct [
     Fld ''cpu_context'' arm64_cpu_context,
     Bit '''' c_long 64,
     Fld ''uw'' (CStruct [
       Fld ''tp_value'' c_ulong,
       Fld ''tp2_value'' c_ulong,
       Fld ''fpsimd_state'' arm64_user_fpsimd_state]),
     Fld ''fp_type'' arm64_fp_type,
     Fld ''fpsimd_cpu'' c_uint,
     Fld ''sve_state'' (CPtr ''void''),
     Fld ''sme_state'' (CPtr ''void''),
     Fld ''vl'' (CArr c_uint 2),
     Fld ''vl_onexec'' (CArr c_uint 2),
     Fld ''fault_address'' c_ulong,
     Fld ''fault_code'' c_ulong,
     Fld ''debug'' arm64_debug_info,
     Bit '''' c_long 64,
     Fld ''kernel_fpsimd_state'' arm64_user_fpsimd_state,
     Fld ''kernel_fpsimd_cpu'' c_uint,
     Fld ''keys_user'' arm64_ptrauth_keys_user,
     Fld ''keys_kernel'' arm64_ptrauth_keys_kernel,
     Fld ''mte_ctrl'' arm64_u64,
     Fld ''sctlr_user'' arm64_u64,
     Fld ''svcr'' arm64_u64,
     Fld ''tpidr2_el0'' arm64_u64,
     Bit '''' c_long 64]"

definition arm64_task_struct_1 :: "member list" where
  "arm64_task_struct_1 = [
     Fld ''thread_info'' arm64_thread_info,
     Fld ''__state'' c_uint,
     Fld ''saved_state'' c_uint,
     Fld ''stack'' (CPtr ''void''),
     Fld ''usage'' arm64_refcount_t,
     Fld ''flags'' c_uint,
     Fld ''ptrace'' c_uint,
     Fld ''on_cpu'' c_int,
     Fld ''wake_entry'' arm64___call_single_node,
     Fld ''wakee_flips'' c_uint,
     Fld ''wakee_flip_decay_ts'' c_ulong,
     Fld ''last_wakee'' (CPtr ''struct task_struct''),
     Fld ''recent_used_cpu'' c_int,
     Fld ''wake_cpu'' c_int,
     Fld ''on_rq'' c_int,
     Fld ''prio'' c_int,
     Fld ''static_prio'' c_int,
     Fld ''normal_prio'' c_int,
     Fld ''rt_priority'' c_uint,
     Bit '''' c_long 64,
     Bit '''' c_long 64,
     Bit '''' c_long 64,
     Bit '''' c_long 64,
     Bit '''' c_long 64]"

definition arm64_task_struct_2 :: "member list" where
  "arm64_task_struct_2 = [
     Fld ''se'' arm64_sched_entity,
     Fld ''rt'' arm64_sched_rt_entity,
     Fld ''dl'' arm64_sched_dl_entity,
     Fld ''dl_server'' (CPtr ''struct sched_dl_entity''),
     Fld ''sched_class'' (CPtr ''struct sched_class''),
     Fld ''core_node'' arm64_rb_node,
     Fld ''core_cookie'' c_ulong,
     Fld ''core_occupation'' c_uint,
     Fld ''sched_task_group'' (CPtr ''struct task_group''),
     Fld ''uclamp_req'' (CArr arm64_uclamp_se 2),
     Fld ''uclamp'' (CArr arm64_uclamp_se 2),
     Bit '''' c_long 64,
     Fld ''stats'' arm64_sched_statistics,
     Fld ''preempt_notifiers'' arm64_hlist_head,
     Fld ''btrace_seq'' c_uint,
     Fld ''policy'' c_uint,
     Fld ''nr_cpus_allowed'' c_int,
     Fld ''cpus_ptr'' (CPtr ''cpumask_t''),
     Fld ''user_cpus_ptr'' (CPtr ''cpumask_t''),
     Fld ''cpus_mask'' arm64_cpumask_t,
     Fld ''migration_pending'' (CPtr ''void''),
     Fld ''migration_disabled'' c_ushort,
     Fld ''migration_flags'' c_ushort,
     Fld ''rcu_read_lock_nesting'' c_int]"

definition arm64_task_struct_3 :: "member list" where
  "arm64_task_struct_3 = [
     Fld ''rcu_read_unlock_special'' arm64_rcu_special,
     Fld ''rcu_node_entry'' arm64_list_head,
     Fld ''rcu_blocked_node'' (CPtr ''struct rcu_node''),
     Fld ''rcu_tasks_nvcsw'' c_ulong,
     Fld ''rcu_tasks_holdout'' arm64_u8,
     Fld ''rcu_tasks_idx'' arm64_u8,
     Fld ''rcu_tasks_idle_cpu'' c_int,
     Fld ''rcu_tasks_holdout_list'' arm64_list_head,
     Fld ''rcu_tasks_exit_cpu'' c_int,
     Fld ''rcu_tasks_exit_list'' arm64_list_head,
     Fld ''trc_reader_nesting'' c_int,
     Fld ''trc_ipi_to_cpu'' c_int,
     Fld ''trc_reader_special'' arm64_rcu_special,
     Fld ''trc_holdout_list'' arm64_list_head,
     Fld ''trc_blkd_node'' arm64_list_head,
     Fld ''trc_blkd_cpu'' c_int,
     Fld ''sched_info'' arm64_sched_info,
     Fld ''tasks'' arm64_list_head,
     Fld ''pushable_tasks'' arm64_plist_node,
     Fld ''pushable_dl_tasks'' arm64_rb_node,
     Fld ''mm'' (CPtr ''struct mm_struct''),
     Fld ''active_mm'' (CPtr ''struct mm_struct''),
     Fld ''faults_disabled_mapping'' (CPtr ''struct address_space''),
     Fld ''exit_state'' c_int]"

definition arm64_task_struct_4 :: "member list" where
  "arm64_task_struct_4 = [
     Fld ''exit_code'' c_int,
     Fld ''exit_signal'' c_int,
     Fld ''pdeath_signal'' c_int,
     Fld ''jobctl'' c_ulong,
     Fld ''personality'' c_uint,
     Bit ''sched_reset_on_fork'' c_uint 1,
     Bit ''sched_contributes_to_load'' c_uint 1,
     Bit ''sched_migrated'' c_uint 1,
     Bit ''sched_task_hot'' c_uint 1,
     Bit '''' c_long 28,
     Bit ''sched_remote_wakeup'' c_uint 1,
     Bit ''sched_rt_mutex'' c_uint 1,
     Bit ''user_dumpable'' c_uint 1,
     Bit ''in_execve'' c_uint 1,
     Bit ''in_iowait'' c_uint 1,
     Bit ''in_user_fault'' c_uint 1,
     Bit ''in_lru_fault'' c_uint 1,
     Bit ''no_cgroup_migration'' c_uint 1,
     Bit ''frozen'' c_uint 1,
     Bit ''use_memdelay'' c_uint 1,
     Bit ''in_memstall'' c_uint 1,
     Bit ''in_eventfd'' c_uint 1,
     Bit ''in_thrashing'' c_uint 1,
     Fld ''atomic_flags'' c_ulong]"

definition arm64_task_struct_5 :: "member list" where
  "arm64_task_struct_5 = [
     Fld ''restart_block'' arm64_restart_block,
     Fld ''pid'' arm64_pid_t,
     Fld ''tgid'' arm64_pid_t,
     Fld ''stack_canary'' c_ulong,
     Fld ''real_parent'' (CPtr ''struct task_struct''),
     Fld ''parent'' (CPtr ''struct task_struct''),
     Fld ''children'' arm64_list_head,
     Fld ''sibling'' arm64_list_head,
     Fld ''group_leader'' (CPtr ''struct task_struct''),
     Fld ''ptraced'' arm64_list_head,
     Fld ''ptrace_entry'' arm64_list_head,
     Fld ''thread_pid'' (CPtr ''struct pid''),
     Fld ''pid_links'' (CArr arm64_hlist_node 4),
     Fld ''thread_node'' arm64_list_head,
     Fld ''vfork_done'' (CPtr ''struct completion''),
     Fld ''set_child_tid'' (CPtr ''int''),
     Fld ''clear_child_tid'' (CPtr ''int''),
     Fld ''worker_private'' (CPtr ''void''),
     Fld ''utime'' arm64_u64,
     Fld ''stime'' arm64_u64,
     Fld ''gtime'' arm64_u64,
     Fld ''prev_cputime'' arm64_prev_cputime,
     Fld ''vtime'' arm64_vtime,
     Fld ''tick_dep_mask'' arm64_atomic_t]"

definition arm64_task_struct_6 :: "member list" where
  "arm64_task_struct_6 = [
     Fld ''nvcsw'' c_ulong,
     Fld ''nivcsw'' c_ulong,
     Fld ''start_time'' arm64_u64,
     Fld ''start_boottime'' arm64_u64,
     Fld ''min_flt'' c_ulong,
     Fld ''maj_flt'' c_ulong,
     Fld ''posix_cputimers'' arm64_posix_cputimers,
     Fld ''posix_cputimers_work'' arm64_posix_cputimers_work,
     Fld ''ptracer_cred'' (CPtr ''struct cred''),
     Fld ''real_cred'' (CPtr ''struct cred''),
     Fld ''cred'' (CPtr ''struct cred''),
     Fld ''cached_requested_key'' (CPtr ''struct key''),
     Fld ''comm'' (CArr c_char 16),
     Fld ''nameidata'' (CPtr ''struct nameidata''),
     Fld ''sysvsem'' arm64_sysv_sem,
     Fld ''sysvshm'' arm64_sysv_shm,
     Fld ''last_switch_count'' c_ulong,
     Fld ''last_switch_time'' c_ulong,
     Fld ''fs'' (CPtr ''struct fs_struct''),
     Fld ''files'' (CPtr ''struct files_struct''),
     Fld ''io_uring'' (CPtr ''struct io_uring_task''),
     Fld ''nsproxy'' (CPtr ''struct nsproxy''),
     Fld ''signal'' (CPtr ''struct signal_struct''),
     Fld ''sighand'' (CPtr ''struct sighand_struct'')]"

definition arm64_task_struct_7 :: "member list" where
  "arm64_task_struct_7 = [
     Fld ''blocked'' arm64_sigset_t,
     Fld ''real_blocked'' arm64_sigset_t,
     Fld ''saved_sigmask'' arm64_sigset_t,
     Fld ''pending'' arm64_sigpending,
     Fld ''sas_ss_sp'' c_ulong,
     Fld ''sas_ss_size'' arm64_size_t,
     Fld ''sas_ss_flags'' c_uint,
     Fld ''task_works'' (CPtr ''struct callback_head''),
     Fld ''audit_context'' (CPtr ''struct audit_context''),
     Fld ''loginuid'' arm64_kuid_t,
     Fld ''sessionid'' c_uint,
     Fld ''seccomp'' arm64_seccomp,
     Fld ''syscall_dispatch'' arm64_syscall_user_dispatch,
     Fld ''parent_exec_id'' arm64_u64,
     Fld ''self_exec_id'' arm64_u64,
     Fld ''alloc_lock'' arm64_spinlock_t,
     Fld ''pi_lock'' arm64_raw_spinlock_t,
     Fld ''wake_q'' arm64_wake_q_node,
     Fld ''pi_waiters'' arm64_rb_root_cached,
     Fld ''pi_top_task'' (CPtr ''struct task_struct''),
     Fld ''pi_blocked_on'' (CPtr ''struct rt_mutex_waiter''),
     Fld ''in_ubsan'' c_uint,
     Fld ''journal_info'' (CPtr ''void''),
     Fld ''bio_list'' (CPtr ''struct bio_list'')]"

definition arm64_task_struct_8 :: "member list" where
  "arm64_task_struct_8 = [
     Fld ''plug'' (CPtr ''struct blk_plug''),
     Fld ''reclaim_state'' (CPtr ''struct reclaim_state''),
     Fld ''io_context'' (CPtr ''struct io_context''),
     Fld ''capture_control'' (CPtr ''struct capture_control''),
     Fld ''ptrace_message'' c_ulong,
     Fld ''last_siginfo'' (CPtr ''kernel_siginfo_t''),
     Fld ''ioac'' arm64_task_io_accounting,
     Fld ''psi_flags'' c_uint,
     Fld ''acct_rss_mem1'' arm64_u64,
     Fld ''acct_vm_mem1'' arm64_u64,
     Fld ''acct_timexpd'' arm64_u64,
     Fld ''mems_allowed'' arm64_nodemask_t,
     Fld ''mems_allowed_seq'' arm64_seqcount_spinlock_t,
     Fld ''cpuset_mem_spread_rotor'' c_int,
     Fld ''cpuset_slab_spread_rotor'' c_int,
     Fld ''cgroups'' (CPtr ''struct css_set''),
     Fld ''cg_list'' arm64_list_head,
     Fld ''robust_list'' (CPtr ''struct robust_list_head''),
     Fld ''compat_robust_list'' (CPtr ''struct compat_robust_list_head''),
     Fld ''pi_state_list'' arm64_list_head,
     Fld ''pi_state_cache'' (CPtr ''struct futex_pi_state''),
     Fld ''futex_exit_mutex'' arm64_mutex,
     Fld ''futex_state'' c_uint,
     Fld ''perf_event_ctxp'' (CPtr ''struct perf_event_context'')]"

definition arm64_task_struct_9 :: "member list" where
  "arm64_task_struct_9 = [
     Fld ''perf_event_mutex'' arm64_mutex,
     Fld ''perf_event_list'' arm64_list_head,
     Fld ''mempolicy'' (CPtr ''struct mempolicy''),
     Fld ''il_prev'' c_short,
     Fld ''pref_node_fork'' c_short,
     Fld ''numa_scan_seq'' c_int,
     Fld ''numa_scan_period'' c_uint,
     Fld ''numa_scan_period_max'' c_uint,
     Fld ''numa_preferred_nid'' c_int,
     Fld ''numa_migrate_retry'' c_ulong,
     Fld ''node_stamp'' arm64_u64,
     Fld ''last_task_numa_placement'' arm64_u64,
     Fld ''last_sum_exec_runtime'' arm64_u64,
     Fld ''numa_work'' arm64_callback_head,
     Fld ''numa_group'' (CPtr ''struct numa_group''),
     Fld ''numa_faults'' (CPtr ''long unsigned int''),
     Fld ''total_numa_faults'' c_ulong,
     Fld ''numa_faults_locality'' (CArr c_ulong 3),
     Fld ''numa_pages_migrated'' c_ulong,
     Fld ''rseq'' (CPtr ''struct rseq''),
     Fld ''rseq_len'' arm64_u32,
     Fld ''rseq_sig'' arm64_u32,
     Fld ''rseq_event_mask'' c_ulong,
     Fld ''mm_cid'' c_int]"

definition arm64_task_struct_10 :: "member list" where
  "arm64_task_struct_10 = [
     Fld ''last_mm_cid'' c_int,
     Fld ''migrate_from_cpu'' c_int,
     Fld ''mm_cid_active'' c_int,
     Fld ''cid_work'' arm64_callback_head,
     Fld ''tlb_ubc'' arm64_tlbflush_unmap_batch,
     Fld ''splice_pipe'' (CPtr ''struct pipe_inode_info''),
     Fld ''task_frag'' arm64_page_frag,
     Fld ''delays'' (CPtr ''struct task_delay_info''),
     Fld ''nr_dirtied'' c_int,
     Fld ''nr_dirtied_pause'' c_int,
     Fld ''dirty_paused_when'' c_ulong,
     Fld ''latency_record_count'' c_int,
     Fld ''latency_record'' (CArr arm64_latency_record 32),
     Fld ''timer_slack_ns'' arm64_u64,
     Fld ''default_timer_slack_ns'' arm64_u64,
     Fld ''curr_ret_stack'' c_int,
     Fld ''curr_ret_depth'' c_int,
     Fld ''ret_stack'' (CPtr ''struct ftrace_ret_stack''),
     Fld ''ftrace_timestamp'' c_ullong,
     Fld ''trace_overrun'' arm64_atomic_t,
     Fld ''tracing_graph_pause'' arm64_atomic_t,
     Fld ''trace_recursion'' c_ulong,
     Fld ''memcg_in_oom'' (CPtr ''struct mem_cgroup''),
     Fld ''memcg_oom_gfp_mask'' arm64_gfp_t]"

definition arm64_task_struct_11 :: "member list" where
  "arm64_task_struct_11 = [
     Fld ''memcg_oom_order'' c_int,
     Fld ''memcg_nr_pages_over_high'' c_uint,
     Fld ''active_memcg'' (CPtr ''struct mem_cgroup''),
     Fld ''objcg'' (CPtr ''struct obj_cgroup''),
     Fld ''throttle_disk'' (CPtr ''struct gendisk''),
     Fld ''utask'' (CPtr ''struct uprobe_task''),
     Fld ''sequential_io'' c_uint,
     Fld ''sequential_io_avg'' c_uint,
     Fld ''kmap_ctrl'' arm64_kmap_ctrl,
     Fld ''rcu'' arm64_callback_head,
     Fld ''rcu_users'' arm64_refcount_t,
     Fld ''pagefault_disabled'' c_int,
     Fld ''oom_reaper_list'' (CPtr ''struct task_struct''),
     Fld ''oom_reaper_timer'' arm64_timer_list,
     Fld ''stack_vm_area'' (CPtr ''struct vm_struct''),
     Fld ''stack_refcount'' arm64_refcount_t,
     Fld ''security'' (CPtr ''void''),
     Fld ''bpf_storage'' (CPtr ''struct bpf_local_storage''),
     Fld ''bpf_ctx'' (CPtr ''struct bpf_run_ctx''),
     Fld ''kstack_offset'' arm64_u32,
     Fld ''kretprobe_instances'' arm64_llist_head,
     Fld ''rv'' (CArr arm64_rv_task_monitor 1),
     Fld ''user_event_mm'' (CPtr ''struct user_event_mm''),
     Bit '''' c_long 64]"

definition arm64_task_struct_12 :: "member list" where
  "arm64_task_struct_12 = [
     Fld ''thread'' arm64_thread_struct,
     Bit '''' c_long 64,
     Bit '''' c_long 64,
     Bit '''' c_long 64,
     Bit '''' c_long 64]"

definition arm64_task_struct :: ctype where
  "arm64_task_struct = CStruct (arm64_task_struct_1 @ arm64_task_struct_2 @ arm64_task_struct_3 @ arm64_task_struct_4 @ arm64_task_struct_5 @ arm64_task_struct_6 @ arm64_task_struct_7 @ arm64_task_struct_8 @ arm64_task_struct_9 @ arm64_task_struct_10 @ arm64_task_struct_11 @ arm64_task_struct_12)"

definition arm64_lockdep_map_p :: ctype where
  "arm64_lockdep_map_p = CStruct []"

definition arm64_maple_tree :: ctype where
  "arm64_maple_tree = CStruct [
     Fld '''' (CUnion [
       Fld ''ma_lock'' arm64_spinlock_t,
       Fld ''ma_external_lock'' arm64_lockdep_map_p]),
     Fld ''ma_flags'' c_uint,
     Fld ''ma_root'' (CPtr ''void'')]"

definition arm64_rw_semaphore :: ctype where
  "arm64_rw_semaphore = CStruct [
     Fld ''count'' arm64_atomic_long_t,
     Fld ''owner'' arm64_atomic_long_t,
     Fld ''osq'' arm64_optimistic_spin_queue,
     Fld ''wait_lock'' arm64_raw_spinlock_t,
     Fld ''wait_list'' arm64_list_head]"

definition arm64_percpu_counter :: ctype where
  "arm64_percpu_counter = CStruct [
     Fld ''lock'' arm64_raw_spinlock_t,
     Fld ''count'' arm64_s64,
     Fld ''list'' arm64_list_head,
     Fld ''counters'' (CPtr ''s32'')]"

definition arm64_mm_context_t :: ctype where
  "arm64_mm_context_t = CStruct [
     Fld ''id'' arm64_atomic64_t,
     Fld ''sigpage'' (CPtr ''void''),
     Fld ''pinned'' arm64_refcount_t,
     Fld ''vdso'' (CPtr ''void''),
     Fld ''flags'' c_ulong]"

definition arm64_uprobes_state :: ctype where
  "arm64_uprobes_state = CStruct [
     Fld ''xol_area'' (CPtr ''struct xol_area'')]"

definition arm64_work_func_t :: ctype where
  "arm64_work_func_t = CPtr ''(*)()''"

definition arm64_work_struct :: ctype where
  "arm64_work_struct = CStruct [
     Fld ''data'' arm64_atomic_long_t,
     Fld ''entry'' arm64_list_head,
     Fld ''func'' arm64_work_func_t]"

definition arm64_mm_struct :: ctype where
  "arm64_mm_struct = CStruct [
     Fld '''' (CStruct [
       Fld '''' (CStruct [
         Fld ''mm_count'' arm64_atomic_t,
         Bit '''' c_long 64,
         Bit '''' c_long 64,
         Bit '''' c_long 64,
         Bit '''' c_long 64,
         Bit '''' c_long 64,
         Bit '''' c_long 64,
         Bit '''' c_long 64]),
       Fld ''mm_mt'' arm64_maple_tree,
       Fld ''get_unmapped_area'' (CPtr ''(*)()''),
       Fld ''mmap_base'' c_ulong,
       Fld ''mmap_legacy_base'' c_ulong,
       Fld ''task_size'' c_ulong,
       Fld ''pgd'' (CPtr ''pgd_t''),
       Fld ''membarrier_state'' arm64_atomic_t,
       Fld ''mm_users'' arm64_atomic_t,
       Fld ''pcpu_cid'' (CPtr ''struct mm_cid''),
       Fld ''mm_cid_next_scan'' c_ulong,
       Fld ''pgtables_bytes'' arm64_atomic_long_t,
       Fld ''map_count'' c_int,
       Fld ''page_table_lock'' arm64_spinlock_t,
       Fld ''mmap_lock'' arm64_rw_semaphore,
       Fld ''mmlist'' arm64_list_head,
       Fld ''mm_lock_seq'' c_int,
       Fld ''hiwater_rss'' c_ulong,
       Fld ''hiwater_vm'' c_ulong,
       Fld ''total_vm'' c_ulong,
       Fld ''locked_vm'' c_ulong,
       Fld ''pinned_vm'' arm64_atomic64_t,
       Fld ''data_vm'' c_ulong,
       Fld ''exec_vm'' c_ulong,
       Fld ''stack_vm'' c_ulong,
       Fld ''def_flags'' c_ulong,
       Fld ''write_protect_seq'' arm64_seqcount_t,
       Fld ''arg_lock'' arm64_spinlock_t,
       Fld ''start_code'' c_ulong,
       Fld ''end_code'' c_ulong,
       Fld ''start_data'' c_ulong,
       Fld ''end_data'' c_ulong,
       Fld ''start_brk'' c_ulong,
       Fld ''brk'' c_ulong,
       Fld ''start_stack'' c_ulong,
       Fld ''arg_start'' c_ulong,
       Fld ''arg_end'' c_ulong,
       Fld ''env_start'' c_ulong,
       Fld ''env_end'' c_ulong,
       Fld ''saved_auxv'' (CArr c_ulong 50),
       Fld ''rss_stat'' (CArr arm64_percpu_counter 4),
       Fld ''binfmt'' (CPtr ''struct linux_binfmt''),
       Fld ''context'' arm64_mm_context_t,
       Fld ''flags'' c_ulong,
       Fld ''ioctx_lock'' arm64_spinlock_t,
       Fld ''ioctx_table'' (CPtr ''struct kioctx_table''),
       Fld ''owner'' (CPtr ''struct task_struct''),
       Fld ''user_ns'' (CPtr ''struct user_namespace''),
       Fld ''exe_file'' (CPtr ''struct file''),
       Fld ''notifier_subscriptions'' (CPtr ''struct mmu_notifier_subscriptions''),
       Fld ''numa_next_scan'' c_ulong,
       Fld ''numa_scan_offset'' c_ulong,
       Fld ''numa_scan_seq'' c_int,
       Fld ''tlb_flush_pending'' arm64_atomic_t,
       Fld ''tlb_flush_batched'' arm64_atomic_t,
       Fld ''uprobes_state'' arm64_uprobes_state,
       Fld ''hugetlb_usage'' arm64_atomic_long_t,
       Fld ''async_put_work'' arm64_work_struct,
       Fld ''iommu_mm'' (CPtr ''struct iommu_mm_data''),
       Fld ''ksm_merging_pages'' c_ulong,
       Fld ''ksm_rmap_items'' c_ulong,
       Fld ''ksm_zero_pages'' arm64_atomic_long_t,
       Fld ''lru_gen'' (CStruct [
         Fld ''list'' arm64_list_head,
         Fld ''bitmap'' c_ulong,
         Fld ''memcg'' (CPtr ''struct mem_cgroup'')]),
       Bit '''' c_long 64,
       Bit '''' c_long 64]),
     Fld ''cpu_bitmap'' (CArr c_ulong 0)]"

definition arm64_wait_queue_head :: ctype where
  "arm64_wait_queue_head = CStruct [
     Fld ''lock'' arm64_spinlock_t,
     Fld ''head'' arm64_list_head]"

definition arm64_wait_queue_head_t :: ctype where
  "arm64_wait_queue_head_t = arm64_wait_queue_head"

definition arm64_cpu_itimer :: ctype where
  "arm64_cpu_itimer = CStruct [
     Fld ''expires'' arm64_u64,
     Fld ''incr'' arm64_u64]"

definition arm64_task_cputime_atomic :: ctype where
  "arm64_task_cputime_atomic = CStruct [
     Fld ''utime'' arm64_atomic64_t,
     Fld ''stime'' arm64_atomic64_t,
     Fld ''sum_exec_runtime'' arm64_atomic64_t]"

definition arm64_thread_group_cputimer :: ctype where
  "arm64_thread_group_cputimer = CStruct [
     Fld ''cputime_atomic'' arm64_task_cputime_atomic]"

definition arm64_seqlock_t :: ctype where
  "arm64_seqlock_t = CStruct [
     Fld ''seqcount'' arm64_seqcount_spinlock_t,
     Fld ''lock'' arm64_spinlock_t]"

definition arm64_rlimit :: ctype where
  "arm64_rlimit = CStruct [
     Fld ''rlim_cur'' arm64___kernel_ulong_t,
     Fld ''rlim_max'' arm64___kernel_ulong_t]"

definition arm64_pacct_struct :: ctype where
  "arm64_pacct_struct = CStruct [
     Fld ''ac_flag'' c_int,
     Fld ''ac_exitcode'' c_long,
     Fld ''ac_mem'' c_ulong,
     Fld ''ac_utime'' arm64_u64,
     Fld ''ac_stime'' arm64_u64,
     Fld ''ac_minflt'' c_ulong,
     Fld ''ac_majflt'' c_ulong]"

definition arm64_signal_struct :: ctype where
  "arm64_signal_struct = CStruct [
     Fld ''sigcnt'' arm64_refcount_t,
     Fld ''live'' arm64_atomic_t,
     Fld ''nr_threads'' c_int,
     Fld ''quick_threads'' c_int,
     Fld ''thread_head'' arm64_list_head,
     Fld ''wait_chldexit'' arm64_wait_queue_head_t,
     Fld ''curr_target'' (CPtr ''struct task_struct''),
     Fld ''shared_pending'' arm64_sigpending,
     Fld ''multiprocess'' arm64_hlist_head,
     Fld ''group_exit_code'' c_int,
     Fld ''notify_count'' c_int,
     Fld ''group_exec_task'' (CPtr ''struct task_struct''),
     Fld ''group_stop_count'' c_int,
     Fld ''flags'' c_uint,
     Fld ''core_state'' (CPtr ''struct core_state''),
     Bit ''is_child_subreaper'' c_uint 1,
     Bit ''has_child_subreaper'' c_uint 1,
     Fld ''next_posix_timer_id'' c_uint,
     Fld ''posix_timers'' arm64_list_head,
     Fld ''real_timer'' arm64_hrtimer,
     Fld ''it_real_incr'' arm64_ktime_t,
     Fld ''it'' (CArr arm64_cpu_itimer 2),
     Fld ''cputimer'' arm64_thread_group_cputimer,
     Fld ''posix_cputimers'' arm64_posix_cputimers,
     Fld ''pids'' (CArr (CPtr ''struct pid'') 4),
     Fld ''tick_dep_mask'' arm64_atomic_t,
     Fld ''tty_old_pgrp'' (CPtr ''struct pid''),
     Fld ''leader'' c_int,
     Fld ''tty'' (CPtr ''struct tty_struct''),
     Fld ''autogroup'' (CPtr ''struct autogroup''),
     Fld ''stats_lock'' arm64_seqlock_t,
     Fld ''utime'' arm64_u64,
     Fld ''stime'' arm64_u64,
     Fld ''cutime'' arm64_u64,
     Fld ''cstime'' arm64_u64,
     Fld ''gtime'' arm64_u64,
     Fld ''cgtime'' arm64_u64,
     Fld ''prev_cputime'' arm64_prev_cputime,
     Fld ''nvcsw'' c_ulong,
     Fld ''nivcsw'' c_ulong,
     Fld ''cnvcsw'' c_ulong,
     Fld ''cnivcsw'' c_ulong,
     Fld ''min_flt'' c_ulong,
     Fld ''maj_flt'' c_ulong,
     Fld ''cmin_flt'' c_ulong,
     Fld ''cmaj_flt'' c_ulong,
     Fld ''inblock'' c_ulong,
     Fld ''oublock'' c_ulong,
     Fld ''cinblock'' c_ulong,
     Fld ''coublock'' c_ulong,
     Fld ''maxrss'' c_ulong,
     Fld ''cmaxrss'' c_ulong,
     Fld ''ioac'' arm64_task_io_accounting,
     Fld ''sum_sched_runtime'' c_ullong,
     Fld ''rlim'' (CArr arm64_rlimit 16),
     Fld ''pacct'' arm64_pacct_struct,
     Fld ''stats'' (CPtr ''struct taskstats''),
     Fld ''audit_tty'' c_uint,
     Fld ''tty_audit_buf'' (CPtr ''struct tty_audit_buf''),
     Fld ''oom_flag_origin'' c_bool,
     Fld ''oom_score_adj'' c_short,
     Fld ''oom_score_adj_min'' c_short,
     Fld ''oom_mm'' (CPtr ''struct mm_struct''),
     Fld ''cred_guard_mutex'' arm64_mutex,
     Fld ''exec_update_lock'' arm64_rw_semaphore]"

definition arm64___kernel_gid32_t :: ctype where
  "arm64___kernel_gid32_t = c_uint"

definition arm64_gid_t :: ctype where
  "arm64_gid_t = arm64___kernel_gid32_t"

definition arm64_kgid_t :: ctype where
  "arm64_kgid_t = CStruct [
     Fld ''val'' arm64_gid_t]"

definition arm64_kernel_cap_t :: ctype where
  "arm64_kernel_cap_t = CStruct [
     Fld ''val'' arm64_u64]"

definition arm64_cred :: ctype where
  "arm64_cred = CStruct [
     Fld ''usage'' arm64_atomic_long_t,
     Fld ''uid'' arm64_kuid_t,
     Fld ''gid'' arm64_kgid_t,
     Fld ''suid'' arm64_kuid_t,
     Fld ''sgid'' arm64_kgid_t,
     Fld ''euid'' arm64_kuid_t,
     Fld ''egid'' arm64_kgid_t,
     Fld ''fsuid'' arm64_kuid_t,
     Fld ''fsgid'' arm64_kgid_t,
     Fld ''securebits'' c_uint,
     Fld ''cap_inheritable'' arm64_kernel_cap_t,
     Fld ''cap_permitted'' arm64_kernel_cap_t,
     Fld ''cap_effective'' arm64_kernel_cap_t,
     Fld ''cap_bset'' arm64_kernel_cap_t,
     Fld ''cap_ambient'' arm64_kernel_cap_t,
     Fld ''jit_keyring'' c_uchar,
     Fld ''session_keyring'' (CPtr ''struct key''),
     Fld ''process_keyring'' (CPtr ''struct key''),
     Fld ''thread_keyring'' (CPtr ''struct key''),
     Fld ''request_key_auth'' (CPtr ''struct key''),
     Fld ''security'' (CPtr ''void''),
     Fld ''user'' (CPtr ''struct user_struct''),
     Fld ''user_ns'' (CPtr ''struct user_namespace''),
     Fld ''ucounts'' (CPtr ''struct ucounts''),
     Fld ''group_info'' (CPtr ''struct group_info''),
     Fld '''' (CUnion [
       Fld ''non_rcu'' c_int,
       Fld ''rcu'' arm64_callback_head])]"

definition arm64_css_set :: ctype where
  "arm64_css_set = CStruct [
     Fld ''subsys'' (CArr (CPtr ''struct cgroup_subsys_state'') 14),
     Fld ''refcount'' arm64_refcount_t,
     Fld ''dom_cset'' (CPtr ''struct css_set''),
     Fld ''dfl_cgrp'' (CPtr ''struct cgroup''),
     Fld ''nr_tasks'' c_int,
     Fld ''tasks'' arm64_list_head,
     Fld ''mg_tasks'' arm64_list_head,
     Fld ''dying_tasks'' arm64_list_head,
     Fld ''task_iters'' arm64_list_head,
     Fld ''e_cset_node'' (CArr arm64_list_head 14),
     Fld ''threaded_csets'' arm64_list_head,
     Fld ''threaded_csets_node'' arm64_list_head,
     Fld ''hlist'' arm64_hlist_node,
     Fld ''cgrp_links'' arm64_list_head,
     Fld ''mg_src_preload_node'' arm64_list_head,
     Fld ''mg_dst_preload_node'' arm64_list_head,
     Fld ''mg_node'' arm64_list_head,
     Fld ''mg_src_cgrp'' (CPtr ''struct cgroup''),
     Fld ''mg_dst_cgrp'' (CPtr ''struct cgroup''),
     Fld ''mg_dst_cset'' (CPtr ''struct css_set''),
     Fld ''dead'' c_bool,
     Fld ''callback_head'' arm64_callback_head]"

definition arm64_percpu_ref :: ctype where
  "arm64_percpu_ref = CStruct [
     Fld ''percpu_count_ptr'' c_ulong,
     Fld ''data'' (CPtr ''struct percpu_ref_data'')]"

definition arm64_rcu_work :: ctype where
  "arm64_rcu_work = CStruct [
     Fld ''work'' arm64_work_struct,
     Fld ''rcu'' arm64_callback_head,
     Fld ''wq'' (CPtr ''struct workqueue_struct'')]"

definition arm64_cgroup_subsys_state :: ctype where
  "arm64_cgroup_subsys_state = CStruct [
     Fld ''cgroup'' (CPtr ''struct cgroup''),
     Fld ''ss'' (CPtr ''struct cgroup_subsys''),
     Fld ''refcnt'' arm64_percpu_ref,
     Fld ''sibling'' arm64_list_head,
     Fld ''children'' arm64_list_head,
     Fld ''rstat_css_node'' arm64_list_head,
     Fld ''id'' c_int,
     Fld ''flags'' c_uint,
     Fld ''serial_nr'' arm64_u64,
     Fld ''online_cnt'' arm64_atomic_t,
     Fld ''destroy_work'' arm64_work_struct,
     Fld ''destroy_rwork'' arm64_rcu_work,
     Fld ''parent'' (CPtr ''struct cgroup_subsys_state'')]"

definition arm64_cgroup_file :: ctype where
  "arm64_cgroup_file = CStruct [
     Fld ''kn'' (CPtr ''struct kernfs_node''),
     Fld ''notified_at'' c_ulong,
     Fld ''notify_timer'' arm64_timer_list]"

definition arm64_cacheline_padding :: ctype where
  "arm64_cacheline_padding = CStruct [
     Fld ''x'' (CArr c_char 0)]"

definition arm64_task_cputime :: ctype where
  "arm64_task_cputime = CStruct [
     Fld ''stime'' arm64_u64,
     Fld ''utime'' arm64_u64,
     Fld ''sum_exec_runtime'' c_ullong]"

definition arm64_cgroup_base_stat :: ctype where
  "arm64_cgroup_base_stat = CStruct [
     Fld ''cputime'' arm64_task_cputime,
     Fld ''forceidle_sum'' arm64_u64]"

definition arm64_cgroup_bpf :: ctype where
  "arm64_cgroup_bpf = CStruct [
     Fld ''effective'' (CArr (CPtr ''struct bpf_prog_array'') 38),
     Fld ''progs'' (CArr arm64_hlist_head 38),
     Fld ''flags'' (CArr arm64_u8 38),
     Fld ''storages'' arm64_list_head,
     Fld ''inactive'' (CPtr ''struct bpf_prog_array''),
     Fld ''refcnt'' arm64_percpu_ref,
     Fld ''release_work'' arm64_work_struct]"

definition arm64_cgroup_freezer_state :: ctype where
  "arm64_cgroup_freezer_state = CStruct [
     Fld ''freeze'' c_bool,
     Fld ''e_freeze'' c_int,
     Fld ''nr_frozen_descendants'' c_int,
     Fld ''nr_frozen_tasks'' c_int]"

definition arm64_cgroup :: ctype where
  "arm64_cgroup = CStruct [
     Fld ''self'' arm64_cgroup_subsys_state,
     Fld ''flags'' c_ulong,
     Fld ''level'' c_int,
     Fld ''max_depth'' c_int,
     Fld ''nr_descendants'' c_int,
     Fld ''nr_dying_descendants'' c_int,
     Fld ''max_descendants'' c_int,
     Fld ''nr_populated_csets'' c_int,
     Fld ''nr_populated_domain_children'' c_int,
     Fld ''nr_populated_threaded_children'' c_int,
     Fld ''nr_threaded_children'' c_int,
     Fld ''kill_seq'' c_uint,
     Fld ''kn'' (CPtr ''struct kernfs_node''),
     Fld ''procs_file'' arm64_cgroup_file,
     Fld ''events_file'' arm64_cgroup_file,
     Fld ''psi_files'' (CArr arm64_cgroup_file 3),
     Fld ''subtree_control'' arm64_u16,
     Fld ''subtree_ss_mask'' arm64_u16,
     Fld ''old_subtree_control'' arm64_u16,
     Fld ''old_subtree_ss_mask'' arm64_u16,
     Fld ''subsys'' (CArr (CPtr ''struct cgroup_subsys_state'') 14),
     Fld ''root'' (CPtr ''struct cgroup_root''),
     Fld ''cset_links'' arm64_list_head,
     Fld ''e_csets'' (CArr arm64_list_head 14),
     Fld ''dom_cgrp'' (CPtr ''struct cgroup''),
     Fld ''old_dom_cgrp'' (CPtr ''struct cgroup''),
     Fld ''rstat_cpu'' (CPtr ''struct cgroup_rstat_cpu''),
     Fld ''rstat_css_list'' arm64_list_head,
     Bit '''' c_long 64,
     Bit '''' c_long 64,
     Fld ''_pad_'' arm64_cacheline_padding,
     Fld ''rstat_flush_next'' (CPtr ''struct cgroup''),
     Fld ''last_bstat'' arm64_cgroup_base_stat,
     Fld ''bstat'' arm64_cgroup_base_stat,
     Fld ''prev_cputime'' arm64_prev_cputime,
     Fld ''pidlists'' arm64_list_head,
     Fld ''pidlist_mutex'' arm64_mutex,
     Fld ''offline_waitq'' arm64_wait_queue_head_t,
     Fld ''release_agent_work'' arm64_work_struct,
     Fld ''psi'' (CPtr ''struct psi_group''),
     Fld ''bpf'' arm64_cgroup_bpf,
     Fld ''congestion_count'' arm64_atomic_t,
     Fld ''freezer'' arm64_cgroup_freezer_state,
     Fld ''bpf_cgrp_storage'' (CPtr ''struct bpf_local_storage''),
     Fld ''ancestors'' (CArr (CPtr ''struct cgroup'') 0)]"

definition arm64_kernfs_elem_dir :: ctype where
  "arm64_kernfs_elem_dir = CStruct [
     Fld ''subdirs'' c_ulong,
     Fld ''children'' arm64_rb_root,
     Fld ''root'' (CPtr ''struct kernfs_root''),
     Fld ''rev'' c_ulong]"

definition arm64_kernfs_elem_symlink :: ctype where
  "arm64_kernfs_elem_symlink = CStruct [
     Fld ''target_kn'' (CPtr ''struct kernfs_node'')]"

definition arm64___kernel_loff_t :: ctype where
  "arm64___kernel_loff_t = c_llong"

definition arm64_loff_t :: ctype where
  "arm64_loff_t = arm64___kernel_loff_t"

definition arm64_kernfs_elem_attr :: ctype where
  "arm64_kernfs_elem_attr = CStruct [
     Fld ''ops'' (CPtr ''struct kernfs_ops''),
     Fld ''open'' (CPtr ''struct kernfs_open_node''),
     Fld ''size'' arm64_loff_t,
     Fld ''notify_next'' (CPtr ''struct kernfs_node'')]"

definition arm64_umode_t :: ctype where
  "arm64_umode_t = c_ushort"

definition arm64_kernfs_node :: ctype where
  "arm64_kernfs_node = CStruct [
     Fld ''count'' arm64_atomic_t,
     Fld ''active'' arm64_atomic_t,
     Fld ''parent'' (CPtr ''struct kernfs_node''),
     Fld ''name'' (CPtr ''char''),
     Fld ''rb'' arm64_rb_node,
     Fld ''ns'' (CPtr ''void''),
     Fld ''hash'' c_uint,
     Fld '''' (CUnion [
       Fld ''dir'' arm64_kernfs_elem_dir,
       Fld ''symlink'' arm64_kernfs_elem_symlink,
       Fld ''attr'' arm64_kernfs_elem_attr]),
     Fld ''priv'' (CPtr ''void''),
     Fld ''id'' arm64_u64,
     Fld ''flags'' c_ushort,
     Fld ''mode'' arm64_umode_t,
     Fld ''iattr'' (CPtr ''struct kernfs_iattrs''),
     Fld ''rcu'' arm64_callback_head]"

definition arm64_trace_entry :: ctype where
  "arm64_trace_entry = CStruct [
     Fld ''type'' c_ushort,
     Fld ''flags'' c_uchar,
     Fld ''preempt_count'' c_uchar,
     Fld ''pid'' c_int]"

definition arm64_trace_event_raw_sched_process_exec :: ctype where
  "arm64_trace_event_raw_sched_process_exec = CStruct [
     Fld ''ent'' arm64_trace_entry,
     Fld ''__data_loc_filename'' arm64_u32,
     Fld ''pid'' arm64_pid_t,
     Fld ''old_pid'' arm64_pid_t,
     Fld ''__data'' (CArr c_char 0)]"

definition arm64_trace_event_raw_sched_process_fork :: ctype where
  "arm64_trace_event_raw_sched_process_fork = CStruct [
     Fld ''ent'' arm64_trace_entry,
     Fld ''parent_comm'' (CArr c_char 16),
     Fld ''parent_pid'' arm64_pid_t,
     Fld ''child_comm'' (CArr c_char 16),
     Fld ''child_pid'' arm64_pid_t,
     Fld ''__data'' (CArr c_char 0)]"

definition arm64_trace_event_raw_sched_process_template :: ctype where
  "arm64_trace_event_raw_sched_process_template = CStruct [
     Fld ''ent'' arm64_trace_entry,
     Fld ''comm'' (CArr c_char 16),
     Fld ''pid'' arm64_pid_t,
     Fld ''prio'' c_int,
     Fld ''__data'' (CArr c_char 0)]"

section \<open>BPF enumerations\<close>

definition arm64_bpf_map_type :: "(string \<times> nat) list" where
  "arm64_bpf_map_type = [
     (''BPF_MAP_TYPE_UNSPEC'', 0),
     (''BPF_MAP_TYPE_HASH'', 1),
     (''BPF_MAP_TYPE_ARRAY'', 2),
     (''BPF_MAP_TYPE_PROG_ARRAY'', 3),
     (''BPF_MAP_TYPE_PERF_EVENT_ARRAY'', 4),
     (''BPF_MAP_TYPE_PERCPU_HASH'', 5),
     (''BPF_MAP_TYPE_PERCPU_ARRAY'', 6),
     (''BPF_MAP_TYPE_STACK_TRACE'', 7),
     (''BPF_MAP_TYPE_CGROUP_ARRAY'', 8),
     (''BPF_MAP_TYPE_LRU_HASH'', 9),
     (''BPF_MAP_TYPE_LRU_PERCPU_HASH'', 10),
     (''BPF_MAP_TYPE_LPM_TRIE'', 11),
     (''BPF_MAP_TYPE_ARRAY_OF_MAPS'', 12),
     (''BPF_MAP_TYPE_HASH_OF_MAPS'', 13),
     (''BPF_MAP_TYPE_DEVMAP'', 14),
     (''BPF_MAP_TYPE_SOCKMAP'', 15),
     (''BPF_MAP_TYPE_CPUMAP'', 16),
     (''BPF_MAP_TYPE_XSKMAP'', 17),
     (''BPF_MAP_TYPE_SOCKHASH'', 18),
     (''BPF_MAP_TYPE_CGROUP_STORAGE_DEPRECATED'', 19),
     (''BPF_MAP_TYPE_CGROUP_STORAGE'', 19),
     (''BPF_MAP_TYPE_REUSEPORT_SOCKARRAY'', 20),
     (''BPF_MAP_TYPE_PERCPU_CGROUP_STORAGE_DEPRECATED'', 21),
     (''BPF_MAP_TYPE_PERCPU_CGROUP_STORAGE'', 21),
     (''BPF_MAP_TYPE_QUEUE'', 22),
     (''BPF_MAP_TYPE_STACK'', 23),
     (''BPF_MAP_TYPE_SK_STORAGE'', 24),
     (''BPF_MAP_TYPE_DEVMAP_HASH'', 25),
     (''BPF_MAP_TYPE_STRUCT_OPS'', 26),
     (''BPF_MAP_TYPE_RINGBUF'', 27),
     (''BPF_MAP_TYPE_INODE_STORAGE'', 28),
     (''BPF_MAP_TYPE_TASK_STORAGE'', 29),
     (''BPF_MAP_TYPE_BLOOM_FILTER'', 30),
     (''BPF_MAP_TYPE_USER_RINGBUF'', 31),
     (''BPF_MAP_TYPE_CGRP_STORAGE'', 32)]"

definition arm64_bpf_prog_type :: "(string \<times> nat) list" where
  "arm64_bpf_prog_type = [
     (''BPF_PROG_TYPE_UNSPEC'', 0),
     (''BPF_PROG_TYPE_SOCKET_FILTER'', 1),
     (''BPF_PROG_TYPE_KPROBE'', 2),
     (''BPF_PROG_TYPE_SCHED_CLS'', 3),
     (''BPF_PROG_TYPE_SCHED_ACT'', 4),
     (''BPF_PROG_TYPE_TRACEPOINT'', 5),
     (''BPF_PROG_TYPE_XDP'', 6),
     (''BPF_PROG_TYPE_PERF_EVENT'', 7),
     (''BPF_PROG_TYPE_CGROUP_SKB'', 8),
     (''BPF_PROG_TYPE_CGROUP_SOCK'', 9),
     (''BPF_PROG_TYPE_LWT_IN'', 10),
     (''BPF_PROG_TYPE_LWT_OUT'', 11),
     (''BPF_PROG_TYPE_LWT_XMIT'', 12),
     (''BPF_PROG_TYPE_SOCK_OPS'', 13),
     (''BPF_PROG_TYPE_SK_SKB'', 14),
     (''BPF_PROG_TYPE_CGROUP_DEVICE'', 15),
     (''BPF_PROG_TYPE_SK_MSG'', 16),
     (''BPF_PROG_TYPE_RAW_TRACEPOINT'', 17),
     (''BPF_PROG_TYPE_CGROUP_SOCK_ADDR'', 18),
     (''BPF_PROG_TYPE_LWT_SEG6LOCAL'', 19),
     (''BPF_PROG_TYPE_LIRC_MODE2'', 20),
     (''BPF_PROG_TYPE_SK_REUSEPORT'', 21),
     (''BPF_PROG_TYPE_FLOW_DISSECTOR'', 22),
     (''BPF_PROG_TYPE_CGROUP_SYSCTL'', 23),
     (''BPF_PROG_TYPE_RAW_TRACEPOINT_WRITABLE'', 24),
     (''BPF_PROG_TYPE_CGROUP_SOCKOPT'', 25),
     (''BPF_PROG_TYPE_TRACING'', 26),
     (''BPF_PROG_TYPE_STRUCT_OPS'', 27),
     (''BPF_PROG_TYPE_EXT'', 28),
     (''BPF_PROG_TYPE_LSM'', 29),
     (''BPF_PROG_TYPE_SK_LOOKUP'', 30),
     (''BPF_PROG_TYPE_SYSCALL'', 31),
     (''BPF_PROG_TYPE_NETFILTER'', 32),
     (''__MAX_BPF_PROG_TYPE'', 33)]"

definition arm64_bpf_attach_type :: "(string \<times> nat) list" where
  "arm64_bpf_attach_type = [
     (''BPF_CGROUP_INET_INGRESS'', 0),
     (''BPF_CGROUP_INET_EGRESS'', 1),
     (''BPF_CGROUP_INET_SOCK_CREATE'', 2),
     (''BPF_CGROUP_SOCK_OPS'', 3),
     (''BPF_SK_SKB_STREAM_PARSER'', 4),
     (''BPF_SK_SKB_STREAM_VERDICT'', 5),
     (''BPF_CGROUP_DEVICE'', 6),
     (''BPF_SK_MSG_VERDICT'', 7),
     (''BPF_CGROUP_INET4_BIND'', 8),
     (''BPF_CGROUP_INET6_BIND'', 9),
     (''BPF_CGROUP_INET4_CONNECT'', 10),
     (''BPF_CGROUP_INET6_CONNECT'', 11),
     (''BPF_CGROUP_INET4_POST_BIND'', 12),
     (''BPF_CGROUP_INET6_POST_BIND'', 13),
     (''BPF_CGROUP_UDP4_SENDMSG'', 14),
     (''BPF_CGROUP_UDP6_SENDMSG'', 15),
     (''BPF_LIRC_MODE2'', 16),
     (''BPF_FLOW_DISSECTOR'', 17),
     (''BPF_CGROUP_SYSCTL'', 18),
     (''BPF_CGROUP_UDP4_RECVMSG'', 19),
     (''BPF_CGROUP_UDP6_RECVMSG'', 20),
     (''BPF_CGROUP_GETSOCKOPT'', 21),
     (''BPF_CGROUP_SETSOCKOPT'', 22),
     (''BPF_TRACE_RAW_TP'', 23),
     (''BPF_TRACE_FENTRY'', 24),
     (''BPF_TRACE_FEXIT'', 25),
     (''BPF_MODIFY_RETURN'', 26),
     (''BPF_LSM_MAC'', 27),
     (''BPF_TRACE_ITER'', 28),
     (''BPF_CGROUP_INET4_GETPEERNAME'', 29),
     (''BPF_CGROUP_INET6_GETPEERNAME'', 30),
     (''BPF_CGROUP_INET4_GETSOCKNAME'', 31),
     (''BPF_CGROUP_INET6_GETSOCKNAME'', 32),
     (''BPF_XDP_DEVMAP'', 33),
     (''BPF_CGROUP_INET_SOCK_RELEASE'', 34),
     (''BPF_XDP_CPUMAP'', 35),
     (''BPF_SK_LOOKUP'', 36),
     (''BPF_XDP'', 37),
     (''BPF_SK_SKB_VERDICT'', 38),
     (''BPF_SK_REUSEPORT_SELECT'', 39),
     (''BPF_SK_REUSEPORT_SELECT_OR_MIGRATE'', 40),
     (''BPF_PERF_EVENT'', 41),
     (''BPF_TRACE_KPROBE_MULTI'', 42),
     (''BPF_LSM_CGROUP'', 43),
     (''BPF_STRUCT_OPS'', 44),
     (''BPF_NETFILTER'', 45),
     (''BPF_TCX_INGRESS'', 46),
     (''BPF_TCX_EGRESS'', 47),
     (''BPF_TRACE_UPROBE_MULTI'', 48),
     (''BPF_CGROUP_UNIX_CONNECT'', 49),
     (''BPF_CGROUP_UNIX_SENDMSG'', 50),
     (''BPF_CGROUP_UNIX_RECVMSG'', 51),
     (''BPF_CGROUP_UNIX_GETPEERNAME'', 52),
     (''BPF_CGROUP_UNIX_GETSOCKNAME'', 53),
     (''BPF_NETKIT_PRIMARY'', 54),
     (''BPF_NETKIT_PEER'', 55),
     (''__MAX_BPF_ATTACH_TYPE'', 56)]"

definition arm64_bpf_func_id_1 :: "(string \<times> nat) list" where
  "arm64_bpf_func_id_1 = [
     (''BPF_FUNC_unspec'', 0),
     (''BPF_FUNC_map_lookup_elem'', 1),
     (''BPF_FUNC_map_update_elem'', 2),
     (''BPF_FUNC_map_delete_elem'', 3),
     (''BPF_FUNC_probe_read'', 4),
     (''BPF_FUNC_ktime_get_ns'', 5),
     (''BPF_FUNC_trace_printk'', 6),
     (''BPF_FUNC_get_prandom_u32'', 7),
     (''BPF_FUNC_get_smp_processor_id'', 8),
     (''BPF_FUNC_skb_store_bytes'', 9),
     (''BPF_FUNC_l3_csum_replace'', 10),
     (''BPF_FUNC_l4_csum_replace'', 11),
     (''BPF_FUNC_tail_call'', 12),
     (''BPF_FUNC_clone_redirect'', 13),
     (''BPF_FUNC_get_current_pid_tgid'', 14),
     (''BPF_FUNC_get_current_uid_gid'', 15),
     (''BPF_FUNC_get_current_comm'', 16),
     (''BPF_FUNC_get_cgroup_classid'', 17),
     (''BPF_FUNC_skb_vlan_push'', 18),
     (''BPF_FUNC_skb_vlan_pop'', 19),
     (''BPF_FUNC_skb_get_tunnel_key'', 20),
     (''BPF_FUNC_skb_set_tunnel_key'', 21),
     (''BPF_FUNC_perf_event_read'', 22),
     (''BPF_FUNC_redirect'', 23),
     (''BPF_FUNC_get_route_realm'', 24),
     (''BPF_FUNC_perf_event_output'', 25),
     (''BPF_FUNC_skb_load_bytes'', 26),
     (''BPF_FUNC_get_stackid'', 27),
     (''BPF_FUNC_csum_diff'', 28),
     (''BPF_FUNC_skb_get_tunnel_opt'', 29),
     (''BPF_FUNC_skb_set_tunnel_opt'', 30),
     (''BPF_FUNC_skb_change_proto'', 31),
     (''BPF_FUNC_skb_change_type'', 32),
     (''BPF_FUNC_skb_under_cgroup'', 33),
     (''BPF_FUNC_get_hash_recalc'', 34),
     (''BPF_FUNC_get_current_task'', 35),
     (''BPF_FUNC_probe_write_user'', 36),
     (''BPF_FUNC_current_task_under_cgroup'', 37),
     (''BPF_FUNC_skb_change_tail'', 38),
     (''BPF_FUNC_skb_pull_data'', 39),
     (''BPF_FUNC_csum_update'', 40),
     (''BPF_FUNC_set_hash_invalid'', 41),
     (''BPF_FUNC_get_numa_node_id'', 42),
     (''BPF_FUNC_skb_change_head'', 43),
     (''BPF_FUNC_xdp_adjust_head'', 44),
     (''BPF_FUNC_probe_read_str'', 45),
     (''BPF_FUNC_get_socket_cookie'', 46),
     (''BPF_FUNC_get_socket_uid'', 47),
     (''BPF_FUNC_set_hash'', 48),
     (''BPF_FUNC_setsockopt'', 49),
     (''BPF_FUNC_skb_adjust_room'', 50),
     (''BPF_FUNC_redirect_map'', 51),
     (''BPF_FUNC_sk_redirect_map'', 52),
     (''BPF_FUNC_sock_map_update'', 53),
     (''BPF_FUNC_xdp_adjust_meta'', 54),
     (''BPF_FUNC_perf_event_read_value'', 55),
     (''BPF_FUNC_perf_prog_read_value'', 56),
     (''BPF_FUNC_getsockopt'', 57),
     (''BPF_FUNC_override_return'', 58),
     (''BPF_FUNC_sock_ops_cb_flags_set'', 59),
     (''BPF_FUNC_msg_redirect_map'', 60),
     (''BPF_FUNC_msg_apply_bytes'', 61),
     (''BPF_FUNC_msg_cork_bytes'', 62),
     (''BPF_FUNC_msg_pull_data'', 63),
     (''BPF_FUNC_bind'', 64),
     (''BPF_FUNC_xdp_adjust_tail'', 65),
     (''BPF_FUNC_skb_get_xfrm_state'', 66),
     (''BPF_FUNC_get_stack'', 67),
     (''BPF_FUNC_skb_load_bytes_relative'', 68),
     (''BPF_FUNC_fib_lookup'', 69),
     (''BPF_FUNC_sock_hash_update'', 70),
     (''BPF_FUNC_msg_redirect_hash'', 71),
     (''BPF_FUNC_sk_redirect_hash'', 72),
     (''BPF_FUNC_lwt_push_encap'', 73),
     (''BPF_FUNC_lwt_seg6_store_bytes'', 74),
     (''BPF_FUNC_lwt_seg6_adjust_srh'', 75),
     (''BPF_FUNC_lwt_seg6_action'', 76),
     (''BPF_FUNC_rc_repeat'', 77),
     (''BPF_FUNC_rc_keydown'', 78),
     (''BPF_FUNC_skb_cgroup_id'', 79),
     (''BPF_FUNC_get_current_cgroup_id'', 80),
     (''BPF_FUNC_get_local_storage'', 81),
     (''BPF_FUNC_sk_select_reuseport'', 82),
     (''BPF_FUNC_skb_ancestor_cgroup_id'', 83),
     (''BPF_FUNC_sk_lookup_tcp'', 84),
     (''BPF_FUNC_sk_lookup_udp'', 85),
     (''BPF_FUNC_sk_release'', 86),
     (''BPF_FUNC_map_push_elem'', 87),
     (''BPF_FUNC_map_pop_elem'', 88),
     (''BPF_FUNC_map_peek_elem'', 89),
     (''BPF_FUNC_msg_push_data'', 90),
     (''BPF_FUNC_msg_pop_data'', 91),
     (''BPF_FUNC_rc_pointer_rel'', 92),
     (''BPF_FUNC_spin_lock'', 93),
     (''BPF_FUNC_spin_unlock'', 94),
     (''BPF_FUNC_sk_fullsock'', 95),
     (''BPF_FUNC_tcp_sock'', 96),
     (''BPF_FUNC_skb_ecn_set_ce'', 97),
     (''BPF_FUNC_get_listener_sock'', 98),
     (''BPF_FUNC_skc_lookup_tcp'', 99),
     (''BPF_FUNC_tcp_check_syncookie'', 100),
     (''BPF_FUNC_sysctl_get_name'', 101),
     (''BPF_FUNC_sysctl_get_current_value'', 102),
     (''BPF_FUNC_sysctl_get_new_value'', 103),
     (''BPF_FUNC_sysctl_set_new_value'', 104),
     (''BPF_FUNC_strtol'', 105),
     (''BPF_FUNC_strtoul'', 106),
     (''BPF_FUNC_sk_storage_get'', 107),
     (''BPF_FUNC_sk_storage_delete'', 108),
     (''BPF_FUNC_send_signal'', 109),
     (''BPF_FUNC_tcp_gen_syncookie'', 110),
     (''BPF_FUNC_skb_output'', 111),
     (''BPF_FUNC_probe_read_user'', 112),
     (''BPF_FUNC_probe_read_kernel'', 113),
     (''BPF_FUNC_probe_read_user_str'', 114),
     (''BPF_FUNC_probe_read_kernel_str'', 115),
     (''BPF_FUNC_tcp_send_ack'', 116),
     (''BPF_FUNC_send_signal_thread'', 117),
     (''BPF_FUNC_jiffies64'', 118),
     (''BPF_FUNC_read_branch_records'', 119),
     (''BPF_FUNC_get_ns_current_pid_tgid'', 120),
     (''BPF_FUNC_xdp_output'', 121),
     (''BPF_FUNC_get_netns_cookie'', 122),
     (''BPF_FUNC_get_current_ancestor_cgroup_id'', 123),
     (''BPF_FUNC_sk_assign'', 124),
     (''BPF_FUNC_ktime_get_boot_ns'', 125),
     (''BPF_FUNC_seq_printf'', 126),
     (''BPF_FUNC_seq_write'', 127),
     (''BPF_FUNC_sk_cgroup_id'', 128),
     (''BPF_FUNC_sk_ancestor_cgroup_id'', 129),
     (''BPF_FUNC_ringbuf_output'', 130),
     (''BPF_FUNC_ringbuf_reserve'', 131),
     (''BPF_FUNC_ringbuf_submit'', 132),
     (''BPF_FUNC_ringbuf_discard'', 133),
     (''BPF_FUNC_ringbuf_query'', 134),
     (''BPF_FUNC_csum_level'', 135),
     (''BPF_FUNC_skc_to_tcp6_sock'', 136),
     (''BPF_FUNC_skc_to_tcp_sock'', 137),
     (''BPF_FUNC_skc_to_tcp_timewait_sock'', 138),
     (''BPF_FUNC_skc_to_tcp_request_sock'', 139)]"

definition arm64_bpf_func_id_2 :: "(string \<times> nat) list" where
  "arm64_bpf_func_id_2 = [
     (''BPF_FUNC_skc_to_udp6_sock'', 140),
     (''BPF_FUNC_get_task_stack'', 141),
     (''BPF_FUNC_load_hdr_opt'', 142),
     (''BPF_FUNC_store_hdr_opt'', 143),
     (''BPF_FUNC_reserve_hdr_opt'', 144),
     (''BPF_FUNC_inode_storage_get'', 145),
     (''BPF_FUNC_inode_storage_delete'', 146),
     (''BPF_FUNC_d_path'', 147),
     (''BPF_FUNC_copy_from_user'', 148),
     (''BPF_FUNC_snprintf_btf'', 149),
     (''BPF_FUNC_seq_printf_btf'', 150),
     (''BPF_FUNC_skb_cgroup_classid'', 151),
     (''BPF_FUNC_redirect_neigh'', 152),
     (''BPF_FUNC_per_cpu_ptr'', 153),
     (''BPF_FUNC_this_cpu_ptr'', 154),
     (''BPF_FUNC_redirect_peer'', 155),
     (''BPF_FUNC_task_storage_get'', 156),
     (''BPF_FUNC_task_storage_delete'', 157),
     (''BPF_FUNC_get_current_task_btf'', 158),
     (''BPF_FUNC_bprm_opts_set'', 159),
     (''BPF_FUNC_ktime_get_coarse_ns'', 160),
     (''BPF_FUNC_ima_inode_hash'', 161),
     (''BPF_FUNC_sock_from_file'', 162),
     (''BPF_FUNC_check_mtu'', 163),
     (''BPF_FUNC_for_each_map_elem'', 164),
     (''BPF_FUNC_snprintf'', 165),
     (''BPF_FUNC_sys_bpf'', 166),
     (''BPF_FUNC_btf_find_by_name_kind'', 167),
     (''BPF_FUNC_sys_close'', 168),
     (''BPF_FUNC_timer_init'', 169),
     (''BPF_FUNC_timer_set_callback'', 170),
     (''BPF_FUNC_timer_start'', 171),
     (''BPF_FUNC_timer_cancel'', 172),
     (''BPF_FUNC_get_func_ip'', 173),
     (''BPF_FUNC_get_attach_cookie'', 174),
     (''BPF_FUNC_task_pt_regs'', 175),
     (''BPF_FUNC_get_branch_snapshot'', 176),
     (''BPF_FUNC_trace_vprintk'', 177),
     (''BPF_FUNC_skc_to_unix_sock'', 178),
     (''BPF_FUNC_kallsyms_lookup_name'', 179),
     (''BPF_FUNC_find_vma'', 180),
     (''BPF_FUNC_loop'', 181),
     (''BPF_FUNC_strncmp'', 182),
     (''BPF_FUNC_get_func_arg'', 183),
     (''BPF_FUNC_get_func_ret'', 184),
     (''BPF_FUNC_get_func_arg_cnt'', 185),
     (''BPF_FUNC_get_retval'', 186),
     (''BPF_FUNC_set_retval'', 187),
     (''BPF_FUNC_xdp_get_buff_len'', 188),
     (''BPF_FUNC_xdp_load_bytes'', 189),
     (''BPF_FUNC_xdp_store_bytes'', 190),
     (''BPF_FUNC_copy_from_user_task'', 191),
     (''BPF_FUNC_skb_set_tstamp'', 192),
     (''BPF_FUNC_ima_file_hash'', 193),
     (''BPF_FUNC_kptr_xchg'', 194),
     (''BPF_FUNC_map_lookup_percpu_elem'', 195),
     (''BPF_FUNC_skc_to_mptcp_sock'', 196),
     (''BPF_FUNC_dynptr_from_mem'', 197),
     (''BPF_FUNC_ringbuf_reserve_dynptr'', 198),
     (''BPF_FUNC_ringbuf_submit_dynptr'', 199),
     (''BPF_FUNC_ringbuf_discard_dynptr'', 200),
     (''BPF_FUNC_dynptr_read'', 201),
     (''BPF_FUNC_dynptr_write'', 202),
     (''BPF_FUNC_dynptr_data'', 203),
     (''BPF_FUNC_tcp_raw_gen_syncookie_ipv4'', 204),
     (''BPF_FUNC_tcp_raw_gen_syncookie_ipv6'', 205),
     (''BPF_FUNC_tcp_raw_check_syncookie_ipv4'', 206),
     (''BPF_FUNC_tcp_raw_check_syncookie_ipv6'', 207),
     (''BPF_FUNC_ktime_get_tai_ns'', 208),
     (''BPF_FUNC_user_ringbuf_drain'', 209),
     (''BPF_FUNC_cgrp_storage_get'', 210),
     (''BPF_FUNC_cgrp_storage_delete'', 211),
     (''__BPF_FUNC_MAX_ID'', 212)]"

definition arm64_bpf_func_id :: "(string \<times> nat) list" where
  "arm64_bpf_func_id = arm64_bpf_func_id_1 @ arm64_bpf_func_id_2"

section \<open>Sizes and alignments\<close>

lemma arm64___u64_layout [layout_simps]:
  "sizeof arm64___u64 = 8 \<and> alignof arm64___u64 = 8 \<and> wf_ctype arm64___u64"
  by (simp add: arm64___u64_def layout_simps layout_eval)

lemma arm64_u64_layout [layout_simps]:
  "sizeof arm64_u64 = 8 \<and> alignof arm64_u64 = 8 \<and> wf_ctype arm64_u64"
  by (simp add: arm64_u64_def layout_simps layout_eval)

lemma arm64___u32_layout [layout_simps]:
  "sizeof arm64___u32 = 4 \<and> alignof arm64___u32 = 4 \<and> wf_ctype arm64___u32"
  by (simp add: arm64___u32_def layout_simps layout_eval)

lemma arm64_u32_layout [layout_simps]:
  "sizeof arm64_u32 = 4 \<and> alignof arm64_u32 = 4 \<and> wf_ctype arm64_u32"
  by (simp add: arm64_u32_def layout_simps layout_eval)

lemma arm64_thread_info_layout [layout_simps]:
  "sizeof arm64_thread_info = 48 \<and> alignof arm64_thread_info = 8 \<and> wf_ctype arm64_thread_info"
  by (simp add: arm64_thread_info_def layout_simps layout_eval)

lemma arm64_atomic_t_layout [layout_simps]:
  "sizeof arm64_atomic_t = 4 \<and> alignof arm64_atomic_t = 4 \<and> wf_ctype arm64_atomic_t"
  by (simp add: arm64_atomic_t_def layout_simps layout_eval)

lemma arm64_refcount_struct_layout [layout_simps]:
  "sizeof arm64_refcount_struct = 4 \<and> alignof arm64_refcount_struct = 4 \<and> wf_ctype arm64_refcount_struct"
  by (simp add: arm64_refcount_struct_def layout_simps layout_eval)

lemma arm64_refcount_t_layout [layout_simps]:
  "sizeof arm64_refcount_t = 4 \<and> alignof arm64_refcount_t = 4 \<and> wf_ctype arm64_refcount_t"
  by (simp add: arm64_refcount_t_def layout_simps layout_eval)

lemma arm64_llist_node_layout [layout_simps]:
  "sizeof arm64_llist_node = 8 \<and> alignof arm64_llist_node = 8 \<and> wf_ctype arm64_llist_node"
  by (simp add: arm64_llist_node_def layout_simps layout_eval)

lemma arm64___u16_layout [layout_simps]:
  "sizeof arm64___u16 = 2 \<and> alignof arm64___u16 = 2 \<and> wf_ctype arm64___u16"
  by (simp add: arm64___u16_def layout_simps layout_eval)

lemma arm64_u16_layout [layout_simps]:
  "sizeof arm64_u16 = 2 \<and> alignof arm64_u16 = 2 \<and> wf_ctype arm64_u16"
  by (simp add: arm64_u16_def layout_simps layout_eval)

lemma arm64___call_single_node_layout [layout_simps]:
  "sizeof arm64___call_single_node = 16 \<and> alignof arm64___call_single_node = 8 \<and> wf_ctype arm64___call_single_node"
  by (simp add: arm64___call_single_node_def layout_simps layout_eval)

lemma arm64_load_weight_layout [layout_simps]:
  "sizeof arm64_load_weight = 16 \<and> alignof arm64_load_weight = 8 \<and> wf_ctype arm64_load_weight"
  by (simp add: arm64_load_weight_def layout_simps layout_eval)

lemma arm64_rb_node_layout [layout_simps]:
  "sizeof arm64_rb_node = 24 \<and> alignof arm64_rb_node = 8 \<and> wf_ctype arm64_rb_node"
  by (simp add: arm64_rb_node_def layout_simps layout_eval)

lemma arm64_list_head_layout [layout_simps]:
  "sizeof arm64_list_head = 16 \<and> alignof arm64_list_head = 8 \<and> wf_ctype arm64_list_head"
  by (simp add: arm64_list_head_def layout_simps layout_eval)

lemma arm64___s64_layout [layout_simps]:
  "sizeof arm64___s64 = 8 \<and> alignof arm64___s64 = 8 \<and> wf_ctype arm64___s64"
  by (simp add: arm64___s64_def layout_simps layout_eval)

lemma arm64_s64_layout [layout_simps]:
  "sizeof arm64_s64 = 8 \<and> alignof arm64_s64 = 8 \<and> wf_ctype arm64_s64"
  by (simp add: arm64_s64_def layout_simps layout_eval)

lemma arm64_sched_avg_layout [layout_simps]:
  "sizeof arm64_sched_avg = 64 \<and> alignof arm64_sched_avg = 8 \<and> wf_ctype arm64_sched_avg"
  by (simp add: arm64_sched_avg_def layout_simps layout_eval)

lemma arm64_sched_entity_layout [layout_simps]:
  "sizeof arm64_sched_entity = 256 \<and> alignof arm64_sched_entity = 8 \<and> wf_ctype arm64_sched_entity"
  by (simp add: arm64_sched_entity_def layout_simps layout_eval)

lemma arm64_sched_rt_entity_layout [layout_simps]:
  "sizeof arm64_sched_rt_entity = 48 \<and> alignof arm64_sched_rt_entity = 8 \<and> wf_ctype arm64_sched_rt_entity"
  by (simp add: arm64_sched_rt_entity_def layout_simps layout_eval)

lemma arm64_ktime_t_layout [layout_simps]:
  "sizeof arm64_ktime_t = 8 \<and> alignof arm64_ktime_t = 8 \<and> wf_ctype arm64_ktime_t"
  by (simp add: arm64_ktime_t_def layout_simps layout_eval)

lemma arm64_timerqueue_node_layout [layout_simps]:
  "sizeof arm64_timerqueue_node = 32 \<and> alignof arm64_timerqueue_node = 8 \<and> wf_ctype arm64_timerqueue_node"
  by (simp add: arm64_timerqueue_node_def layout_simps layout_eval)

lemma arm64___u8_layout [layout_simps]:
  "sizeof arm64___u8 = 1 \<and> alignof arm64___u8 = 1 \<and> wf_ctype arm64___u8"
  by (simp add: arm64___u8_def layout_simps layout_eval)

lemma arm64_u8_layout [layout_simps]:
  "sizeof arm64_u8 = 1 \<and> alignof arm64_u8 = 1 \<and> wf_ctype arm64_u8"
  by (simp add: arm64_u8_def layout_simps layout_eval)

lemma arm64_hrtimer_layout [layout_simps]:
  "sizeof arm64_hrtimer = 64 \<and> alignof arm64_hrtimer = 8 \<and> wf_ctype arm64_hrtimer"
  by (simp add: arm64_hrtimer_def layout_simps layout_eval)

lemma arm64_dl_server_has_tasks_f_layout [layout_simps]:
  "sizeof arm64_dl_server_has_tasks_f = 8 \<and> alignof arm64_dl_server_has_tasks_f = 8 \<and> wf_ctype arm64_dl_server_has_tasks_f"
  by (simp add: arm64_dl_server_has_tasks_f_def layout_simps layout_eval)

lemma arm64_dl_server_pick_f_layout [layout_simps]:
  "sizeof arm64_dl_server_pick_f = 8 \<and> alignof arm64_dl_server_pick_f = 8 \<and> wf_ctype arm64_dl_server_pick_f"
  by (simp add: arm64_dl_server_pick_f_def layout_simps layout_eval)

lemma arm64_sched_dl_entity_layout [layout_simps]:
  "sizeof arm64_sched_dl_entity = 248 \<and> alignof arm64_sched_dl_entity = 8 \<and> wf_ctype arm64_sched_dl_entity"
  by (simp add: arm64_sched_dl_entity_def layout_simps layout_eval)

lemma arm64_uclamp_se_layout [layout_simps]:
  "sizeof arm64_uclamp_se = 4 \<and> alignof arm64_uclamp_se = 4 \<and> wf_ctype arm64_uclamp_se"
  by (simp add: arm64_uclamp_se_def layout_simps layout_eval)

lemma arm64_sched_statistics_layout [layout_simps]:
  "sizeof arm64_sched_statistics = 256 \<and> alignof arm64_sched_statistics = 8 \<and> wf_ctype arm64_sched_statistics"
  by (simp add: arm64_sched_statistics_def layout_simps layout_eval)

lemma arm64_hlist_head_layout [layout_simps]:
  "sizeof arm64_hlist_head = 8 \<and> alignof arm64_hlist_head = 8 \<and> wf_ctype arm64_hlist_head"
  by (simp add: arm64_hlist_head_def layout_simps layout_eval)

lemma arm64_cpumask_layout [layout_simps]:
  "sizeof arm64_cpumask = 64 \<and> alignof arm64_cpumask = 8 \<and> wf_ctype arm64_cpumask"
  by (simp add: arm64_cpumask_def layout_simps layout_eval)

lemma arm64_cpumask_t_layout [layout_simps]:
  "sizeof arm64_cpumask_t = 64 \<and> alignof arm64_cpumask_t = 8 \<and> wf_ctype arm64_cpumask_t"
  by (simp add: arm64_cpumask_t_def layout_simps layout_eval)

lemma arm64_rcu_special_layout [layout_simps]:
  "sizeof arm64_rcu_special = 4 \<and> alignof arm64_rcu_special = 4 \<and> wf_ctype arm64_rcu_special"
  by (simp add: arm64_rcu_special_def layout_simps layout_eval)

lemma arm64_sched_info_layout [layout_simps]:
  "sizeof arm64_sched_info = 32 \<and> alignof arm64_sched_info = 8 \<and> wf_ctype arm64_sched_info"
  by (simp add: arm64_sched_info_def layout_simps layout_eval)

lemma arm64_plist_node_layout [layout_simps]:
  "sizeof arm64_plist_node = 40 \<and> alignof arm64_plist_node = 8 \<and> wf_ctype arm64_plist_node"
  by (simp add: arm64_plist_node_def layout_simps layout_eval)

lemma arm64___kernel_clockid_t_layout [layout_simps]:
  "sizeof arm64___kernel_clockid_t = 4 \<and> alignof arm64___kernel_clockid_t = 4 \<and> wf_ctype arm64___kernel_clockid_t"
  by (simp add: arm64___kernel_clockid_t_def layout_simps layout_eval)

lemma arm64_clockid_t_layout [layout_simps]:
  "sizeof arm64_clockid_t = 4 \<and> alignof arm64_clockid_t = 4 \<and> wf_ctype arm64_clockid_t"
  by (simp add: arm64_clockid_t_def layout_simps layout_eval)

lemma arm64_timespec_type_layout [layout_simps]:
  "sizeof arm64_timespec_type = 4 \<and> alignof arm64_timespec_type = 4 \<and> wf_ctype arm64_timespec_type"
  by (simp add: arm64_timespec_type_def layout_simps layout_eval)

lemma arm64_restart_block_layout [layout_simps]:
  "sizeof arm64_restart_block = 56 \<and> alignof arm64_restart_block = 8 \<and> wf_ctype arm64_restart_block"
  by (simp add: arm64_restart_block_def layout_simps layout_eval)

lemma arm64___kernel_pid_t_layout [layout_simps]:
  "sizeof arm64___kernel_pid_t = 4 \<and> alignof arm64___kernel_pid_t = 4 \<and> wf_ctype arm64___kernel_pid_t"
  by (simp add: arm64___kernel_pid_t_def layout_simps layout_eval)

lemma arm64_pid_t_layout [layout_simps]:
  "sizeof arm64_pid_t = 4 \<and> alignof arm64_pid_t = 4 \<and> wf_ctype arm64_pid_t"
  by (simp add: arm64_pid_t_def layout_simps layout_eval)

lemma arm64_hlist_node_layout [layout_simps]:
  "sizeof arm64_hlist_node = 16 \<and> alignof arm64_hlist_node = 8 \<and> wf_ctype arm64_hlist_node"
  by (simp add: arm64_hlist_node_def layout_simps layout_eval)

lemma arm64_qspinlock_layout [layout_simps]:
  "sizeof arm64_qspinlock = 4 \<and> alignof arm64_qspinlock = 4 \<and> wf_ctype arm64_qspinlock"
  by (simp add: arm64_qspinlock_def layout_simps layout_eval)

lemma arm64_arch_spinlock_t_layout [layout_simps]:
  "sizeof arm64_arch_spinlock_t = 4 \<and> alignof arm64_arch_spinlock_t = 4 \<and> wf_ctype arm64_arch_spinlock_t"
  by (simp add: arm64_arch_spinlock_t_def layout_simps layout_eval)

lemma arm64_raw_spinlock_layout [layout_simps]:
  "sizeof arm64_raw_spinlock = 4 \<and> alignof arm64_raw_spinlock = 4 \<and> wf_ctype arm64_raw_spinlock"
  by (simp add: arm64_raw_spinlock_def layout_simps layout_eval)

lemma arm64_raw_spinlock_t_layout [layout_simps]:
  "sizeof arm64_raw_spinlock_t = 4 \<and> alignof arm64_raw_spinlock_t = 4 \<and> wf_ctype arm64_raw_spinlock_t"
  by (simp add: arm64_raw_spinlock_t_def layout_simps layout_eval)

lemma arm64_prev_cputime_layout [layout_simps]:
  "sizeof arm64_prev_cputime = 24 \<and> alignof arm64_prev_cputime = 8 \<and> wf_ctype arm64_prev_cputime"
  by (simp add: arm64_prev_cputime_def layout_simps layout_eval)

lemma arm64_seqcount_layout [layout_simps]:
  "sizeof arm64_seqcount = 4 \<and> alignof arm64_seqcount = 4 \<and> wf_ctype arm64_seqcount"
  by (simp add: arm64_seqcount_def layout_simps layout_eval)

lemma arm64_seqcount_t_layout [layout_simps]:
  "sizeof arm64_seqcount_t = 4 \<and> alignof arm64_seqcount_t = 4 \<and> wf_ctype arm64_seqcount_t"
  by (simp add: arm64_seqcount_t_def layout_simps layout_eval)

lemma arm64_vtime_state_layout [layout_simps]:
  "sizeof arm64_vtime_state = 4 \<and> alignof arm64_vtime_state = 4 \<and> wf_ctype arm64_vtime_state"
  by (simp add: arm64_vtime_state_def layout_simps layout_eval)

lemma arm64_vtime_layout [layout_simps]:
  "sizeof arm64_vtime = 48 \<and> alignof arm64_vtime = 8 \<and> wf_ctype arm64_vtime"
  by (simp add: arm64_vtime_def layout_simps layout_eval)

lemma arm64_rb_root_layout [layout_simps]:
  "sizeof arm64_rb_root = 8 \<and> alignof arm64_rb_root = 8 \<and> wf_ctype arm64_rb_root"
  by (simp add: arm64_rb_root_def layout_simps layout_eval)

lemma arm64_rb_root_cached_layout [layout_simps]:
  "sizeof arm64_rb_root_cached = 16 \<and> alignof arm64_rb_root_cached = 8 \<and> wf_ctype arm64_rb_root_cached"
  by (simp add: arm64_rb_root_cached_def layout_simps layout_eval)

lemma arm64_timerqueue_head_layout [layout_simps]:
  "sizeof arm64_timerqueue_head = 16 \<and> alignof arm64_timerqueue_head = 8 \<and> wf_ctype arm64_timerqueue_head"
  by (simp add: arm64_timerqueue_head_def layout_simps layout_eval)

lemma arm64_posix_cputimer_base_layout [layout_simps]:
  "sizeof arm64_posix_cputimer_base = 24 \<and> alignof arm64_posix_cputimer_base = 8 \<and> wf_ctype arm64_posix_cputimer_base"
  by (simp add: arm64_posix_cputimer_base_def layout_simps layout_eval)

lemma arm64_posix_cputimers_layout [layout_simps]:
  "sizeof arm64_posix_cputimers = 80 \<and> alignof arm64_posix_cputimers = 8 \<and> wf_ctype arm64_posix_cputimers"
  by (simp add: arm64_posix_cputimers_def layout_simps layout_eval)

lemma arm64_callback_head_layout [layout_simps]:
  "sizeof arm64_callback_head = 16 \<and> alignof arm64_callback_head = 8 \<and> wf_ctype arm64_callback_head"
  by (simp add: arm64_callback_head_def layout_simps layout_eval)

lemma arm64_atomic64_t_layout [layout_simps]:
  "sizeof arm64_atomic64_t = 8 \<and> alignof arm64_atomic64_t = 8 \<and> wf_ctype arm64_atomic64_t"
  by (simp add: arm64_atomic64_t_def layout_simps layout_eval)

lemma arm64_atomic_long_t_layout [layout_simps]:
  "sizeof arm64_atomic_long_t = 8 \<and> alignof arm64_atomic_long_t = 8 \<and> wf_ctype arm64_atomic_long_t"
  by (simp add: arm64_atomic_long_t_def layout_simps layout_eval)

lemma arm64_optimistic_spin_queue_layout [layout_simps]:
  "sizeof arm64_optimistic_spin_queue = 4 \<and> alignof arm64_optimistic_spin_queue = 4 \<and> wf_ctype arm64_optimistic_spin_queue"
  by (simp add: arm64_optimistic_spin_queue_def layout_simps layout_eval)

lemma arm64_mutex_layout [layout_simps]:
  "sizeof arm64_mutex = 32 \<and> alignof arm64_mutex = 8 \<and> wf_ctype arm64_mutex"
  by (simp add: arm64_mutex_def layout_simps layout_eval)

lemma arm64_posix_cputimers_work_layout [layout_simps]:
  "sizeof arm64_posix_cputimers_work = 56 \<and> alignof arm64_posix_cputimers_work = 8 \<and> wf_ctype arm64_posix_cputimers_work"
  by (simp add: arm64_posix_cputimers_work_def layout_simps layout_eval)

lemma arm64_sysv_sem_layout [layout_simps]:
  "sizeof arm64_sysv_sem = 8 \<and> alignof arm64_sysv_sem = 8 \<and> wf_ctype arm64_sysv_sem"
  by (simp add: arm64_sysv_sem_def layout_simps layout_eval)

lemma arm64_sysv_shm_layout [layout_simps]:
  "sizeof arm64_sysv_shm = 16 \<and> alignof arm64_sysv_shm = 8 \<and> wf_ctype arm64_sysv_shm"
  by (simp add: arm64_sysv_shm_def layout_simps layout_eval)

lemma arm64_sigset_t_layout [layout_simps]:
  "sizeof arm64_sigset_t = 8 \<and> alignof arm64_sigset_t = 8 \<and> wf_ctype arm64_sigset_t"
  by (simp add: arm64_sigset_t_def layout_simps layout_eval)

lemma arm64_sigpending_layout [layout_simps]:
  "sizeof arm64_sigpending = 24 \<and> alignof arm64_sigpending = 8 \<and> wf_ctype arm64_sigpending"
  by (simp add: arm64_sigpending_def layout_simps layout_eval)

lemma arm64___kernel_ulong_t_layout [layout_simps]:
  "sizeof arm64___kernel_ulong_t = 8 \<and> alignof arm64___kernel_ulong_t = 8 \<and> wf_ctype arm64___kernel_ulong_t"
  by (simp add: arm64___kernel_ulong_t_def layout_simps layout_eval)

lemma arm64___kernel_size_t_layout [layout_simps]:
  "sizeof arm64___kernel_size_t = 8 \<and> alignof arm64___kernel_size_t = 8 \<and> wf_ctype arm64___kernel_size_t"
  by (simp add: arm64___kernel_size_t_def layout_simps layout_eval)

lemma arm64_size_t_layout [layout_simps]:
  "sizeof arm64_size_t = 8 \<and> alignof arm64_size_t = 8 \<and> wf_ctype arm64_size_t"
  by (simp add: arm64_size_t_def layout_simps layout_eval)

lemma arm64___kernel_uid32_t_layout [layout_simps]:
  "sizeof arm64___kernel_uid32_t = 4 \<and> alignof arm64___kernel_uid32_t = 4 \<and> wf_ctype arm64___kernel_uid32_t"
  by (simp add: arm64___kernel_uid32_t_def layout_simps layout_eval)

lemma arm64_uid_t_layout [layout_simps]:
  "sizeof arm64_uid_t = 4 \<and> alignof arm64_uid_t = 4 \<and> wf_ctype arm64_uid_t"
  by (simp add: arm64_uid_t_def layout_simps layout_eval)

lemma arm64_kuid_t_layout [layout_simps]:
  "sizeof arm64_kuid_t = 4 \<and> alignof arm64_kuid_t = 4 \<and> wf_ctype arm64_kuid_t"
  by (simp add: arm64_kuid_t_def layout_simps layout_eval)

lemma arm64_seccomp_layout [layout_simps]:
  "sizeof arm64_seccomp = 16 \<and> alignof arm64_seccomp = 8 \<and> wf_ctype arm64_seccomp"
  by (simp add: arm64_seccomp_def layout_simps layout_eval)

lemma arm64_syscall_user_dispatch_layout [layout_simps]:
  "sizeof arm64_syscall_user_dispatch = 0 \<and> alignof arm64_syscall_user_dispatch = 1 \<and> wf_ctype arm64_syscall_user_dispatch"
  by (simp add: arm64_syscall_user_dispatch_def layout_simps layout_eval)

lemma arm64_spinlock_layout [layout_simps]:
  "sizeof arm64_spinlock = 4 \<and> alignof arm64_spinlock = 4 \<and> wf_ctype arm64_spinlock"
  by (simp add: arm64_spinlock_def layout_simps layout_eval)

lemma arm64_spinlock_t_layout [layout_simps]:
  "sizeof arm64_spinlock_t = 4 \<and> alignof arm64_spinlock_t = 4 \<and> wf_ctype arm64_spinlock_t"
  by (simp add: arm64_spinlock_t_def layout_simps layout_eval)

lemma arm64_wake_q_node_layout [layout_simps]:
  "sizeof arm64_wake_q_node = 8 \<and> alignof arm64_wake_q_node = 8 \<and> wf_ctype arm64_wake_q_node"
  by (simp add: arm64_wake_q_node_def layout_simps layout_eval)

lemma arm64_task_io_accounting_layout [layout_simps]:
  "sizeof arm64_task_io_accounting = 56 \<and> alignof arm64_task_io_accounting = 8 \<and> wf_ctype arm64_task_io_accounting"
  by (simp add: arm64_task_io_accounting_def layout_simps layout_eval)

lemma arm64_nodemask_t_layout [layout_simps]:
  "sizeof arm64_nodemask_t = 8 \<and> alignof arm64_nodemask_t = 8 \<and> wf_ctype arm64_nodemask_t"
  by (simp add: arm64_nodemask_t_def layout_simps layout_eval)

lemma arm64_seqcount_spinlock_layout [layout_simps]:
  "sizeof arm64_seqcount_spinlock = 4 \<and> alignof arm64_seqcount_spinlock = 4 \<and> wf_ctype arm64_seqcount_spinlock"
  by (simp add: arm64_seqcount_spinlock_def layout_simps layout_eval)

lemma arm64_seqcount_spinlock_t_layout [layout_simps]:
  "sizeof arm64_seqcount_spinlock_t = 4 \<and> alignof arm64_seqcount_spinlock_t = 4 \<and> wf_ctype arm64_seqcount_spinlock_t"
  by (simp add: arm64_seqcount_spinlock_t_def layout_simps layout_eval)

lemma arm64_arch_tlbflush_unmap_batch_layout [layout_simps]:
  "sizeof arm64_arch_tlbflush_unmap_batch = 0 \<and> alignof arm64_arch_tlbflush_unmap_batch = 1 \<and> wf_ctype arm64_arch_tlbflush_unmap_batch"
  by (simp add: arm64_arch_tlbflush_unmap_batch_def layout_simps layout_eval)

lemma arm64_tlbflush_unmap_batch_layout [layout_simps]:
  "sizeof arm64_tlbflush_unmap_batch = 2 \<and> alignof arm64_tlbflush_unmap_batch = 1 \<and> wf_ctype arm64_tlbflush_unmap_batch"
  by (simp add: arm64_tlbflush_unmap_batch_def layout_simps layout_eval)

lemma arm64_page_frag_layout [layout_simps]:
  "sizeof arm64_page_frag = 16 \<and> alignof arm64_page_frag = 8 \<and> wf_ctype arm64_page_frag"
  by (simp add: arm64_page_frag_def layout_simps layout_eval)

lemma arm64_latency_record_layout [layout_simps]:
  "sizeof arm64_latency_record = 120 \<and> alignof arm64_latency_record = 8 \<and> wf_ctype arm64_latency_record"
  by (simp add: arm64_latency_record_def layout_simps layout_eval)

lemma arm64_gfp_t_layout [layout_simps]:
  "sizeof arm64_gfp_t = 4 \<and> alignof arm64_gfp_t = 4 \<and> wf_ctype arm64_gfp_t"
  by (simp add: arm64_gfp_t_def layout_simps layout_eval)

lemma arm64_kmap_ctrl_layout [layout_simps]:
  "sizeof arm64_kmap_ctrl = 0 \<and> alignof arm64_kmap_ctrl = 1 \<and> wf_ctype arm64_kmap_ctrl"
  by (simp add: arm64_kmap_ctrl_def layout_simps layout_eval)

lemma arm64_timer_list_layout [layout_simps]:
  "sizeof arm64_timer_list = 40 \<and> alignof arm64_timer_list = 8 \<and> wf_ctype arm64_timer_list"
  by (simp add: arm64_timer_list_def layout_simps layout_eval)

lemma arm64_llist_head_layout [layout_simps]:
  "sizeof arm64_llist_head = 8 \<and> alignof arm64_llist_head = 8 \<and> wf_ctype arm64_llist_head"
  by (simp add: arm64_llist_head_def layout_simps layout_eval)

lemma arm64_da_monitor_layout [layout_simps]:
  "sizeof arm64_da_monitor = 8 \<and> alignof arm64_da_monitor = 4 \<and> wf_ctype arm64_da_monitor"
  by (simp add: arm64_da_monitor_def layout_simps layout_eval)

lemma arm64_rv_task_monitor_layout [layout_simps]:
  "sizeof arm64_rv_task_monitor = 8 \<and> alignof arm64_rv_task_monitor = 4 \<and> wf_ctype arm64_rv_task_monitor"
  by (simp add: arm64_rv_task_monitor_def layout_simps layout_eval)

lemma arm64_cpu_context_layout [layout_simps]:
  "sizeof arm64_cpu_context = 104 \<and> alignof arm64_cpu_context = 8 \<and> wf_ctype arm64_cpu_context"
  by (simp add: arm64_cpu_context_def layout_simps layout_eval)

lemma arm64_user_fpsimd_state_layout [layout_simps]:
  "sizeof arm64_user_fpsimd_state = 528 \<and> alignof arm64_user_fpsimd_state = 16 \<and> wf_ctype arm64_user_fpsimd_state"
  by (simp add: arm64_user_fpsimd_state_def layout_simps layout_eval)

lemma arm64_fp_type_layout [layout_simps]:
  "sizeof arm64_fp_type = 4 \<and> alignof arm64_fp_type = 4 \<and> wf_ctype arm64_fp_type"
  by (simp add: arm64_fp_type_def layout_simps layout_eval)

lemma arm64_debug_info_layout [layout_simps]:
  "sizeof arm64_debug_info = 272 \<and> alignof arm64_debug_info = 8 \<and> wf_ctype arm64_debug_info"
  by (simp add: arm64_debug_info_def layout_simps layout_eval)

lemma arm64_ptrauth_key_layout [layout_simps]:
  "sizeof arm64_ptrauth_key = 16 \<and> alignof arm64_ptrauth_key = 8 \<and> wf_ctype arm64_ptrauth_key"
  by (simp add: arm64_ptrauth_key_def layout_simps layout_eval)

lemma arm64_ptrauth_keys_user_layout [layout_simps]:
  "sizeof arm64_ptrauth_keys_user = 80 \<and> alignof arm64_ptrauth_keys_user = 8 \<and> wf_ctype arm64_ptrauth_keys_user"
  by (simp add: arm64_ptrauth_keys_user_def layout_simps layout_eval)

lemma arm64_ptrauth_keys_kernel_layout [layout_simps]:
  "sizeof arm64_ptrauth_keys_kernel = 16 \<and> alignof arm64_ptrauth_keys_kernel = 8 \<and> wf_ctype arm64_ptrauth_keys_kernel"
  by (simp add: arm64_ptrauth_keys_kernel_def layout_simps layout_eval)

lemma arm64_thread_struct_layout [layout_simps]:
  "sizeof arm64_thread_struct = 1664 \<and> alignof arm64_thread_struct = 16 \<and> wf_ctype arm64_thread_struct"
  by (simp add: arm64_thread_struct_def layout_simps layout_eval)

lemma arm64_task_struct_1_layout [layout_simps]:
  "send 0 arm64_task_struct_1 = 1536 \<and> aligns arm64_task_struct_1 = 8 \<and> wf_members arm64_task_struct_1"
  by (simp add: arm64_task_struct_1_def layout_simps layout_eval)

lemma arm64_task_struct_2_layout [layout_simps]:
  "send 1536 arm64_task_struct_2 = 9664 \<and> aligns arm64_task_struct_2 = 8 \<and> wf_members arm64_task_struct_2"
  by (simp add: arm64_task_struct_2_def layout_simps layout_eval)

lemma arm64_task_struct_3_layout [layout_simps]:
  "send 9664 arm64_task_struct_3 = 11936 \<and> aligns arm64_task_struct_3 = 8 \<and> wf_members arm64_task_struct_3"
  by (simp add: arm64_task_struct_3_def layout_simps layout_eval)

lemma arm64_task_struct_4_layout [layout_simps]:
  "send 11936 arm64_task_struct_4 = 12288 \<and> aligns arm64_task_struct_4 = 8 \<and> wf_members arm64_task_struct_4"
  by (simp add: arm64_task_struct_4_def layout_simps layout_eval)

lemma arm64_task_struct_5_layout [layout_simps]:
  "send 12288 arm64_task_struct_5 = 15328 \<and> aligns arm64_task_struct_5 = 8 \<and> wf_members arm64_task_struct_5"
  by (simp add: arm64_task_struct_5_def layout_simps layout_eval)

lemma arm64_task_struct_6_layout [layout_simps]:
  "send 15328 arm64_task_struct_6 = 17984 \<and> aligns arm64_task_struct_6 = 8 \<and> wf_members arm64_task_struct_6"
  by (simp add: arm64_task_struct_6_def layout_simps layout_eval)

lemma arm64_task_struct_7_layout [layout_simps]:
  "send 17984 arm64_task_struct_7 = 19584 \<and> aligns arm64_task_struct_7 = 8 \<and> wf_members arm64_task_struct_7"
  by (simp add: arm64_task_struct_7_def layout_simps layout_eval)

lemma arm64_task_struct_8_layout [layout_simps]:
  "send 19584 arm64_task_struct_8 = 21760 \<and> aligns arm64_task_struct_8 = 8 \<and> wf_members arm64_task_struct_8"
  by (simp add: arm64_task_struct_8_def layout_simps layout_eval)

lemma arm64_task_struct_9_layout [layout_simps]:
  "send 21760 arm64_task_struct_9 = 23456 \<and> aligns arm64_task_struct_9 = 8 \<and> wf_members arm64_task_struct_9"
  by (simp add: arm64_task_struct_9_def layout_simps layout_eval)

lemma arm64_task_struct_10_layout [layout_simps]:
  "send 23456 arm64_task_struct_10 = 55456 \<and> aligns arm64_task_struct_10 = 8 \<and> wf_members arm64_task_struct_10"
  by (simp add: arm64_task_struct_10_def layout_simps layout_eval)

lemma arm64_task_struct_11_layout [layout_simps]:
  "send 55456 arm64_task_struct_11 = 57088 \<and> aligns arm64_task_struct_11 = 8 \<and> wf_members arm64_task_struct_11"
  by (simp add: arm64_task_struct_11_def layout_simps layout_eval)

lemma arm64_task_struct_12_layout [layout_simps]:
  "send 57088 arm64_task_struct_12 = 70656 \<and> aligns arm64_task_struct_12 = 16 \<and> wf_members arm64_task_struct_12"
  by (simp add: arm64_task_struct_12_def layout_simps layout_eval)

lemma arm64_task_struct_layout [layout_simps]:
  "sizeof arm64_task_struct = 8832 \<and> alignof arm64_task_struct = 16 \<and> wf_ctype arm64_task_struct"
  by (simp add: arm64_task_struct_def layout_simps layout_eval)

lemma arm64_lockdep_map_p_layout [layout_simps]:
  "sizeof arm64_lockdep_map_p = 0 \<and> alignof arm64_lockdep_map_p = 1 \<and> wf_ctype arm64_lockdep_map_p"
  by (simp add: arm64_lockdep_map_p_def layout_simps layout_eval)

lemma arm64_maple_tree_layout [layout_simps]:
  "sizeof arm64_maple_tree = 16 \<and> alignof arm64_maple_tree = 8 \<and> wf_ctype arm64_maple_tree"
  by (simp add: arm64_maple_tree_def layout_simps layout_eval)

lemma arm64_rw_semaphore_layout [layout_simps]:
  "sizeof arm64_rw_semaphore = 40 \<and> alignof arm64_rw_semaphore = 8 \<and> wf_ctype arm64_rw_semaphore"
  by (simp add: arm64_rw_semaphore_def layout_simps layout_eval)

lemma arm64_percpu_counter_layout [layout_simps]:
  "sizeof arm64_percpu_counter = 40 \<and> alignof arm64_percpu_counter = 8 \<and> wf_ctype arm64_percpu_counter"
  by (simp add: arm64_percpu_counter_def layout_simps layout_eval)

lemma arm64_mm_context_t_layout [layout_simps]:
  "sizeof arm64_mm_context_t = 40 \<and> alignof arm64_mm_context_t = 8 \<and> wf_ctype arm64_mm_context_t"
  by (simp add: arm64_mm_context_t_def layout_simps layout_eval)

lemma arm64_uprobes_state_layout [layout_simps]:
  "sizeof arm64_uprobes_state = 8 \<and> alignof arm64_uprobes_state = 8 \<and> wf_ctype arm64_uprobes_state"
  by (simp add: arm64_uprobes_state_def layout_simps layout_eval)

lemma arm64_work_func_t_layout [layout_simps]:
  "sizeof arm64_work_func_t = 8 \<and> alignof arm64_work_func_t = 8 \<and> wf_ctype arm64_work_func_t"
  by (simp add: arm64_work_func_t_def layout_simps layout_eval)

lemma arm64_work_struct_layout [layout_simps]:
  "sizeof arm64_work_struct = 32 \<and> alignof arm64_work_struct = 8 \<and> wf_ctype arm64_work_struct"
  by (simp add: arm64_work_struct_def layout_simps layout_eval)

lemma arm64_mm_struct_layout [layout_simps]:
  "sizeof arm64_mm_struct = 1216 \<and> alignof arm64_mm_struct = 8 \<and> wf_ctype arm64_mm_struct"
  by (simp add: arm64_mm_struct_def layout_simps layout_eval)

lemma arm64_wait_queue_head_layout [layout_simps]:
  "sizeof arm64_wait_queue_head = 24 \<and> alignof arm64_wait_queue_head = 8 \<and> wf_ctype arm64_wait_queue_head"
  by (simp add: arm64_wait_queue_head_def layout_simps layout_eval)

lemma arm64_wait_queue_head_t_layout [layout_simps]:
  "sizeof arm64_wait_queue_head_t = 24 \<and> alignof arm64_wait_queue_head_t = 8 \<and> wf_ctype arm64_wait_queue_head_t"
  by (simp add: arm64_wait_queue_head_t_def layout_simps layout_eval)

lemma arm64_cpu_itimer_layout [layout_simps]:
  "sizeof arm64_cpu_itimer = 16 \<and> alignof arm64_cpu_itimer = 8 \<and> wf_ctype arm64_cpu_itimer"
  by (simp add: arm64_cpu_itimer_def layout_simps layout_eval)

lemma arm64_task_cputime_atomic_layout [layout_simps]:
  "sizeof arm64_task_cputime_atomic = 24 \<and> alignof arm64_task_cputime_atomic = 8 \<and> wf_ctype arm64_task_cputime_atomic"
  by (simp add: arm64_task_cputime_atomic_def layout_simps layout_eval)

lemma arm64_thread_group_cputimer_layout [layout_simps]:
  "sizeof arm64_thread_group_cputimer = 24 \<and> alignof arm64_thread_group_cputimer = 8 \<and> wf_ctype arm64_thread_group_cputimer"
  by (simp add: arm64_thread_group_cputimer_def layout_simps layout_eval)

lemma arm64_seqlock_t_layout [layout_simps]:
  "sizeof arm64_seqlock_t = 8 \<and> alignof arm64_seqlock_t = 4 \<and> wf_ctype arm64_seqlock_t"
  by (simp add: arm64_seqlock_t_def layout_simps layout_eval)

lemma arm64_rlimit_layout [layout_simps]:
  "sizeof arm64_rlimit = 16 \<and> alignof arm64_rlimit = 8 \<and> wf_ctype arm64_rlimit"
  by (simp add: arm64_rlimit_def layout_simps layout_eval)

lemma arm64_pacct_struct_layout [layout_simps]:
  "sizeof arm64_pacct_struct = 56 \<and> alignof arm64_pacct_struct = 8 \<and> wf_ctype arm64_pacct_struct"
  by (simp add: arm64_pacct_struct_def layout_simps layout_eval)

lemma arm64_signal_struct_layout [layout_simps]:
  "sizeof arm64_signal_struct = 1112 \<and> alignof arm64_signal_struct = 8 \<and> wf_ctype arm64_signal_struct"
  by (simp add: arm64_signal_struct_def layout_simps layout_eval)

lemma arm64___kernel_gid32_t_layout [layout_simps]:
  "sizeof arm64___kernel_gid32_t = 4 \<and> alignof arm64___kernel_gid32_t = 4 \<and> wf_ctype arm64___kernel_gid32_t"
  by (simp add: arm64___kernel_gid32_t_def layout_simps layout_eval)

lemma arm64_gid_t_layout [layout_simps]:
  "sizeof arm64_gid_t = 4 \<and> alignof arm64_gid_t = 4 \<and> wf_ctype arm64_gid_t"
  by (simp add: arm64_gid_t_def layout_simps layout_eval)

lemma arm64_kgid_t_layout [layout_simps]:
  "sizeof arm64_kgid_t = 4 \<and> alignof arm64_kgid_t = 4 \<and> wf_ctype arm64_kgid_t"
  by (simp add: arm64_kgid_t_def layout_simps layout_eval)

lemma arm64_kernel_cap_t_layout [layout_simps]:
  "sizeof arm64_kernel_cap_t = 8 \<and> alignof arm64_kernel_cap_t = 8 \<and> wf_ctype arm64_kernel_cap_t"
  by (simp add: arm64_kernel_cap_t_def layout_simps layout_eval)

lemma arm64_cred_layout [layout_simps]:
  "sizeof arm64_cred = 184 \<and> alignof arm64_cred = 8 \<and> wf_ctype arm64_cred"
  by (simp add: arm64_cred_def layout_simps layout_eval)

lemma arm64_css_set_layout [layout_simps]:
  "sizeof arm64_css_set = 592 \<and> alignof arm64_css_set = 8 \<and> wf_ctype arm64_css_set"
  by (simp add: arm64_css_set_def layout_simps layout_eval)

lemma arm64_percpu_ref_layout [layout_simps]:
  "sizeof arm64_percpu_ref = 16 \<and> alignof arm64_percpu_ref = 8 \<and> wf_ctype arm64_percpu_ref"
  by (simp add: arm64_percpu_ref_def layout_simps layout_eval)

lemma arm64_rcu_work_layout [layout_simps]:
  "sizeof arm64_rcu_work = 56 \<and> alignof arm64_rcu_work = 8 \<and> wf_ctype arm64_rcu_work"
  by (simp add: arm64_rcu_work_def layout_simps layout_eval)

lemma arm64_cgroup_subsys_state_layout [layout_simps]:
  "sizeof arm64_cgroup_subsys_state = 200 \<and> alignof arm64_cgroup_subsys_state = 8 \<and> wf_ctype arm64_cgroup_subsys_state"
  by (simp add: arm64_cgroup_subsys_state_def layout_simps layout_eval)

lemma arm64_cgroup_file_layout [layout_simps]:
  "sizeof arm64_cgroup_file = 56 \<and> alignof arm64_cgroup_file = 8 \<and> wf_ctype arm64_cgroup_file"
  by (simp add: arm64_cgroup_file_def layout_simps layout_eval)

lemma arm64_cacheline_padding_layout [layout_simps]:
  "sizeof arm64_cacheline_padding = 0 \<and> alignof arm64_cacheline_padding = 1 \<and> wf_ctype arm64_cacheline_padding"
  by (simp add: arm64_cacheline_padding_def layout_simps layout_eval)

lemma arm64_task_cputime_layout [layout_simps]:
  "sizeof arm64_task_cputime = 24 \<and> alignof arm64_task_cputime = 8 \<and> wf_ctype arm64_task_cputime"
  by (simp add: arm64_task_cputime_def layout_simps layout_eval)

lemma arm64_cgroup_base_stat_layout [layout_simps]:
  "sizeof arm64_cgroup_base_stat = 32 \<and> alignof arm64_cgroup_base_stat = 8 \<and> wf_ctype arm64_cgroup_base_stat"
  by (simp add: arm64_cgroup_base_stat_def layout_simps layout_eval)

lemma arm64_cgroup_bpf_layout [layout_simps]:
  "sizeof arm64_cgroup_bpf = 720 \<and> alignof arm64_cgroup_bpf = 8 \<and> wf_ctype arm64_cgroup_bpf"
  by (simp add: arm64_cgroup_bpf_def layout_simps layout_eval)

lemma arm64_cgroup_freezer_state_layout [layout_simps]:
  "sizeof arm64_cgroup_freezer_state = 16 \<and> alignof arm64_cgroup_freezer_state = 4 \<and> wf_ctype arm64_cgroup_freezer_state"
  by (simp add: arm64_cgroup_freezer_state_def layout_simps layout_eval)

lemma arm64_cgroup_layout [layout_simps]:
  "sizeof arm64_cgroup = 1920 \<and> alignof arm64_cgroup = 8 \<and> wf_ctype arm64_cgroup"
  by (simp add: arm64_cgroup_def layout_simps layout_eval)

lemma arm64_kernfs_elem_dir_layout [layout_simps]:
  "sizeof arm64_kernfs_elem_dir = 32 \<and> alignof arm64_kernfs_elem_dir = 8 \<and> wf_ctype arm64_kernfs_elem_dir"
  by (simp add: arm64_kernfs_elem_dir_def layout_simps layout_eval)

lemma arm64_kernfs_elem_symlink_layout [layout_simps]:
  "sizeof arm64_kernfs_elem_symlink = 8 \<and> alignof arm64_kernfs_elem_symlink = 8 \<and> wf_ctype arm64_kernfs_elem_symlink"
  by (simp add: arm64_kernfs_elem_symlink_def layout_simps layout_eval)

lemma arm64___kernel_loff_t_layout [layout_simps]:
  "sizeof arm64___kernel_loff_t = 8 \<and> alignof arm64___kernel_loff_t = 8 \<and> wf_ctype arm64___kernel_loff_t"
  by (simp add: arm64___kernel_loff_t_def layout_simps layout_eval)

lemma arm64_loff_t_layout [layout_simps]:
  "sizeof arm64_loff_t = 8 \<and> alignof arm64_loff_t = 8 \<and> wf_ctype arm64_loff_t"
  by (simp add: arm64_loff_t_def layout_simps layout_eval)

lemma arm64_kernfs_elem_attr_layout [layout_simps]:
  "sizeof arm64_kernfs_elem_attr = 32 \<and> alignof arm64_kernfs_elem_attr = 8 \<and> wf_ctype arm64_kernfs_elem_attr"
  by (simp add: arm64_kernfs_elem_attr_def layout_simps layout_eval)

lemma arm64_umode_t_layout [layout_simps]:
  "sizeof arm64_umode_t = 2 \<and> alignof arm64_umode_t = 2 \<and> wf_ctype arm64_umode_t"
  by (simp add: arm64_umode_t_def layout_simps layout_eval)

lemma arm64_kernfs_node_layout [layout_simps]:
  "sizeof arm64_kernfs_node = 144 \<and> alignof arm64_kernfs_node = 8 \<and> wf_ctype arm64_kernfs_node"
  by (simp add: arm64_kernfs_node_def layout_simps layout_eval)

lemma arm64_trace_entry_layout [layout_simps]:
  "sizeof arm64_trace_entry = 8 \<and> alignof arm64_trace_entry = 4 \<and> wf_ctype arm64_trace_entry"
  by (simp add: arm64_trace_entry_def layout_simps layout_eval)

lemma arm64_trace_event_raw_sched_process_exec_layout [layout_simps]:
  "sizeof arm64_trace_event_raw_sched_process_exec = 20 \<and> alignof arm64_trace_event_raw_sched_process_exec = 4 \<and> wf_ctype arm64_trace_event_raw_sched_process_exec"
  by (simp add: arm64_trace_event_raw_sched_process_exec_def layout_simps layout_eval)

lemma arm64_trace_event_raw_sched_process_fork_layout [layout_simps]:
  "sizeof arm64_trace_event_raw_sched_process_fork = 48 \<and> alignof arm64_trace_event_raw_sched_process_fork = 4 \<and> wf_ctype arm64_trace_event_raw_sched_process_fork"
  by (simp add: arm64_trace_event_raw_sched_process_fork_def layout_simps layout_eval)

lemma arm64_trace_event_raw_sched_process_template_layout [layout_simps]:
  "sizeof arm64_trace_event_raw_sched_process_template = 32 \<and> alignof arm64_trace_event_raw_sched_process_template = 4 \<and> wf_ctype arm64_trace_event_raw_sched_process_template"
  by (simp add: arm64_trace_event_raw_sched_process_template_def layout_simps layout_eval)

section \<open>Fields read by the programs\<close>

lemmas arm64_task_struct_parts =
  arm64_task_struct_1_def
  arm64_task_struct_2_def
  arm64_task_struct_3_def
  arm64_task_struct_4_def
  arm64_task_struct_5_def
  arm64_task_struct_6_def
  arm64_task_struct_7_def
  arm64_task_struct_8_def
  arm64_task_struct_9_def
  arm64_task_struct_10_def
  arm64_task_struct_11_def
  arm64_task_struct_12_def

lemma arm64_task_struct_pid [layout_simps]:
  "designate arm64_task_struct [''pid''] = Some (12736, arm64_pid_t)"
  by (simp only: designate.simps arm64_task_struct_def member_of.simps smember_append layout_simps)
    (simp add: arm64_task_struct_parts layout_simps layout_eval)

lemma arm64_task_struct_tgid [layout_simps]:
  "designate arm64_task_struct [''tgid''] = Some (12768, arm64_pid_t)"
  by (simp only: designate.simps arm64_task_struct_def member_of.simps smember_append layout_simps)
    (simp add: arm64_task_struct_parts layout_simps layout_eval)

lemma arm64_task_struct_real_parent [layout_simps]:
  "designate arm64_task_struct [''real_parent''] = Some (12864, CPtr ''struct task_struct'')"
  by (simp only: designate.simps arm64_task_struct_def member_of.simps smember_append layout_simps)
    (simp add: arm64_task_struct_parts layout_simps layout_eval)

lemma arm64_task_struct_group_leader [layout_simps]:
  "designate arm64_task_struct [''group_leader''] = Some (13248, CPtr ''struct task_struct'')"
  by (simp only: designate.simps arm64_task_struct_def member_of.simps smember_append layout_simps)
    (simp add: arm64_task_struct_parts layout_simps layout_eval)

lemma arm64_task_struct_start_boottime [layout_simps]:
  "designate arm64_task_struct [''start_boottime''] = Some (15552, arm64_u64)"
  by (simp only: designate.simps arm64_task_struct_def member_of.simps smember_append layout_simps)
    (simp add: arm64_task_struct_parts layout_simps layout_eval)

lemma arm64_task_struct_cred [layout_simps]:
  "designate arm64_task_struct [''cred''] = Some (16960, CPtr ''struct cred'')"
  by (simp only: designate.simps arm64_task_struct_def member_of.simps smember_append layout_simps)
    (simp add: arm64_task_struct_parts layout_simps layout_eval)

lemma arm64_task_struct_mm [layout_simps]:
  "designate arm64_task_struct [''mm''] = Some (11712, CPtr ''struct mm_struct'')"
  by (simp only: designate.simps arm64_task_struct_def member_of.simps smember_append layout_simps)
    (simp add: arm64_task_struct_parts layout_simps layout_eval)

lemma arm64_task_struct_signal [layout_simps]:
  "designate arm64_task_struct [''signal''] = Some (17856, CPtr ''struct signal_struct'')"
  by (simp only: designate.simps arm64_task_struct_def member_of.simps smember_append layout_simps)
    (simp add: arm64_task_struct_parts layout_simps layout_eval)

lemma arm64_task_struct_cgroups [layout_simps]:
  "designate arm64_task_struct [''cgroups''] = Some (20864, CPtr ''struct css_set'')"
  by (simp only: designate.simps arm64_task_struct_def member_of.simps smember_append layout_simps)
    (simp add: arm64_task_struct_parts layout_simps layout_eval)

lemma arm64_task_struct_exit_code [layout_simps]:
  "designate arm64_task_struct [''exit_code''] = Some (11936, c_int)"
  by (simp only: designate.simps arm64_task_struct_def member_of.simps smember_append layout_simps)
    (simp add: arm64_task_struct_parts layout_simps layout_eval)

lemma arm64_task_struct_comm [layout_simps]:
  "designate arm64_task_struct [''comm''] = Some (17088, CArr c_char 16)"
  by (simp only: designate.simps arm64_task_struct_def member_of.simps smember_append layout_simps)
    (simp add: arm64_task_struct_parts layout_simps layout_eval)

lemma arm64_cred_uid_val [layout_simps]:
  "designate arm64_cred [''uid'', ''val''] = Some (64, arm64_uid_t)"
  by (simp add: arm64_cred_def arm64_kuid_t_def layout_simps layout_eval)

lemma arm64_cred_gid_val [layout_simps]:
  "designate arm64_cred [''gid'', ''val''] = Some (96, arm64_gid_t)"
  by (simp add: arm64_cred_def arm64_kgid_t_def layout_simps layout_eval)

lemma arm64_mm_struct_arg_start [layout_simps]:
  "designate arm64_mm_struct [''arg_start''] = Some (2880, c_ulong)"
  by (simp add: arm64_mm_struct_def layout_simps layout_eval)

lemma arm64_mm_struct_arg_end [layout_simps]:
  "designate arm64_mm_struct [''arg_end''] = Some (2944, c_ulong)"
  by (simp add: arm64_mm_struct_def layout_simps layout_eval)

lemma arm64_signal_struct_live_counter [layout_simps]:
  "designate arm64_signal_struct [''live'', ''counter''] = Some (32, c_int)"
  by (simp add: arm64_signal_struct_def arm64_atomic_t_def layout_simps layout_eval)

lemma arm64_css_set_dfl_cgrp [layout_simps]:
  "designate arm64_css_set [''dfl_cgrp''] = Some (1024, CPtr ''struct cgroup'')"
  by (simp add: arm64_css_set_def layout_simps layout_eval)

lemma arm64_cgroup_kn [layout_simps]:
  "designate arm64_cgroup [''kn''] = Some (1984, CPtr ''struct kernfs_node'')"
  by (simp add: arm64_cgroup_def layout_simps layout_eval)

lemma arm64_kernfs_node_id [layout_simps]:
  "designate arm64_kernfs_node [''id''] = Some (832, arm64_u64)"
  by (simp add: arm64_kernfs_node_def layout_simps layout_eval)

lemma arm64_trace_event_raw_sched_process_exec_data_loc_filename [layout_simps]:
  "designate arm64_trace_event_raw_sched_process_exec [''__data_loc_filename''] = Some (64, arm64_u32)"
  by (simp add: arm64_trace_event_raw_sched_process_exec_def layout_simps layout_eval)

end
