(* ===== verification/KernelImage.thy ===== *)
theory KernelImage
  imports BpfProps Vmlinux_amd64 Vmlinux_arm64
begin

text \<open>
  What \<open>BPF_CORE_READ\<close> reads. The macro follows a path of member accesses from a
  \<open>task_struct\<close> through pointers to other kernel structures; with the type declarations of
  \<open>vmlinux_amd64.h\<close> and \<open>vmlinux_arm64.h\<close> and the layout functions, the model computes the
  addresses it visits and the value it finds in a kernel memory image. The lemmas give the
  header fields and the cgroup id in terms of that memory, at the byte offsets of each
  architecture.
\<close>

section \<open>Structures by name\<close>

type_synonym type_env = "string \<Rightarrow> ctype option"

definition amd64_env :: type_env where
  "amd64_env = map_of
     [(''struct task_struct'', amd64_task_struct), (''struct cred'', amd64_cred),
      (''struct mm_struct'', amd64_mm_struct), (''struct signal_struct'', amd64_signal_struct),
      (''struct css_set'', amd64_css_set), (''struct cgroup'', amd64_cgroup),
      (''struct kernfs_node'', amd64_kernfs_node)]"

definition arm64_env :: type_env where
  "arm64_env = map_of
     [(''struct task_struct'', arm64_task_struct), (''struct cred'', arm64_cred),
      (''struct mm_struct'', arm64_mm_struct), (''struct signal_struct'', arm64_signal_struct),
      (''struct css_set'', arm64_css_set), (''struct cgroup'', arm64_cgroup),
      (''struct kernfs_node'', arm64_kernfs_node)]"

text \<open>Byte offset and type of a member access.\<close>

definition field :: "type_env \<Rightarrow> string \<Rightarrow> designator \<Rightarrow> (nat \<times> ctype) option" where
  "field env S d =
     (case env S of None \<Rightarrow> None
      | Some t \<Rightarrow> (case designate t d of None \<Rightarrow> None | Some (p, u) \<Rightarrow> Some (p div 8, u)))"

section \<open>Reading kernel memory\<close>

type_synonym kmem = "u64 \<Rightarrow> u8 option"

definition peek :: "kmem \<Rightarrow> u64 \<Rightarrow> nat \<Rightarrow> nat option" where
  "peek m a n = map_option le_dec (those (map (\<lambda>i. m (a + of_nat i)) [0..<n]))"

fun load_scalar :: "kmem \<Rightarrow> u64 \<Rightarrow> ctype \<Rightarrow> u64 option" where
  "load_scalar m a (CInt sg n) =
     (case peek m a n of None \<Rightarrow> None
      | Some v \<Rightarrow> Some (of_int (if sg \<and> 2 ^ (8 * n - 1) \<le> v then int v - 2 ^ (8 * n) else int v)))"
| "load_scalar m a (CPtr p) = map_option of_nat (peek m a 8)"
| "load_scalar m a (CEnum e) = map_option of_nat (peek m a 4)"
| "load_scalar m a _ = None"

fun core_read :: "type_env \<Rightarrow> kmem \<Rightarrow> string \<Rightarrow> u64 \<Rightarrow> designator list \<Rightarrow> u64 option" where
  "core_read env m S a [] = None"
| "core_read env m S a [d] =
     (case field env S d of None \<Rightarrow> None | Some (off, t) \<Rightarrow> load_scalar m (a + of_nat off) t)"
| "core_read env m S a (d # e # ds) =
     (case field env S d of
        Some (off, CPtr T) \<Rightarrow>
          (case load_scalar m (a + of_nat off) (CPtr T) of
             None \<Rightarrow> None | Some b \<Rightarrow> core_read env m T b (e # ds))
      | _ \<Rightarrow> None)"

text \<open>
  The documented behaviour of the macro on a \<open>task_struct\<close> pointer: where the path is
  well-typed and the memory it visits is mapped, it returns the value found there.
\<close>

definition core_ok :: "type_env \<Rightarrow> kmem \<Rightarrow> kernel \<Rightarrow> bool" where
  "core_ok env m k \<longleftrightarrow>
     (\<forall>a p v. core_read env m ''struct task_struct'' a p = Some v \<longrightarrow> BPF_CORE_READ k a p = v)"

lemma of_int_32 [simp]: "(of_int (int v - 4294967296) :: u32) = of_nat v"
proof -
  have "(of_int (int v - 4294967296) :: u32) = of_int (int v) - of_int 4294967296" by (simp only: of_int_diff)
  then show ?thesis by simp
qed

section \<open>The paths of the programs\<close>

text \<open>
  A kernel whose types have the members the programs read, at the given byte offsets. The
  meaning of the programs' reads is proved once, for any such kernel.
\<close>

locale kernel_types =
  fixes env :: type_env
    and o_pid o_tgid o_parent o_leader o_start o_cred o_cgroups o_mm o_arg_start o_arg_end :: nat
  assumes pid: "field env ''struct task_struct'' [''pid''] = Some (o_pid, CInt True 4)"
    and tgid: "field env ''struct task_struct'' [''tgid''] = Some (o_tgid, CInt True 4)"
    and parent: "field env ''struct task_struct'' [''real_parent''] = Some (o_parent, CPtr ''struct task_struct'')"
    and leader: "field env ''struct task_struct'' [''group_leader''] = Some (o_leader, CPtr ''struct task_struct'')"
    and start: "field env ''struct task_struct'' [''start_boottime''] = Some (o_start, CInt False 8)"
    and cred: "field env ''struct task_struct'' [''cred''] = Some (o_cred, CPtr ''struct cred'')"
    and uid: "field env ''struct cred'' [''uid'', ''val''] = Some (8, CInt False 4)"
    and gid: "field env ''struct cred'' [''gid'', ''val''] = Some (12, CInt False 4)"
    and cgroups: "field env ''struct task_struct'' [''cgroups''] = Some (o_cgroups, CPtr ''struct css_set'')"
    and dfl_cgrp: "field env ''struct css_set'' [''dfl_cgrp''] = Some (128, CPtr ''struct cgroup'')"
    and kn: "field env ''struct cgroup'' [''kn''] = Some (248, CPtr ''struct kernfs_node'')"
    and id: "field env ''struct kernfs_node'' [''id''] = Some (104, CInt False 8)"
    and mm: "field env ''struct task_struct'' [''mm''] = Some (o_mm, CPtr ''struct mm_struct'')"
    and arg_start: "field env ''struct mm_struct'' [''arg_start''] = Some (o_arg_start, CInt False 8)"
    and arg_end: "field env ''struct mm_struct'' [''arg_end''] = Some (o_arg_end, CInt False 8)"
begin

lemmas fields = pid tgid parent leader start cred uid gid cgroups dfl_cgrp kn id mm arg_start arg_end

lemma reads:
  assumes "core_ok env m k"
  shows "core_read env m ''struct task_struct'' a p = Some v \<Longrightarrow> BPF_CORE_READ k a p = v"
  using assms by (simp add: core_ok_def)

lemma header:
  assumes k: "core_ok env m k"
    and "peek m (task + of_nat o_pid) 4 = Some v_pid" "peek m (task + of_nat o_tgid) 4 = Some v_tgid"
    and "peek m (task + of_nat o_parent) 8 = Some par" "peek m (of_nat par + of_nat o_tgid) 4 = Some v_ppid"
    and "peek m (task + of_nat o_cred) 8 = Some cr"
    and "peek m (of_nat cr + 8) 4 = Some v_uid" "peek m (of_nat cr + 12) 4 = Some v_gid"
    and "peek m (task + of_nat o_leader) 8 = Some ld" "peek m (of_nat ld + of_nat o_start) 8 = Some v_start"
    and "peek m (of_nat par + of_nat o_leader) 8 = Some pld"
    and "peek m (of_nat pld + of_nat o_start) 8 = Some v_pstart"
  shows "fill_header k ty task cg = \<lparr>h_type = ty, h_pid = of_nat v_pid, h_tgid = of_nat v_tgid,
    h_ppid = of_nat v_ppid, h_uid = of_nat v_uid, h_gid = of_nat v_gid,
    h_timestamp = bpf_ktime_get_boot_ns k, h_cgroup_id = cg,
    h_start_time = of_nat v_start, h_parent_start_time = of_nat v_pstart\<rparr>"
proof -
  have p: "BPF_CORE_READ k task [[''real_parent'']] = of_nat par"
    by (rule reads [OF k]) (simp add: fields assms)
  have "(ucast (BPF_CORE_READ k task [[''pid'']]) :: u32) = of_nat v_pid"
    by (subst reads [OF k]) (auto simp: fields assms)
  moreover have "(ucast (BPF_CORE_READ k task [[''tgid'']]) :: u32) = of_nat v_tgid"
    by (subst reads [OF k]) (auto simp: fields assms)
  moreover have "(ucast (BPF_CORE_READ k (of_nat par) [[''tgid'']]) :: u32) = of_nat v_ppid"
    by (subst reads [OF k]) (auto simp: fields assms)
  moreover have "(ucast (BPF_CORE_READ k task [[''cred''], [''uid'', ''val'']]) :: u32) = of_nat v_uid"
    by (subst reads [OF k]) (auto simp: fields assms)
  moreover have "(ucast (BPF_CORE_READ k task [[''cred''], [''gid'', ''val'']]) :: u32) = of_nat v_gid"
    by (subst reads [OF k]) (auto simp: fields assms)
  moreover have "BPF_CORE_READ k task [[''group_leader''], [''start_boottime'']] = of_nat v_start"
    by (rule reads [OF k]) (simp add: fields assms)
  moreover have "BPF_CORE_READ k (of_nat par) [[''group_leader''], [''start_boottime'']] = of_nat v_pstart"
    by (rule reads [OF k]) (simp add: fields assms)
  ultimately show ?thesis unfolding fill_header_def Let_def p by simp
qed

lemma cgroup:
  assumes k: "core_ok env m k"
    and "peek m (task + of_nat o_cgroups) 8 = Some css" "peek m (of_nat css + 128) 8 = Some cgrp"
    and "peek m (of_nat cgrp + 248) 8 = Some v_kn" "peek m (of_nat v_kn + 104) 8 = Some v_id"
  shows "task_cgroup_id k task = of_nat v_id"
  unfolding task_cgroup_id_def by (rule reads [OF k]) (simp add: fields assms)

lemma argv:
  assumes k: "core_ok env m k"
    and "peek m (task + of_nat o_mm) 8 = Some v_mm"
    and "peek m (of_nat v_mm + of_nat o_arg_start) 8 = Some s"
    and "peek m (of_nat v_mm + of_nat o_arg_end) 8 = Some e"
  shows "argv_length k task = (if (of_nat e :: u64) > of_nat s then of_nat e - of_nat s else 0)"
proof -
  have "BPF_CORE_READ k task [[''mm''], [''arg_start'']] = of_nat s"
    by (rule reads [OF k]) (simp add: fields assms)
  moreover have "BPF_CORE_READ k task [[''mm''], [''arg_end'']] = of_nat e"
    by (rule reads [OF k]) (simp add: fields assms)
  ultimately show ?thesis by (simp add: argv_length_def Let_def)
qed

end

section \<open>The two architectures\<close>

lemmas amd64_typedefs = amd64___kernel_gid32_t_def amd64___kernel_pid_t_def amd64___kernel_uid32_t_def amd64___u32_def amd64___u64_def amd64_gid_t_def amd64_pid_t_def amd64_u32_def amd64_u64_def amd64_uid_t_def

lemmas arm64_typedefs = arm64___kernel_gid32_t_def arm64___kernel_pid_t_def arm64___kernel_uid32_t_def arm64___u32_def arm64___u64_def arm64_gid_t_def arm64_pid_t_def arm64_u32_def arm64_u64_def arm64_uid_t_def

interpretation amd64_types: kernel_types amd64_env 2488 2492 2504 2552 2840 3016 3656 2360 376 384
  by unfold_locales (simp_all add: field_def amd64_env_def layout_simps amd64_typedefs del: designate.simps)

interpretation arm64_types: kernel_types arm64_env 1592 1596 1608 1656 1944 2120 2608 1464 360 368
  by unfold_locales (simp_all add: field_def arm64_env_def layout_simps arm64_typedefs del: designate.simps)

section \<open>Header fields and cgroup id in kernel memory\<close>

text \<open>
  C12: on amd64 the header holds what the kernel structures hold: thread and process id of the
  task, the process id of its real parent, user and group id from its credentials, and the
  start times of the thread-group leaders of the task and of the parent, each at its byte
  offset in the amd64 declarations.
\<close>

theorem amd64_header_from_memory:
  assumes "core_ok amd64_env m k"
    and "peek m (task + 2488) 4 = Some v_pid" and "peek m (task + 2492) 4 = Some v_tgid"
    and "peek m (task + 2504) 8 = Some par" and "peek m (of_nat par + 2492) 4 = Some v_ppid"
    and "peek m (task + 3016) 8 = Some cr"
    and "peek m (of_nat cr + 8) 4 = Some v_uid" and "peek m (of_nat cr + 12) 4 = Some v_gid"
    and "peek m (task + 2552) 8 = Some ld" and "peek m (of_nat ld + 2840) 8 = Some v_start"
    and "peek m (of_nat par + 2552) 8 = Some pld" and "peek m (of_nat pld + 2840) 8 = Some v_pstart"
  shows "fill_header k ty task cg = \<lparr>h_type = ty, h_pid = of_nat v_pid, h_tgid = of_nat v_tgid,
    h_ppid = of_nat v_ppid, h_uid = of_nat v_uid, h_gid = of_nat v_gid,
    h_timestamp = bpf_ktime_get_boot_ns k, h_cgroup_id = cg,
    h_start_time = of_nat v_start, h_parent_start_time = of_nat v_pstart\<rparr>"
  by (rule amd64_types.header [OF assms(1)]) (simp add: assms)+

text \<open>
  C13: on arm64 the header holds what the kernel structures hold: thread and process id of the
  task, the process id of its real parent, user and group id from its credentials, and the
  start times of the thread-group leaders of the task and of the parent, each at its byte
  offset in the arm64 declarations.
\<close>

theorem arm64_header_from_memory:
  assumes "core_ok arm64_env m k"
    and "peek m (task + 1592) 4 = Some v_pid" and "peek m (task + 1596) 4 = Some v_tgid"
    and "peek m (task + 1608) 8 = Some par" and "peek m (of_nat par + 1596) 4 = Some v_ppid"
    and "peek m (task + 2120) 8 = Some cr"
    and "peek m (of_nat cr + 8) 4 = Some v_uid" and "peek m (of_nat cr + 12) 4 = Some v_gid"
    and "peek m (task + 1656) 8 = Some ld" and "peek m (of_nat ld + 1944) 8 = Some v_start"
    and "peek m (of_nat par + 1656) 8 = Some pld" and "peek m (of_nat pld + 1944) 8 = Some v_pstart"
  shows "fill_header k ty task cg = \<lparr>h_type = ty, h_pid = of_nat v_pid, h_tgid = of_nat v_tgid,
    h_ppid = of_nat v_ppid, h_uid = of_nat v_uid, h_gid = of_nat v_gid,
    h_timestamp = bpf_ktime_get_boot_ns k, h_cgroup_id = cg,
    h_start_time = of_nat v_start, h_parent_start_time = of_nat v_pstart\<rparr>"
  by (rule arm64_types.header [OF assms(1)]) (simp add: assms)+

text \<open>
  C14: on both architectures the scope check uses the kernfs id of the task's cgroup in the v2
  hierarchy: the id found by following \<open>cgroups\<close>, \<open>dfl_cgrp\<close> and \<open>kn\<close> from the task.
\<close>

theorem cgroup_id_from_memory:
  assumes "core_ok amd64_env m k \<and> o_cgroups = 3656 \<or> core_ok arm64_env m k \<and> o_cgroups = 2608"
    and "peek m (task + o_cgroups) 8 = Some css" and "peek m (of_nat css + 128) 8 = Some cgrp"
    and "peek m (of_nat cgrp + 248) 8 = Some v_kn" and "peek m (of_nat v_kn + 104) 8 = Some v_id"
  shows "task_cgroup_id k task = of_nat v_id"
  using assms(1)
proof
  assume a: "core_ok amd64_env m k \<and> o_cgroups = 3656"
  show ?thesis by (rule amd64_types.cgroup) (use a assms in auto)
next
  assume a: "core_ok arm64_env m k \<and> o_cgroups = 2608"
  show ?thesis by (rule arm64_types.cgroup) (use a assms in auto)
qed

section \<open>The properties on a concrete memory\<close>

definition ones :: kmem where
  "ones = (\<lambda>_. Some 1)"

definition image_kernel :: "type_env \<Rightarrow> kmem \<Rightarrow> kernel" where
  "image_kernel env m = (demo_kernel 0 0 0 [] zero_block)\<lparr>BPF_CORE_READ :=
     (\<lambda>a p. case core_read env m ''struct task_struct'' a p of None \<Rightarrow> 0 | Some v \<Rightarrow> v)\<rparr>"

lemma image_kernel_ok: "core_ok env m (image_kernel env m)"
  by (simp add: core_ok_def image_kernel_def)

lemma peek_ones: "peek ones a 4 = Some 16843009" "peek ones a 8 = Some 72340172838076673"
  by (simp_all add: peek_def ones_def upt_rec)

theorem amd64_header_from_memory_witness:
  "h_ppid (fill_header (image_kernel amd64_env ones) EVENT_FORK 4096 7) = 16843009 \<and>
   h_parent_start_time (fill_header (image_kernel amd64_env ones) EVENT_FORK 4096 7) = 72340172838076673"
  by (subst amd64_header_from_memory [OF image_kernel_ok peek_ones(1) peek_ones(1) peek_ones(2) peek_ones(1)
        peek_ones(2) peek_ones(1) peek_ones(1) peek_ones(2) peek_ones(2) peek_ones(2) peek_ones(2)],
      subst amd64_header_from_memory [OF image_kernel_ok peek_ones(1) peek_ones(1) peek_ones(2) peek_ones(1)
        peek_ones(2) peek_ones(1) peek_ones(1) peek_ones(2) peek_ones(2) peek_ones(2) peek_ones(2)]) simp

theorem arm64_header_from_memory_witness:
  "h_ppid (fill_header (image_kernel arm64_env ones) EVENT_FORK 4096 7) = 16843009 \<and>
   h_parent_start_time (fill_header (image_kernel arm64_env ones) EVENT_FORK 4096 7) = 72340172838076673"
  by (subst arm64_header_from_memory [OF image_kernel_ok peek_ones(1) peek_ones(1) peek_ones(2) peek_ones(1)
        peek_ones(2) peek_ones(1) peek_ones(1) peek_ones(2) peek_ones(2) peek_ones(2) peek_ones(2)],
      subst arm64_header_from_memory [OF image_kernel_ok peek_ones(1) peek_ones(1) peek_ones(2) peek_ones(1)
        peek_ones(2) peek_ones(1) peek_ones(1) peek_ones(2) peek_ones(2) peek_ones(2) peek_ones(2)]) simp

theorem cgroup_id_from_memory_witness:
  "task_cgroup_id (image_kernel arm64_env ones) 4096 = 72340172838076673"
  using cgroup_id_from_memory [of ones "image_kernel arm64_env ones" "2608" 4096] image_kernel_ok
  by (simp add: peek_ones)

section \<open>Maps and helpers\<close>


end
