(* ===== verification/ThreadExit.thy ===== *)
theory ThreadExit
  imports BpfProps
begin

text \<open>
  When the exit program reports a process. \<open>do_exit\<close> first decrements \<open>signal->live\<close> and later
  runs the tracepoint; the threads of one process do so concurrently. A step of the model is
  one of these two actions of one thread, so every interleaving is a sequence of steps.
\<close>

section \<open>Threads of one process exiting\<close>

datatype phase = Running | Decremented | Reported

text \<open>The phase of every thread, and the runs of the exit program so far, oldest first.\<close>

record group =
  phases :: "phase list"
  runs :: "hook list"

definition live :: "group \<Rightarrow> nat" where
  "live g = length (filter (\<lambda>p. p = Running) (phases g))"

definition group_init :: "nat \<Rightarrow> group" where
  "group_init n = \<lparr>phases = replicate n Running, runs = []\<rparr>"

text \<open>\<open>K i l\<close> is what the exit program sees when thread \<open>i\<close> runs it while \<open>signal->live\<close> is \<open>l\<close>.\<close>

inductive exit_step :: "(nat \<Rightarrow> nat \<Rightarrow> kernel) \<Rightarrow> group \<Rightarrow> group \<Rightarrow> bool" for K where
  decrement: "i < length (phases g) \<Longrightarrow> phases g ! i = Running \<Longrightarrow>
     exit_step K g (g\<lparr>phases := (phases g)[i := Decremented]\<rparr>)"
| report: "i < length (phases g) \<Longrightarrow> phases g ! i = Decremented \<Longrightarrow>
     exit_step K g (g\<lparr>phases := (phases g)[i := Reported], runs := runs g @ [OnExit (K i (live g))]\<rparr>)"

definition exits :: "(nat \<Rightarrow> nat \<Rightarrow> kernel) \<Rightarrow> group \<Rightarrow> group \<Rightarrow> bool" where
  "exits K = (exit_step K)\<^sup>*\<^sup>*"

text \<open>The program reads the live counter as it is when it runs.\<close>

definition sees_live :: "(nat \<Rightarrow> nat \<Rightarrow> kernel) \<Rightarrow> bool" where
  "sees_live K \<longleftrightarrow> (\<forall>i l. BPF_CORE_READ (K i l) (bpf_get_current_task_btf (K i l))
     [[''signal''], [''live'', ''counter'']] = of_nat l)"

definition in_scope :: "(nat \<Rightarrow> nat \<Rightarrow> kernel) \<Rightarrow> bpf_state \<Rightarrow> bool" where
  "in_scope K s \<longleftrightarrow>
     (\<forall>i l. should_capture s (task_cgroup_id (K i l) (bpf_get_current_task_btf (K i l))))"

lemma fires_iff:
  assumes "sees_live K" and "in_scope K s" and "l < 2 ^ 32"
  shows "hook_attempts s (OnExit (K i l)) \<longleftrightarrow> l = 0"
proof -
  have u: "unat (of_nat l :: u32) = l" using assms(3) by (simp add: unat_of_nat)
  have "(of_nat l :: u32) = 0 \<longleftrightarrow> l = 0"
  proof
    assume "(of_nat l :: u32) = 0"
    with u show "l = 0" by (simp only: unsigned_0)
  qed simp
  moreover have "hook_fires (OnExit (K i l)) \<longleftrightarrow> (of_nat l :: u32) = 0"
    using assms(1) [unfolded sees_live_def, rule_format, of i l] by (simp only: hook_fires.simps ucast_of_nat)
  ultimately show ?thesis
    using assms(2) [unfolded in_scope_def, rule_format, of i l]
    by (simp only: hook_attempts_def hook_kernel.simps hook_task.simps simp_thms)
qed

section \<open>At least one report\<close>

text \<open>
  Until some run has fired, not every thread has reported; and no thread reports before its own
  decrement, so the last one to report sees zero.
\<close>

definition fired :: "bpf_state \<Rightarrow> group \<Rightarrow> bool" where
  "fired s g \<longleftrightarrow> (\<exists>h \<in> set (runs g). hook_attempts s h)"

definition exit_inv :: "nat \<Rightarrow> bpf_state \<Rightarrow> group \<Rightarrow> bool" where
  "exit_inv n s g \<longleftrightarrow> length (phases g) = n \<and> (fired s g \<or> (\<exists>p \<in> set (phases g). p \<noteq> Reported))"

lemma live_le: "live g \<le> length (phases g)"
  by (simp add: live_def)

lemma live_pos: "0 < live g \<Longrightarrow> \<exists>j < length (phases g). phases g ! j = Running"
  by (auto simp: live_def filter_empty_conv in_set_conv_nth)

lemma exit_inv_step:
  assumes "exit_step K g g'" and inv: "exit_inv n s g" and K: "sees_live K" "in_scope K s" and n: "n < 2 ^ 32"
  shows "exit_inv n s g'"
  using assms(1)
proof cases
  case (decrement i)
  then have "Decremented \<in> set (phases g')" by (simp add: set_update_memI)
  then show ?thesis using inv decrement by (force simp: exit_inv_def)
next
  case (report i)
  have l: "live g < 2 ^ 32" using inv n live_le [of g] by (simp add: exit_inv_def)
  show ?thesis
  proof (cases "live g = 0")
    case True
    then have "hook_attempts s (OnExit (K i (live g)))" using fires_iff [OF K l] by simp
    then show ?thesis using inv report by (simp add: exit_inv_def fired_def)
  next
    case False
    then obtain j where j: "j < length (phases g)" "phases g ! j = Running" using live_pos by blast
    then have "i \<noteq> j" using report by auto
    then have "phases g' ! j = Running" "j < length (phases g')" using report j by simp_all
    then have "Running \<in> set (phases g')" by (metis nth_mem)
    then show ?thesis using inv report by (force simp: exit_inv_def)
  qed
qed

lemma exit_inv_exits:
  assumes "exits K g g'" and "exit_inv n s g" and "sees_live K" "in_scope K s" and "n < 2 ^ 32"
  shows "exit_inv n s g'"
  using assms(1) unfolding exits_def
proof (induction rule: rtranclp_induct)
  case base
  show ?case by (rule assms(2))
next
  case (step h h')
  from exit_inv_step [OF step(2) step.IH assms(3-5)] show ?case .
qed


section \<open>Exactly one, and more than one\<close>

text \<open>
  When the threads leave one after the other (each runs the tracepoint before the next one
  decrements the counter), exactly one of the runs fires: the last.
\<close>

lemma exit_reported_once_sequentially:
  assumes "sees_live K" and "in_scope K s" and "0 < n" and "n < 2 ^ 32"
  shows "filter (hook_attempts s) (map (\<lambda>i. OnExit (K i (n - 1 - i))) [0..<n]) = [OnExit (K (n - 1) 0)]"
proof -
  obtain m where n: "n = Suc m" using assms(3) by (cases n) auto
  have at: "hook_attempts s (OnExit (K i (m - i))) \<longleftrightarrow> m - i = 0" if "i \<le> m" for i
    by (rule fires_iff [OF assms(1,2)]) (use assms(4) n in auto)
  have "filter (hook_attempts s) (map (\<lambda>i. OnExit (K i (m - i))) [0..<m]) = []"
    by (simp add: filter_empty_conv at)
  moreover have "hook_attempts s (OnExit (K m 0))" using at [of m] by simp
  ultimately show ?thesis by (simp add: n)
qed

definition demo_threads :: "nat \<Rightarrow> nat \<Rightarrow> kernel" where
  "demo_threads i l = demo_kernel 42 7 (of_nat l) [] zero_block"

lemma demo_threads_ok: "sees_live demo_threads" "in_scope demo_threads demo_state"
proof -
  show "sees_live demo_threads"
    by (simp add: sees_live_def demo_threads_def demo_kernel_def demo_read_def)
  show "in_scope demo_threads demo_state"
    by (simp add: in_scope_def demo_threads_def) (simp add: should_capture_def demo_state_def)
qed

lemma demo_race:
  "exits demo_threads (group_init 2) \<lparr>phases = [Reported, Reported], runs = [demo_exit 7, demo_exit 7]\<rparr>"
proof -
  let ?g = "\<lambda>a b r. \<lparr>phases = [a, b], runs = r\<rparr>"
  have d: "demo_threads i 0 = demo_kernel 42 7 0 [] zero_block" for i by (simp add: demo_threads_def)
  have "exit_step demo_threads (?g Running Running []) (?g Decremented Running [])"
    using decrement [of 0 "?g Running Running []"] by simp
  moreover have "exit_step demo_threads (?g Decremented Running []) (?g Decremented Decremented [])"
    using decrement [of 1 "?g Decremented Running []"] by simp
  moreover have "exit_step demo_threads (?g Decremented Decremented []) (?g Reported Decremented [demo_exit 7])"
    using report [of 0 "?g Decremented Decremented []" demo_threads] by (simp add: live_def d demo_exit_def)
  moreover have "exit_step demo_threads (?g Reported Decremented [demo_exit 7])
      (?g Reported Reported [demo_exit 7, demo_exit 7])"
    using report [of 1 "?g Reported Decremented [demo_exit 7]" demo_threads]
    by (simp add: live_def d demo_exit_def)
  ultimately show ?thesis
    unfolding exits_def group_init_def numeral_2_eq_2 replicate.simps
    by (blast intro: converse_rtranclp_into_rtranclp)
qed


text \<open>
  C17: more than one report. There is an interleaving of the exits of a process with two threads
  in which both decrement the counter before either runs the tracepoint; both runs then read
  zero, and two exit records for the same process reach the ring buffer.
\<close>

theorem exit_reported_twice:
  "\<exists>g. exits demo_threads (group_init 2) g \<and>
     ring (run_hooks (runs g) demo_state) =
       [hook_record (demo_exit 7) (replicate 80 0), hook_record (demo_exit 7) (replicate 80 0)]"
proof -
  have "bpf_ringbuf_reserve (hook_kernel (demo_exit 7)) (hook_size (demo_exit 7)) = Some (replicate 80 0)"
    by (simp add: demo_exit_def demo_kernel_def zero_block_def wire_simps)
  moreover have "ring demo_state = []" by (simp add: demo_state_def bpf_init_def)
  ultimately have "ring (run_hooks [demo_exit 7, demo_exit 7] demo_state) =
      [hook_record (demo_exit 7) (replicate 80 0), hook_record (demo_exit 7) (replicate 80 0)]"
    unfolding run_hooks_def hooks.ring_fold by (simp add: demo_exit_attempts)
  then show ?thesis using demo_race by fastforce
qed

end
