(* ===== verification/GoEvent.thy ===== *)
theory GoEvent
  imports Prelude
begin

unbundle bit_operations_syntax

text \<open>
  Package \<open>internal/event\<close>: the decoded event, and the three functions that turn kernel
  encodings into Go values (\<open>ExitFromRaw\<close>, \<open>SplitArgv\<close>, \<open>CString\<close>). A \<open>time.Time\<close> is an
  integer number of nanoseconds since the zero time, so that \<open>IsZero\<close> is equality with 0.
\<close>

section \<open>Types\<close>

datatype Type = TypeExec | TypeFork | TypeExit

type_synonym time = int

record Process =
  p_GUID :: string
  p_PID :: u32
  p_TID :: u32
  p_UID :: u32
  p_GID :: u32
  p_CgroupID :: u64
  p_StartTimeNs :: u64
  p_Comm :: string
  p_Image :: string
  p_Argv :: "string list"
  p_FilenameTruncated :: bool
  p_ArgvTruncated :: bool
  p_ArgvReadFailed :: bool

record Parent =
  pp_GUID :: string
  pp_PID :: u32
  pp_StartTimeNs :: u64
  pp_Image :: string
  pp_Argv :: "string list"
  pp_Known :: bool
  pp_External :: bool

record EvContainer =
  ec_ID :: string
  ec_Name :: string
  ec_Image :: string

record Exit =
  ex_Code :: u32
  ex_Signal :: u32
  ex_Raw :: u32

record Event =
  ev_Type :: Type
  ev_Time :: time
  ev_TimestampNs :: u64
  ev_Process :: Process
  ev_Parent :: Parent
  ev_Container :: "EvContainer option"
  ev_Exit :: "Exit option"

section \<open>Functions\<close>

definition ExitFromRaw :: "u32 \<Rightarrow> Exit" where
  "ExitFromRaw raw = \<lparr>ex_Code = drop_bit 8 raw AND 0xff, ex_Signal = raw AND 0x7f, ex_Raw = raw\<rparr>"

text \<open>\<open>bytes.TrimSuffix(b, []byte{0})\<close> and \<open>bytes.Split(b, []byte{0})\<close>.\<close>

definition TrimSuffix0 :: "bytes \<Rightarrow> bytes" where
  "TrimSuffix0 b = (if b \<noteq> [] \<and> last b = 0 then butlast b else b)"

fun Split0 :: "bytes \<Rightarrow> bytes list" where
  "Split0 [] = [[]]"
| "Split0 (x # xs) =
     (if x = 0 then [] # Split0 xs
      else case Split0 xs of [] \<Rightarrow> [[x]] | p # ps \<Rightarrow> (x # p) # ps)"

definition SplitArgv :: "bytes \<Rightarrow> string list" where
  "SplitArgv b =
     (let b = TrimSuffix0 b in
      if length b = 0 then [] else map string_of (Split0 b))"

definition CString :: "bytes \<Rightarrow> string" where
  "CString b = string_of (takeWhile (\<lambda>x. x \<noteq> 0) b)"

section \<open>SplitArgv\<close>

text \<open>The argument area of a process: every argument followed by a NUL.\<close>

definition argv_area :: "string list \<Rightarrow> bytes" where
  "argv_area args = concat (map (\<lambda>a. bytes_of a @ [0]) args)"

definition nul_free :: "string \<Rightarrow> bool" where
  "nul_free s \<longleftrightarrow> CHR 0x00 \<notin> set s"

lemma bytes_of_nul_free: "nul_free s \<Longrightarrow> 0 \<notin> set (bytes_of s)"
proof
  assume s: "nul_free s" and "0 \<in> set (bytes_of s)"
  then obtain c where c: "c \<in> set s" and z: "(of_nat (of_char c) :: u8) = 0"
    by (auto simp: bytes_of_def)
  from z have "(of_char c :: nat) = 0" by (metis unat_0 unat_of_nat_of_char)
  moreover have "c = char_of (of_char c :: nat)" by simp
  ultimately have "c = CHR 0x00" by (simp add: char_of_def)
  with c s show False by (simp add: nul_free_def)
qed

lemma Split0_ne [simp]: "Split0 b \<noteq> []"
  by (cases b) (auto split: list.split)

lemma Split0_app: "0 \<notin> set a \<Longrightarrow> Split0 (a @ 0 # b) = a # Split0 b"
  by (induction a) auto

lemma Split0_nul_free: "0 \<notin> set a \<Longrightarrow> Split0 a = [a]"
  by (induction a) auto

lemma Split0_snoc0: "Split0 (b @ [0]) = Split0 b @ [[]]"
  by (induction b) (auto split: list.split)

lemma argv_area_Cons: "argv_area (a # args) = bytes_of a @ 0 # argv_area args"
  by (simp add: argv_area_def)

lemma argv_area_Nil [simp]: "argv_area [] = []"
  by (simp add: argv_area_def)

lemma argv_area_snoc: "argv_area (args @ [a]) = argv_area args @ bytes_of a @ [0]"
  by (simp add: argv_area_def)

text \<open>
  Splitting the first \<open>n\<close> bytes of an argument area: whole arguments, then the part of the
  next one that fits (nothing, when the cut falls right after a NUL).
\<close>

lemma Split0_take_area:
  assumes "list_all nul_free args"
  shows "\<exists>k q. k \<le> length args \<and> Split0 (take n (argv_area args)) = map bytes_of (take k args) @ [q] \<and>
    (if k = length args then q = [] else \<exists>r. bytes_of (args ! k) = q @ r)"
  using assms
proof (induction args arbitrary: n)
  case Nil
  then show ?case by simp
next
  case (Cons a args)
  then have a: "0 \<notin> set (bytes_of a)" by (simp add: bytes_of_nul_free)
  show ?case
  proof (cases "n \<le> length a")
    case True
    then have "take n (argv_area (a # args)) = take n (bytes_of a)" by (simp add: argv_area_Cons)
    moreover have "Split0 (take n (bytes_of a)) = [take n (bytes_of a)]"
      by (rule Split0_nul_free) (use a in_set_takeD in fastforce)
    moreover have "\<exists>r. bytes_of a = take n (bytes_of a) @ r" by (metis append_take_drop_id)
    ultimately show ?thesis by (intro exI [of _ 0] exI [of _ "take n (bytes_of a)"]) auto
  next
    case False
    then obtain m where m: "n = length a + Suc m" using less_imp_Suc_add by fastforce
    then have "take n (argv_area (a # args)) = bytes_of a @ 0 # take m (argv_area args)"
      by (simp add: argv_area_Cons)
    then have sp: "Split0 (take n (argv_area (a # args))) = bytes_of a # Split0 (take m (argv_area args))"
      by (simp add: Split0_app a)
    obtain k q where "k \<le> length args" "Split0 (take m (argv_area args)) = map bytes_of (take k args) @ [q]"
      "if k = length args then q = [] else \<exists>r. bytes_of (args ! k) = q @ r"
      using Cons.IH [of m] Cons.prems by auto
    then show ?thesis using sp by (intro exI [of _ "Suc k"] exI [of _ q]) auto
  qed
qed

text \<open>\<open>r\<close> is what is left of \<open>args\<close> after a cut: some whole arguments and a prefix of the next.\<close>

definition cut_of :: "string list \<Rightarrow> string list \<Rightarrow> bool" where
  "cut_of r args \<longleftrightarrow> r = [] \<or>
     (\<exists>k < length args. \<exists>p q. r = take k args @ [p] \<and> args ! k = p @ q)"

lemma bytes_of_split: "bytes_of a = q @ r \<Longrightarrow> a = string_of q @ string_of r"
proof -
  assume "bytes_of a = q @ r"
  then have "string_of (bytes_of a) = string_of (q @ r)" by simp
  then show ?thesis by simp
qed

lemma map_string_bytes [simp]: "map (string_of \<circ> bytes_of) xs = xs"
  by (simp add: map_idI)

text \<open>
  Decoding the first \<open>n\<close> bytes of an argument area yields whole arguments in order and at
  most one final partial argument, which is a prefix of the original.
\<close>

lemma SplitArgv_truncated:
  assumes "list_all nul_free args"
  shows "cut_of (SplitArgv (take n (argv_area args))) args"
proof -
  let ?b = "take n (argv_area args)"
  obtain k q where k: "k \<le> length args" "Split0 ?b = map bytes_of (take k args) @ [q]"
    "if k = length args then q = [] else \<exists>r. bytes_of (args ! k) = q @ r"
    using Split0_take_area [OF assms] by blast
  show ?thesis
  proof (cases "?b \<noteq> [] \<and> last ?b = 0")
    case True
    then obtain c where c: "?b = c @ [0]" by (metis append_butlast_last_id)
    then have "Split0 c @ [[]] = map bytes_of (take k args) @ [q]" using k(2) by (simp add: Split0_snoc0)
    then have sc: "Split0 c = map bytes_of (take k args)" by simp
    then have "k \<noteq> 0" using Split0_ne [of c] by auto
    then obtain j where j: "k = Suc j" by (cases k) auto
    have "map string_of (Split0 c) = take j args @ [args ! j]"
      using sc k(1) by (simp add: j take_Suc_conv_app_nth)
    then have "SplitArgv ?b = [] \<or> SplitArgv ?b = take j args @ [args ! j]"
      by (simp add: SplitArgv_def TrimSuffix0_def c)
    moreover have "args ! j = args ! j @ []" "j < length args" using k(1) j by simp_all
    ultimately show ?thesis unfolding cut_of_def by blast
  next
    case False
    then have t: "TrimSuffix0 ?b = ?b" unfolding TrimSuffix0_def by (rule if_not_P)
    show ?thesis
    proof (cases "?b = []")
      case True
      then show ?thesis using t by (simp add: SplitArgv_def cut_of_def del: take_eq_Nil)
    next
      case ne: False
      have "k \<noteq> length args"
      proof
        assume "k = length args"
        then have q: "q = []" using k(3) by simp
        have "Split0 b = xs @ [[]] \<Longrightarrow> b \<noteq> [] \<Longrightarrow> last b = 0" for b xs
          by (induction b arbitrary: xs) (auto simp: Cons_eq_append_conv split: if_splits list.splits)
        then show False using k(2) q ne False by blast
      qed
      then obtain r where "args ! k = string_of q @ string_of r" and "k < length args"
        using k bytes_of_split by (auto split: if_splits)
      moreover have "SplitArgv ?b = take k args @ [string_of q]"
        using ne t k(2) by (simp add: SplitArgv_def Let_def del: take_eq_Nil)
      ultimately show ?thesis by (auto simp: cut_of_def)
    qed
  qed
qed

lemma Split0_area_app:
  "list_all nul_free args \<Longrightarrow> 0 \<notin> set b \<Longrightarrow> Split0 (argv_area args @ b) = map bytes_of args @ [b]"
  by (induction args) (simp_all add: Split0_nul_free argv_area_Cons Split0_app bytes_of_nul_free)

text \<open>
  The argument list survives the kernel encoding. The only list that does not is the one
  with a single empty argument, whose area (one NUL) is decoded as no arguments.
\<close>

lemma SplitArgv_argv_area:
  assumes "list_all nul_free args"
  shows "SplitArgv (argv_area args) = (if args = [[]] then [] else args)"
proof (cases args rule: rev_exhaust)
  case Nil
  then show ?thesis by (simp add: SplitArgv_def TrimSuffix0_def)
next
  case (snoc xs a)
  have area: "argv_area args = (argv_area xs @ bytes_of a) @ [0]" by (simp add: snoc argv_area_snoc)
  have "Split0 (argv_area xs @ bytes_of a) = map bytes_of xs @ [bytes_of a]"
    using assms snoc by (intro Split0_area_app) (simp_all add: bytes_of_nul_free)
  then have "map string_of (Split0 (argv_area xs @ bytes_of a)) = args" by (simp add: snoc)
  moreover have "argv_area xs @ bytes_of a = [] \<longleftrightarrow> args = [[]]"
    by (cases xs) (auto simp: snoc argv_area_Cons dest: arg_cong [of _ _ string_of])
  moreover have "TrimSuffix0 (argv_area args) = argv_area xs @ bytes_of a"
    unfolding TrimSuffix0_def area butlast_snoc by simp
  ultimately show ?thesis by (simp add: SplitArgv_def Let_def)
qed

section \<open>CString\<close>

lemma takeWhile_nul: "0 \<notin> set a \<Longrightarrow> takeWhile (\<lambda>x. x \<noteq> (0 :: u8)) (a @ 0 # r) = a"
  by (induction a) auto

lemma CString_bytes_of: "nul_free s \<Longrightarrow> CString (bytes_of s @ 0 # r) = s"
  by (simp add: CString_def takeWhile_nul bytes_of_nul_free)

lemma CString_nul_free: "0 \<notin> set (bytes_of (CString b))"
  by (auto simp: CString_def dest: set_takeWhileD)

text \<open>Bytes after the first NUL do not matter.\<close>

lemma CString_stale: "0 \<in> set a \<Longrightarrow> CString (a @ r) = CString a"
  by (simp add: CString_def takeWhile_append1)

section \<open>ExitFromRaw\<close>

text \<open>The kernel's \<open>exit_code\<close>: status in bits 8 to 15, core flag in bit 7, signal in bits 0 to 6.\<close>

definition wait_status :: "u32 \<Rightarrow> bool \<Rightarrow> u32 \<Rightarrow> u32" where
  "wait_status code core sig = push_bit 8 code OR (if core then push_bit 7 1 else 0) OR sig"

lemma bit_small: "unat (w :: u32) < 2 ^ n \<Longrightarrow> bit w i \<Longrightarrow> i < n"
proof (rule ccontr)
  assume w: "unat w < 2 ^ n" and b: "bit w i" and "\<not> i < n"
  then have "n \<le> i" by simp
  with w have "unat w < 2 ^ i" by (meson less_le_trans one_le_numeral power_increasing)
  then have "\<not> bit (unat w) i" by (simp add: bit_iff_odd)
  with b show False by (simp add: bit_unsigned_iff bit_imp_le_length)
qed

text \<open>
  The exit status and the signal are recovered from any wait status word, whether or not
  the core-dump flag is set.
\<close>

lemma ExitFromRaw_wait_status:
  assumes "code < 256" and "sig < 128"
  shows "ExitFromRaw (wait_status code core sig) =
    \<lparr>ex_Code = code, ex_Signal = sig, ex_Raw = wait_status code core sig\<rparr>"
proof -
  have c: "bit code i \<Longrightarrow> i < 8" for i using bit_small [of code 8 i] assms(1) by (simp add: word_less_nat_alt)
  have s: "bit sig i \<Longrightarrow> i < 7" for i using bit_small [of sig 7 i] assms(2) by (simp add: word_less_nat_alt)
  have "(128 :: int) = 2 ^ 7" by simp
  then have k: "bit (128 :: int) i \<longleftrightarrow> i = 7" for i by (simp only: bit_exp_iff) auto
  have m: "(0xff :: u32) = mask 8" "(0x7f :: u32) = mask 7" by (simp_all add: mask_eq_exp_minus_1)
  have "drop_bit 8 (wait_status code core sig) AND 0xff = code"
    unfolding wait_status_def m
    by (rule bit_word_eqI) (auto simp: bit_simps k dest: c s)
  moreover have "wait_status code core sig AND 0x7f = sig"
    unfolding wait_status_def m
    by (rule bit_word_eqI) (auto simp: bit_simps k dest: c s)
  ultimately show ?thesis by (simp add: ExitFromRaw_def)
qed

end
