(* ===== verification/GoStrings.thy ===== *)
theory GoStrings
  imports Prelude
begin

text \<open>
  The string functions of the Go standard library that the sensor uses: \<open>TrimSpace\<close>, \<open>Fields\<close>,
  \<open>Split\<close>, \<open>Cut\<close>, \<open>CutPrefix\<close>, \<open>TrimPrefix\<close>, \<open>HasPrefix\<close> and \<open>Contains\<close> of package strings,
  \<open>ParseUint\<close>, \<open>FormatUint\<close> and \<open>Itoa\<close> of package strconv (base 10), and \<open>Join\<close>, \<open>Clean\<close>, \<open>Base\<close>
  and \<open>Dir\<close> of package filepath on Unix.
\<close>

section \<open>White space\<close>

text \<open>
  \<open>TrimSpace\<close> removes Unicode white space at both ends, \<open>Fields\<close> splits around it. The encodings of the
  white-space characters are no parts of other characters' encodings, so it is enough to match
  byte sequences.
\<close>

definition space_codes :: "nat list list" where
  "space_codes = [[9], [10], [11], [12], [13], [32], [0xC2, 0x85], [0xC2, 0xA0], [0xE1, 0x9A, 0x80],
     [0xE2, 0x80, 0x80], [0xE2, 0x80, 0x81], [0xE2, 0x80, 0x82], [0xE2, 0x80, 0x83], [0xE2, 0x80, 0x84],
     [0xE2, 0x80, 0x85], [0xE2, 0x80, 0x86], [0xE2, 0x80, 0x87], [0xE2, 0x80, 0x88], [0xE2, 0x80, 0x89],
     [0xE2, 0x80, 0x8A], [0xE2, 0x80, 0xA8], [0xE2, 0x80, 0xA9], [0xE2, 0x80, 0xAF], [0xE2, 0x81, 0x9F],
     [0xE3, 0x80, 0x80]]"

definition spaces :: "string list" where
  "spaces = map (map char_of) space_codes"

text \<open>The length of the white-space character at the start of a string, 0 if there is none.\<close>

definition space_len :: "string \<Rightarrow> nat" where
  "space_len s = (case find (\<lambda>w. take (length w) s = w) spaces of None \<Rightarrow> 0 | Some w \<Rightarrow> length w)"

definition space_len_end :: "string \<Rightarrow> nat" where
  "space_len_end s =
     (case find (\<lambda>w. length w \<le> length s \<and> drop (length s - length w) s = w) spaces of
        None \<Rightarrow> 0 | Some w \<Rightarrow> length w)"

function TrimLeft :: "string \<Rightarrow> string" where
  "TrimLeft s = (if s = [] \<or> space_len s = 0 then s else TrimLeft (drop (space_len s) s))"
  by pat_completeness auto
termination by (relation "measure length") auto

function TrimRight :: "string \<Rightarrow> string" where
  "TrimRight s = (if s = [] \<or> space_len_end s = 0 then s else TrimRight (take (length s - space_len_end s) s))"
  by pat_completeness auto
termination by (relation "measure length") auto

declare TrimLeft.simps [simp del] TrimRight.simps [simp del]

definition TrimSpace :: "string \<Rightarrow> string" where
  "TrimSpace s = TrimRight (TrimLeft s)"

text \<open>\<open>Fields\<close>: \<open>cur\<close> is the field being read.\<close>

function Fields_loop :: "string \<Rightarrow> string \<Rightarrow> string list" where
  "Fields_loop cur [] = (if cur = [] then [] else [cur])"
| "Fields_loop cur (c # cs) =
     (if space_len (c # cs) = 0 then Fields_loop (cur @ [c]) cs
      else (if cur = [] then [] else [cur]) @ Fields_loop [] (drop (space_len (c # cs)) (c # cs)))"
  by pat_completeness auto
termination by (relation "measure (\<lambda>(cur, s). length s)") auto

declare Fields_loop.simps(2) [simp del]

definition Fields :: "string \<Rightarrow> string list" where
  "Fields s = Fields_loop [] s"

section \<open>Splitting\<close>

fun splitOn :: "char \<Rightarrow> string \<Rightarrow> string list" where
  "splitOn d [] = [[]]"
| "splitOn d (c # cs) =
     (if c = d then [] # splitOn d cs
      else case splitOn d cs of [] \<Rightarrow> [[c]] | p # ps \<Rightarrow> (c # p) # ps)"

definition CutPrefix :: "string \<Rightarrow> string \<Rightarrow> string option" where
  "CutPrefix s p = (if take (length p) s = p then Some (drop (length p) s) else None)"

definition TrimPrefix :: "string \<Rightarrow> string \<Rightarrow> string" where
  "TrimPrefix s p = (case CutPrefix s p of None \<Rightarrow> s | Some r \<Rightarrow> r)"

definition HasPrefix :: "string \<Rightarrow> string \<Rightarrow> bool" where
  "HasPrefix s p \<longleftrightarrow> take (length p) s = p"

fun Contains :: "string \<Rightarrow> string \<Rightarrow> bool" where
  "Contains [] p \<longleftrightarrow> p = []"
| "Contains (c # cs) p \<longleftrightarrow> HasPrefix (c # cs) p \<or> Contains cs p"

fun Cut :: "string \<Rightarrow> string \<Rightarrow> string \<times> string \<times> bool" where
  "Cut [] p = ([], [], p = [])"
| "Cut (c # cs) p =
     (if HasPrefix (c # cs) p then ([], drop (length p) (c # cs), True)
      else case Cut cs p of (a, b, found) \<Rightarrow> (c # a, b, found))"

fun joinWith :: "string \<Rightarrow> string list \<Rightarrow> string" where
  "joinWith d [] = []"
| "joinWith d [s] = s"
| "joinWith d (s # t # ss) = s @ d @ joinWith d (t # ss)"

section \<open>strconv\<close>

datatype num_error = ErrSyntax | ErrRange

definition is_digit :: "char \<Rightarrow> bool" where
  "is_digit c \<longleftrightarrow> of_char c \<in> {48..57::nat}"

definition digit :: "char \<Rightarrow> nat" where
  "digit c = of_char c - 48"

text \<open>The loop of \<open>ParseUint\<close> in base 10, with its two overflow checks on 64-bit arithmetic.\<close>

definition cutoff :: u64 where
  "cutoff = 18446744073709551615 div 10 + 1"

fun ParseUint_loop :: "u64 \<Rightarrow> u64 \<Rightarrow> string \<Rightarrow> num_error + u64" where
  "ParseUint_loop maxVal n [] = Inr n"
| "ParseUint_loop maxVal n (c # cs) =
     (if \<not> is_digit c then Inl ErrSyntax
      else if n \<ge> cutoff then Inl ErrRange
      else let m = n * 10; n1 = m + of_nat (digit c) in
        if n1 < m \<or> n1 > maxVal then Inl ErrRange else ParseUint_loop maxVal n1 cs)"

definition ParseUint :: "string \<Rightarrow> nat \<Rightarrow> num_error + u64" where
  "ParseUint s bitSize =
     (if s = [] then Inl ErrSyntax else ParseUint_loop (of_nat (2 ^ bitSize - 1)) 0 s)"

fun FormatUint :: "nat \<Rightarrow> string" where
  "FormatUint n = (if n < 10 then [char_of (48 + n)] else FormatUint (n div 10) @ [char_of (48 + n mod 10)])"

declare FormatUint.simps [simp del]

definition Itoa :: "int \<Rightarrow> string" where
  "Itoa i = (if i < 0 then CHR ''-'' # FormatUint (nat (- i)) else FormatUint (nat i))"

section \<open>filepath\<close>

text \<open>\<open>Clean\<close> processes the components left to right, keeping the output reversed.\<close>

fun clean_step :: "bool \<Rightarrow> string list \<Rightarrow> string \<Rightarrow> string list" where
  "clean_step rooted out c =
     (if c = [] \<or> c = ''.'' then out
      else if c = ''..'' then
        (case out of
           [] \<Rightarrow> if rooted then [] else [''..'']
         | t # ts \<Rightarrow> if t = ''..'' then ''..'' # out else ts)
      else c # out)"

definition Clean :: "string \<Rightarrow> string" where
  "Clean path =
     (if path = [] then ''.''
      else let rooted = (hd path = CHR ''/'');
               out = joinWith ''/'' (rev (fold (\<lambda>c acc. clean_step rooted acc c) (splitOn (CHR ''/'') path) []))
           in if rooted then CHR ''/'' # out else if out = [] then ''.'' else out)"

definition Join :: "string list \<Rightarrow> string" where
  "Join elems =
     (case dropWhile (\<lambda>e. e = []) elems of [] \<Rightarrow> [] | es \<Rightarrow> Clean (joinWith ''/'' es))"

definition Base :: "string \<Rightarrow> string" where
  "Base path =
     (if path = [] then ''.''
      else let p = rev (takeWhile (\<lambda>c. c \<noteq> CHR ''/'') (dropWhile (\<lambda>c. c = CHR ''/'') (rev path)))
           in if p = [] then ''/'' else p)"

definition Dir :: "string \<Rightarrow> string" where
  "Dir path = Clean (rev (dropWhile (\<lambda>c. c \<noteq> CHR ''/'') (rev path)))"

section \<open>Cutting\<close>

lemma HasPrefix_append [simp]: "HasPrefix (p @ s) p"
  by (simp add: HasPrefix_def)

lemma HasPrefix_single: "HasPrefix s [d] \<longleftrightarrow> s \<noteq> [] \<and> hd s = d"
  by (cases s) (auto simp: HasPrefix_def)

lemma Contains_single: "Contains s [d] \<longleftrightarrow> d \<in> set s"
  by (induction s) (auto simp: HasPrefix_single)

lemma Cut_single: "d \<notin> set k \<Longrightarrow> Cut (k @ d # v) [d] = (k, v, True)"
  by (induction k) (auto simp: HasPrefix_single)

lemma TrimPrefix_append: "TrimPrefix (p @ s) p = s"
  by (simp add: TrimPrefix_def CutPrefix_def)

lemma TrimPrefix_no: "\<not> HasPrefix s p \<Longrightarrow> TrimPrefix s p = s"
  by (simp add: TrimPrefix_def CutPrefix_def HasPrefix_def)

lemma Base_last: "CHR ''/'' \<notin> set n \<Longrightarrow> n \<noteq> [] \<Longrightarrow> Base (d @ CHR ''/'' # n) = n"
proof -
  assume n: "CHR ''/'' \<notin> set n" "n \<noteq> []"
  then have "dropWhile (\<lambda>c. c = CHR ''/'') (rev n @ CHR ''/'' # rev d) = rev n @ CHR ''/'' # rev d"
    by (cases "rev n") auto
  moreover have "takeWhile (\<lambda>c. c \<noteq> CHR ''/'') (rev n @ CHR ''/'' # rev d) = rev n"
    using n(1) by (subst takeWhile_append2) auto
  ultimately show ?thesis using n(2) by (simp add: Base_def)
qed

section \<open>Clean\<close>

text \<open>A path component that \<open>Clean\<close> keeps.\<close>

definition component :: "string \<Rightarrow> bool" where
  "component c \<longleftrightarrow> c \<noteq> [] \<and> c \<noteq> ''.'' \<and> c \<noteq> ''..'' \<and> CHR ''/'' \<notin> set c"

definition comps :: "string \<Rightarrow> string list" where
  "comps path = fold (\<lambda>c acc. clean_step True acc c) (splitOn (CHR ''/'') path) []"

lemma splitOn_ne [simp]: "splitOn d s \<noteq> []"
  by (induction s) (auto split: list.splits)

lemma splitOn_append: "splitOn d (s @ d # t) = splitOn d s @ splitOn d t"
  by (induction s) (auto split: list.splits)

lemma splitOn_free: "d \<notin> set s \<Longrightarrow> splitOn d s = [s]"
  by (induction s) auto

lemma splitOn_no_sep: "p \<in> set (splitOn d s) \<Longrightarrow> d \<notin> set p"
  by (induction s arbitrary: p) (fastforce split: list.splits if_splits)+

lemma splitOn_joinWith: "ps \<noteq> [] \<Longrightarrow> list_all (\<lambda>p. d \<notin> set p) ps \<Longrightarrow> splitOn d (joinWith [d] ps) = ps"
  by (induction "[d]" ps rule: joinWith.induct) (auto simp: splitOn_free splitOn_append)

lemma Clean_rooted: "Clean (CHR ''/'' # p) = CHR ''/'' # joinWith ''/'' (rev (comps p))"
  by (simp add: Clean_def comps_def)

lemma comps_append: "component n \<Longrightarrow> comps (p @ CHR ''/'' # n) = n # comps p"
  by (simp add: comps_def splitOn_append splitOn_free component_def)

lemma clean_step_components:
  "list_all component acc \<Longrightarrow> CHR ''/'' \<notin> set p \<Longrightarrow> list_all component (clean_step True acc p)"
  by (auto simp: component_def split: list.splits)

lemma fold_clean_components:
  "list_all component acc \<Longrightarrow> list_all (\<lambda>p. CHR ''/'' \<notin> set p) ps \<Longrightarrow>
    list_all component (fold (\<lambda>c acc. clean_step True acc c) ps acc)"
  by (induction ps arbitrary: acc) (simp_all add: clean_step_components del: clean_step.simps)

lemma comps_components: "list_all component (comps p)"
  unfolding comps_def using splitOn_no_sep [of _ "CHR ''/''" p] by (intro fold_clean_components) (auto simp: list_all_iff)

lemma fold_components: "list_all component ps \<Longrightarrow> fold (\<lambda>c acc. clean_step True acc c) ps acc = rev ps @ acc"
  by (induction ps arbitrary: acc) (auto simp: component_def)

lemma comps_joinWith: "list_all component ps \<Longrightarrow> comps (joinWith ''/'' ps) = rev ps"
proof (cases "ps = []")
  case False
  assume ps: "list_all component ps"
  then have "splitOn (CHR ''/'') (joinWith ''/'' ps) = ps"
    using False by (intro splitOn_joinWith) (auto simp: list_all_iff component_def)
  then show ?thesis using fold_components [OF ps] by (simp add: comps_def)
qed (simp add: comps_def)

lemma Clean_Clean_append:
  assumes "HasPrefix p ''/''" "component n"
  shows "Clean (Clean p @ CHR ''/'' # n) = Clean (p @ CHR ''/'' # n)"
proof -
  obtain q where p: "p = CHR ''/'' # q" using assms(1) by (cases p) (auto simp: HasPrefix_def)
  have "list_all component (rev (comps q))" using comps_components [of q] by simp
  then show ?thesis using comps_joinWith [of "rev (comps q)"] assms(2)
    by (simp add: p Clean_rooted comps_append)
qed

lemma Dir_append: "CHR ''/'' \<notin> set n \<Longrightarrow> Dir (d @ CHR ''/'' # n) = Clean (d @ ''/'')"
proof -
  assume n: "CHR ''/'' \<notin> set n"
  then have "dropWhile (\<lambda>c. c \<noteq> CHR ''/'') (rev n @ CHR ''/'' # rev d) = CHR ''/'' # rev d"
    by (subst dropWhile_append2) auto
  then show ?thesis by (simp add: Dir_def)
qed

lemma Join_two: "a \<noteq> [] \<Longrightarrow> Join [a, b] = Clean (a @ CHR ''/'' # b)"
  by (simp add: Join_def)

section \<open>Numbers\<close>

text \<open>The value of a string of decimal digits.\<close>

definition digits_value :: "string \<Rightarrow> nat" where
  "digits_value s = foldl (\<lambda>n c. 10 * n + digit c) 0 s"

lemma digits_value_snoc: "digits_value (s @ [c]) = 10 * digits_value s + digit c"
  by (simp add: digits_value_def)

lemma decimal_less: "is_digit c \<Longrightarrow> digit c < 10"
  by (auto simp: is_digit_def digit_def)

lemma foldl_digits_ge: "n \<le> foldl (\<lambda>n c. 10 * n + digit c) n s"
proof (induction s arbitrary: n)
  case (Cons c s)
  have "n \<le> 10 * n + digit c" by simp
  also have "\<dots> \<le> foldl (\<lambda>n c. 10 * n + digit c) (10 * n + digit c) s" by (rule Cons.IH)
  finally show ?case by simp
qed simp

text \<open>One iteration on 64-bit arithmetic: either it overflows the bound or it is exact.\<close>

lemma ParseUint_step:
  fixes n maxVal :: u64
  assumes "d < 10"
  defines "v \<equiv> 10 * unat n + d"
  shows "(n \<ge> cutoff \<or> n * 10 + of_nat d < n * 10 \<or> n * 10 + of_nat d > maxVal) \<longleftrightarrow> unat maxVal < v"
    and "v \<le> unat maxVal \<Longrightarrow> unat (n * 10 + of_nat d) = v"
proof -
  have m: "unat maxVal < 18446744073709551616" using unat_lt [of maxVal] by simp
  have c: "unat cutoff = 1844674407370955162" by (simp add: cutoff_def)
  have nc: "n \<ge> cutoff \<longleftrightarrow> 1844674407370955162 \<le> unat n" using c by (simp add: word_le_nat_alt)
  have small: "unat (n * 10) = 10 * unat n" if "unat n < 1844674407370955162"
    using that by (simp add: unat_word_ariths)
  have d: "unat (of_nat d :: u64) = d" using assms(1) by (simp add: unat_of_nat)
  have sum: "unat (n * 10 + of_nat d) = v mod 18446744073709551616" if "unat n < 1844674407370955162"
    using small [OF that] d by (simp add: unat_word_ariths v_def)
  show "v \<le> unat maxVal \<Longrightarrow> unat (n * 10 + of_nat d) = v"
  proof -
    assume le: "v \<le> unat maxVal"
    then have "unat n < 1844674407370955162" using m assms(1) unfolding v_def by linarith
    then show ?thesis using sum le m by simp
  qed
  show "(n \<ge> cutoff \<or> n * 10 + of_nat d < n * 10 \<or> n * 10 + of_nat d > maxVal) \<longleftrightarrow> unat maxVal < v"
  proof (cases "unat n < 1844674407370955162")
    case True
    show ?thesis
    proof (cases "v < 18446744073709551616")
      case vs: True
      then have "unat (n * 10 + of_nat d) = v" using sum [OF True] by simp
      then show ?thesis using True small [OF True] nc
        by (simp add: word_less_nat_alt v_def)
    next
      case False
      have "v < 2 * 18446744073709551616" using True assms(1) unfolding v_def by linarith
      then have "unat (n * 10 + of_nat d) = v - 18446744073709551616"
        using sum [OF True] False by (simp add: mod_if)
      then have "n * 10 + of_nat d < n * 10"
        using small [OF True] assms(1) False by (simp add: word_less_nat_alt v_def)
      then show ?thesis using False m by linarith
    qed
  next
    case False
    then have "18446744073709551616 \<le> v" unfolding v_def by linarith
    then show ?thesis using False nc m by linarith
  qed
qed

lemma ParseUint_loop_correct:
  "ParseUint_loop maxVal n s = Inr w \<longleftrightarrow>
     list_all is_digit s \<and> (s \<noteq> [] \<longrightarrow> foldl (\<lambda>n c. 10 * n + digit c) (unat n) s \<le> unat maxVal) \<and>
     unat w = foldl (\<lambda>n c. 10 * n + digit c) (unat n) s"
proof (induction s arbitrary: n)
  case Nil
  then show ?case by (auto intro: word_unat_eqI)
next
  case (Cons c s)
  show ?case
  proof (cases "is_digit c")
    case dig: True
    let ?v = "10 * unat n + digit c" and ?n1 = "n * 10 + of_nat (digit c) :: u64"
    note st = ParseUint_step [OF decimal_less [OF dig], of n maxVal]
    show ?thesis
    proof (cases "unat maxVal < ?v")
      case True
      then have "\<exists>e. ParseUint_loop maxVal n (c # s) = Inl e"
        using st(1) dig by (auto simp: Let_def)
      moreover have "\<not> foldl (\<lambda>n c. 10 * n + digit c) ?v s \<le> unat maxVal"
        using True foldl_digits_ge [of ?v s] by linarith
      ultimately show ?thesis by auto
    next
      case False
      then have "ParseUint_loop maxVal n (c # s) = ParseUint_loop maxVal ?n1 s"
        using st(1) dig by (auto simp: Let_def)
      moreover have "unat ?n1 = ?v" using st(2) False by simp
      ultimately show ?thesis using dig Cons.IH [of ?n1] False by auto
    qed
  qed auto
qed

lemma unat_of_nat_u64: "n < 2 ^ 64 \<Longrightarrow> unat (of_nat n :: u64) = n"
  by (simp add: unat_of_nat)

lemma ParseUint_iff:
  assumes "0 < bitSize" and "bitSize \<le> 64"
  shows "ParseUint s bitSize = Inr w \<longleftrightarrow>
    s \<noteq> [] \<and> list_all is_digit s \<and> digits_value s < 2 ^ bitSize \<and> unat w = digits_value s"
proof -
  define m where "m = (2 :: nat) ^ bitSize - 1"
  have "(2 :: nat) ^ bitSize \<le> 2 ^ 64" using assms(2) by (intro power_increasing) simp_all
  then have "m < 2 ^ 64" unfolding m_def by (simp add: less_eq_Suc_le)
  then have u: "unat (of_nat m :: u64) = m" by (rule unat_of_nat_u64)
  have m: "v \<le> m \<longleftrightarrow> v < 2 ^ bitSize" for v
    unfolding m_def by (metis Suc_pred' less_Suc_eq_le zero_less_numeral zero_less_power)
  show ?thesis
    unfolding ParseUint_def digits_value_def m_def [symmetric]
    by (auto simp: ParseUint_loop_correct u m)
qed

text \<open>Printing and parsing.\<close>

lemma digit_char: "n < 10 \<Longrightarrow> is_digit (char_of (48 + n :: nat)) \<and> digit (char_of (48 + n :: nat)) = n"
  by (simp add: is_digit_def digit_def of_char_of)

lemma FormatUint_digits:
  "FormatUint n \<noteq> [] \<and> list_all is_digit (FormatUint n) \<and> digits_value (FormatUint n) = n"
proof (induction n rule: FormatUint.induct)
  case (1 n)
  show ?case
  proof (cases "n < 10")
    case True
    then show ?thesis by (simp add: FormatUint.simps [of n] digit_char digits_value_def)
  next
    case False
    then show ?thesis using 1
      by (simp add: FormatUint.simps [of n] digit_char digits_value_snoc)
  qed
qed

lemma ParseUint_FormatUint:
  assumes "0 < bitSize" "bitSize \<le> 64" and "n < 2 ^ bitSize"
  shows "ParseUint (FormatUint n) bitSize = Inr (of_nat n)"
proof -
  have "(2 :: nat) ^ bitSize \<le> 2 ^ 64" using assms(2) by (intro power_increasing) simp_all
  then have "unat (of_nat n :: u64) = n" using assms(3) by (intro unat_of_nat_u64) simp
  then show ?thesis using FormatUint_digits [of n] assms by (simp add: ParseUint_iff)
qed

section \<open>Fields of a line\<close>

text \<open>A token: no byte in it starts a white-space character.\<close>

definition space_leads :: "char list" where
  "space_leads = map hd spaces"

definition token :: "string \<Rightarrow> bool" where
  "token s \<longleftrightarrow> s \<noteq> [] \<and> set s \<inter> set space_leads = {}"

lemma space_len_token: "c \<notin> set space_leads \<Longrightarrow> space_len (c # cs) = 0"
proof -
  assume c: "c \<notin> set space_leads"
  have "\<forall>w \<in> set spaces. w \<noteq> []" by (simp add: spaces_def space_codes_def)
  then have "find (\<lambda>w. take (length w) (c # cs) = w) spaces = None"
    using c unfolding find_None_iff space_leads_def by (metis Nil_is_map_conv hd_in_set image_eqI
        length_greater_0_conv list.sel(1) list.set_map take_Cons' neq0_conv)
  then show ?thesis by (simp add: space_len_def)
qed

lemma space_len_blank: "space_len (CHR '' '' # cs) = 1"
  by (simp add: space_len_def spaces_def space_codes_def char_of_def bit_0)

lemma Fields_loop_token:
  "set t \<inter> set space_leads = {} \<Longrightarrow> Fields_loop cur (t @ r) = Fields_loop (cur @ t) r"
  by (induction t arbitrary: cur) (simp_all add: Fields_loop.simps(2) space_len_token)

lemma Fields_loop_blank:
  "Fields_loop cur (CHR '' '' # r) = (if cur = [] then [] else [cur]) @ Fields_loop [] r"
  by (simp add: Fields_loop.simps(2) space_len_blank)

lemma Fields_loop_newline: "Fields_loop cur [CHR 0x0A] = (if cur = [] then [] else [cur])"
proof -
  have "space_len [CHR 0x0A] = 1"
    by (simp add: space_len_def spaces_def space_codes_def char_of_def bit_0)
  then show ?thesis by (simp add: Fields_loop.simps(2))
qed

text \<open>\<open>Fields\<close> of a line of tokens, each after a blank.\<close>

lemma Fields_tokens:
  "list_all token ts \<Longrightarrow> Fields (concat (map (\<lambda>t. CHR '' '' # t) ts) @ [CHR 0x0A]) = ts"
proof -
  have loop: "list_all token ts \<Longrightarrow> Fields_loop cur (concat (map (\<lambda>t. CHR '' '' # t) ts) @ [CHR 0x0A]) =
      (if cur = [] then [] else [cur]) @ ts" for cur ts
  proof (induction ts arbitrary: cur)
    case (Cons t ts)
    then show ?case by (simp add: Fields_loop_blank Fields_loop_token token_def)
  qed (simp add: Fields_loop_newline)
  show "list_all token ts \<Longrightarrow> Fields (concat (map (\<lambda>t. CHR '' '' # t) ts) @ [CHR 0x0A]) = ts"
    by (simp add: Fields_def loop)
qed

lemma digit_not_space: "is_digit c \<Longrightarrow> c \<notin> set space_leads"
  by (auto simp: is_digit_def space_leads_def spaces_def space_codes_def of_char_of)

lemma token_FormatUint: "token (FormatUint n)"
  using FormatUint_digits [of n] digit_not_space
  by (auto simp: token_def list_all_iff)

end
