(* ===== verification/Sha256.thy ===== *)
theory Sha256
  imports Prelude
begin

unbundle bit_operations_syntax

text \<open>
  SHA-256, as \<open>crypto/sha256\<close> of the Go standard library computes it (FIPS 180-4): padding,
  message schedule, compression and the 32-byte big-endian digest. Process identifiers are
  built from it.
\<close>

section \<open>Constants\<close>

definition sha_K :: "u32 list" where
  "sha_K =
     [0x428a2f98, 0x71374491, 0xb5c0fbcf, 0xe9b5dba5, 0x3956c25b, 0x59f111f1,
      0x923f82a4, 0xab1c5ed5, 0xd807aa98, 0x12835b01, 0x243185be, 0x550c7dc3,
      0x72be5d74, 0x80deb1fe, 0x9bdc06a7, 0xc19bf174, 0xe49b69c1, 0xefbe4786,
      0x0fc19dc6, 0x240ca1cc, 0x2de92c6f, 0x4a7484aa, 0x5cb0a9dc, 0x76f988da,
      0x983e5152, 0xa831c66d, 0xb00327c8, 0xbf597fc7, 0xc6e00bf3, 0xd5a79147,
      0x06ca6351, 0x14292967, 0x27b70a85, 0x2e1b2138, 0x4d2c6dfc, 0x53380d13,
      0x650a7354, 0x766a0abb, 0x81c2c92e, 0x92722c85, 0xa2bfe8a1, 0xa81a664b,
      0xc24b8b70, 0xc76c51a3, 0xd192e819, 0xd6990624, 0xf40e3585, 0x106aa070,
      0x19a4c116, 0x1e376c08, 0x2748774c, 0x34b0bcb5, 0x391c0cb3, 0x4ed8aa4a,
      0x5b9cca4f, 0x682e6ff3, 0x748f82ee, 0x78a5636f, 0x84c87814, 0x8cc70208,
      0x90befffa, 0xa4506ceb, 0xbef9a3f7, 0xc67178f2]"

definition sha_init :: "u32 list" where
  "sha_init =
     [0x6a09e667, 0xbb67ae85, 0x3c6ef372, 0xa54ff53a, 0x510e527f, 0x9b05688c,
      0x1f83d9ab, 0x5be0cd19]"

section \<open>The hash\<close>

definition rotr :: "nat \<Rightarrow> u32 \<Rightarrow> u32" where
  "rotr n x = drop_bit n x OR push_bit (32 - n) x"

definition be_dec :: "bytes \<Rightarrow> nat" where
  "be_dec bs = le_dec (rev bs)"

definition be_enc :: "nat \<Rightarrow> nat \<Rightarrow> bytes" where
  "be_enc k n = rev (le_enc k n)"

text \<open>Append a one bit, zeros up to 56 mod 64 bytes, and the bit length in 8 bytes.\<close>

definition sha_pad :: "bytes \<Rightarrow> bytes" where
  "sha_pad m = m @ [0x80] @ replicate ((119 - length m mod 64) mod 64) 0 @ be_enc 8 (8 * length m)"

fun chunks :: "nat \<Rightarrow> nat \<Rightarrow> 'a list \<Rightarrow> 'a list list" where
  "chunks 0 n xs = []"
| "chunks (Suc k) n xs = take n xs # chunks k n (drop n xs)"

definition sha_words :: "bytes \<Rightarrow> u32 list" where
  "sha_words b = map (\<lambda>c. of_nat (be_dec c)) (chunks 16 4 b)"

text \<open>The message schedule, newest word first.\<close>

fun sha_sched :: "nat \<Rightarrow> u32 list \<Rightarrow> u32 list" where
  "sha_sched 0 ws = ws"
| "sha_sched (Suc k) ws =
     (let v1 = ws ! 1; v2 = ws ! 14;
          t1 = rotr 17 v1 XOR rotr 19 v1 XOR drop_bit 10 v1;
          t2 = rotr 7 v2 XOR rotr 18 v2 XOR drop_bit 3 v2
      in sha_sched k ((t1 + ws ! 6 + t2 + ws ! 15) # ws))"

definition sha_round :: "u32 list \<Rightarrow> u32 \<times> u32 \<Rightarrow> u32 list" where
  "sha_round st kw =
     (let a = st ! 0; b = st ! 1; c = st ! 2; d = st ! 3; e = st ! 4; f = st ! 5; g = st ! 6; h = st ! 7;
          t1 = h + (rotr 6 e XOR rotr 11 e XOR rotr 25 e) + ((e AND f) XOR (NOT e AND g)) + fst kw + snd kw;
          t2 = (rotr 2 a XOR rotr 13 a XOR rotr 22 a) + ((a AND b) XOR (a AND c) XOR (b AND c))
      in [t1 + t2, a, b, c, d + t1, e, f, g])"

definition sha_block :: "u32 list \<Rightarrow> bytes \<Rightarrow> u32 list" where
  "sha_block st b =
     (let ws = rev (sha_sched 48 (rev (sha_words b)))
      in map2 (+) st (fold (\<lambda>kw s. sha_round s kw) (zip sha_K ws) st))"

definition sha256 :: "bytes \<Rightarrow> bytes" where
  "sha256 m =
     (let p = sha_pad m
      in concat (map (\<lambda>w. be_enc 4 (unat w))
           (fold (\<lambda>b st. sha_block st b) (chunks (length p div 64) 64 p) sha_init)))"

section \<open>Size of the digest\<close>

lemma length_be_enc [simp]: "length (be_enc k n) = k"
  by (simp add: be_enc_def)

lemma sha_pad_dvd: "64 dvd length (sha_pad m)"
proof -
  define r where "r = length m mod 64"
  have r: "r < 64" by (simp add: r_def)
  have "(r + (1 + (119 - r) mod 64 + 8)) mod 64 = 0"
  proof (cases "r \<le> 55")
    case True
    have "(119 - r) mod 64 = (119 - r - 64) mod 64" using True by (intro le_mod_geq) simp
    also have "\<dots> = 55 - r" using True by (subst mod_less) simp_all
    finally show ?thesis using True by simp
  next
    case False
    then have "(119 - r) mod 64 = 119 - r" using r by (intro mod_less) simp
    then show ?thesis using r by simp
  qed
  then have "(length m + (1 + (119 - r) mod 64 + 8)) mod 64 = 0"
    using mod_add_left_eq [of "length m" 64 "1 + (119 - r) mod 64 + 8"] unfolding r_def by (simp only:)
  moreover have "length (sha_pad m) = length m + (1 + (119 - r) mod 64 + 8)"
    unfolding sha_pad_def r_def length_append length_be_enc length_replicate by simp
  ultimately show ?thesis by (simp only: dvd_eq_mod_eq_0)
qed

lemma length_sha_round [simp]: "length (sha_round st kw) = 8"
  by (simp add: sha_round_def Let_def)

lemma length_fold_round [simp]: "length st = 8 \<Longrightarrow> length (fold (\<lambda>kw s. sha_round s kw) kws st) = 8"
  by (induction kws arbitrary: st) simp_all

lemma length_sha_block [simp]: "length st = 8 \<Longrightarrow> length (sha_block st b) = 8"
  by (simp add: sha_block_def Let_def)

lemma length_fold_block [simp]: "length st = 8 \<Longrightarrow> length (fold (\<lambda>b st. sha_block st b) bs st) = 8"
  by (induction bs arbitrary: st) simp_all

lemma length_sha256 [simp]: "length (sha256 m) = 32"
  by (simp add: sha256_def Let_def length_concat comp_def sum_list_triv sha_init_def)

end
