(* ===== verification/Guid.thy ===== *)
theory Guid
  imports GoEvent GoStrings Sha256
begin

text \<open>
  Process identifiers (\<open>internal/proctable/guid.go\<close>): the start time in clock ticks, the GUID
  built from the SHA-256 digest of host, boot, process id and start ticks, and the host
  identity read from files. The lemmas show that a GUID has the fixed 36-character form, and
  that two GUIDs agree exactly when they name the same process, up to a collision of the
  truncated hash.
\<close>

section \<open>Start times\<close>

definition nsPerTick :: u64 where
  "nsPerTick = 1000000000 div 100"

definition StartTicks :: "u64 \<Rightarrow> u64" where
  "StartTicks startNs = startNs div nsPerTick"

section \<open>GUID\<close>

text \<open>\<open>hex.EncodeToString\<close>: two lower-case digits per byte, the high nibble first.\<close>

definition hextable :: string where
  "hextable = ''0123456789abcdef''"

definition EncodeToString :: "bytes \<Rightarrow> string" where
  "EncodeToString b = concat (map (\<lambda>x. [hextable ! (unat x div 16), hextable ! (unat x mod 16)]) b)"

text \<open>The Go slice \<open>s[a:b]\<close> of a string, for \<open>a \<le> b \<le> len(s)\<close>.\<close>

definition slice :: "nat \<Rightarrow> nat \<Rightarrow> 'a list \<Rightarrow> 'a list" where
  "slice a b s = take (b - a) (drop a s)"

definition guid_input :: "string \<Rightarrow> string \<Rightarrow> u32 \<Rightarrow> u64 \<Rightarrow> bytes" where
  "guid_input hostID bootID tgid startNs =
     bytes_of hostID @ [0] @ bytes_of bootID @ [0] @ put32 tgid @ put64 (StartTicks startNs)"

definition GUID :: "string \<Rightarrow> string \<Rightarrow> u32 \<Rightarrow> u64 \<Rightarrow> string" where
  "GUID hostID bootID tgid startNs =
     (let s = EncodeToString (take 16 (sha256 (guid_input hostID bootID tgid startNs)))
      in slice 0 8 s @ ''-'' @ slice 8 12 s @ ''-'' @ slice 12 16 s @ ''-'' @ slice 16 20 s @ ''-'' @ slice 20 32 s)"

section \<open>HostIdentity\<close>

datatype identity_error = ReadHostID | ReadBootID

text \<open>\<open>ReadFile\<close> is the file system: the contents of a file, or an error.\<close>

definition HostIdentity :: "(string \<Rightarrow> bytes option) \<Rightarrow> identity_error + string \<times> string" where
  "HostIdentity ReadFile =
     (case ReadFile ''/etc/machine-id'' of None \<Rightarrow> Inl ReadHostID
      | Some host \<Rightarrow>
        (case ReadFile ''/proc/sys/kernel/random/boot_id'' of None \<Rightarrow> Inl ReadBootID
         | Some boot \<Rightarrow> Inr (TrimSpace (string_of host), TrimSpace (string_of boot))))"

section \<open>Form of a GUID\<close>

lemma hextable_nth: "n < 16 \<Longrightarrow> hextable ! n \<in> set hextable"
  by (rule nth_mem) (simp add: hextable_def)

lemma hextable_inject: "i < 16 \<Longrightarrow> j < 16 \<Longrightarrow> hextable ! i = hextable ! j \<longleftrightarrow> i = j"
proof -
  have "distinct hextable" "length hextable = 16" by (simp_all add: hextable_def)
  then show "i < 16 \<Longrightarrow> j < 16 \<Longrightarrow> hextable ! i = hextable ! j \<longleftrightarrow> i = j" by (simp add: nth_eq_iff_index_eq)
qed

lemma length_EncodeToString [simp]: "length (EncodeToString b) = 2 * length b"
  by (induction b) (simp_all add: EncodeToString_def)

lemma nibble_less: "unat (x :: u8) div 16 < 16"
  using unat_byte_less [of x] by (simp add: less_mult_imp_div_less)

lemma EncodeToString_inject: "EncodeToString a = EncodeToString b \<longleftrightarrow> a = b"
proof (induction a arbitrary: b)
  case Nil
  then show ?case by (cases b) (simp_all add: EncodeToString_def)
next
  case (Cons x a)
  show ?case
  proof (cases b)
    case (Cons y b')
    have "unat x div 16 = unat y div 16 \<and> unat x mod 16 = unat y mod 16 \<longleftrightarrow> x = y"
      by (metis div_mult_mod_eq word_unat_eqI)
    then show ?thesis
      using Cons.IH [of b'] by (auto simp: Cons EncodeToString_def hextable_inject nibble_less)
  qed (simp add: EncodeToString_def)
qed

lemma set_EncodeToString: "set (EncodeToString b) \<subseteq> set hextable"
  by (induction b) (auto simp: EncodeToString_def intro!: hextable_nth nibble_less)

text \<open>The dashed form of 32 hexadecimal digits, and that it can be undone.\<close>

definition dashed :: "string \<Rightarrow> string" where
  "dashed s = slice 0 8 s @ ''-'' @ slice 8 12 s @ ''-'' @ slice 12 16 s @ ''-'' @ slice 16 20 s @ ''-'' @ slice 20 32 s"

lemma slices_join: "length s = 32 \<Longrightarrow>
    slice 0 8 s @ slice 8 12 s @ slice 12 16 s @ slice 16 20 s @ slice 20 32 s = s"
proof -
  assume s: "length s = 32"
  have "slice a b s @ drop b s = drop a s" if "a \<le> b" for a b
    using that unfolding slice_def by (metis append_take_drop_id drop_drop le_add_diff_inverse2)
  from this [of 0 8] this [of 8 12] this [of 12 16] this [of 16 20] this [of 20 32] s show ?thesis by simp
qed

lemma length_slice [simp]: "b \<le> length s \<Longrightarrow> length (slice a b s) = b - a"
  by (simp add: slice_def)

lemma dashed_inject:
  assumes "length s = 32" and "length t = 32" and "dashed s = dashed t"
  shows "s = t"
proof -
  have len: "length (slice i j s) = length (slice i j t)" for i j
    by (simp add: slice_def assms(1,2))
  have app: "slice i j s @ us = slice i j t @ vs \<longleftrightarrow> slice i j s = slice i j t \<and> us = vs" for i j us vs
    by (rule append_eq_append_conv) (simp only: len simp_thms)
  have eqs: "slice 0 8 s = slice 0 8 t \<and> slice 8 12 s = slice 8 12 t \<and> slice 12 16 s = slice 12 16 t \<and>
      slice 16 20 s = slice 16 20 t \<and> slice 20 32 s = slice 20 32 t"
    using assms(3) unfolding dashed_def by (simp only: app append.simps list.inject simp_thms)
  have "s = slice 0 8 s @ slice 8 12 s @ slice 12 16 s @ slice 16 20 s @ slice 20 32 s"
    by (rule slices_join [OF assms(1), symmetric])
  also have "\<dots> = slice 0 8 t @ slice 8 12 t @ slice 12 16 t @ slice 16 20 t @ slice 20 32 t"
    using eqs by (simp only:)
  also have "\<dots> = t" by (rule slices_join [OF assms(2)])
  finally show ?thesis .
qed

lemma GUID_dashed:
  "GUID h b p n = dashed (EncodeToString (take 16 (sha256 (guid_input h b p n))))"
  by (simp add: GUID_def dashed_def Let_def)

lemma set_slice: "set (slice a b s) \<subseteq> set s"
  unfolding slice_def by (meson set_drop_subset set_take_subset subset_trans)

text \<open>
  Every GUID has the 8-4-4-4-12 form of a UUID: 36 characters, dashes at positions 8, 13, 18
  and 23, and lower-case hexadecimal digits elsewhere.
\<close>

lemma GUID_form:
  "\<exists>a b c d e. GUID host boot tgid startNs = a @ ''-'' @ b @ ''-'' @ c @ ''-'' @ d @ ''-'' @ e \<and>
     map length [a, b, c, d, e] = [8, 4, 4, 4, 12] \<and>
     set (a @ b @ c @ d @ e) \<subseteq> set ''0123456789abcdef''"
proof -
  define s where "s = EncodeToString (take 16 (sha256 (guid_input host boot tgid startNs)))"
  have len: "length s = 32" by (simp add: s_def)
  have "map length [slice 0 8 s, slice 8 12 s, slice 12 16 s, slice 16 20 s, slice 20 32 s] = [8, 4, 4, 4, 12]"
    by (simp add: len)
  moreover have "set (slice 0 8 s @ slice 8 12 s @ slice 12 16 s @ slice 16 20 s @ slice 20 32 s) \<subseteq>
      set ''0123456789abcdef''"
    unfolding slices_join [OF len] unfolding s_def hextable_def [symmetric] by (rule set_EncodeToString)
  moreover have "GUID host boot tgid startNs = dashed s" by (simp only: GUID_dashed s_def)
  ultimately show ?thesis unfolding dashed_def by (intro exI conjI)
qed

section \<open>Identity\<close>

lemma nul_split:
  assumes "0 \<notin> set a" and "0 \<notin> set b" and "a @ (0 :: u8) # r = b @ 0 # t"
  shows "a = b \<and> r = t"
  using takeWhile_nul [OF assms(1), of r] takeWhile_nul [OF assms(2), of t] assms(3) by simp

lemma guid_input_inject:
  assumes "nul_free h" "nul_free b" "nul_free h'" "nul_free b'"
  shows "guid_input h b p n = guid_input h' b' p' n' \<longleftrightarrow>
    h = h' \<and> b = b' \<and> p = p' \<and> StartTicks n = StartTicks n'"
proof
  assume "guid_input h b p n = guid_input h' b' p' n'"
  then have "bytes_of h @ 0 # bytes_of b @ 0 # put32 p @ put64 (StartTicks n) =
      bytes_of h' @ 0 # bytes_of b' @ 0 # put32 p' @ put64 (StartTicks n')"
    by (simp add: guid_input_def)
  from nul_split [OF _ _ this] have "bytes_of h = bytes_of h'"
    "bytes_of b @ 0 # put32 p @ put64 (StartTicks n) = bytes_of b' @ 0 # put32 p' @ put64 (StartTicks n')"
    using assms by (simp_all add: bytes_of_nul_free)
  moreover from nul_split [OF _ _ this(2)]
  have "bytes_of b = bytes_of b'" "put32 p @ put64 (StartTicks n) = put32 p' @ put64 (StartTicks n')"
    using assms by (simp_all add: bytes_of_nul_free)
  ultimately show "h = h' \<and> b = b' \<and> p = p' \<and> StartTicks n = StartTicks n'" by simp
qed (simp add: guid_input_def)

lemma GUID_eq_iff:
  "GUID h b p n = GUID h' b' p' n' \<longleftrightarrow>
     take 16 (sha256 (guid_input h b p n)) = take 16 (sha256 (guid_input h' b' p' n'))"
proof -
  have "length (EncodeToString (take 16 (sha256 m))) = 32" for m by simp
  then show ?thesis unfolding GUID_dashed using dashed_inject EncodeToString_inject by metis
qed

text \<open>
  C26: a GUID identifies a process. With host and boot ids without NUL characters, two GUIDs are
  equal exactly when host, boot, process id and start tick are the same, or the truncated
  SHA-256 hashes of two different identities collide; so a reused process id gets another GUID
  when its start tick differs, up to such a collision.
\<close>

theorem GUID_identity:
  assumes "nul_free h" and "nul_free b" and "nul_free h'" and "nul_free b'"
  shows "GUID h b p n = GUID h' b' p' n' \<longleftrightarrow>
    (h = h' \<and> b = b' \<and> p = p' \<and> StartTicks n = StartTicks n') \<or>
    (guid_input h b p n \<noteq> guid_input h' b' p' n' \<and>
     take 16 (sha256 (guid_input h b p n)) = take 16 (sha256 (guid_input h' b' p' n')))"
  unfolding GUID_eq_iff guid_input_inject [OF assms, symmetric] by metis

theorem GUID_identity_witness:
  "nul_free ''host'' \<and> nul_free ''boot'' \<and> GUID ''host'' ''boot'' 42 123456789 = GUID ''host'' ''boot'' 42 120000000"
proof -
  have "StartTicks 123456789 = StartTicks 120000000" "nul_free ''host''" "nul_free ''boot''"
    by (simp_all add: StartTicks_def nsPerTick_def nul_free_def)
  then show ?thesis using GUID_identity by blast
qed

text \<open>The start time that a GUID sees survives the rounding to ticks done by \<open>/proc\<close>.\<close>

lemma StartTicks_round: "StartTicks (StartTicks n * nsPerTick) = StartTicks n"
proof -
  have "unat (nsPerTick) = 10000000" by (simp add: nsPerTick_def)
  moreover have "unat n div 10000000 * 10000000 \<le> unat n" by simp
  moreover have "unat n < 2 ^ 64" using unat_lt [of n] by simp
  ultimately have "unat (StartTicks n * nsPerTick) = unat n div 10000000 * 10000000"
    by (simp add: StartTicks_def unat_word_ariths unat_div)
  then show ?thesis using \<open>unat nsPerTick = 10000000\<close>
    by (intro word_unat_eqI) (simp add: StartTicks_def unat_div)
qed

lemma GUID_ticks: "StartTicks m = StartTicks n \<Longrightarrow> GUID h b p m = GUID h b p n"
  by (simp add: GUID_def guid_input_def)

end
