(* ===== verification/Procfs.thy ===== *)
theory Procfs
  imports Guid
begin

text \<open>
  Reading \<open>/proc\<close> (\<open>internal/proctable/procfs.go\<close>). The file system is a record of what the
  calls of package os return: file contents, link targets, directory entries and inode
  numbers, or an error. The lemmas show that the kernel's stat line is parsed for every
  process name, and that a process read from \<open>/proc\<close> has the GUID that kernel events give it.
\<close>

section \<open>Types\<close>

definition maxCmdline :: nat where
  "maxCmdline = 4096"

record ProcInfo =
  pi_PID :: u32
  pi_PPID :: u32
  pi_StartTimeNs :: u64
  pi_Image :: string
  pi_Argv :: "string list"
  pi_CgroupID :: u64

record ProcFS =
  ProcRoot :: string
  CgroupRoot :: string

definition NewProcFS :: ProcFS where
  "NewProcFS = \<lparr>ProcRoot = ''/proc'', CgroupRoot = ''/sys/fs/cgroup''\<rparr>"

text \<open>
  The operating system. \<open>Open_read\<close> is \<open>None\<close> when the file cannot be opened, and otherwise
  the bytes that can be read from it. \<open>Stat_ino\<close> is \<open>Some None\<close> for a file without an inode.
\<close>

record OS =
  ReadFile :: "string \<Rightarrow> bytes option"
  Readlink :: "string \<Rightarrow> string option"
  Open_read :: "string \<Rightarrow> bytes option"
  ReadDir :: "string \<Rightarrow> string list option"
  Stat_ino :: "string \<Rightarrow> u64 option option"

datatype proc_error =
    OSError
  | NoParen
  | TooFewFields nat
  | BadPPID num_error
  | BadStartTime num_error
  | EmptyCgroupPath
  | NoInode

section \<open>Operations\<close>

fun LastIndexByte :: "bytes \<Rightarrow> u8 \<Rightarrow> nat option" where
  "LastIndexByte [] c = None"
| "LastIndexByte (x # xs) c =
     (case LastIndexByte xs c of Some i \<Rightarrow> Some (Suc i) | None \<Rightarrow> if x = c then Some 0 else None)"

definition parseStat :: "bytes \<Rightarrow> proc_error + u32 \<times> u64" where
  "parseStat b =
     (case LastIndexByte b 41 of None \<Rightarrow> Inl NoParen
      | Some i \<Rightarrow>
        let f = Fields (string_of (drop (i + 1) b)) in
        if length f < 20 then Inl (TooFewFields (length f))
        else case ParseUint (f ! 1) 32 of Inl err \<Rightarrow> Inl (BadPPID err)
          | Inr pp \<Rightarrow>
            (case ParseUint (f ! 19) 64 of Inl err \<Rightarrow> Inl (BadStartTime err)
             | Inr st \<Rightarrow> Inr (ucast pp, st)))"

definition parseCgroupV2Path :: "bytes \<Rightarrow> string" where
  "parseCgroupV2Path b =
     (case List.map_filter (\<lambda>line. CutPrefix line ''0::'') (splitOn (CHR 0x0A) (string_of b)) of
        [] \<Rightarrow> [] | p # _ \<Rightarrow> p)"

definition InodeOf :: "OS \<Rightarrow> string \<Rightarrow> proc_error + u64" where
  "InodeOf sys path =
     (case Stat_ino sys path of None \<Rightarrow> Inl OSError
      | Some None \<Rightarrow> Inl NoInode | Some (Some ino) \<Rightarrow> Inr ino)"

definition CgroupID :: "OS \<Rightarrow> ProcFS \<Rightarrow> string \<Rightarrow> proc_error + u64" where
  "CgroupID sys p path =
     (if path = [] then Inl EmptyCgroupPath else InodeOf sys (Join [CgroupRoot p, path]))"

definition Read_rest :: "OS \<Rightarrow> ProcFS \<Rightarrow> string \<Rightarrow> ProcInfo \<Rightarrow> ProcInfo" where
  "Read_rest sys p dir info =
     (let info = info\<lparr>pi_Image := (case Readlink sys (Join [dir, ''exe'']) of None \<Rightarrow> [] | Some l \<Rightarrow> l)\<rparr>;
          info = (case Open_read sys (Join [dir, ''cmdline'']) of None \<Rightarrow> info
                  | Some b \<Rightarrow> info\<lparr>pi_Argv := SplitArgv (take maxCmdline b)\<rparr>)
      in (case ReadFile sys (Join [dir, ''cgroup'']) of None \<Rightarrow> info
          | Some cg \<Rightarrow> info\<lparr>pi_CgroupID :=
              (case CgroupID sys p (parseCgroupV2Path cg) of Inl _ \<Rightarrow> 0 | Inr i \<Rightarrow> i)\<rparr>))"

definition Read :: "OS \<Rightarrow> ProcFS \<Rightarrow> u32 \<Rightarrow> proc_error + ProcInfo" where
  "Read sys p pid =
     (let dir = Join [ProcRoot p, FormatUint (unat pid)] in
      case ReadFile sys (Join [dir, ''stat'']) of None \<Rightarrow> Inl OSError
      | Some stat \<Rightarrow>
        (case parseStat stat of Inl err \<Rightarrow> Inl err
         | Inr (ppid, ticks) \<Rightarrow>
           Inr (Read_rest sys p dir \<lparr>pi_PID = pid, pi_PPID = ppid, pi_StartTimeNs = ticks * nsPerTick,
             pi_Image = [], pi_Argv = [], pi_CgroupID = 0\<rparr>)))"

fun Scan_loop :: "OS \<Rightarrow> ProcFS \<Rightarrow> string list \<Rightarrow> ProcInfo list \<Rightarrow> ProcInfo list" where
  "Scan_loop sys p [] out = out"
| "Scan_loop sys p (e # ents) out =
     (case ParseUint e 32 of Inl _ \<Rightarrow> Scan_loop sys p ents out
      | Inr pid \<Rightarrow>
        (case Read sys p (ucast pid) of Inl _ \<Rightarrow> Scan_loop sys p ents out
         | Inr info \<Rightarrow> Scan_loop sys p ents (out @ [info])))"

definition Scan :: "OS \<Rightarrow> ProcFS \<Rightarrow> proc_error + ProcInfo list" where
  "Scan sys p =
     (case ReadDir sys (ProcRoot p) of None \<Rightarrow> Inl OSError
      | Some ents \<Rightarrow> Inr (Scan_loop sys p ents []))"

section \<open>The stat line\<close>

text \<open>
  The line the kernel writes: process id, the name in parentheses (any bytes), then the fields
  from the third on, each after a blank, with the parent's id in field 4 and the start time in
  field 22.
\<close>

definition stat_line :: "nat \<Rightarrow> bytes \<Rightarrow> string list \<Rightarrow> bytes" where
  "stat_line pid comm toks =
     bytes_of (FormatUint pid) @ bytes_of '' ('' @ comm @ [41] @
     bytes_of (concat (map (\<lambda>t. CHR '' '' # t) toks) @ [CHR 0x0A])"

definition kernel_fields :: "string \<Rightarrow> nat \<Rightarrow> string list \<Rightarrow> nat \<Rightarrow> string list \<Rightarrow> string list" where
  "kernel_fields state ppid mid start rest = state # FormatUint ppid # mid @ FormatUint start # rest"

lemma LastIndexByte_none: "c \<notin> set b \<Longrightarrow> LastIndexByte b c = None"
  by (induction b) auto

lemma LastIndexByte_app: "c \<notin> set b \<Longrightarrow> LastIndexByte (a @ c # b) c = Some (length a)"
  by (induction a) (auto simp: LastIndexByte_none)

definition plain_token :: "string \<Rightarrow> bool" where
  "plain_token t \<longleftrightarrow> token t \<and> CHR '')'' \<notin> set t"

lemma paren_in_bytes: "41 \<in> set (bytes_of s) \<longleftrightarrow> CHR '')'' \<in> set s"
proof -
  have inj: "(of_nat (of_char c) :: u8) = of_nat (of_char d) \<longleftrightarrow> c = d" for c d
    by (metis of_char_eq_iff unat_of_nat_of_char)
  have "(of_nat (of_char c) :: u8) = 41 \<longleftrightarrow> c = CHR '')''" for c
    using inj [of c "CHR '')''"] by simp
  then show ?thesis by (force simp: bytes_of_def image_iff)
qed

lemma parseStat_line:
  assumes "list_all plain_token toks"
  shows "parseStat (stat_line pid comm toks) =
    (if length toks < 20 then Inl (TooFewFields (length toks))
     else case ParseUint (toks ! 1) 32 of Inl err \<Rightarrow> Inl (BadPPID err)
       | Inr pp \<Rightarrow> (case ParseUint (toks ! 19) 64 of Inl err \<Rightarrow> Inl (BadStartTime err)
                    | Inr st \<Rightarrow> Inr (ucast pp, st)))"
proof -
  let ?r = "concat (map (\<lambda>t. CHR '' '' # t) toks) @ [CHR 0x0A]"
  let ?p = "bytes_of (FormatUint pid) @ bytes_of '' ('' @ comm"
  have "CHR '')'' \<notin> set ?r" using assms by (auto simp: list_all_iff plain_token_def)
  then have "41 \<notin> set (bytes_of ?r)" by (simp only: paren_in_bytes not_False_eq_True)
  then have "LastIndexByte (?p @ 41 # bytes_of ?r) 41 = Some (length ?p)" by (rule LastIndexByte_app)
  moreover have "stat_line pid comm toks = ?p @ 41 # bytes_of ?r" by (simp add: stat_line_def)
  moreover have "drop (length ?p + 1) (?p @ 41 # bytes_of ?r) = bytes_of ?r" by simp
  moreover have "Fields ?r = toks"
    using assms by (intro Fields_tokens) (simp add: list_all_iff plain_token_def)
  ultimately show ?thesis
    unfolding parseStat_def by (simp only: option.case Let_def string_of_bytes_of)
qed

lemma plain_FormatUint: "plain_token (FormatUint n)"
proof -
  have "\<not> is_digit (CHR '')'')" by (simp add: is_digit_def)
  then show ?thesis
    using token_FormatUint [of n] FormatUint_digits [of n] by (auto simp: plain_token_def list_all_iff)
qed

lemma parseStat_kernel:
  assumes "list_all plain_token (state # mid @ rest)" and "length mid = 17"
    and "ppid < 2 ^ 32" and "start < 2 ^ 64"
  shows "parseStat (stat_line pid comm (kernel_fields state ppid mid start rest)) =
    Inr (of_nat ppid, of_nat start)"
proof -
  let ?t = "kernel_fields state ppid mid start rest"
  have "list_all plain_token ?t" using assms(1) by (simp add: kernel_fields_def plain_FormatUint)
  moreover have "?t ! 1 = FormatUint ppid" "\<not> length ?t < 20" "?t ! 19 = FormatUint start"
    using assms(2) by (simp_all add: kernel_fields_def nth_append)
  moreover have "ParseUint (FormatUint ppid) 32 = Inr (of_nat ppid)"
    by (rule ParseUint_FormatUint) (use assms(3) in simp_all)
  moreover have "ParseUint (FormatUint start) 64 = Inr (of_nat start)"
    by (rule ParseUint_FormatUint) (use assms(4) in simp_all)
  ultimately show ?thesis by (simp add: parseStat_line)
qed

text \<open>
  C25: the stat line of every process is parsed, whatever bytes its name contains (blanks,
  parentheses, newlines): \<open>parseStat\<close> returns the parent's process id from field 4 and the
  start time from field 22.
\<close>

theorem parseStat_any_comm:
  assumes "list_all plain_token (state # mid @ rest)" and "length mid = 17"
    and "ppid < 2 ^ 32" and "start < 2 ^ 64"
  shows "parseStat (stat_line pid comm (kernel_fields state ppid mid start rest)) =
    Inr (of_nat ppid, of_nat start)"
  by (rule parseStat_kernel [OF assms])

lemma plain_0: "plain_token ''0'' \<and> plain_token ''S''"
  by (simp add: plain_token_def token_def space_leads_def spaces_def space_codes_def char_of_def bit_0)

theorem parseStat_any_comm_witness:
  "parseStat (stat_line 42 (bytes_of ''a) S 7 (b'') (kernel_fields ''S'' 1 (replicate 17 ''0'') 987654 [''0'']))
    = Inr (1, 987654)"
proof -
  have "list_all plain_token (''S'' # replicate 17 ''0'' @ [''0''])"
    using plain_0 by (simp add: list_all_iff)
  from parseStat_any_comm [OF this, of 1 987654] show ?thesis by simp
qed

section \<open>One identity from both sources\<close>

lemma Read_rest_start [simp]:
  "pi_StartTimeNs (Read_rest sys p dir info) = pi_StartTimeNs info"
  "pi_PID (Read_rest sys p dir info) = pi_PID info"
  "pi_PPID (Read_rest sys p dir info) = pi_PPID info"
  by (simp_all add: Read_rest_def Let_def split: option.split)

text \<open>
  C24: a process has the same GUID in kernel events and in \<open>/proc\<close>. If the stat file of a process
  is the line the kernel writes for a task that started at \<open>start_boottime\<close> (rounded down to
  clock ticks there), then reading it yields a start time with the GUID that events carrying
  the exact start time get.
\<close>

theorem proc_guid_matches_kernel:
  assumes "ReadFile sys (Join [Join [ProcRoot p, FormatUint (unat pid)], ''stat'']) =
      Some (stat_line (unat pid) comm
        (kernel_fields state ppid mid (unat start_boottime div 10000000) rest))"
    and "list_all plain_token (state # mid @ rest)" and "length mid = 17" and "ppid < 2 ^ 32"
  shows "\<exists>info. Read sys p pid = Inr info \<and> pi_PID info = pid \<and> pi_PPID info = of_nat ppid \<and>
    GUID host boot pid (pi_StartTimeNs info) = GUID host boot pid start_boottime"
proof -
  let ?t = "unat start_boottime div 10000000"
  have lt: "?t < 2 ^ 64"
    by (rule le_less_trans [OF div_le_dividend]) (use unat_lt [of start_boottime] in simp)
  have "unat (StartTicks start_boottime) = ?t" by (simp add: StartTicks_def nsPerTick_def unat_div)
  then have "of_nat ?t = (of_nat (unat (StartTicks start_boottime)) :: u64)" by (simp only:)
  also have "\<dots> = StartTicks start_boottime" by simp
  finally have "parseStat (stat_line (unat pid) comm (kernel_fields state ppid mid ?t rest)) =
      Inr (of_nat ppid, StartTicks start_boottime)"
    by (simp only: parseStat_kernel [OF assms(2-4) lt])
  then have "Read sys p pid = Inr (Read_rest sys p (Join [ProcRoot p, FormatUint (unat pid)])
      \<lparr>pi_PID = pid, pi_PPID = of_nat ppid, pi_StartTimeNs = StartTicks start_boottime * nsPerTick,
       pi_Image = [], pi_Argv = [], pi_CgroupID = 0\<rparr>)"
    by (simp only: Read_def Let_def assms(1) option.case sum.case prod.case)
  then show ?thesis by (simp add: GUID_ticks [OF StartTicks_round])
qed

definition demo_os :: OS where
  "demo_os = \<lparr>ReadFile = (\<lambda>_. Some (stat_line 42 (bytes_of ''sh'')
      (kernel_fields ''S'' 1 (replicate 17 ''0'') 12 [''0'']))), Readlink = Map.empty, Open_read = Map.empty,
    ReadDir = Map.empty, Stat_ino = Map.empty\<rparr>"

theorem proc_guid_matches_kernel_witness:
  "\<exists>info. Read demo_os NewProcFS 42 = Inr info \<and>
    GUID ''host'' ''boot'' 42 (pi_StartTimeNs info) = GUID ''host'' ''boot'' 42 123456789"
proof -
  have "list_all plain_token (''S'' # replicate 17 ''0'' @ [''0''])"
    using plain_0 by (simp add: list_all_iff)
  moreover have "ReadFile demo_os (Join [Join [ProcRoot NewProcFS, FormatUint (unat 42)], ''stat'']) =
      Some (stat_line (unat (42 :: u32)) (bytes_of ''sh'')
        (kernel_fields ''S'' 1 (replicate 17 ''0'') (unat (123456789 :: u64) div 10000000) [''0'']))"
    by (simp add: demo_os_def)
  ultimately show ?thesis
    using proc_guid_matches_kernel [of demo_os NewProcFS 42] by fastforce
qed

section \<open>Scanning\<close>

lemma Scan_loop_eq: "Scan_loop sys p ents out = out @ Scan_loop sys p ents []"
proof (induction ents arbitrary: out)
  case (Cons e ents)
  show ?case
    by (simp split: sum.split) (metis Cons.IH append_assoc)
qed simp

text \<open>What a scan returns: the readable processes among the numeric entries, in order.\<close>

lemma Scan_loop_filter:
  "Scan_loop sys p ents [] = List.map_filter (\<lambda>e.
     (case ParseUint e 32 of Inl _ \<Rightarrow> None
      | Inr pid \<Rightarrow> (case Read sys p (ucast pid) of Inl _ \<Rightarrow> None | Inr info \<Rightarrow> Some info))) ents"
proof (induction ents)
  case (Cons e ents)
  have "Scan_loop sys p ents [info] = info # Scan_loop sys p ents []" for info
    by (subst Scan_loop_eq) simp
  then show ?case using Cons.IH by (simp add: List.map_filter_simps split: sum.split)
qed (simp add: List.map_filter_simps)

end
