(* ===== verification/Table.thy ===== *)
theory Table
  imports Procfs "HOL-Library.AList" "HOL-Library.Monad_Syntax"
begin

text \<open>
  The process table (\<open>internal/proctable/table.go\<close>): a Go map from GUIDs to heap-allocated
  entries and a linked list of the same entries in order of use. The model keeps the pointers:
  an entry is an index into a heap of records, the map is an association list of such indices
  and the list elements are the indices themselves (an entry is pushed once, so its \<open>elem\<close>
  field determines it). A nil dereference is the result \<open>None\<close>.

  The function-valued fields of \<open>Config\<close> are a record of their own, \<open>Env\<close>: what they answer
  during one operation.
\<close>

section \<open>Types\<close>

record Entry =
  e_GUID :: string
  e_ParentGUID :: string
  e_PID :: u32
  e_PPID :: u32
  e_StartTimeNs :: u64
  e_Image :: string
  e_Argv :: "string list"
  e_CgroupID :: u64
  e_External :: bool
  e_ExitedAt :: time

record Config =
  HostID :: string
  BootID :: string
  MaxEntries :: int
  ExitTTL :: int

record Env =
  InScope :: "(u64 \<Rightarrow> bool) option"
  Proc :: "(u32 \<Rightarrow> proc_error + ProcInfo) option"
  Now :: time

record TableStats =
  EvictedExit :: u64
  EvictedLRU :: u64
  ProcLookups :: u64
  ProcMisses :: u64
  UnknownExits :: u64

type_synonym ptr = nat

record Table =
  cfg :: Config
  entries :: "(string \<times> ptr) list"
  lru :: "ptr list"
  heap :: "Entry list"
  stats :: TableStats

abbreviation deref :: "Table \<Rightarrow> ptr \<Rightarrow> Entry" where
  "deref t p \<equiv> heap t ! p"

section \<open>Operations\<close>

definition New :: "Config \<Rightarrow> Table" where
  "New c =
     (let c = (if MaxEntries c \<le> 0 then c\<lparr>MaxEntries := 100000\<rparr> else c);
          c = (if ExitTTL c \<le> 0 then c\<lparr>ExitTTL := 30 * 1000000000\<rparr> else c)
      in \<lparr>cfg = c, entries = [], lru = [], heap = [],
          stats = \<lparr>EvictedExit = 0, EvictedLRU = 0, ProcLookups = 0, ProcMisses = 0, UnknownExits = 0\<rparr>\<rparr>)"

definition t_GUID :: "Table \<Rightarrow> u32 \<Rightarrow> u64 \<Rightarrow> string" where
  "t_GUID t tgid startNs = GUID (HostID (cfg t)) (BootID (cfg t)) tgid startNs"

definition inScope :: "Env \<Rightarrow> u64 \<Rightarrow> bool" where
  "inScope w cgroupID = (case InScope w of None \<Rightarrow> True | Some f \<Rightarrow> f cgroupID)"

text \<open>\<open>list.MoveToFront\<close> and \<open>list.Remove\<close> do nothing for an element that is not in the list.\<close>

definition MoveToFront :: "ptr \<Rightarrow> ptr list \<Rightarrow> ptr list" where
  "MoveToFront p l = (if p \<in> set l then p # remove1 p l else l)"

definition t_get :: "string \<Rightarrow> Table \<Rightarrow> ptr option \<times> Table" where
  "t_get guid t =
     (case map_of (entries t) guid of None \<Rightarrow> (None, t)
      | Some p \<Rightarrow> (Some p, t\<lparr>lru := MoveToFront p (lru t)\<rparr>))"

definition t_remove :: "string \<Rightarrow> ptr \<Rightarrow> Table \<Rightarrow> Table" where
  "t_remove guid p t = t\<lparr>lru := remove1 p (lru t), entries := AList.delete guid (entries t)\<rparr>"

text \<open>The eviction loop of \<open>insert\<close>; \<open>Back\<close> of an empty list is nil.\<close>

function evict :: "Table \<Rightarrow> Table option" where
  "evict t =
     (if int (length (entries t)) > MaxEntries (cfg t) then
        (if lru t = [] then None
         else let old = last (lru t); t = t_remove (e_GUID (deref t old)) old t
              in evict (t\<lparr>stats := (stats t)\<lparr>EvictedLRU := EvictedLRU (stats t) + 1\<rparr>\<rparr>))
      else Some t)"
  by pat_completeness auto
termination
  by (relation "measure (\<lambda>t. length (lru t))")
    (auto simp: t_remove_def Let_def length_remove1)

declare evict.simps [simp del]

definition t_insert :: "ptr \<Rightarrow> Table \<Rightarrow> Table option" where
  "t_insert p t =
     evict (t\<lparr>lru := p # lru t, entries := AList.update (e_GUID (deref t p)) p (entries t)\<rparr>)"

text \<open>\<open>&Entry{...}\<close>: a fresh heap cell.\<close>

definition alloc :: "Entry \<Rightarrow> Table \<Rightarrow> ptr \<times> Table" where
  "alloc e t = (length (heap t), t\<lparr>heap := heap t @ [e]\<rparr>)"

definition newEntry :: "Event \<Rightarrow> string \<Rightarrow> string \<Rightarrow> Entry" where
  "newEntry ev guid parentGUID =
     \<lparr>e_GUID = guid, e_ParentGUID = parentGUID, e_PID = p_PID (ev_Process ev), e_PPID = pp_PID (ev_Parent ev),
      e_StartTimeNs = p_StartTimeNs (ev_Process ev), e_Image = [], e_Argv = [],
      e_CgroupID = p_CgroupID (ev_Process ev), e_External = False, e_ExitedAt = 0\<rparr>"

definition procEntry :: "Env \<Rightarrow> string \<Rightarrow> ProcInfo \<Rightarrow> Entry" where
  "procEntry w guid info =
     \<lparr>e_GUID = guid, e_ParentGUID = [], e_PID = pi_PID info, e_PPID = pi_PPID info,
      e_StartTimeNs = pi_StartTimeNs info, e_Image = pi_Image info, e_Argv = pi_Argv info,
      e_CgroupID = pi_CgroupID info, e_External = (\<not> inScope w (pi_CgroupID info)), e_ExitedAt = 0\<rparr>"

definition t_parent :: "Env \<Rightarrow> string \<Rightarrow> u32 \<Rightarrow> u64 \<Rightarrow> Table \<Rightarrow> (ptr option \<times> Table) option" where
  "t_parent w guid pid startNs t =
     (case t_get guid t of
        (Some p, t) \<Rightarrow> Some (Some p, t)
      | (None, t) \<Rightarrow>
        (case Proc w of None \<Rightarrow> Some (None, t)
         | Some rd \<Rightarrow>
           if pid = 0 then Some (None, t)
           else let miss = Some (None, t\<lparr>stats := (stats t)\<lparr>ProcMisses := ProcMisses (stats t) + 1\<rparr>\<rparr>) in
             (case rd pid of Inl _ \<Rightarrow> miss
              | Inr info \<Rightarrow>
                if StartTicks (pi_StartTimeNs info) \<noteq> StartTicks startNs then miss
                else let t = t\<lparr>stats := (stats t)\<lparr>ProcLookups := ProcLookups (stats t) + 1\<rparr>\<rparr>;
                         (p, t) = alloc (procEntry w guid info) t
                     in (case t_insert p t of None \<Rightarrow> None | Some t \<Rightarrow> Some (Some p, t)))))"

definition set_entry :: "ptr \<Rightarrow> (Entry \<Rightarrow> Entry) \<Rightarrow> Table \<Rightarrow> Table" where
  "set_entry p f t = t\<lparr>heap := (heap t)[p := f (deref t p)]\<rparr>"

text \<open>The switch of \<open>Handle\<close> on the event type; \<open>e\<close> is the entry found for the process.\<close>

definition handle_type ::
  "Env \<Rightarrow> Event \<Rightarrow> string \<Rightarrow> string \<Rightarrow> ptr option \<Rightarrow> Table \<Rightarrow> (ptr option \<times> Table) option" where
  "handle_type w ev guid hdrParent e t =
     (case ev_Type ev of
        TypeFork \<Rightarrow>
          (case e of Some p \<Rightarrow> Some (e, t)
           | None \<Rightarrow>
             let (p, t) = alloc (newEntry ev guid hdrParent) t in
             do {
               (q, t) \<leftarrow> t_parent w hdrParent (pp_PID (ev_Parent ev)) (pp_StartTimeNs (ev_Parent ev)) t;
               let t = (case q of None \<Rightarrow> t
                        | Some q \<Rightarrow> set_entry p (\<lambda>e. e\<lparr>e_Image := e_Image (deref t q), e_Argv := e_Argv (deref t q)\<rparr>) t);
               t \<leftarrow> t_insert p t;
               Some (Some p, t)
             })
      | TypeExec \<Rightarrow>
          do {
            (p, t) \<leftarrow> (case e of Some p \<Rightarrow> Some (p, t)
              | None \<Rightarrow> let (p, t) = alloc (newEntry ev guid hdrParent) t in
                        do { t \<leftarrow> t_insert p t; Some (p, t) });
            Some (Some p, set_entry p (\<lambda>e. e\<lparr>e_Image := p_Image (ev_Process ev), e_Argv := p_Argv (ev_Process ev),
              e_External := False\<rparr>) t)
          }
      | TypeExit \<Rightarrow>
          (case e of
             None \<Rightarrow> Some (None, t\<lparr>stats := (stats t)\<lparr>UnknownExits := UnknownExits (stats t) + 1\<rparr>\<rparr>)
           | Some p \<Rightarrow>
             if e_ExitedAt (deref t p) = 0 then Some (e, set_entry p (\<lambda>e. e\<lparr>e_ExitedAt := Now w\<rparr>) t)
             else Some (e, t)))"

text \<open>The parent to report: the fork-time parent if the table still has it, else the header's.\<close>

definition choose_parent ::
  "Event \<Rightarrow> string \<Rightarrow> ptr option \<Rightarrow> Table \<Rightarrow> (string \<times> u32 \<times> u64) \<times> Table" where
  "choose_parent ev hdrParent e t =
     (let hdr = (hdrParent, pp_PID (ev_Parent ev), pp_StartTimeNs (ev_Parent ev)) in
      case e of None \<Rightarrow> (hdr, t)
      | Some p \<Rightarrow>
        if e_ParentGUID (deref t p) \<noteq> [] \<and> e_ParentGUID (deref t p) \<noteq> hdrParent then
          (case t_get (e_ParentGUID (deref t p)) t of
             (Some q, t) \<Rightarrow> ((e_GUID (deref t q), e_PID (deref t q), e_StartTimeNs (deref t q)), t)
           | (None, t) \<Rightarrow> (hdr, t))
        else (hdr, t))"

definition set_process :: "Event \<Rightarrow> (Process \<Rightarrow> Process) \<Rightarrow> Event" where
  "set_process ev f = ev\<lparr>ev_Process := f (ev_Process ev)\<rparr>"

definition set_parent :: "Event \<Rightarrow> (Parent \<Rightarrow> Parent) \<Rightarrow> Event" where
  "set_parent ev f = ev\<lparr>ev_Parent := f (ev_Parent ev)\<rparr>"

text \<open>The event with the entry's image (not for exec, which brings its own).\<close>

definition fill_process :: "Entry option \<Rightarrow> Event \<Rightarrow> Event" where
  "fill_process e ev =
     (case e of None \<Rightarrow> ev
      | Some e \<Rightarrow> if ev_Type ev = TypeExec then ev
                 else set_process ev (\<lambda>p. p\<lparr>p_Image := e_Image e, p_Argv := e_Argv e\<rparr>))"

definition fill_parent :: "Entry option \<Rightarrow> Event \<Rightarrow> Event" where
  "fill_parent p ev =
     (case p of None \<Rightarrow> ev
      | Some p \<Rightarrow> set_parent ev (\<lambda>q. q\<lparr>pp_Known := True, pp_External := e_External p,
                    pp_Image := e_Image p, pp_Argv := e_Argv p\<rparr>))"

definition Handle :: "Env \<Rightarrow> Event \<Rightarrow> Table \<Rightarrow> (Event \<times> Table) option" where
  "Handle w ev t =
     (let guid = t_GUID t (p_PID (ev_Process ev)) (p_StartTimeNs (ev_Process ev));
          hdrParent = t_GUID t (pp_PID (ev_Parent ev)) (pp_StartTimeNs (ev_Parent ev));
          ev = set_process ev (\<lambda>p. p\<lparr>p_GUID := guid\<rparr>);
          (e, t) = t_get guid t
      in do {
        (e, t) \<leftarrow> handle_type w ev guid hdrParent e t;
        let ev = fill_process (map_option (deref t) e) ev;
        let ((parentGUID, ppid, pstart), t) = choose_parent ev hdrParent e t;
        let ev = set_parent ev (\<lambda>p. p\<lparr>pp_GUID := parentGUID, pp_PID := ppid, pp_StartTimeNs := pstart\<rparr>);
        (p, t) \<leftarrow> t_parent w parentGUID ppid pstart t;
        Some (fill_parent (map_option (deref t) p) ev, t)
      })"

text \<open>\<open>Seed\<close>: the start times by process id (the last one wins), then the loop.\<close>

definition start_times :: "ProcInfo list \<Rightarrow> u32 \<Rightarrow> u64 option" where
  "start_times procs = fold (\<lambda>p m. m(pi_PID p \<mapsto> pi_StartTimeNs p)) procs Map.empty"

definition seedEntry :: "Table \<Rightarrow> (u32 \<Rightarrow> u64 option) \<Rightarrow> ProcInfo \<Rightarrow> Entry" where
  "seedEntry t start p =
     \<lparr>e_GUID = t_GUID t (pi_PID p) (pi_StartTimeNs p),
      e_ParentGUID = (case start (pi_PPID p) of None \<Rightarrow> []
        | Some ps \<Rightarrow> if pi_PPID p \<noteq> 0 then t_GUID t (pi_PPID p) ps else []),
      e_PID = pi_PID p, e_PPID = pi_PPID p, e_StartTimeNs = pi_StartTimeNs p, e_Image = pi_Image p,
      e_Argv = pi_Argv p, e_CgroupID = pi_CgroupID p, e_External = False, e_ExitedAt = 0\<rparr>"

fun Seed_loop :: "Env \<Rightarrow> (u32 \<Rightarrow> u64 option) \<Rightarrow> ProcInfo list \<Rightarrow> nat \<Rightarrow> Table \<Rightarrow> (nat \<times> Table) option" where
  "Seed_loop w start [] n t = Some (n, t)"
| "Seed_loop w start (p # ps) n t =
     (if \<not> inScope w (pi_CgroupID p) then Seed_loop w start ps n t
      else let (q, t) = alloc (seedEntry t start p) t in
        if map_of (entries t) (e_GUID (deref t q)) = None
        then do { t \<leftarrow> t_insert q t; Seed_loop w start ps (n + 1) t }
        else Seed_loop w start ps n t)"

definition Seed :: "Env \<Rightarrow> ProcInfo list \<Rightarrow> Table \<Rightarrow> (nat \<times> Table) option" where
  "Seed w procs t = Seed_loop w (start_times procs) procs 0 t"

definition Lookup :: "string \<Rightarrow> Table \<Rightarrow> Entry option" where
  "Lookup guid t = map_option (deref t) (map_of (entries t) guid)"

text \<open>
  \<open>Sweep\<close> ranges over the map while deleting from it; \<open>order\<close> is the order in which the
  iteration visits the keys.
\<close>

definition expired :: "time \<Rightarrow> Entry \<Rightarrow> bool" where
  "expired cutoff_time e \<longleftrightarrow> e_ExitedAt e \<noteq> 0 \<and> e_ExitedAt e < cutoff_time"

fun Sweep_loop :: "time \<Rightarrow> (string \<times> ptr) list \<Rightarrow> nat \<Rightarrow> Table \<Rightarrow> nat \<times> Table" where
  "Sweep_loop cutoff_time [] n t = (n, t)"
| "Sweep_loop cutoff_time ((guid, p) # order) n t =
     (if expired cutoff_time (deref t p)
      then let t = t_remove guid p t in
        Sweep_loop cutoff_time order (n + 1) (t\<lparr>stats := (stats t)\<lparr>EvictedExit := EvictedExit (stats t) + 1\<rparr>\<rparr>)
      else Sweep_loop cutoff_time order n t)"

definition Sweep :: "Env \<Rightarrow> (string \<times> ptr) list \<Rightarrow> Table \<Rightarrow> nat \<times> Table" where
  "Sweep w order t = Sweep_loop (Now w - ExitTTL (cfg t)) order 0 t"

definition Stats :: "Table \<Rightarrow> nat \<times> TableStats" where
  "Stats t = (length (entries t), stats t)"

end
