(* ===== verification/TableInv.thy ===== *)
theory TableInv
  imports Table
begin

text \<open>
  The table's invariant and that every operation keeps it, for arbitrary events and \<open>/proc\<close>
  answers: the map and the list agree well enough that no operation dereferences nil, every
  entry is stored under its own GUID, and the size bound holds.
\<close>

section \<open>Invariant\<close>

definition tab_ok :: "Table \<Rightarrow> bool" where
  "tab_ok t \<longleftrightarrow> distinct (map fst (entries t)) \<and> distinct (lru t) \<and>
     (\<forall>p \<in> set (lru t). p < length (heap t)) \<and>
     (\<forall>(g, p) \<in> set (entries t). p \<in> set (lru t) \<and> e_GUID (deref t p) = g) \<and>
     0 < MaxEntries (cfg t)"

definition within :: "Table \<Rightarrow> bool" where
  "within t \<longleftrightarrow> int (length (entries t)) \<le> MaxEntries (cfg t)"

lemma tab_okD:
  assumes "tab_ok t"
  shows "distinct (map fst (entries t))" and "distinct (lru t)"
    and "p \<in> set (lru t) \<Longrightarrow> p < length (heap t)"
    and "(g, p) \<in> set (entries t) \<Longrightarrow> p \<in> set (lru t)"
    and "(g, p) \<in> set (entries t) \<Longrightarrow> e_GUID (deref t p) = g"
    and "0 < MaxEntries (cfg t)"
  using assms by (auto simp: tab_ok_def)

lemma tab_ok_lookup:
  assumes "tab_ok t" and "map_of (entries t) g = Some p"
  shows "p \<in> set (lru t)" and "p < length (heap t)" and "e_GUID (deref t p) = g"
  using tab_okD [OF assms(1)] map_of_SomeD [OF assms(2)] by blast+

text \<open>Counters are not part of the invariant.\<close>

lemma tab_ok_stats [simp]: "tab_ok (t\<lparr>stats := s\<rparr>) = tab_ok t" "within (t\<lparr>stats := s\<rparr>) = within t"
  by (simp_all add: tab_ok_def within_def)

section \<open>Small operations\<close>

lemma set_MoveToFront [simp]: "set (MoveToFront p l) = set l"
proof (cases "p \<in> set l")
  case True
  have "set l \<subseteq> insert p (set (remove1 p l))" by (metis insert_subset set_remove1_subset subset_insertI
        in_set_remove1 insertI1 insertI2 subsetI)
  with True show ?thesis using set_remove1_subset [of p l] by (auto simp: MoveToFront_def)
qed (simp add: MoveToFront_def)

lemma distinct_MoveToFront [simp]: "distinct l \<Longrightarrow> distinct (MoveToFront p l)"
  by (simp add: MoveToFront_def)

lemma t_get_simps [simp]:
  "fst (t_get g t) = map_of (entries t) g"
  "entries (snd (t_get g t)) = entries t" "heap (snd (t_get g t)) = heap t"
  "cfg (snd (t_get g t)) = cfg t" "set (lru (snd (t_get g t))) = set (lru t)"
  by (simp_all add: t_get_def split: option.split)

lemma tab_ok_get [simp]: "tab_ok t \<Longrightarrow> tab_ok (snd (t_get g t))"
  by (auto simp: t_get_def tab_ok_def split: option.split)

lemma within_get [simp]: "within (snd (t_get g t)) = within t"
  by (simp add: within_def)

lemma alloc_simps [simp]:
  "fst (alloc e t) = length (heap t)" "heap (snd (alloc e t)) = heap t @ [e]"
  "entries (snd (alloc e t)) = entries t" "lru (snd (alloc e t)) = lru t" "cfg (snd (alloc e t)) = cfg t"
  by (simp_all add: alloc_def)

lemma tab_ok_alloc [simp]: "tab_ok t \<Longrightarrow> tab_ok (snd (alloc e t))"
  by (auto simp: tab_ok_def nth_append)

lemma set_entry_simps [simp]:
  "entries (set_entry p f t) = entries t" "lru (set_entry p f t) = lru t" "cfg (set_entry p f t) = cfg t"
  "length (heap (set_entry p f t)) = length (heap t)"
  by (simp_all add: set_entry_def)

lemma deref_set_entry:
  "p < length (heap t) \<Longrightarrow> deref (set_entry p f t) q = (if q = p then f (deref t p) else deref t q)"
  by (simp add: set_entry_def)

lemma tab_ok_set_entry:
  assumes "tab_ok t" and "p < length (heap t)" and "e_GUID (f (deref t p)) = e_GUID (deref t p)"
  shows "tab_ok (set_entry p f t)"
  using assms by (auto simp: tab_ok_def deref_set_entry)

lemma t_remove_simps [simp]:
  "heap (t_remove g p t) = heap t" "cfg (t_remove g p t) = cfg t"
  "lru (t_remove g p t) = remove1 p (lru t)" "entries (t_remove g p t) = AList.delete g (entries t)"
  by (simp_all add: t_remove_def)

lemma tab_ok_remove:
  assumes "tab_ok t"
  shows "tab_ok (t_remove (e_GUID (deref t p)) p t)"
proof -
  let ?g = "e_GUID (deref t p)"
  have e: "(g, q) \<in> set (entries t)" "g \<noteq> ?g" if "(g, q) \<in> set (AList.delete ?g (entries t))" for g q
    using that unfolding AList.delete_eq by auto
  have "q \<in> set (remove1 p (lru t)) \<and> e_GUID (deref t q) = g" if "(g, q) \<in> set (AList.delete ?g (entries t))" for g q
  proof -
    have gq: "e_GUID (deref t q) = g" and q: "q \<in> set (lru t)"
      using tab_okD(4,5) [OF assms e(1) [OF that]] by simp_all
    from gq have "q \<noteq> p" using e(2) [OF that] by metis
    then show ?thesis using gq q by (simp add: in_set_remove1)
  qed
  then have 1: "\<forall>(g, q) \<in> set (AList.delete ?g (entries t)). q \<in> set (remove1 p (lru t)) \<and> e_GUID (deref t q) = g"
    by (intro ballI) (simp only: split_paired_all prod.case)
  have 2: "\<forall>q \<in> set (remove1 p (lru t)). q < length (heap t)"
    by (intro ballI tab_okD(3) [OF assms]) (erule subsetD [OF set_remove1_subset])
  show ?thesis
    unfolding tab_ok_def t_remove_simps
    using AList.distinct_delete [OF tab_okD(1) [OF assms]] distinct_remove1 [OF tab_okD(2) [OF assms]] 1 2 tab_okD(6) [OF assms]
    by (intro conjI)
qed

section \<open>Insertion\<close>

text \<open>The eviction loop always finds something to evict, and stops within the bound.\<close>

lemma evict_ok:
  assumes "tab_ok t"
  shows "\<exists>t'. evict t = Some t' \<and> tab_ok t' \<and> within t' \<and> heap t' = heap t \<and> cfg t' = cfg t \<and>
    set (lru t') \<subseteq> set (lru t)"
  using assms
proof (induction t rule: evict.induct)
  case (1 t)
  show ?case
  proof (cases "int (length (entries t)) > MaxEntries (cfg t)")
    case True
    then have "entries t \<noteq> []" using tab_okD(6) [OF 1(2)] by auto
    then have ne: "lru t \<noteq> []" using tab_okD(4) [OF 1(2)] by (metis list.set_sel(1) empty_iff prod.collapse set_empty)
    let ?old = "last (lru t)"
    let ?r = "t_remove (e_GUID (deref t ?old)) ?old t"
    let ?n = "?r\<lparr>stats := (stats ?r)\<lparr>EvictedLRU := EvictedLRU (stats ?r) + 1\<rparr>\<rparr>"
    have "tab_ok ?n" using tab_ok_remove [OF 1(2)] by simp
    then obtain t' where "evict ?n = Some t'" "tab_ok t'" "within t'" "heap t' = heap t" "cfg t' = cfg t"
      "set (lru t') \<subseteq> set (lru t)"
      using 1(1) [OF True ne refl refl] set_remove1_subset [of ?old "lru t"] by (auto simp: Let_def)
    moreover have "evict t = evict ?n" using True ne by (simp add: evict.simps [of t] Let_def)
    ultimately show ?thesis by auto
  next
    case False
    then show ?thesis using 1(2) by (simp add: evict.simps [of t] within_def)
  qed
qed

lemma push_ok:
  assumes "tab_ok t" and "p < length (heap t)" and "p \<notin> set (lru t)"
  shows "tab_ok (t\<lparr>lru := p # lru t, entries := AList.update (e_GUID (deref t p)) p (entries t)\<rparr>)"
proof -
  have "distinct (map fst (AList.update (e_GUID (deref t p)) p (entries t)))"
    using tab_okD(1) [OF assms(1)] by (rule AList.distinct_update)
  moreover have "(g = e_GUID (deref t p) \<and> q = p) \<or> (g, q) \<in> set (entries t)"
    if "(g, q) \<in> set (AList.update (e_GUID (deref t p)) p (entries t))" for g q
    using that tab_okD(1) [OF assms(1)] by (metis AList.distinct_update Some_eq_map_of_iff
        AList.update_conv' fun_upd_apply option.inject)
  ultimately show ?thesis
    using assms tab_okD [OF assms(1)] unfolding tab_ok_def by fastforce
qed

lemma t_insert_ok:
  assumes "tab_ok t" and "p < length (heap t)" and "p \<notin> set (lru t)"
  shows "\<exists>t'. t_insert p t = Some t' \<and> tab_ok t' \<and> within t' \<and> heap t' = heap t \<and> cfg t' = cfg t \<and>
    set (lru t') \<subseteq> insert p (set (lru t))"
  using evict_ok [OF push_ok [OF assms]] by (simp add: t_insert_def)

section \<open>Handle, Seed and Sweep\<close>

text \<open>
  What holds of the table after an operation: the invariant and the bound, an unchanged
  configuration, and no old entry outside the list has come back into it.
\<close>

definition good :: "Table \<Rightarrow> bool" where
  "good t \<longleftrightarrow> tab_ok t \<and> within t"

definition ext :: "Table \<Rightarrow> Table \<Rightarrow> bool" where
  "ext t t' \<longleftrightarrow> cfg t' = cfg t \<and> length (heap t) \<le> length (heap t') \<and>
     (\<forall>p < length (heap t). p \<in> set (lru t') \<longrightarrow> p \<in> set (lru t))"

lemma ext_refl [simp]: "ext t t"
  by (simp add: ext_def)

lemma ext_trans: "ext t u \<Longrightarrow> ext u v \<Longrightarrow> ext t v"
  by (simp add: ext_def)

lemma good_stats [simp]: "good (t\<lparr>stats := s\<rparr>) = good t" "ext u (t\<lparr>stats := s\<rparr>) = ext u t"
  by (simp_all add: good_def ext_def)

lemma good_get [simp]: "good t \<Longrightarrow> good (snd (t_get g t))" "ext t (snd (t_get g t))"
  by (simp_all add: good_def ext_def)

lemma good_alloc [simp]: "good t \<Longrightarrow> good (snd (alloc e t))" "ext t (snd (alloc e t))"
  by (simp_all add: good_def ext_def) (simp add: within_def)

lemma good_set_entry:
  "good t \<Longrightarrow> p < length (heap t) \<Longrightarrow> e_GUID (f (deref t p)) = e_GUID (deref t p) \<Longrightarrow> good (set_entry p f t)"
  by (simp add: good_def tab_ok_set_entry within_def)

lemma ext_set_entry [simp]: "ext u (set_entry p f t) = ext u t"
  by (simp add: ext_def)

lemma good_insert:
  assumes "good t" and "p < length (heap t)" and "p \<notin> set (lru t)"
  shows "\<exists>t'. t_insert p t = Some t' \<and> good t' \<and> heap t' = heap t \<and> cfg t' = cfg t \<and>
    set (lru t') \<subseteq> insert p (set (lru t))"
  using t_insert_ok assms by (simp add: good_def)

lemma good_lookup: "good t \<Longrightarrow> map_of (entries t) g = Some p \<Longrightarrow> p < length (heap t)"
  using tab_ok_lookup by (simp add: good_def)

lemma lru_valid: "good t \<Longrightarrow> p \<in> set (lru t) \<Longrightarrow> p < length (heap t)"
  using tab_okD(3) by (simp add: good_def)

text \<open>Allocate and insert.\<close>

lemma good_alloc_insert:
  assumes "good t" and "alloc e t = (p, u)"
  shows "\<exists>t'. t_insert p u = Some t' \<and> good t' \<and> ext t t' \<and> p < length (heap t')"
proof -
  have u: "u = snd (alloc e t)" and p: "p = length (heap t)" using assms(2) by (simp_all add: alloc_def)
  have "p < length (heap u)" "p \<notin> set (lru u)" "good u"
    using assms(1) lru_valid [OF assms(1)] unfolding u p by auto
  then obtain t' where "t_insert p u = Some t'" "good t'" "heap t' = heap u" "cfg t' = cfg u"
    "set (lru t') \<subseteq> insert p (set (lru u))"
    using good_insert by blast
  then show ?thesis unfolding u p ext_def by auto
qed

lemma t_parent_ok:
  assumes "good t"
  shows "\<exists>q t'. t_parent w g pid n t = Some (q, t') \<and> good t' \<and> ext t t' \<and>
    (\<forall>p. q = Some p \<longrightarrow> p < length (heap t'))"
proof (cases "map_of (entries t) g")
  case (Some p)
  then have "t_parent w g pid n t = Some (Some p, snd (t_get g t))"
    by (simp add: t_parent_def t_get_def)
  then show ?thesis using assms good_lookup [OF assms Some] by simp
next
  case None
  then have g: "t_get g t = (None, t)" by (simp add: t_get_def)
  show ?thesis
  proof (cases "\<exists>rd info. Proc w = Some rd \<and> pid \<noteq> 0 \<and> rd pid = Inr info \<and>
      StartTicks (pi_StartTimeNs info) = StartTicks n")
    case True
    then obtain rd info where r: "Proc w = Some rd" "pid \<noteq> 0" "rd pid = Inr info"
      "StartTicks (pi_StartTimeNs info) = StartTicks n" by blast
    let ?u = "t\<lparr>stats := (stats t)\<lparr>ProcLookups := ProcLookups (stats t) + 1\<rparr>\<rparr>"
    obtain p v where a: "alloc (procEntry w g info) ?u = (p, v)" by fastforce
    from good_alloc_insert [OF _ a] obtain t' where "t_insert p v = Some t'" "good t'" "ext ?u t'" "p < length (heap t')"
      using assms by auto
    moreover have "ext t t'" using \<open>ext ?u t'\<close> by (simp add: ext_def)
    ultimately show ?thesis using r a by (simp add: t_parent_def g Let_def)
  next
    case False
    then have "\<exists>s. t_parent w g pid n t = Some (None, t\<lparr>stats := s\<rparr>)"
      by (auto simp: t_parent_def g Let_def split: option.split sum.split intro: exI [of _ "stats t"])
    then show ?thesis using assms by auto
  qed
qed

lemma handle_fork_ok:
  assumes "good t" and "ev_Type ev = TypeFork"
  shows "\<exists>p t'. handle_type w ev g h None t = Some (Some p, t') \<and> good t' \<and> ext t t' \<and>
    p < length (heap t')"
proof -
  let ?e = "newEntry ev g h" and ?p = "length (heap t)"
  obtain u where a: "alloc ?e t = (?p, u)" by (simp add: alloc_def)
  have u: "good u" "?p < length (heap u)" "?p \<notin> set (lru u)" "ext t u"
    using assms(1) lru_valid [OF assms(1)] alloc_simps(2-5) [of ?e t] good_alloc [of t ?e] by (auto simp: a)
  obtain q v where v: "t_parent w h (pp_PID (ev_Parent ev)) (pp_StartTimeNs (ev_Parent ev)) u = Some (q, v)"
    "good v" "ext u v" "\<forall>r. q = Some r \<longrightarrow> r < length (heap v)"
    using t_parent_ok [OF u(1)] by blast
  have pv: "?p < length (heap v)" "?p \<notin> set (lru v)" using v(3) u by (auto simp: ext_def)
  let ?v = "case q of None \<Rightarrow> v
    | Some q \<Rightarrow> set_entry ?p (\<lambda>e. e\<lparr>e_Image := e_Image (deref v q), e_Argv := e_Argv (deref v q)\<rparr>) v"
  have "good ?v" "?p < length (heap ?v)" "?p \<notin> set (lru ?v)" "ext u ?v" "length (heap ?v) = length (heap v)"
    using v pv by (auto simp: good_set_entry split: option.split)
  moreover from this obtain t' where t': "t_insert ?p ?v = Some t'" "good t'" "heap t' = heap ?v" "cfg t' = cfg ?v"
    "set (lru t') \<subseteq> insert ?p (set (lru ?v))"
    using good_insert [of ?v ?p] by blast
  ultimately have "ext t t'" "?p < length (heap t')" using u(4) by (auto simp: ext_def)
  then show ?thesis using v(1) t'(1,2) assms(2) a by (simp add: handle_type_def Let_def)
qed

lemma handle_type_ok:
  assumes "good t" and "\<forall>p. e = Some p \<longrightarrow> p < length (heap t)"
  shows "\<exists>e' t'. handle_type w ev g h e t = Some (e', t') \<and> good t' \<and> ext t t' \<and>
    (\<forall>p. e' = Some p \<longrightarrow> p < length (heap t'))"
proof (cases "ev_Type ev")
  case TypeFork
  show ?thesis
  proof (cases e)
    case None
    then show ?thesis using handle_fork_ok [OF assms(1) TypeFork, of w g h] by auto
  next
    case (Some p)
    then show ?thesis using assms TypeFork by (simp add: handle_type_def)
  qed
next
  case TypeExec
  let ?f = "\<lambda>e. e\<lparr>e_Image := p_Image (ev_Process ev), e_Argv := p_Argv (ev_Process ev), e_External := False\<rparr>"
  show ?thesis
  proof (cases e)
    case None
    obtain p u where a: "alloc (newEntry ev g h) t = (p, u)" by fastforce
    obtain t' where "t_insert p u = Some t'" "good t'" "ext t t'" "p < length (heap t')"
      using good_alloc_insert [OF assms(1) a] by blast
    then show ?thesis using None TypeExec a by (simp add: handle_type_def good_set_entry)
  next
    case (Some p)
    then show ?thesis using TypeExec assms by (simp add: handle_type_def good_set_entry)
  qed
next
  case TypeExit
  then show ?thesis using assms
    by (cases e) (simp_all add: handle_type_def good_set_entry)
qed

lemma choose_parent_ok:
  assumes "good t"
  shows "good (snd (choose_parent ev h e t))" "ext t (snd (choose_parent ev h e t))"
    "heap (snd (choose_parent ev h e t)) = heap t"
  using assms
  by (auto simp: choose_parent_def Let_def split: option.split prod.split)
    (metis good_get snd_conv t_get_simps(3))+

lemma Handle_ok:
  assumes "good t"
  shows "\<exists>ev' t'. Handle w ev t = Some (ev', t') \<and> good t' \<and> ext t t'"
proof -
  let ?g = "t_GUID t (p_PID (ev_Process ev)) (p_StartTimeNs (ev_Process ev))"
  let ?h = "t_GUID t (pp_PID (ev_Parent ev)) (pp_StartTimeNs (ev_Parent ev))"
  let ?ev = "set_process ev (\<lambda>p. p\<lparr>p_GUID := ?g\<rparr>)"
  obtain e0 u where u: "t_get ?g t = (e0, u)" by fastforce
  have "good u" "ext t u" using good_get [of t ?g] assms by (simp_all add: u)
  moreover have "\<forall>p. e0 = Some p \<longrightarrow> p < length (heap u)"
    using good_lookup [OF assms, of ?g] t_get_simps(1,3) [of ?g t] by (simp add: u)
  ultimately obtain e v where v: "handle_type w ?ev ?g ?h e0 u = Some (e, v)" "good v" "ext u v"
    using handle_type_ok by meson
  let ?ev1 = "fill_process (map_option (deref v) e) ?ev"
  obtain a b c x where x: "choose_parent ?ev1 ?h e v = ((a, b, c), x)" by (metis prod.exhaust)
  have "good x" "ext v x" using choose_parent_ok [OF v(2), of ?ev1 ?h e] x by simp_all
  moreover obtain q y where y: "t_parent w a b c x = Some (q, y)" "good y" "ext x y"
    using t_parent_ok [OF \<open>good x\<close>] by blast
  ultimately have "ext t y" using v(3) \<open>ext t u\<close> ext_trans by meson
  then show ?thesis unfolding Handle_def Let_def u prod.case using v(1) x y(1,2) by simp
qed

lemma Seed_loop_ok:
  assumes "good t"
  shows "\<exists>n' t'. Seed_loop w start ps n t = Some (n', t') \<and> good t' \<and> cfg t' = cfg t"
  using assms
proof (induction ps arbitrary: n t)
  case (Cons p ps)
  obtain q u where a: "alloc (seedEntry t start p) t = (q, u)" by fastforce
  then have u: "u = snd (alloc (seedEntry t start p) t)" by simp
  obtain t' where t': "t_insert q u = Some t'" "good t'" "ext t t'"
    using good_alloc_insert [OF Cons.prems a] by blast
  have "good u" "cfg u = cfg t" using Cons.prems u by simp_all
  moreover have "cfg t' = cfg t" using t'(3) by (simp add: ext_def)
  ultimately show ?case
    using Cons.IH [OF Cons.prems] Cons.IH [of u] Cons.IH [OF t'(2)] a t'(1) by auto
qed simp

lemma Sweep_loop_ok:
  assumes "good t" and "\<forall>(g, p) \<in> set order. e_GUID (deref t p) = g"
  shows "good (snd (Sweep_loop c order n t)) \<and> cfg (snd (Sweep_loop c order n t)) = cfg t"
  using assms
proof (induction order arbitrary: n t)
  case (Cons x order)
  obtain g p where x: "x = (g, p)" by fastforce
  let ?r = "t_remove g p t"
  have "e_GUID (deref t p) = g" using Cons.prems x by simp
  then have "tab_ok ?r" using tab_ok_remove [of t p] Cons.prems(1) by (simp add: good_def)
  moreover have "length (AList.delete g (entries t)) \<le> length (entries t)" by (rule AList.length_delete_le)
  ultimately have "good ?r" using Cons.prems(1) by (simp add: good_def within_def)
  then show ?case
    using Cons.IH [of "?r\<lparr>stats := s\<rparr>" for s] Cons.IH [OF Cons.prems(1)] Cons.prems(2) x
    by (simp add: Let_def)
qed simp

section \<open>Every reachable table\<close>

text \<open>One call of an exported method, with any environment; each call holds the mutex.\<close>

inductive table_step :: "Table \<Rightarrow> Table \<Rightarrow> bool" where
  seed: "Seed w procs t = Some (n, t') \<Longrightarrow> table_step t t'"
| handle: "Handle w ev t = Some (ev', t') \<Longrightarrow> table_step t t'"
| sweep: "distinct order \<Longrightarrow> set order = set (entries t) \<Longrightarrow> Sweep w order t = (n, t') \<Longrightarrow> table_step t t'"

definition reachable :: "Config \<Rightarrow> Table \<Rightarrow> bool" where
  "reachable c t \<longleftrightarrow> table_step\<^sup>*\<^sup>* (New c) t"

lemma good_New: "good (New c)" "0 < MaxEntries (cfg (New c))" "0 < ExitTTL (cfg (New c))"
  by (auto simp: good_def tab_ok_def within_def New_def Let_def)

lemma table_step_good:
  assumes "good t" and "table_step t t'"
  shows "good t' \<and> cfg t' = cfg t"
  using assms(2)
proof cases
  case (seed w procs n)
  then show ?thesis using Seed_loop_ok [OF assms(1), of w "start_times procs" procs 0] by (auto simp: Seed_def)
next
  case (handle w ev ev')
  then show ?thesis using Handle_ok [OF assms(1), of w ev] by (auto simp: ext_def)
next
  case (sweep order w n)
  have "\<forall>(g, p) \<in> set order. e_GUID (deref t p) = g"
    using assms(1) sweep(2) tab_okD(5) by (auto simp: good_def)
  from Sweep_loop_ok [OF assms(1) this] sweep(3) show ?thesis by (metis Sweep_def snd_conv)
qed

lemma reachable_good:
  assumes "reachable c t"
  shows "good t \<and> cfg t = cfg (New c)"
  using assms unfolding reachable_def
proof (induction rule: rtranclp_induct)
  case base
  then show ?case using good_New by simp
next
  case (step t t')
  then show ?case using table_step_good by metis
qed

text \<open>A small configuration and its inputs, for the witnesses.\<close>

definition demo_cfg :: Config where
  "demo_cfg = \<lparr>HostID = ''h'', BootID = ''b'', MaxEntries = 2, ExitTTL = 10\<rparr>"

definition demo_env :: Env where
  "demo_env = \<lparr>InScope = None, Proc = None, Now = 100\<rparr>"

definition demo_proc :: ProcInfo where
  "demo_proc = \<lparr>pi_PID = 42, pi_PPID = 7, pi_StartTimeNs = 10000000, pi_Image = ''/bin/sh'', pi_Argv = [''sh''], pi_CgroupID = 5\<rparr>"

definition demo_event :: "Type \<Rightarrow> Event" where
  "demo_event ty = \<lparr>ev_Type = ty, ev_Time = 0, ev_TimestampNs = 1,
     ev_Process = \<lparr>p_GUID = [], p_PID = 42, p_TID = 42, p_UID = 0, p_GID = 0, p_CgroupID = 5,
       p_StartTimeNs = 10000000, p_Comm = ''sh'', p_Image = [], p_Argv = [], p_FilenameTruncated = False,
       p_ArgvTruncated = False, p_ArgvReadFailed = False\<rparr>,
     ev_Parent = \<lparr>pp_GUID = [], pp_PID = 1, pp_StartTimeNs = 0, pp_Image = [], pp_Argv = [], pp_Known = False,
       pp_External = False\<rparr>, ev_Container = None, ev_Exit = None\<rparr>"

text \<open>
  C19: whatever sequence of \<open>Seed\<close>, \<open>Handle\<close> and \<open>Sweep\<close> calls a table has seen, with arbitrary
  events, scope and \<open>/proc\<close> answers: it holds at most \<open>MaxEntries\<close> entries, every entry is stored
  under its own GUID, and no further call can dereference nil.
\<close>

theorem table_safe:
  assumes "reachable c t"
  shows "int (length (entries t)) \<le> MaxEntries (cfg (New c)) \<and>
    (\<forall>g e. Lookup g t = Some e \<longrightarrow> e_GUID e = g) \<and>
    (\<forall>w ev. Handle w ev t \<noteq> None) \<and> (\<forall>w procs. Seed w procs t \<noteq> None)"
proof -
  note g = reachable_good [OF assms]
  have "Handle w ev t \<noteq> None" for w ev using Handle_ok [of t w ev] g by auto
  moreover have "Seed w procs t \<noteq> None" for w procs
    using Seed_loop_ok [of t w "start_times procs" procs 0] g by (auto simp: Seed_def)
  moreover have "e_GUID e = g'" if "Lookup g' t = Some e" for g' e
    using that tab_ok_lookup(3) [of t g'] g by (auto simp: Lookup_def good_def)
  ultimately show ?thesis using g by (auto simp: good_def within_def)
qed

theorem table_safe_witness:
  "\<exists>n t. Seed demo_env [demo_proc] (New demo_cfg) = Some (n, t) \<and> reachable demo_cfg t \<and>
    int (length (entries t)) \<le> 2 \<and> Handle demo_env (demo_event TypeFork) t \<noteq> None"
proof -
  obtain n t where s: "Seed demo_env [demo_proc] (New demo_cfg) = Some (n, t)"
    using Seed_loop_ok [OF good_New(1)] unfolding Seed_def by blast
  then have r: "reachable demo_cfg t" unfolding reachable_def by (intro r_into_rtranclp table_step.seed)
  have "MaxEntries (cfg (New demo_cfg)) = 2" by (simp add: New_def demo_cfg_def)
  then show ?thesis using s r table_safe [OF r] by auto
qed

end
