(* ===== verification/TableRefine.thy ===== *)
theory TableRefine
  imports TableInv
begin

text \<open>
  The table refines a list of entries in order of use. The abstract operations below work on
  entry values: look up and move to the front, add at the front and cut off beyond the bound,
  delete. Map, linked list and heap of the implementation together represent such a list as
  long as no process is its own parent.
\<close>

section \<open>Most-recently-used lists\<close>

definition a_find :: "string \<Rightarrow> Entry list \<Rightarrow> Entry option" where
  "a_find g xs = find (\<lambda>e. e_GUID e = g) xs"

definition a_del :: "string \<Rightarrow> Entry list \<Rightarrow> Entry list" where
  "a_del g xs = filter (\<lambda>e. e_GUID e \<noteq> g) xs"

definition a_touch :: "string \<Rightarrow> Entry list \<Rightarrow> Entry list" where
  "a_touch g xs = (case a_find g xs of None \<Rightarrow> xs | Some e \<Rightarrow> e # a_del g xs)"

definition a_add :: "nat \<Rightarrow> Entry \<Rightarrow> Entry list \<Rightarrow> Entry list" where
  "a_add n e xs = take n (e # xs)"

lemma a_find_None: "a_find g xs = None \<longleftrightarrow> g \<notin> e_GUID ` set xs"
  by (auto simp: a_find_def find_None_iff)

lemma a_find_Some: "a_find g xs = Some e \<Longrightarrow> e \<in> set xs \<and> e_GUID e = g"
  by (auto simp: a_find_def find_Some_iff)

lemma a_find_add_other: "a_find g xs = None \<Longrightarrow> e_GUID e \<noteq> g \<Longrightarrow> a_find g (a_add n e xs) = None"
  using set_take_subset [of n "e # xs"] unfolding a_find_None a_add_def by force

lemma a_find_touch_None: "a_find g xs = None \<Longrightarrow> a_find g (a_touch h xs) = None"
  by (auto simp: a_touch_def a_find_None a_del_def split: option.split dest: a_find_Some)

lemma a_del_none: "a_find g xs = None \<Longrightarrow> a_del g xs = xs"
  by (auto simp: a_find_None a_del_def intro: filter_True)

section \<open>Abstraction\<close>

definition mru :: "Table \<Rightarrow> Entry list" where
  "mru t = map (deref t) (lru t)"

definition cap :: "Table \<Rightarrow> nat" where
  "cap t = nat (MaxEntries (cfg t))"

text \<open>Every list element is the entry that the map has for its GUID.\<close>

definition linked :: "Table \<Rightarrow> bool" where
  "linked t \<longleftrightarrow> (\<forall>p \<in> set (lru t). map_of (entries t) (e_GUID (deref t p)) = Some p)"

definition synced :: "Table \<Rightarrow> bool" where
  "synced t \<longleftrightarrow> good t \<and> linked t"

lemma linkedD: "linked t \<Longrightarrow> p \<in> set (lru t) \<Longrightarrow> map_of (entries t) (e_GUID (deref t p)) = Some p"
  by (simp add: linked_def)

lemma linked_stats [simp]: "linked (t\<lparr>stats := s\<rparr>) = linked t"
  by (simp add: linked_def)

lemma syncedD:
  assumes "synced t"
  shows "good t" and "tab_ok t" and "linked t"
    and "p \<in> set (lru t) \<Longrightarrow> map_of (entries t) (e_GUID (deref t p)) = Some p"
  using assms by (simp_all add: synced_def good_def linkedD)

lemma synced_stats [simp]: "synced (t\<lparr>stats := s\<rparr>) = synced t" "mru (t\<lparr>stats := s\<rparr>) = mru t" "cap (t\<lparr>stats := s\<rparr>) = cap t"
  by (simp_all add: synced_def mru_def cap_def)

lemma synced_New: "synced (New c)" "mru (New c) = []"
  using good_New(1) [of c] by (simp_all add: synced_def linked_def mru_def New_def Let_def)

lemma distinct_guids:
  assumes "tab_ok t" and "linked t"
  shows "distinct (map e_GUID (mru t))"
proof -
  have "inj_on (\<lambda>p. e_GUID (deref t p)) (set (lru t))"
    using linkedD [OF assms(2)] by (intro inj_onI) (metis option.inject)
  then show ?thesis
    using tab_okD(2) [OF assms(1)] by (simp add: mru_def distinct_map comp_def)
qed

lemma length_entries:
  assumes "tab_ok t" and "linked t"
  shows "length (entries t) = length (lru t)"
proof -
  have "fst ` set (entries t) = (\<lambda>p. e_GUID (deref t p)) ` set (lru t)"
  proof (intro set_eqI iffI)
    fix g assume "g \<in> fst ` set (entries t)"
    then obtain p where "(g, p) \<in> set (entries t)" by auto
    from tab_okD(4,5) [OF assms(1) this]
    show "g \<in> (\<lambda>p. e_GUID (deref t p)) ` set (lru t)" by (intro image_eqI [of _ _ p]) simp_all
  next
    fix g assume "g \<in> (\<lambda>p. e_GUID (deref t p)) ` set (lru t)"
    then obtain p where "p \<in> set (lru t)" "g = e_GUID (deref t p)" by blast
    then have "(g, p) \<in> set (entries t)" using map_of_SomeD [OF linkedD [OF assms(2)]] by simp
    then show "g \<in> fst ` set (entries t)" by (intro image_eqI [of _ _ "(g, p)"]) simp_all
  qed
  then have "set (map fst (entries t)) = set (map e_GUID (mru t))" by (simp add: mru_def image_image)
  then have "length (map fst (entries t)) = length (map e_GUID (mru t))"
    using distinct_card [OF tab_okD(1) [OF assms(1)]] distinct_card [OF distinct_guids [OF assms]] by simp
  then show ?thesis by (simp add: mru_def)
qed

lemma length_mru: "synced t \<Longrightarrow> length (mru t) \<le> cap t"
  using length_entries [OF syncedD(2,3)] syncedD(1) [of t]
  by (simp add: mru_def cap_def good_def within_def nat_le_iff le_nat_iff)

lemma a_find_mru:
  assumes "synced t"
  shows "a_find g (mru t) = map_option (deref t) (map_of (entries t) g)"
proof (cases "map_of (entries t) g")
  case None
  then have "g \<notin> e_GUID ` set (mru t)" using syncedD(4) [OF assms] by (force simp: mru_def)
  then show ?thesis using None by (simp add: a_find_None)
next
  case (Some p)
  note p = tab_ok_lookup [OF syncedD(2) [OF assms] Some]
  have "a_find g (mru t) \<noteq> None" unfolding a_find_None using p by (auto simp: mru_def)
  then obtain e where e: "a_find g (mru t) = Some e" by blast
  from a_find_Some [OF e] obtain q where q: "q \<in> set (lru t)" "e = deref t q" "e_GUID e = g"
    by (auto simp: mru_def)
  with syncedD(4) [OF assms q(1)] Some have "q = p" by simp
  then show ?thesis using e q Some by simp
qed

lemma map_remove1:
  assumes "synced t" and "p \<in> set (lru t)"
  shows "map (deref t) (remove1 p (lru t)) = a_del (e_GUID (deref t p)) (mru t)"
proof -
  have "remove1 p (lru t) = filter (\<lambda>q. q \<noteq> p) (lru t)"
    unfolding distinct_remove1_removeAll [OF tab_okD(2) [OF syncedD(2) [OF assms(1)]]] removeAll_filter_not_eq
    by (intro filter_cong) auto
  also have "\<dots> = filter (\<lambda>q. e_GUID (deref t q) \<noteq> e_GUID (deref t p)) (lru t)"
    using syncedD(4) [OF assms(1)] assms(2) by (intro filter_cong) (metis option.inject)+
  finally show ?thesis by (simp add: a_del_def mru_def filter_map comp_def)
qed

section \<open>Operations\<close>

lemma get_sim:
  assumes "synced t"
  shows "synced (snd (t_get g t))" and "mru (snd (t_get g t)) = a_touch g (mru t)"
    and "map_option (deref t) (fst (t_get g t)) = a_find g (mru t)"
proof -
  show "synced (snd (t_get g t))"
    using assms good_get(1) [OF syncedD(1) [OF assms]] by (simp add: synced_def linked_def)
  show "map_option (deref t) (fst (t_get g t)) = a_find g (mru t)" by (simp add: a_find_mru [OF assms])
  show "mru (snd (t_get g t)) = a_touch g (mru t)"
  proof (cases "map_of (entries t) g")
    case None
    then show ?thesis by (simp add: t_get_def a_touch_def a_find_mru [OF assms])
  next
    case (Some p)
    note p = tab_ok_lookup [OF syncedD(2) [OF assms] Some]
    have "mru (snd (t_get g t)) = deref t p # map (deref t) (remove1 p (lru t))"
      using p(1) by (simp add: t_get_def Some mru_def MoveToFront_def)
    then show ?thesis
      using map_remove1 [OF assms p(1)] p(3) by (simp add: a_touch_def a_find_mru [OF assms] Some)
  qed
qed

lemma alloc_sim:
  assumes "synced t" and "alloc e t = (p, u)"
  shows "synced u" and "mru u = mru t" and "p = length (heap t)" and "deref u p = e" and "cfg u = cfg t"
    and "p < length (heap u)" and "p \<notin> set (lru u)" and "entries u = entries t"
    and "q < length (heap t) \<Longrightarrow> deref u q = deref t q"
proof -
  have u: "u = snd (alloc e t)" and p: "p = length (heap t)" using assms(2) by (simp_all add: alloc_def)
  have lt: "q < length (heap t)" if "q \<in> set (lru t)" for q using lru_valid [OF syncedD(1) [OF assms(1)] that] .
  show "synced u"
    using assms(1) lt unfolding synced_def linked_def u by (auto simp: nth_append)
  show "mru u = mru t" unfolding u mru_def using lt by (auto simp: nth_append)
  show "p = length (heap t)" "deref u p = e" "cfg u = cfg t" "p < length (heap u)" "entries u = entries t"
    unfolding u p by simp_all
  show "p \<notin> set (lru u)" unfolding u p using lt by auto
  show "q < length (heap t) \<Longrightarrow> deref u q = deref t q" unfolding u by (simp add: nth_append)
qed

text \<open>Deleting an entry through its pointer.\<close>

lemma remove_linked:
  assumes "tab_ok t" and "linked t" and "p \<in> set (lru t)"
  shows "linked (t_remove (e_GUID (deref t p)) p t)"
  unfolding linked_def
proof
  let ?r = "t_remove (e_GUID (deref t p)) p t"
  fix q assume q: "q \<in> set (lru ?r)"
  have "q \<in> set (lru t)" "q \<noteq> p"
    using q tab_okD(2) [OF assms(1)] by (simp_all add: set_remove1_eq)
  then have "map_of (entries t) (e_GUID (deref t q)) = Some q" "e_GUID (deref t q) \<noteq> e_GUID (deref t p)"
    using linkedD [OF assms(2)] assms(3) by (simp, metis option.inject)
  then show "map_of (entries ?r) (e_GUID (deref ?r q)) = Some q"
    by (simp add: AList.delete_conv)
qed

lemma update_fresh: "map_of xs g = None \<Longrightarrow> AList.update g p xs = xs @ [(g, p)]"
  by (induction xs) (auto split: if_splits)

lemma remove1_last: "distinct l \<Longrightarrow> l \<noteq> [] \<Longrightarrow> remove1 (last l) l = butlast l"
  by (induction l rule: rev_induct) (simp_all add: remove1_append)

lemma evict_done: "\<not> MaxEntries (cfg t) < int (length (entries t)) \<Longrightarrow> evict t = Some t"
  by (simp add: evict.simps)

lemma insert_sim:
  assumes "synced t" and "p < length (heap t)" and "p \<notin> set (lru t)"
    and "a_find (e_GUID (deref t p)) (mru t) = None"
  shows "\<exists>t'. t_insert p t = Some t' \<and> synced t' \<and> mru t' = a_add (cap t) (deref t p) (mru t) \<and>
    heap t' = heap t \<and> cfg t' = cfg t \<and> p \<in> set (lru t') \<and> set (lru t') \<subseteq> insert p (set (lru t))"
proof -
  let ?g = "e_GUID (deref t p)"
  let ?u = "t\<lparr>lru := p # lru t, entries := AList.update ?g p (entries t)\<rparr>"
  obtain t' where t': "t_insert p t = Some t'" "good t'" "heap t' = heap t" "cfg t' = cfg t"
    "set (lru t') \<subseteq> insert p (set (lru t))"
    using good_insert [OF syncedD(1) [OF assms(1)] assms(2,3)] by blast
  have ok: "tab_ok ?u" by (rule push_ok [OF syncedD(2) [OF assms(1)] assms(2,3)])
  have fresh: "map_of (entries t) ?g = None" using assms(4) by (simp add: a_find_mru [OF assms(1)])
  have "e_GUID (deref t q) \<noteq> ?g" if "q \<in> set (lru t)" for q
    using syncedD(4) [OF assms(1) that] fresh by auto
  then have link: "linked ?u"
    using syncedD(4) [OF assms(1)] by (simp add: linked_def AList.update_conv')
  have len: "length (entries ?u) = Suc (length (lru t))" using length_entries [OF ok link] by simp
  have bound: "length (lru t) \<le> cap t" using length_mru [OF assms(1)] by (simp add: mru_def)
  have pos: "0 < cap t" using tab_okD(6) [OF syncedD(2) [OF assms(1)]] by (simp add: cap_def)
  have big: "MaxEntries (cfg t) < int (Suc (length (lru t))) \<longleftrightarrow> length (lru t) = cap t"
    using bound pos by (auto simp: cap_def)
  show ?thesis
  proof (cases "length (lru t) = cap t")
    case False
    then have "evict ?u = Some ?u" using big len by (simp add: evict.simps [of ?u])
    then have "t' = ?u" using t'(1) by (simp add: t_insert_def)
    then have "synced t'" "mru t' = deref t p # mru t" using link t'(2) by (simp_all add: synced_def mru_def)
    moreover have "length (deref t p # mru t) \<le> cap t" using False bound by (simp add: mru_def)
    ultimately show ?thesis using t' \<open>t' = ?u\<close> by (simp add: a_add_def)
  next
    case True
    then have ne: "lru t \<noteq> []" using pos by auto
    let ?old = "last (lru t)"
    let ?r = "t_remove (e_GUID (deref ?u ?old)) ?old ?u"
    let ?n = "?r\<lparr>stats := (stats ?r)\<lparr>EvictedLRU := EvictedLRU (stats ?r) + 1\<rparr>\<rparr>"
    have old: "?old \<in> set (lru ?u)" "?old \<noteq> p" using ne assms(3) last_in_set [OF ne] by auto
    have n: "tab_ok ?n" "linked ?n" using tab_ok_remove [OF ok] remove_linked [OF ok link old(1)] by simp_all
    have ln: "lru ?n = p # butlast (lru t)"
      using old(2) remove1_last [OF tab_okD(2) [OF syncedD(2) [OF assms(1)]] ne] by simp
    then have "length (entries ?n) = length (lru t)" using length_entries [OF n] ne by simp
    then have "\<not> MaxEntries (cfg ?n) < int (length (entries ?n))"
      using True tab_okD(6) [OF ok] by (simp add: cap_def)
    then have "evict ?n = Some ?n" by (rule evict_done)
    moreover have "evict ?u = evict ?n" using True big len ne by (simp add: evict.simps [of ?u] Let_def)
    ultimately have e: "t' = ?n" using t'(1) by (simp add: t_insert_def)
    have "mru ?n = deref t p # butlast (mru t)" using ln by (simp add: mru_def map_butlast)
    also have "\<dots> = a_add (cap t) (deref t p) (mru t)"
      using True pos by (cases "cap t") (simp_all add: a_add_def mru_def butlast_conv_take)
    finally show ?thesis using t' n(2) e ln by (simp add: synced_def)
  qed
qed

lemma set_entry_sim:
  assumes "synced t" and "p \<in> set (lru t)" and "e_GUID (f (deref t p)) = e_GUID (deref t p)"
  shows "synced (set_entry p f t)"
    and "mru (set_entry p f t) = map (\<lambda>e. if e_GUID e = e_GUID (deref t p) then f e else e) (mru t)"
proof -
  have p: "p < length (heap t)" using lru_valid [OF syncedD(1) [OF assms(1)] assms(2)] .
  show "synced (set_entry p f t)"
    using good_set_entry [OF syncedD(1) [OF assms(1)] p, of f] assms(3) syncedD(4) [OF assms(1)] assms(3)
    by (auto simp: synced_def linked_def deref_set_entry [OF p])
  have "q = p" if "q \<in> set (lru t)" "e_GUID (deref t q) = e_GUID (deref t p)" for q
    using syncedD(4) [OF assms(1)] that assms(2) by (metis option.inject)
  then show "mru (set_entry p f t) = map (\<lambda>e. if e_GUID e = e_GUID (deref t p) then f e else e) (mru t)"
    by (auto simp: mru_def deref_set_entry [OF p])
qed

lemma set_entry_free:
  assumes "synced t" and "p < length (heap t)" and "p \<notin> set (lru t)" and "e_GUID (f (deref t p)) = e_GUID (deref t p)"
  shows "synced (set_entry p f t)" and "mru (set_entry p f t) = mru t"
proof -
  show "synced (set_entry p f t)"
    using good_set_entry [OF syncedD(1) [OF assms(1)] assms(2), of f] assms(4) syncedD(4) [OF assms(1)] assms(3)
    by (auto simp: synced_def linked_def deref_set_entry [OF assms(2)])
  show "mru (set_entry p f t) = mru t"
    using assms(3) by (auto simp: mru_def deref_set_entry [OF assms(2)])
qed

section \<open>The abstract table\<close>

text \<open>What \<open>/proc\<close> contributes: an entry, only if the start time matches.\<close>

definition proc_lookup :: "Env \<Rightarrow> string \<Rightarrow> u32 \<Rightarrow> u64 \<Rightarrow> Entry option" where
  "proc_lookup w guid pid startNs =
     (case Proc w of None \<Rightarrow> None
      | Some rd \<Rightarrow> if pid = 0 then None
        else case rd pid of Inl _ \<Rightarrow> None
          | Inr info \<Rightarrow> if StartTicks (pi_StartTimeNs info) = StartTicks startNs
                        then Some (procEntry w guid info) else None)"

definition a_parent :: "nat \<Rightarrow> Env \<Rightarrow> string \<Rightarrow> u32 \<Rightarrow> u64 \<Rightarrow> Entry list \<Rightarrow> Entry option \<times> Entry list" where
  "a_parent n w guid pid startNs xs =
     (case a_find guid xs of Some e \<Rightarrow> (Some e, a_touch guid xs)
      | None \<Rightarrow> (case proc_lookup w guid pid startNs of None \<Rightarrow> (None, xs)
                 | Some e \<Rightarrow> (Some e, a_add n e xs)))"

definition exec_image :: "Event \<Rightarrow> Entry \<Rightarrow> Entry" where
  "exec_image ev e = e\<lparr>e_Image := p_Image (ev_Process ev), e_Argv := p_Argv (ev_Process ev), e_External := False\<rparr>"

definition mark_exit :: "Env \<Rightarrow> Entry \<Rightarrow> Entry" where
  "mark_exit w e = (if e_ExitedAt e = 0 then e\<lparr>e_ExitedAt := Now w\<rparr> else e)"

definition inherit_image :: "Entry option \<Rightarrow> Entry \<Rightarrow> Entry" where
  "inherit_image p e = (case p of None \<Rightarrow> e | Some p \<Rightarrow> e\<lparr>e_Image := e_Image p, e_Argv := e_Argv p\<rparr>)"

definition a_type :: "nat \<Rightarrow> Env \<Rightarrow> Event \<Rightarrow> string \<Rightarrow> string \<Rightarrow> Entry list \<Rightarrow> Entry option \<times> Entry list" where
  "a_type n w ev guid hdrParent xs =
     (case (ev_Type ev, a_find guid xs) of
        (TypeFork, Some e) \<Rightarrow> (Some e, a_touch guid xs)
      | (TypeFork, None) \<Rightarrow>
          (let (p, xs) = a_parent n w hdrParent (pp_PID (ev_Parent ev)) (pp_StartTimeNs (ev_Parent ev)) xs;
               e = inherit_image p (newEntry ev guid hdrParent)
           in (Some e, a_add n e xs))
      | (TypeExec, Some e) \<Rightarrow> (Some (exec_image ev e), exec_image ev e # a_del guid xs)
      | (TypeExec, None) \<Rightarrow>
          (let e = exec_image ev (newEntry ev guid hdrParent) in (Some e, a_add n e xs))
      | (TypeExit, Some e) \<Rightarrow> (Some (mark_exit w e), mark_exit w e # a_del guid xs)
      | (TypeExit, None) \<Rightarrow> (None, xs))"

definition a_choose :: "Event \<Rightarrow> string \<Rightarrow> Entry option \<Rightarrow> Entry list \<Rightarrow> (string \<times> u32 \<times> u64) \<times> Entry list" where
  "a_choose ev hdrParent e xs =
     (let hdr = (hdrParent, pp_PID (ev_Parent ev), pp_StartTimeNs (ev_Parent ev)) in
      case e of None \<Rightarrow> (hdr, xs)
      | Some e \<Rightarrow>
        if e_ParentGUID e \<noteq> [] \<and> e_ParentGUID e \<noteq> hdrParent then
          (case a_find (e_ParentGUID e) xs of
             Some q \<Rightarrow> ((e_GUID q, e_PID q, e_StartTimeNs q), a_touch (e_ParentGUID e) xs)
           | None \<Rightarrow> (hdr, xs))
        else (hdr, xs))"

definition a_Handle :: "Config \<Rightarrow> Env \<Rightarrow> Event \<Rightarrow> Entry list \<Rightarrow> Event \<times> Entry list" where
  "a_Handle c w ev xs =
     (let n = nat (MaxEntries c);
          guid = GUID (HostID c) (BootID c) (p_PID (ev_Process ev)) (p_StartTimeNs (ev_Process ev));
          hdrParent = GUID (HostID c) (BootID c) (pp_PID (ev_Parent ev)) (pp_StartTimeNs (ev_Parent ev));
          ev = set_process ev (\<lambda>p. p\<lparr>p_GUID := guid\<rparr>);
          (e, xs) = a_type n w ev guid hdrParent xs;
          ev = fill_process e ev;
          ((parentGUID, ppid, pstart), xs) = a_choose ev hdrParent e xs;
          ev = set_parent ev (\<lambda>p. p\<lparr>pp_GUID := parentGUID, pp_PID := ppid, pp_StartTimeNs := pstart\<rparr>);
          (p, xs) = a_parent n w parentGUID ppid pstart xs
      in (fill_parent p ev, xs))"

section \<open>Simulation\<close>

text \<open>Old entries keep their contents, and evicted ones stay out of the list.\<close>

definition frame :: "Table \<Rightarrow> Table \<Rightarrow> bool" where
  "frame t t' \<longleftrightarrow> cfg t' = cfg t \<and> (\<forall>p < length (heap t). p < length (heap t') \<and> deref t' p = deref t p \<and>
     (p \<in> set (lru t') \<longrightarrow> p \<in> set (lru t)))"

lemma frame_stats [simp]: "frame t (t\<lparr>stats := s\<rparr>)" "frame (t\<lparr>stats := s\<rparr>) u = frame t u"
  by (simp_all add: frame_def)

lemma frame_get: "frame t (snd (t_get g t))"
  by (simp add: frame_def)

text \<open>Allocate a cell for an entry with a new GUID and insert it.\<close>

lemma alloc_insert_sim:
  assumes "synced t" and "alloc e t = (p, u)" and "a_find (e_GUID e) (mru t) = None"
  shows "\<exists>t'. t_insert p u = Some t' \<and> synced t' \<and> mru t' = a_add (cap t) e (mru t) \<and> frame t t' \<and>
    deref t' p = e \<and> p \<in> set (lru t')"
proof -
  note u = alloc_sim [OF assms(1,2)]
  obtain t' where "t_insert p u = Some t'" "synced t'" "mru t' = a_add (cap u) (deref u p) (mru u)"
    "heap t' = heap u" "cfg t' = cfg u" "p \<in> set (lru t')" "set (lru t') \<subseteq> insert p (set (lru u))"
    using insert_sim [OF u(1,6,7)] u(2,4) assms(3) by auto
  moreover have "lru u = lru t" "length (heap u) = Suc (length (heap t))" using assms(2) by (auto simp: alloc_def)
  ultimately show ?thesis using u(2,3,4,5,9) unfolding frame_def cap_def by auto
qed

lemma t_parent_sim:
  assumes "synced t"
  shows "\<exists>q t'. t_parent w g pid n t = Some (q, t') \<and> synced t' \<and> frame t t' \<and>
    a_parent (cap t) w g pid n (mru t) = (map_option (deref t') q, mru t')"
proof (cases "map_of (entries t) g")
  case (Some p)
  then have "t_parent w g pid n t = Some (Some p, snd (t_get g t))"
    by (simp add: t_parent_def t_get_def)
  moreover have "a_find g (mru t) = Some (deref t p)" using Some by (simp add: a_find_mru [OF assms])
  ultimately show ?thesis using get_sim [OF assms, of g] frame_get [of t g] by (simp add: a_parent_def)
next
  case None
  then have g: "t_get g t = (None, t)" and fresh: "a_find g (mru t) = None"
    by (simp_all add: t_get_def a_find_mru [OF assms])
  show ?thesis
  proof (cases "proc_lookup w g pid n")
    case None
    then have "\<exists>s. t_parent w g pid n t = Some (None, t\<lparr>stats := s\<rparr>)"
      by (auto simp: proc_lookup_def t_parent_def g Let_def split: option.splits sum.splits if_splits
          intro: exI [of _ "stats t"])
    then show ?thesis using assms None fresh by (auto simp: a_parent_def)
  next
    case (Some e)
    then obtain rd info where r: "Proc w = Some rd" "pid \<noteq> 0" "rd pid = Inr info"
      "StartTicks (pi_StartTimeNs info) = StartTicks n" "e = procEntry w g info"
      by (auto simp: proc_lookup_def split: option.splits sum.splits if_splits)
    let ?u = "t\<lparr>stats := (stats t)\<lparr>ProcLookups := ProcLookups (stats t) + 1\<rparr>\<rparr>"
    obtain p v where a: "alloc e ?u = (p, v)" by fastforce
    have "e_GUID e = g" by (simp add: r(5) procEntry_def)
    with alloc_insert_sim [OF _ a] fresh assms obtain t' where "t_insert p v = Some t'" "synced t'"
      "mru t' = a_add (cap t) e (mru t)" "frame t t'" "deref t' p = e"
      by auto
    then show ?thesis using r a fresh Some by (simp add: t_parent_def g Let_def a_parent_def)
  qed
qed

lemma a_find_parent_other:
  assumes "a_find g xs = None" and "g \<noteq> h \<or> proc_lookup w h pid st = None"
  shows "a_find g (snd (a_parent n w h pid st xs)) = None"
proof -
  have "e_GUID e = h" if "proc_lookup w h pid st = Some e" for e
    using that by (auto simp: proc_lookup_def procEntry_def split: option.splits sum.splits if_splits)
  then show ?thesis using assms
    by (auto simp: a_parent_def a_find_touch_None a_find_add_other split: option.split)
qed

lemma map_del [simp]: "map (\<lambda>e. if e_GUID e = g then f e else e) (a_del g xs) = a_del g xs"
  by (auto simp: a_del_def intro: map_idI)

lemma map_add: "a_find (e_GUID e) xs = None \<Longrightarrow>
    map (\<lambda>x. if e_GUID x = e_GUID e then f x else x) (a_add n e xs) = a_add n (f e) xs"
proof -
  assume fresh: "a_find (e_GUID e) xs = None"
  have "e_GUID x \<noteq> e_GUID e" if "x \<in> set (take m xs)" for x m
    using fresh in_set_takeD [OF that] unfolding a_find_None by (metis image_eqI)
  then have "map (\<lambda>x. if e_GUID x = e_GUID e then f x else x) (take m xs) = take m xs" for m
    by (intro map_idI) simp
  then show ?thesis by (cases n) (simp_all add: a_add_def)
qed

lemma handle_fork_sim:
  assumes "synced t" and "a_find g (mru t) = None" and "ev_Type ev = TypeFork"
    and "g \<noteq> h \<or> proc_lookup w h (pp_PID (ev_Parent ev)) (pp_StartTimeNs (ev_Parent ev)) = None"
  shows "\<exists>e t'. handle_type w ev g h None t = Some (e, t') \<and> synced t' \<and> cfg t' = cfg t \<and>
    a_type (cap t) w ev g h (mru t) = (map_option (deref t') e, mru t')"
proof -
  let ?e = "newEntry ev g h"
  obtain p u where a: "alloc ?e t = (p, u)" by fastforce
  note u = alloc_sim [OF assms(1) a]
  obtain q v where v: "t_parent w h (pp_PID (ev_Parent ev)) (pp_StartTimeNs (ev_Parent ev)) u = Some (q, v)"
    "synced v" "frame u v" "a_parent (cap u) w h (pp_PID (ev_Parent ev)) (pp_StartTimeNs (ev_Parent ev)) (mru u) =
      (map_option (deref v) q, mru v)"
    using t_parent_sim [OF u(1)] by blast
  have p: "p < length (heap v)" "p \<notin> set (lru v)" "deref v p = ?e"
    using v(3) u(4,6,7) by (auto simp: frame_def)
  let ?v = "case q of None \<Rightarrow> v
    | Some q \<Rightarrow> set_entry p (\<lambda>e. e\<lparr>e_Image := e_Image (deref v q), e_Argv := e_Argv (deref v q)\<rparr>) v"
  let ?i = "inherit_image (map_option (deref v) q) ?e"
  have x: "synced ?v" "mru ?v = mru v" "deref ?v p = ?i" "p < length (heap ?v)" "p \<notin> set (lru ?v)" "cfg ?v = cfg v"
    using v(2) p set_entry_free [OF v(2) p(1,2)] by (auto simp: inherit_image_def deref_set_entry split: option.split)
  have i: "e_GUID ?i = g" by (simp add: inherit_image_def newEntry_def split: option.split)
  have "a_find g (mru v) = None"
    using a_find_parent_other [OF assms(2,4), of "cap u"] v(4) u(2) by (metis snd_conv)
  then obtain t' where t': "t_insert p ?v = Some t'" "synced t'" "mru t' = a_add (cap ?v) ?i (mru v)" "heap t' = heap ?v"
    "cfg t' = cfg ?v"
    using insert_sim [OF x(1,4,5)] x(2,3) i by auto
  moreover have "cap u = cap t" "cap ?v = cap t" "cfg ?v = cfg t"
    using u(5) v(3) x(6) by (simp_all add: cap_def frame_def)
  ultimately show ?thesis
    using assms(2,3) a v(1,4) u(2) x(3) by (simp add: handle_type_def a_type_def Let_def)
qed

text \<open>An event of a process the table has no entry for, and of one it has.\<close>

lemma handle_type_new_sim:
  assumes "synced t" and "map_of (entries t) g = None"
    and "ev_Type ev = TypeFork \<Longrightarrow>
      g \<noteq> h \<or> proc_lookup w h (pp_PID (ev_Parent ev)) (pp_StartTimeNs (ev_Parent ev)) = None"
  shows "\<exists>e t'. handle_type w ev g h None t = Some (e, t') \<and> synced t' \<and> cfg t' = cfg t \<and>
    a_type (cap t) w ev g h (mru t) = (map_option (deref t') e, mru t')"
proof -
  have f: "a_find g (mru t) = None" using assms(2) by (simp add: a_find_mru [OF assms(1)])
  show ?thesis
  proof (cases "ev_Type ev")
    case TypeFork
    then show ?thesis using handle_fork_sim [OF assms(1) f TypeFork assms(3)] by simp
  next
    case TypeExec
    let ?e = "newEntry ev g h"
    obtain p v where a: "alloc ?e t = (p, v)" by fastforce
    have ge: "e_GUID ?e = g" by (simp add: newEntry_def)
    obtain t' where t': "t_insert p v = Some t'" "synced t'" "mru t' = a_add (cap t) ?e (mru t)" "frame t t'"
      "deref t' p = ?e" "p \<in> set (lru t')"
      using alloc_insert_sim [OF assms(1) a] f ge by auto
    let ?t = "set_entry p (\<lambda>e. e\<lparr>e_Image := p_Image (ev_Process ev), e_Argv := p_Argv (ev_Process ev),
      e_External := False\<rparr>) t'"
    have x: "synced ?t" "mru ?t = map (\<lambda>e. if e_GUID e = e_GUID (deref t' p) then exec_image ev e else e) (mru t')"
      using set_entry_sim [OF t'(2,6)] by (simp_all add: exec_image_def)
    have "mru ?t = a_add (cap t) (exec_image ev ?e) (mru t)"
      unfolding x(2) t'(3,5) using map_add [of ?e] f ge by simp
    moreover have "deref ?t p = exec_image ev ?e"
      using t'(5) lru_valid [OF syncedD(1) [OF t'(2)] t'(6)] by (simp add: deref_set_entry exec_image_def)
    ultimately show ?thesis
      using TypeExec a t'(1,4) f x(1) by (simp add: handle_type_def a_type_def Let_def frame_def)
  next
    case TypeExit
    then show ?thesis using assms(1) f by (simp add: handle_type_def a_type_def)
  qed
qed

lemma handle_type_known_sim:
  assumes "synced t" and "t_get g t = (Some p, u)"
  shows "\<exists>e t'. handle_type w ev g h (Some p) u = Some (e, t') \<and> synced t' \<and> cfg t' = cfg t \<and>
    a_type (cap t) w ev g h (mru t) = (map_option (deref t') e, mru t')"
proof -
  have m: "map_of (entries t) g = Some p" using assms(2) by (auto simp: t_get_def split: option.splits)
  have s: "synced u" "mru u = a_touch g (mru t)" "heap u = heap t" "cfg u = cfg t" "set (lru u) = set (lru t)"
    using get_sim [OF assms(1), of g] t_get_simps [of g t] assms(2) by simp_all
  note p = tab_ok_lookup [OF syncedD(2) [OF assms(1)] m]
  let ?e = "deref t p"
  have f: "a_find g (mru t) = Some ?e" using m by (simp add: a_find_mru [OF assms(1)])
  then have au: "mru u = ?e # a_del g (mru t)" using s(2) by (simp add: a_touch_def)
  have upd: "synced (set_entry p k u) \<and> mru (set_entry p k u) = k ?e # a_del g (mru t) \<and> deref (set_entry p k u) p = k ?e"
    if "e_GUID (k ?e) = g" for k
    using set_entry_sim [OF s(1), of p k] that p s(3,5) au by (simp add: deref_set_entry)
  show ?thesis
  proof (cases "ev_Type ev")
    case TypeFork
    then show ?thesis using s f by (simp add: handle_type_def a_type_def)
  next
    case TypeExec
    then show ?thesis using s f p(3) upd [of "\<lambda>e. e\<lparr>e_Image := p_Image (ev_Process ev),
        e_Argv := p_Argv (ev_Process ev), e_External := False\<rparr>"]
      by (simp add: handle_type_def a_type_def exec_image_def)
  next
    case TypeExit
    then show ?thesis using s f au upd [of "\<lambda>e. e\<lparr>e_ExitedAt := Now w\<rparr>"] p(3)
      by (simp add: handle_type_def a_type_def mark_exit_def)
  qed
qed

lemma handle_type_sim:
  assumes "synced t" and "t_get g t = (e0, u)"
    and "ev_Type ev = TypeFork \<Longrightarrow>
      g \<noteq> h \<or> proc_lookup w h (pp_PID (ev_Parent ev)) (pp_StartTimeNs (ev_Parent ev)) = None"
  shows "\<exists>e t'. handle_type w ev g h e0 u = Some (e, t') \<and> synced t' \<and> cfg t' = cfg t \<and>
    a_type (cap t) w ev g h (mru t) = (map_option (deref t') e, mru t')"
proof (cases e0)
  case None
  then have "map_of (entries t) g = None" "u = t" using assms(2) by (auto simp: t_get_def split: option.splits)
  then show ?thesis using handle_type_new_sim [OF assms(1) _ assms(3)] None by simp
next
  case (Some p)
  then show ?thesis using handle_type_known_sim [OF assms(1)] assms(2) by simp
qed

lemma choose_sim:
  assumes "synced t" and "\<forall>p. e = Some p \<longrightarrow> p < length (heap t)"
  shows "synced (snd (choose_parent ev h e t))" and "cfg (snd (choose_parent ev h e t)) = cfg t"
    and "a_choose ev h (map_option (deref t) e) (mru t) =
      (fst (choose_parent ev h e t), mru (snd (choose_parent ev h e t)))"
proof -
  have "synced (snd (choose_parent ev h e t)) \<and> cfg (snd (choose_parent ev h e t)) = cfg t \<and>
      a_choose ev h (map_option (deref t) e) (mru t) =
      (fst (choose_parent ev h e t), mru (snd (choose_parent ev h e t)))"
  proof (cases "\<exists>p q. e = Some p \<and> e_ParentGUID (deref t p) \<noteq> [] \<and> e_ParentGUID (deref t p) \<noteq> h \<and>
      map_of (entries t) (e_ParentGUID (deref t p)) = Some q")
    case True
    then obtain p q where pq: "e = Some p" "e_ParentGUID (deref t p) \<noteq> []" "e_ParentGUID (deref t p) \<noteq> h"
      "map_of (entries t) (e_ParentGUID (deref t p)) = Some q" by blast
    let ?g = "e_ParentGUID (deref t p)"
    obtain u where u: "t_get ?g t = (Some q, u)" by (simp add: t_get_def pq(4))
    then have "heap u = heap t" "cfg u = cfg t" using t_get_simps(3,4) [of ?g t] by simp_all
    then have "choose_parent ev h e t = ((e_GUID (deref t q), e_PID (deref t q), e_StartTimeNs (deref t q)), u)"
      using pq u by (simp add: choose_parent_def Let_def)
    moreover have "a_choose ev h (map_option (deref t) e) (mru t) =
        ((e_GUID (deref t q), e_PID (deref t q), e_StartTimeNs (deref t q)), a_touch ?g (mru t))"
      using pq by (simp add: a_choose_def Let_def a_find_mru [OF assms(1)])
    ultimately show ?thesis using get_sim [OF assms(1), of ?g] u \<open>cfg u = cfg t\<close> by simp
  next
    case False
    then have "choose_parent ev h e t = ((h, pp_PID (ev_Parent ev), pp_StartTimeNs (ev_Parent ev)), t)"
      by (auto simp: choose_parent_def Let_def t_get_def split: option.split)
    moreover have "a_choose ev h (map_option (deref t) e) (mru t) =
        ((h, pp_PID (ev_Parent ev), pp_StartTimeNs (ev_Parent ev)), mru t)"
      using False by (auto simp: a_choose_def Let_def a_find_mru [OF assms(1)] split: option.split)
    ultimately show ?thesis using assms(1) by simp
  qed
  then show "synced (snd (choose_parent ev h e t))" "cfg (snd (choose_parent ev h e t)) = cfg t"
    "a_choose ev h (map_option (deref t) e) (mru t) =
      (fst (choose_parent ev h e t), mru (snd (choose_parent ev h e t)))"
    by simp_all
qed

text \<open>The GUIDs of an event's process and of the parent its header names.\<close>

definition ev_guid :: "Table \<Rightarrow> Event \<Rightarrow> string" where
  "ev_guid t ev = t_GUID t (p_PID (ev_Process ev)) (p_StartTimeNs (ev_Process ev))"

definition ev_parent :: "Table \<Rightarrow> Event \<Rightarrow> string" where
  "ev_parent t ev = t_GUID t (pp_PID (ev_Parent ev)) (pp_StartTimeNs (ev_Parent ev))"

text \<open>
  The forked process is not its own parent, or \<open>/proc\<close> is not asked about the parent (the
  idle task is its own parent, with process id 0).
\<close>

definition sane_event :: "Env \<Rightarrow> Table \<Rightarrow> Event \<Rightarrow> bool" where
  "sane_event w t ev \<longleftrightarrow> ev_Type ev \<noteq> TypeFork \<or> Proc w = None \<or> pp_PID (ev_Parent ev) = 0 \<or>
     ev_guid t ev \<noteq> ev_parent t ev"

lemma Handle_sim:
  assumes "synced t" and "sane_event w t ev"
  shows "\<exists>t'. Handle w ev t = Some (fst (a_Handle (cfg t) w ev (mru t)), t') \<and> synced t' \<and> cfg t' = cfg t \<and>
    mru t' = snd (a_Handle (cfg t) w ev (mru t))"
proof -
  let ?g = "t_GUID t (p_PID (ev_Process ev)) (p_StartTimeNs (ev_Process ev))"
  let ?h = "t_GUID t (pp_PID (ev_Parent ev)) (pp_StartTimeNs (ev_Parent ev))"
  let ?ev = "set_process ev (\<lambda>p. p\<lparr>p_GUID := ?g\<rparr>)"
  have sane: "ev_Type ?ev = TypeFork \<Longrightarrow> ?g \<noteq> ?h \<or>
      proc_lookup w ?h (pp_PID (ev_Parent ?ev)) (pp_StartTimeNs (ev_Parent ?ev)) = None"
    using assms(2) by (auto simp: sane_event_def ev_guid_def ev_parent_def proc_lookup_def set_process_def
        split: option.split)
  obtain e0 u where u: "t_get ?g t = (e0, u)" by fastforce
  obtain e v where v: "handle_type w ?ev ?g ?h e0 u = Some (e, v)" "synced v" "cfg v = cfg t"
    "a_type (cap t) w ?ev ?g ?h (mru t) = (map_option (deref v) e, mru v)"
    using handle_type_sim [OF assms(1) u, of ?ev ?h w] sane by auto
  let ?ev1 = "fill_process (map_option (deref v) e) ?ev"
  obtain a b c x where x: "choose_parent ?ev1 ?h e v = ((a, b, c), x)" by (metis prod.exhaust)
  have val: "\<forall>p. e = Some p \<longrightarrow> p < length (heap v)"
  proof -
    have "good u" "\<forall>p. e0 = Some p \<longrightarrow> p < length (heap u)"
      using good_get(1) [OF syncedD(1) [OF assms(1)], of ?g] good_lookup [OF syncedD(1) [OF assms(1)], of ?g]
        t_get_simps(1,3) [of ?g t] by (simp_all add: u)
    from handle_type_ok [OF this, of w ?ev ?g ?h] v(1) show ?thesis by auto
  qed
  have x': "synced x" "cfg x = cfg t" "a_choose ?ev1 ?h (map_option (deref v) e) (mru v) = ((a, b, c), mru x)"
    using choose_sim [OF v(2) val, of ?ev1 ?h] x v(3) by simp_all
  obtain q y where y: "t_parent w a b c x = Some (q, y)" "synced y" "frame x y"
    "a_parent (cap x) w a b c (mru x) = (map_option (deref y) q, mru y)"
    using t_parent_sim [OF x'(1)] by blast
  have caps: "cap t = nat (MaxEntries (cfg t))" "cap x = nat (MaxEntries (cfg t))" by (simp_all add: cap_def x'(2))
  let ?ev2 = "fill_parent (map_option (deref y) q)
    (set_parent ?ev1 (\<lambda>p. p\<lparr>pp_GUID := a, pp_PID := b, pp_StartTimeNs := c\<rparr>))"
  have "Handle w ev t = Some (?ev2, y)"
    unfolding Handle_def Let_def u prod.case using v(1) x y(1) by simp
  moreover have "a_Handle (cfg t) w ev (mru t) = (?ev2, mru y)"
    unfolding a_Handle_def Let_def t_GUID_def [symmetric] caps [symmetric]
    using v(4) x'(3) y(4) by (simp add: caps)
  ultimately show ?thesis using y(2,3) x'(2) by (simp add: frame_def)
qed

text \<open>A table of a process and its parent, for the witnesses.\<close>

lemma length_GUID: "length (GUID h b p n) = 36"
  by (simp add: GUID_dashed dashed_def)

definition demo_parent :: Entry where
  "demo_parent = \<lparr>e_GUID = ''P'', e_ParentGUID = [], e_PID = 7, e_PPID = 1, e_StartTimeNs = 5, e_Image = ''/bin/bash'',
     e_Argv = [''bash''], e_CgroupID = 5, e_External = False, e_ExitedAt = 0\<rparr>"

definition demo_child :: Entry where
  "demo_child = \<lparr>e_GUID = ev_guid (New demo_cfg) (demo_event TypeExit), e_ParentGUID = ''P'', e_PID = 42, e_PPID = 7,
     e_StartTimeNs = 10000000, e_Image = ''/bin/sh'', e_Argv = [''sh''], e_CgroupID = 5, e_External = False, e_ExitedAt = 50\<rparr>"

definition demo_table :: Table where
  "demo_table = (New demo_cfg)\<lparr>entries := [(e_GUID demo_child, 0), (''P'', 1)], lru := [0, 1], heap := [demo_child, demo_parent]\<rparr>"

lemma demo_guids:
  "ev_guid demo_table (demo_event ty) = e_GUID demo_child" "ev_parent demo_table (demo_event ty) \<noteq> ''P''"
  "e_GUID demo_child \<noteq> ''P''" "e_GUID demo_parent = ''P''" "e_ParentGUID demo_child = ''P''"
proof -
  have "cfg demo_table = cfg (New demo_cfg)" by (simp add: demo_table_def)
  then show "ev_guid demo_table (demo_event ty) = e_GUID demo_child"
    by (simp add: ev_guid_def demo_child_def t_GUID_def demo_event_def)
  have ne: "GUID h b p n \<noteq> ''P''" for h b p n using length_GUID [of h b p n] by auto
  show "ev_parent demo_table (demo_event ty) \<noteq> ''P''" "e_GUID demo_child \<noteq> ''P''"
    using ne by (simp_all add: ev_parent_def demo_child_def ev_guid_def t_GUID_def)
qed (simp_all add: demo_parent_def demo_child_def)

lemma demo_cfg_table: "cfg demo_table = demo_cfg"
  by (simp add: demo_table_def New_def demo_cfg_def)

lemma demo_synced: "synced demo_table" "mru demo_table = [demo_child, demo_parent]"
proof -
  have "cfg demo_table = demo_cfg" "entries demo_table = [(e_GUID demo_child, 0), (''P'', 1)]" "lru demo_table = [0, 1]"
    "heap demo_table = [demo_child, demo_parent]" "MaxEntries demo_cfg = 2"
    by (simp_all add: demo_table_def New_def demo_cfg_def)
  then show "synced demo_table" "mru demo_table = [demo_child, demo_parent]"
    using demo_guids(3,4) by (simp_all add: synced_def good_def tab_ok_def within_def linked_def mru_def)
qed

lemma demo_sane: "sane_event demo_env t ev"
  by (simp add: sane_event_def demo_env_def)

text \<open>
  C18: the table implements a bounded most-recently-used list of entries. For every event except
  a fork in which a process is its own parent, \<open>Handle\<close> on the heap, map and linked list produces the same
  enriched event as the abstract function on the list, and the list it leaves is the abstract
  result: found entries move to the front, new ones are added at the front, and what lies
  beyond \<open>MaxEntries\<close> is dropped from the back.
\<close>

theorem Handle_refines:
  assumes "synced t" and "sane_event w t ev"
  shows "\<exists>t'. Handle w ev t = Some (fst (a_Handle (cfg t) w ev (mru t)), t') \<and> synced t' \<and>
    mru t' = snd (a_Handle (cfg t) w ev (mru t)) \<and> length (mru t') \<le> nat (MaxEntries (cfg t))"
proof -
  obtain t' where "Handle w ev t = Some (fst (a_Handle (cfg t) w ev (mru t)), t')" "synced t'" "cfg t' = cfg t"
    "mru t' = snd (a_Handle (cfg t) w ev (mru t))"
    using Handle_sim [OF assms] by blast
  then show ?thesis using length_mru [of t'] by (simp add: cap_def)
qed

theorem Handle_refines_witness:
  "\<exists>t'. Handle demo_env (demo_event TypeExit) demo_table =
      Some (fst (a_Handle demo_cfg demo_env (demo_event TypeExit) [demo_child, demo_parent]), t') \<and>
    mru t' = snd (a_Handle demo_cfg demo_env (demo_event TypeExit) [demo_child, demo_parent])"
  using Handle_refines [OF demo_synced(1) demo_sane, of "demo_event TypeExit"] by (auto simp: demo_synced(2) demo_cfg_table)

end
