(* ===== verification/TableProps.thy ===== *)
theory TableProps
  imports TableRefine
begin

text \<open>
  What the process table promises: the sweep removes exactly the entries that exited too long
  ago, a process keeps its fork-time parent, a forked child starts with its parent's image, a
  reused process id is never taken for the parent, and the exit time is recorded once.
\<close>

section \<open>An interface: stores of entries with a bound\<close>

text \<open>
  What the clients of the table rely on: looking up an entry by GUID touches it, adding an
  entry with a new GUID puts it first and may push out the last ones.
\<close>

locale entry_store =
  fixes ok :: "'s \<Rightarrow> bool"
    and contents :: "'s \<Rightarrow> Entry list"
    and bound :: "'s \<Rightarrow> nat"
    and look :: "string \<Rightarrow> 's \<Rightarrow> Entry option \<times> 's"
    and add :: "Entry \<Rightarrow> 's \<Rightarrow> 's option"
  assumes look_fst: "ok s \<Longrightarrow> fst (look g s) = a_find g (contents s)"
    and look_snd: "ok s \<Longrightarrow> ok (snd (look g s)) \<and> contents (snd (look g s)) = a_touch g (contents s) \<and>
      bound (snd (look g s)) = bound s"
    and add_new: "ok s \<Longrightarrow> a_find (e_GUID e) (contents s) = None \<Longrightarrow>
      \<exists>s'. add e s = Some s' \<and> ok s' \<and> contents s' = a_add (bound s) e (contents s) \<and> bound s' = bound s"
    and bound_pos: "ok s \<Longrightarrow> 0 < bound s"
begin

lemma look_after_add:
  assumes "ok s" and "a_find (e_GUID e) (contents s) = None" and "add e s = Some s'"
  shows "fst (look (e_GUID e) s') = Some e"
proof -
  have "ok s'" "contents s' = a_add (bound s) e (contents s)" using add_new [OF assms(1,2)] assms(3) by auto
  moreover obtain n where "bound s = Suc n" using bound_pos [OF assms(1)] by (cases "bound s") auto
  ultimately show ?thesis by (simp add: look_fst a_add_def a_find_def)
qed

lemma look_other_after_add:
  assumes "ok s" and "a_find (e_GUID e) (contents s) = None" and "add e s = Some s'"
    and "g \<noteq> e_GUID e" and "length (contents s) < bound s"
  shows "fst (look g s') = fst (look g s)"
proof -
  have "ok s'" "contents s' = e # contents s"
    using add_new [OF assms(1,2)] assms(3,5) by (auto simp: a_add_def)
  then show ?thesis using assms(1,4) by (simp add: look_fst a_find_def)
qed

lemma look_twice:
  assumes "ok s"
  shows "fst (look g (snd (look g s))) = fst (look g s)"
proof -
  have "a_find g (a_touch g (contents s)) = a_find g (contents s)"
    by (auto simp: a_touch_def a_find_def find_None_iff split: option.split dest: a_find_Some [unfolded a_find_def])
  then show ?thesis using look_snd [OF assms] look_fst assms by simp
qed

end

definition tab_look :: "string \<Rightarrow> Table \<Rightarrow> Entry option \<times> Table" where
  "tab_look g t = (let (p, t) = t_get g t in (map_option (deref t) p, t))"

definition tab_add :: "Entry \<Rightarrow> Table \<Rightarrow> Table option" where
  "tab_add e t = (let (p, t) = alloc e t in t_insert p t)"

interpretation tab: entry_store synced mru cap tab_look tab_add
proof
  fix t g assume s: "synced t"
  have look: "tab_look g t = (map_option (deref t) (fst (t_get g t)), snd (t_get g t))"
    by (simp add: tab_look_def Let_def split_beta)
  show "fst (tab_look g t) = a_find g (mru t)" using get_sim(3) [OF s, of g] look by simp
  show "synced (snd (tab_look g t)) \<and> mru (snd (tab_look g t)) = a_touch g (mru t) \<and> cap (snd (tab_look g t)) = cap t"
    using get_sim [OF s, of g] look by (simp add: cap_def)
  show "0 < cap t" using tab_okD(6) [OF syncedD(2) [OF s]] by (simp add: cap_def)
next
  fix t and e :: Entry assume s: "synced t" and f: "a_find (e_GUID e) (mru t) = None"
  obtain p u where a: "alloc e t = (p, u)" by fastforce
  from alloc_insert_sim [OF s a f]
  show "\<exists>t'. tab_add e t = Some t' \<and> synced t' \<and> mru t' = a_add (cap t) e (mru t) \<and> cap t' = cap t"
    by (auto simp: tab_add_def a frame_def cap_def)
qed

section \<open>Sweep\<close>

lemma Sweep_loop_eq:
  assumes "distinct (lru t)"
  shows "heap (snd (Sweep_loop c order n t)) = heap t \<and> cfg (snd (Sweep_loop c order n t)) = cfg t \<and>
    lru (snd (Sweep_loop c order n t)) =
      filter (\<lambda>p. \<not> (p \<in> snd ` set order \<and> expired c (deref t p))) (lru t) \<and>
    entries (snd (Sweep_loop c order n t)) =
      filter (\<lambda>x. \<not> (\<exists>p. (fst x, p) \<in> set order \<and> expired c (deref t p))) (entries t) \<and>
    fst (Sweep_loop c order n t) = n + length (filter (\<lambda>x. expired c (deref t (snd x))) order)"
  using assms
proof (induction order arbitrary: n t)
  case Nil
  then show ?case by simp
next
  case (Cons x order)
  obtain g p where x: "x = (g, p)" by fastforce
  show ?case
  proof (cases "expired c (deref t p)")
    case True
    let ?r = "t_remove g p t"
    let ?s = "?r\<lparr>stats := (stats ?r)\<lparr>EvictedExit := EvictedExit (stats ?r) + 1\<rparr>\<rparr>"
    have rm: "remove1 p (lru t) = filter (\<lambda>q. q \<noteq> p) (lru t)"
      unfolding distinct_remove1_removeAll [OF Cons.prems] removeAll_filter_not_eq by (intro filter_cong) auto
    have "Sweep_loop c (x # order) n t = Sweep_loop c order (n + 1) ?s" using True x by (simp add: Let_def)
    moreover have "distinct (lru ?s)" using Cons.prems by simp
    note IH = Cons.IH [OF this, of "n + 1"]
    moreover have "filter (\<lambda>q. \<not> (q \<in> snd ` set order \<and> expired c (deref t q))) (filter (\<lambda>q. q \<noteq> p) (lru t)) =
        filter (\<lambda>q. \<not> (q \<in> snd ` set (x # order) \<and> expired c (deref t q))) (lru t)"
      using True x by (auto intro!: filter_cong)
    moreover have "filter (\<lambda>y. \<not> (\<exists>p. (fst y, p) \<in> set order \<and> expired c (deref t p))) (AList.delete g (entries t)) =
        filter (\<lambda>y. \<not> (\<exists>p. (fst y, p) \<in> set (x # order) \<and> expired c (deref t p))) (entries t)"
      using True x by (auto simp: AList.delete_eq intro!: filter_cong)
    ultimately show ?thesis using True x rm by simp
  next
    case False
    then have "Sweep_loop c (x # order) n t = Sweep_loop c order n t" using x by simp
    moreover have "filter (\<lambda>q. \<not> (q \<in> snd ` set (x # order) \<and> expired c (deref t q))) (lru t) =
        filter (\<lambda>q. \<not> (q \<in> snd ` set order \<and> expired c (deref t q))) (lru t)"
      using False x by (auto intro!: filter_cong)
    moreover have "filter (\<lambda>y. \<not> (\<exists>p. (fst y, p) \<in> set (x # order) \<and> expired c (deref t p))) (entries t) =
        filter (\<lambda>y. \<not> (\<exists>p. (fst y, p) \<in> set order \<and> expired c (deref t p))) (entries t)"
      using False x by (auto intro!: filter_cong)
    ultimately show ?thesis using Cons.IH [OF Cons.prems, of n] False x by simp
  qed
qed

text \<open>The iteration visits every entry of the list once.\<close>

lemma order_ptrs:
  assumes "synced t" and "set order = set (entries t)"
  shows "snd ` set order = set (lru t)"
proof (intro set_eqI iffI)
  note ok = syncedD(2) [OF assms(1)]
  fix p assume "p \<in> snd ` set order"
  then show "p \<in> set (lru t)" using tab_okD(4) [OF ok] by (force simp: assms(2))
next
  fix p assume "p \<in> set (lru t)"
  from map_of_SomeD [OF syncedD(4) [OF assms(1) this]] show "p \<in> snd ` set order"
    unfolding assms(2) by (metis image_eqI snd_conv)
qed

lemma order_count:
  assumes "synced t" and "distinct order" and "set order = set (entries t)"
  shows "length (filter P (map snd order)) = length (filter P (lru t))"
proof -
  note ok = syncedD(2) [OF assms(1)]
  have "inj_on snd (set order)"
    using tab_okD(5) [OF ok] unfolding assms(3) by (intro inj_onI) (metis prod.collapse)
  then have "distinct (filter P (map snd order))" using assms(2) by (simp add: distinct_map)
  moreover have "distinct (filter P (lru t))" using tab_okD(2) [OF ok] by simp
  moreover have "set (filter P (map snd order)) = set (filter P (lru t))" using order_ptrs [OF assms(1,3)] by auto
  ultimately show ?thesis by (metis distinct_card)
qed

lemma Sweep_sim:
  assumes "synced t" and "distinct order" and "set order = set (entries t)"
  shows "synced (snd (Sweep w order t))" and "cfg (snd (Sweep w order t)) = cfg t"
    and "mru (snd (Sweep w order t)) = filter (\<lambda>e. \<not> expired (Now w - ExitTTL (cfg t)) e) (mru t)"
    and "fst (Sweep w order t) = length (filter (expired (Now w - ExitTTL (cfg t))) (mru t))"
proof -
  let ?c = "Now w - ExitTTL (cfg t)"
  let ?r = "Sweep_loop ?c order 0 t"
  note ok = syncedD(2) [OF assms(1)]
  note L = Sweep_loop_eq [OF tab_okD(2) [OF ok], of ?c order 0]
  note lru_ptrs = order_ptrs [OF assms(1,3)]
  have lru: "lru (snd ?r) = filter (\<lambda>p. \<not> expired ?c (deref t p)) (lru t)"
    using L lru_ptrs by (auto intro!: filter_cong)
  have "\<forall>(g, p) \<in> set order. e_GUID (deref t p) = g" using tab_okD(5) [OF ok] by (auto simp: assms(3))
  from Sweep_loop_ok [OF syncedD(1) [OF assms(1)] this] have good: "good (snd ?r)" by blast
  have link: "linked (snd ?r)"
    unfolding linked_def
  proof
    fix p assume p: "p \<in> set (lru (snd ?r))"
    then have pt: "p \<in> set (lru t)" "\<not> expired ?c (deref t p)" using lru by auto
    note m = syncedD(4) [OF assms(1) pt(1)]
    have "\<not> (\<exists>q. (e_GUID (deref t p), q) \<in> set order \<and> expired ?c (deref t q))"
      using m pt(2) tab_okD(1) [OF ok] unfolding assms(3) by (metis map_of_is_SomeI option.inject)
    then have "(e_GUID (deref t p), p) \<in> set (entries (snd ?r))"
      using L map_of_SomeD [OF m] by simp
    moreover have "distinct (map fst (entries (snd ?r)))" using good tab_okD(1) by (auto simp: good_def)
    ultimately show "map_of (entries (snd ?r)) (e_GUID (deref (snd ?r) p)) = Some p"
      using L by simp
  qed
  show "synced (snd (Sweep w order t))" using good link by (simp add: synced_def Sweep_def)
  show "cfg (snd (Sweep w order t)) = cfg t" using L by (simp add: Sweep_def)
  show "mru (snd (Sweep w order t)) = filter (\<lambda>e. \<not> expired ?c e) (mru t)"
    using L lru by (simp add: mru_def Sweep_def filter_map comp_def)
  show "fst (Sweep w order t) = length (filter (expired ?c) (mru t))"
    using L order_count [OF assms] by (simp add: Sweep_def mru_def filter_map comp_def)
qed

text \<open>
  C22: whatever order the map iteration takes, \<open>Sweep\<close> removes exactly the entries that exited
  more than \<open>ExitTTL\<close> ago, keeps the others in their order of use, and returns the number of
  entries removed; running processes are never removed.
\<close>

theorem Sweep_removes_expired:
  assumes "synced t" and "distinct order" and "set order = set (entries t)"
    and "Sweep w order t = (n, t')"
  shows "mru t' = filter (\<lambda>e. e_ExitedAt e = 0 \<or> Now w - ExitTTL (cfg t) \<le> e_ExitedAt e) (mru t) \<and>
    n = length (mru t) - length (mru t') \<and> synced t'"
proof -
  let ?c = "Now w - ExitTTL (cfg t)"
  note s = Sweep_sim [OF assms(1-3), of w, unfolded assms(4) fst_conv snd_conv]
  have "(\<lambda>e. \<not> expired ?c e) = (\<lambda>e. e_ExitedAt e = 0 \<or> ?c \<le> e_ExitedAt e)"
    by (auto simp: expired_def)
  moreover have "length (filter (expired ?c) (mru t)) + length (filter (\<lambda>e. \<not> expired ?c e) (mru t)) = length (mru t)"
    by (rule sum_length_filter_compl)
  ultimately show ?thesis using s by simp
qed

theorem Sweep_removes_expired_witness:
  "synced demo_table \<and> mru (snd (Sweep demo_env (entries demo_table) demo_table)) = [demo_parent] \<and>
    fst (Sweep demo_env (entries demo_table) demo_table) = 1"
proof -
  obtain n t' where s: "Sweep demo_env (entries demo_table) demo_table = (n, t')" by (meson surj_pair)
  have d: "distinct (entries demo_table)"
    using tab_okD(1) [OF syncedD(2) [OF demo_synced(1)]] by (simp add: distinct_map)
  have "Now demo_env - ExitTTL (cfg demo_table) = 90" "e_ExitedAt demo_child = 50" "e_ExitedAt demo_parent = 0"
    by (simp_all add: demo_cfg_table demo_cfg_def demo_env_def demo_child_def demo_parent_def)
  then show ?thesis using Sweep_removes_expired [OF demo_synced(1) d refl s] demo_synced by (simp add: s)
qed

section \<open>Events\<close>

lemma Lookup_mru: "synced t \<Longrightarrow> Lookup g t = a_find g (mru t)"
  by (simp add: Lookup_def a_find_mru)

lemma demo_Lookup:
  "Lookup g demo_table = (if e_GUID demo_child = g then Some demo_child else if ''P'' = g then Some demo_parent else None)"
  by (simp add: Lookup_mru [OF demo_synced(1)] demo_synced(2) a_find_def demo_guids)

lemma Handle_eq:
  assumes "synced t" and "sane_event w t ev"
  shows "\<exists>t'. Handle w ev t = Some (fst (a_Handle (cfg t) w ev (mru t)), t') \<and> synced t' \<and> cfg t' = cfg t \<and>
    mru t' = snd (a_Handle (cfg t) w ev (mru t))"
  by (rule Handle_sim [OF assms])

lemma a_Handle_unfold:
  assumes "cfg t = c" and "xs = mru t" and "n = cap t"
    and "a_type n w (set_process ev (\<lambda>p. p\<lparr>p_GUID := ev_guid t ev\<rparr>)) (ev_guid t ev) (ev_parent t ev) xs = (e, ys)"
    and "ev1 = fill_process e (set_process ev (\<lambda>p. p\<lparr>p_GUID := ev_guid t ev\<rparr>))"
    and "a_choose ev1 (ev_parent t ev) e ys = ((a, b, d), zs)"
    and "a_parent n w a b d zs = (q, us)"
  shows "a_Handle c w ev xs =
    (fill_parent q (set_parent ev1 (\<lambda>p. p\<lparr>pp_GUID := a, pp_PID := b, pp_StartTimeNs := d\<rparr>)), us)"
  unfolding a_Handle_def Let_def
  using assms(4-7) unfolding assms(1-3,5) ev_guid_def ev_parent_def t_GUID_def cap_def by simp

lemma a_find_Cons: "a_find g (e # xs) = (if e_GUID e = g then Some e else a_find g xs)"
  by (simp add: a_find_def)

lemma a_find_del: "g \<noteq> h \<Longrightarrow> a_find g (a_del h xs) = a_find g xs"
  by (induction xs) (auto simp: a_find_def a_del_def)

lemma a_find_touch: "a_find g (a_touch h xs) = a_find g xs"
proof (cases "a_find h xs")
  case (Some e)
  then show ?thesis using a_find_Some [OF Some]
    by (cases "g = h") (simp_all add: a_touch_def a_find_Cons a_find_del)
qed (simp add: a_touch_def)

text \<open>The switch on a known process: its entry is first, with the same lineage.\<close>

lemma a_type_found:
  assumes "a_find g xs = Some c"
  obtains c' where "a_type n w ev g h xs = (Some c', c' # a_del g xs)" and "e_GUID c' = g"
    and "e_ParentGUID c' = e_ParentGUID c"
    and "ev_Type ev \<noteq> TypeExec \<Longrightarrow> e_Image c' = e_Image c \<and> e_Argv c' = e_Argv c"
    and "e_ExitedAt c' = (if ev_Type ev = TypeExit then e_ExitedAt (mark_exit w c) else e_ExitedAt c)"
proof (cases "ev_Type ev")
  case TypeFork
  then show ?thesis using assms a_find_Some [OF assms] that [of c] by (simp add: a_type_def a_touch_def)
next
  case TypeExec
  then show ?thesis using assms a_find_Some [OF assms] that [of "exec_image ev c"]
    by (simp add: a_type_def exec_image_def)
next
  case TypeExit
  then show ?thesis using assms a_find_Some [OF assms] that [of "mark_exit w c"]
    by (simp add: a_type_def mark_exit_def)
qed

lemma fill_process_simps [simp]:
  "ev_Parent (fill_process e ev) = ev_Parent ev" "ev_Type (fill_process e ev) = ev_Type ev"
  "ev_Parent (set_process ev f) = ev_Parent ev" "ev_Type (set_process ev f) = ev_Type ev"
  "ev_Process (set_parent ev g) = ev_Process ev" "ev_Process (fill_parent e ev) = ev_Process ev"
  "ev_Parent (set_parent ev g) = g (ev_Parent ev)" "ev_Process (set_process ev f) = f (ev_Process ev)"
  by (simp_all add: fill_process_def set_process_def set_parent_def fill_parent_def split: option.split)



text \<open>
  The steps of the abstract \<open>Handle\<close> by name, for the properties that need only some of them.
\<close>

lemma Handle_steps:
  assumes "synced t" and "sane_event w t ev"
  obtains e ys a b d zs q t' ev1 where
    "a_type (cap t) w (set_process ev (\<lambda>p. p\<lparr>p_GUID := ev_guid t ev\<rparr>)) (ev_guid t ev) (ev_parent t ev) (mru t) = (e, ys)"
    and "ev1 = fill_process e (set_process ev (\<lambda>p. p\<lparr>p_GUID := ev_guid t ev\<rparr>))"
    and "a_choose ev1 (ev_parent t ev) e ys = ((a, b, d), zs)"
    and "a_parent (cap t) w a b d zs = (q, mru t')"
    and "Handle w ev t = Some (fill_parent q (set_parent ev1 (\<lambda>p. p\<lparr>pp_GUID := a, pp_PID := b, pp_StartTimeNs := d\<rparr>)), t')"
    and "synced t'"
proof -
  let ?ev = "set_process ev (\<lambda>p. p\<lparr>p_GUID := ev_guid t ev\<rparr>)"
  obtain e ys where ty: "a_type (cap t) w ?ev (ev_guid t ev) (ev_parent t ev) (mru t) = (e, ys)" by fastforce
  obtain a b d zs where ch: "a_choose (fill_process e ?ev) (ev_parent t ev) e ys = ((a, b, d), zs)"
    by (metis prod.exhaust)
  obtain q us where pa: "a_parent (cap t) w a b d zs = (q, us)" by fastforce
  note ah = a_Handle_unfold [OF refl refl refl ty refl ch pa]
  from Handle_eq [OF assms] ah pa show ?thesis using that [OF ty refl ch] by auto
qed

text \<open>
  What a fork event says of the child. Its image and arguments are those of its own entry if
  the process is known, otherwise those of its parent: from the parent's entry, or else from
  \<open>/proc\<close> if the start time there matches, and empty if nothing is known.
\<close>

lemma Handle_fork_image:
  assumes "synced t" and "sane_event w t ev" and "ev_Type ev = TypeFork"
    and "src = (case Lookup (ev_guid t ev) t of Some e \<Rightarrow> Some e
      | None \<Rightarrow> (case Lookup (ev_parent t ev) t of Some p \<Rightarrow> Some p
                 | None \<Rightarrow> proc_lookup w (ev_parent t ev) (pp_PID (ev_Parent ev)) (pp_StartTimeNs (ev_Parent ev))))"
  shows "\<exists>ev' t'. Handle w ev t = Some (ev', t') \<and> p_GUID (ev_Process ev') = ev_guid t ev \<and>
    p_Image (ev_Process ev') = (case src of Some e \<Rightarrow> e_Image e | None \<Rightarrow> []) \<and>
    p_Argv (ev_Process ev') = (case src of Some e \<Rightarrow> e_Argv e | None \<Rightarrow> [])"
proof -
  let ?ev = "set_process ev (\<lambda>p. p\<lparr>p_GUID := ev_guid t ev\<rparr>)"
  have ty: "ev_Type ?ev = TypeFork" by (simp add: assms(3))
  have "\<exists>e. fst (a_type (cap t) w ?ev (ev_guid t ev) (ev_parent t ev) (mru t)) = Some e \<and>
      e_Image e = (case src of Some e \<Rightarrow> e_Image e | None \<Rightarrow> []) \<and>
      e_Argv e = (case src of Some e \<Rightarrow> e_Argv e | None \<Rightarrow> [])"
    unfolding assms(4) Lookup_mru [OF assms(1)]
    by (simp add: a_type_def assms(3) a_parent_def inherit_image_def newEntry_def Let_def split: option.split)
  moreover obtain e ys a b d zs q t' ev1 where
    "a_type (cap t) w ?ev (ev_guid t ev) (ev_parent t ev) (mru t) = (e, ys)" "ev1 = fill_process e ?ev"
    "Handle w ev t = Some (fill_parent q (set_parent ev1 (\<lambda>p. p\<lparr>pp_GUID := a, pp_PID := b, pp_StartTimeNs := d\<rparr>)), t')"
    by (rule Handle_steps [OF assms(1,2)]) blast
  ultimately show ?thesis by (auto simp: fill_process_def assms(3) set_process_def)
qed

lemma proc_lookup_guid: "proc_lookup w g pid n = Some e \<Longrightarrow> e_GUID e = g"
  by (auto simp: proc_lookup_def procEntry_def split: option.splits sum.splits if_splits)



lemma a_find_take: "a_find g (take n xs) = Some e \<Longrightarrow> a_find g xs = Some e"
  by (induction xs arbitrary: n) (auto simp: a_find_def take_Cons split: nat.splits if_splits)

lemma a_find_parent_same:
  assumes "a_find g xs = Some c" and "a_parent n w a b d xs = (q, ys)" and "a_find g ys = Some e"
  shows "e = c"
proof (cases "a_find a xs")
  case (Some p)
  then show ?thesis using assms by (auto simp: a_parent_def a_find_touch)
next
  case None
  then have "a \<noteq> g" using assms(1) by auto
  then show ?thesis using assms None proc_lookup_guid [of w a b d]
    by (auto simp: a_parent_def a_add_def split: option.splits dest!: a_find_take simp: a_find_Cons)
qed

lemma a_choose_find: "a_choose ev h e xs = (r, ys) \<Longrightarrow> a_find g ys = a_find g xs"
  by (auto simp: a_choose_def Let_def a_find_touch split: option.splits if_splits)

text \<open>
  The exit time is recorded once. After an exit event of a known process its entry, if still
  held, carries the time of the first exit event: a repeated exit event does not move it.
\<close>

lemma exit_time_once:
  assumes "synced t" and "sane_event w t ev" and "ev_Type ev = TypeExit"
    and "Lookup (ev_guid t ev) t = Some c"
  shows "\<exists>ev' t'. Handle w ev t = Some (ev', t') \<and>
    (\<forall>e. Lookup (ev_guid t ev) t' = Some e \<longrightarrow>
       e_ExitedAt e = (if e_ExitedAt c = 0 then Now w else e_ExitedAt c))"
proof -
  let ?g = "ev_guid t ev"
  let ?ev = "set_process ev (\<lambda>p. p\<lparr>p_GUID := ?g\<rparr>)"
  have f: "a_find ?g (mru t) = Some c" using assms(4) by (simp add: Lookup_mru [OF assms(1)])
  obtain e ys a b d zs q t' ev1 where s:
    "a_type (cap t) w ?ev ?g (ev_parent t ev) (mru t) = (e, ys)"
    "a_choose ev1 (ev_parent t ev) e ys = ((a, b, d), zs)" "a_parent (cap t) w a b d zs = (q, mru t')" "synced t'"
    "Handle w ev t = Some (fill_parent q (set_parent ev1 (\<lambda>p. p\<lparr>pp_GUID := a, pp_PID := b, pp_StartTimeNs := d\<rparr>)), t')"
    by (rule Handle_steps [OF assms(1,2)]) blast
  have "ys = mark_exit w c # a_del ?g (mru t)" "e_GUID (mark_exit w c) = ?g"
    using s(1) f assms(3) a_find_Some [OF f] by (simp_all add: a_type_def mark_exit_def)
  then have "a_find ?g zs = Some (mark_exit w c)" using a_choose_find [OF s(2), of ?g] by (simp add: a_find_Cons)
  from a_find_parent_same [OF this s(3)]
  have "e = mark_exit w c" if "Lookup ?g t' = Some e" for e using that by (simp add: Lookup_mru [OF s(4)])
  then show ?thesis using s(5) by (auto simp: mark_exit_def)
qed

section \<open>Seed\<close>

text \<open>The loop of \<open>Seed\<close> on most-recently-used lists.\<close>

definition a_seed :: "nat \<Rightarrow> Env \<Rightarrow> (ProcInfo \<Rightarrow> Entry) \<Rightarrow> ProcInfo \<Rightarrow> Entry list \<Rightarrow> Entry list" where
  "a_seed n w ent p xs =
     (if inScope w (pi_CgroupID p) \<and> a_find (e_GUID (ent p)) xs = None then a_add n (ent p) xs else xs)"

lemma seedEntry_cfg: "cfg u = cfg t \<Longrightarrow> seedEntry u = seedEntry t"
  by (intro ext) (simp add: seedEntry_def t_GUID_def split: option.split)

lemma Seed_sim:
  assumes "synced t"
  shows "\<exists>m t'. Seed_loop w st ps n t = Some (m, t') \<and> synced t' \<and> cfg t' = cfg t \<and>
    mru t' = fold (a_seed (cap t) w (seedEntry t st)) ps (mru t)"
  using assms
proof (induction ps arbitrary: n t)
  case (Cons p ps)
  let ?e = "seedEntry t st p"
  obtain q u where a: "alloc ?e t = (q, u)" by (meson surj_pair)
  note u = alloc_sim [OF Cons.prems a]
  have find: "map_of (entries u) (e_GUID (deref u q)) = None \<longleftrightarrow> a_find (e_GUID ?e) (mru t) = None"
    by (simp add: u(4,8) a_find_mru [OF Cons.prems])
  consider "\<not> inScope w (pi_CgroupID p)"
    | "inScope w (pi_CgroupID p)" "a_find (e_GUID ?e) (mru t) \<noteq> None"
    | "inScope w (pi_CgroupID p)" "a_find (e_GUID ?e) (mru t) = None" by blast
  then show ?case
  proof cases
    case 1
    then show ?thesis using Cons.IH [OF Cons.prems, of n] by (simp add: a_seed_def)
  next
    case 2
    then have "Seed_loop w st (p # ps) n t = Seed_loop w st ps n u" using find by (auto simp: a)
    moreover have "fold (a_seed (cap t) w (seedEntry t st)) (p # ps) (mru t) = fold (a_seed (cap t) w (seedEntry t st)) ps (mru t)"
      using 2 by (auto simp: a_seed_def)
    ultimately show ?thesis
      using Cons.IH [OF u(1), of n] by (simp only: u(2,5) cap_def seedEntry_cfg [OF u(5)])
  next
    case 3
    obtain v where v: "t_insert q u = Some v" "synced v" "mru v = a_add (cap u) ?e (mru u)" "cfg v = cfg u"
      using insert_sim [OF u(1,6,7)] 3(2) u(2,4) by auto
    have "Seed_loop w st (p # ps) n t = Seed_loop w st ps (n + 1) v" using 3 find v(1) by (simp add: a)
    moreover have cv: "cfg v = cfg t" using v(4) u(5) by simp
    moreover have "fold (a_seed (cap t) w (seedEntry t st)) (p # ps) (mru t) = fold (a_seed (cap t) w (seedEntry t st)) ps (mru v)"
      using 3 v(3) u(2,5) by (simp add: a_seed_def cap_def)
    ultimately show ?thesis
      using Cons.IH [OF v(2), of "n + 1"] by (simp only: cap_def seedEntry_cfg [OF cv])
  qed
qed simp

lemma fold_seed_subset:
  "set (fold (a_seed n w ent) ps xs) \<subseteq> set xs \<union> ent ` {p \<in> set ps. inScope w (pi_CgroupID p)}"
proof (induction ps arbitrary: xs)
  case (Cons p ps)
  have "set (a_seed n w ent p xs) \<subseteq> set xs \<union> (if inScope w (pi_CgroupID p) then {ent p} else {})"
    using set_take_subset [of n "ent p # xs"] by (auto simp: a_seed_def a_add_def)
  then show ?case using Cons.IH [of "a_seed n w ent p xs"] by (auto split: if_splits)
qed simp

lemma fold_seed_covers:
  assumes "length xs + length ps \<le> n"
  shows "set xs \<subseteq> set (fold (a_seed n w ent) ps xs) \<and>
    (\<forall>p \<in> set ps. inScope w (pi_CgroupID p) \<longrightarrow> a_find (e_GUID (ent p)) (fold (a_seed n w ent) ps xs) \<noteq> None)"
  using assms
proof (induction ps arbitrary: xs)
  case (Cons p ps)
  let ?ys = "a_seed n w ent p xs"
  have y: "set xs \<subseteq> set ?ys" "length ?ys \<le> Suc (length xs)"
    "inScope w (pi_CgroupID p) \<Longrightarrow> e_GUID (ent p) \<in> e_GUID ` set ?ys"
    using Cons.prems by (auto simp: a_seed_def a_add_def a_find_None)
  then have "length ?ys + length ps \<le> n" using Cons.prems by simp
  note IH = Cons.IH [OF this]
  have "inScope w (pi_CgroupID p) \<Longrightarrow> a_find (e_GUID (ent p)) (fold (a_seed n w ent) ps ?ys) \<noteq> None"
    using y(3) IH unfolding a_find_None by blast
  then show ?case using IH y(1) by auto
qed simp



end
