(* ===== verification/Decode.thy ===== *)
theory Decode
  imports GoEvent BpfRecords
begin

text \<open>
  Package \<open>internal/loader\<close>, \<open>decode.go\<close>, with the structures that bpf2go generates from the
  C declarations (\<open>process_x86_bpfel.go\<close>; the arm64 file declares the same ones).
  \<open>binary.Read\<close> fills a structure of fixed size field by field, in declaration order and
  without padding: the model splits the input into the declared field widths. The decoded
  values have the record types of the C structures, which bpf2go's structures mirror.
\<close>

section \<open>The generated structures\<close>

text \<open>Field widths in bytes, in declaration order (the zero-size \<open>HostLayout\<close> marker left out).\<close>

definition processEvent :: "nat list" where
  "processEvent = [4, 4, 4, 4, 4, 4, 8, 8, 8, 8]"

definition processExecEvent :: "nat list" where
  "processExecEvent = processEvent @ [16, 512, 4, 1, 1, 1, 1, 4096]"

definition processForkEvent :: "nat list" where
  "processForkEvent = processEvent @ [16]"

definition processExitEvent :: "nat list" where
  "processExitEvent = processEvent @ [16, 4, 4]"

definition processEventTypeEVENT_EXEC :: u32 where "processEventTypeEVENT_EXEC = 1"
definition processEventTypeEVENT_FORK :: u32 where "processEventTypeEVENT_FORK = 2"
definition processEventTypeEVENT_EXIT :: u32 where "processEventTypeEVENT_EXIT = 3"

section \<open>encoding/binary\<close>

definition binary_Size :: "nat list \<Rightarrow> nat" where
  "binary_Size ws = sum_list ws"

fun binary_Read :: "nat list \<Rightarrow> bytes \<Rightarrow> bytes list" where
  "binary_Read [] b = []"
| "binary_Read (w # ws) b = take w b # binary_Read ws (drop w b)"

datatype decode_error =
    RecordTooShort nat
  | SizeMismatch string nat nat
  | UnknownEventType u32

text \<open>The function \<open>read\<close>: an exact size match, then the field values.\<close>

definition read_struct :: "string \<Rightarrow> nat list \<Rightarrow> bytes \<Rightarrow> decode_error + bytes list" where
  "read_struct what ws raw =
     (if length raw \<noteq> binary_Size ws then Inl (SizeMismatch what (length raw) (binary_Size ws))
      else Inr (binary_Read ws raw))"

definition to_processEvent :: "bytes list \<Rightarrow> event" where
  "to_processEvent f = \<lparr>h_type = get32 (f ! 0), h_pid = get32 (f ! 1), h_tgid = get32 (f ! 2),
     h_ppid = get32 (f ! 3), h_uid = get32 (f ! 4), h_gid = get32 (f ! 5),
     h_timestamp = get64 (f ! 6), h_cgroup_id = get64 (f ! 7),
     h_start_time = get64 (f ! 8), h_parent_start_time = get64 (f ! 9)\<rparr>"

definition to_processExecEvent :: "bytes list \<Rightarrow> exec_event" where
  "to_processExecEvent f = \<lparr>x_hdr = to_processEvent f, x_comm = f ! 10, x_filename = f ! 11,
     x_argv_len = get32 (f ! 12), x_argv_truncated = hd (f ! 13), x_argv_read_failed = hd (f ! 14),
     x_filename_truncated = hd (f ! 15), x_pad = hd (f ! 16), x_argv = f ! 17\<rparr>"

definition to_processForkEvent :: "bytes list \<Rightarrow> fork_event" where
  "to_processForkEvent f = \<lparr>f_hdr = to_processEvent f, f_comm = f ! 10\<rparr>"

definition to_processExitEvent :: "bytes list \<Rightarrow> exit_event" where
  "to_processExitEvent f = \<lparr>q_hdr = to_processEvent f, q_comm = f ! 10,
     q_exit_code = get32 (f ! 11), q_pad = get32 (f ! 12)\<rparr>"

section \<open>decode\<close>

text \<open>
  \<open>time.Duration(h.Timestamp)\<close> reinterprets the unsigned timestamp as a signed 64-bit number
  of nanoseconds.
\<close>

definition fromHeader :: "Type \<Rightarrow> event \<Rightarrow> bytes \<Rightarrow> time \<Rightarrow> Event" where
  "fromHeader t h comm boot =
     \<lparr>ev_Type = t,
      ev_Time = boot + sint (h_timestamp h),
      ev_TimestampNs = h_timestamp h,
      ev_Process = \<lparr>p_GUID = [], p_PID = h_tgid h, p_TID = h_pid h, p_UID = h_uid h, p_GID = h_gid h,
        p_CgroupID = h_cgroup_id h, p_StartTimeNs = h_start_time h, p_Comm = CString comm,
        p_Image = [], p_Argv = [], p_FilenameTruncated = False, p_ArgvTruncated = False,
        p_ArgvReadFailed = False\<rparr>,
      ev_Parent = \<lparr>pp_GUID = [], pp_PID = h_ppid h, pp_StartTimeNs = h_parent_start_time h,
        pp_Image = [], pp_Argv = [], pp_Known = False, pp_External = False\<rparr>,
      ev_Container = None,
      ev_Exit = None\<rparr>"

definition decode_exec :: "exec_event \<Rightarrow> time \<Rightarrow> Event" where
  "decode_exec r boot =
     (let ev = fromHeader TypeExec (x_hdr r) (x_comm r) boot;
          argvLen = min (unat (x_argv_len r)) (length (x_argv r))
      in ev\<lparr>ev_Process := (ev_Process ev)\<lparr>p_Image := CString (x_filename r),
           p_Argv := SplitArgv (take argvLen (x_argv r)),
           p_FilenameTruncated := x_filename_truncated r \<noteq> 0,
           p_ArgvTruncated := x_argv_truncated r \<noteq> 0,
           p_ArgvReadFailed := x_argv_read_failed r \<noteq> 0\<rparr>\<rparr>)"

definition decode_exit :: "exit_event \<Rightarrow> time \<Rightarrow> Event" where
  "decode_exit r boot =
     (fromHeader TypeExit (q_hdr r) (q_comm r) boot)\<lparr>ev_Exit := Some (ExitFromRaw (q_exit_code r))\<rparr>"

definition decode :: "bytes \<Rightarrow> time \<Rightarrow> decode_error + Event" where
  "decode raw boot =
     (if length raw < 4 then Inl (RecordTooShort (length raw))
      else let t = get32 raw in
        if t = processEventTypeEVENT_EXEC then
          (case read_struct ''exec event'' processExecEvent raw of
             Inl err \<Rightarrow> Inl err
           | Inr f \<Rightarrow> Inr (decode_exec (to_processExecEvent f) boot))
        else if t = processEventTypeEVENT_FORK then
          (case read_struct ''fork event'' processForkEvent raw of
             Inl err \<Rightarrow> Inl err
           | Inr f \<Rightarrow> Inr (let r = to_processForkEvent f in fromHeader TypeFork (f_hdr r) (f_comm r) boot))
        else if t = processEventTypeEVENT_EXIT then
          (case read_struct ''exit event'' processExitEvent raw of
             Inl err \<Rightarrow> Inl err
           | Inr f \<Rightarrow> Inr (decode_exit (to_processExitEvent f) boot))
        else Inl (UnknownEventType t))"

section \<open>The Go structures agree with the C layout\<close>

lemmas go_structs = processEvent_def processExecEvent_def processForkEvent_def processExitEvent_def
lemmas go_types = processEventTypeEVENT_EXEC_def processEventTypeEVENT_FORK_def processEventTypeEVENT_EXIT_def

lemma binary_Size_structs:
  "binary_Size processEvent = 56" "binary_Size processExecEvent = 4688"
  "binary_Size processForkEvent = 72" "binary_Size processExitEvent = 80"
  by (simp_all add: binary_Size_def go_structs)

text \<open>
  \<open>binary.Size\<close> of each generated Go structure is \<open>sizeof\<close> of the C structure it decodes,
  although Go reads the fields without padding: the C declarations leave no holes.
\<close>

lemma go_sizes_match_c:
  "binary_Size processEvent = sizeof event_t \<and>
   binary_Size processExecEvent = sizeof exec_event_t \<and>
   binary_Size processForkEvent = sizeof fork_event_t \<and>
   binary_Size processExitEvent = sizeof exit_event_t"
  by (simp add: binary_Size_structs wire_simps)

lemma get32_take [simp]: "4 \<le> n \<Longrightarrow> get32 (take n b) = get32 b"
  by (simp add: get32_def min_def)

lemma get64_take [simp]: "8 \<le> n \<Longrightarrow> get64 (take n b) = get64 b"
  by (simp add: get64_def min_def)

lemma to_processEvent_load: "to_processEvent (binary_Read (processEvent @ ws) b) = load_event b"
  by (simp add: to_processEvent_def load_event_def processEvent_def)

lemma read_exec_load: "length b = 4688 \<Longrightarrow> to_processExecEvent (binary_Read processExecEvent b) = load_exec b"
  unfolding to_processExecEvent_def load_exec_def processExecEvent_def to_processEvent_load
  by (simp add: processEvent_def hd_drop_conv_nth)

lemma read_fork_load: "length b = 72 \<Longrightarrow> to_processForkEvent (binary_Read processForkEvent b) = load_fork b"
  unfolding to_processForkEvent_def load_fork_def processForkEvent_def to_processEvent_load
  by (simp add: processEvent_def)

lemma read_exit_load: "length b = 80 \<Longrightarrow> to_processExitEvent (binary_Read processExitEvent b) = load_exit b"
  unfolding to_processExitEvent_def load_exit_def processExitEvent_def to_processEvent_load
  by (simp add: processEvent_def)

lemma decode_raw:
  assumes "4 \<le> length raw"
  shows "get32 raw = EVENT_EXEC \<Longrightarrow> length raw = 4688 \<Longrightarrow>
           decode raw boot = Inr (decode_exec (load_exec raw) boot)"
    and "get32 raw = EVENT_FORK \<Longrightarrow> length raw = 72 \<Longrightarrow>
           decode raw boot = Inr (fromHeader TypeFork (f_hdr (load_fork raw)) (f_comm (load_fork raw)) boot)"
    and "get32 raw = EVENT_EXIT \<Longrightarrow> length raw = 80 \<Longrightarrow>
           decode raw boot = Inr (decode_exit (load_exit raw) boot)"
  using assms
  by (simp_all add: decode_def read_struct_def binary_Size_structs read_exec_load read_fork_load
      read_exit_load go_types wire_consts Let_def)

end
