(* ===== verification/Delivery.thy ===== *)
theory Delivery
  imports Decode BpfProps
begin

unbundle bit_operations_syntax

text \<open>
  From the BPF programs to decoded events: every record a handler submits decodes to the event
  it describes, whatever the reserved block held before, and the argument list of an exec
  arrives as the process has it in memory.
\<close>

section \<open>Decoding what the handlers write\<close>

fun hook_event :: "hook \<Rightarrow> bytes \<Rightarrow> time \<Rightarrow> Event" where
  "hook_event (OnExec k ctx) b boot =
     (let task = bpf_get_current_task_btf k in
      decode_exec (exec_record k ctx task (task_cgroup_id k task) (load_exec b)) boot)"
| "hook_event (OnFork k parent child) b boot =
     (let r = fork_record k child (task_cgroup_id k child) (load_fork b) in
      fromHeader TypeFork (f_hdr r) (f_comm r) boot)"
| "hook_event (OnExit k) b boot =
     (let task = bpf_get_current_task_btf k in
      decode_exit (exit_record k task (task_cgroup_id k task) (load_exit b)) boot)"

lemma get32_hook_record:
  assumes "helpers_ok (hook_kernel h)" and "length b = hook_size h"
  shows "get32 (hook_record h b) = hook_type h"
proof -
  from hook_record_shape(2) [OF assms] obtain r where "hook_record h b = image_event (hook_header h) @ r" by blast
  then show ?thesis by (simp add: get32_image_event hook_header_def fill_header_def Let_def)
qed

lemma decode_hook:
  assumes ok: "helpers_ok (hook_kernel h)" and b: "length b = hook_size h"
  shows "decode (hook_record h b) boot = Inr (hook_event h b boot)"
proof -
  note ty = get32_hook_record [OF ok b] and len = hook_record_shape(1) [OF ok b]
  show ?thesis
  proof (cases h)
    case (OnExec k ctx)
    then have "wf_exec_event (load_exec b)" using b by (simp add: wire_simps)
    then have "wf_exec_event (exec_record k ctx t c (load_exec b))" for t c
      using exec_record_fields(1) ok OnExec by simp
    then show ?thesis using decode_raw(1) [of "hook_record h b" boot] ty len OnExec
      by (simp add: wire_simps Let_def)
  next
    case (OnFork k parent child)
    then have "wf_fork_event (fork_record k child c (load_fork b))" for c
      using b ok by (simp add: wire_simps wf_fork_record)
    then show ?thesis using decode_raw(2) [of "hook_record h b" boot] ty len OnFork
      by (simp add: wire_simps Let_def)
  next
    case (OnExit k)
    then have "wf_exit_event (exit_record k t c (load_exit b))" for t c
      using b ok by (simp add: wire_simps wf_exit_record)
    then show ?thesis using decode_raw(3) [of "hook_record h b" boot] ty len OnExit
      by (simp add: wire_simps Let_def)
  qed
qed

fun hook_Type :: "hook \<Rightarrow> Type" where
  "hook_Type (OnExec k ctx) = TypeExec"
| "hook_Type (OnFork k parent child) = TypeFork"
| "hook_Type (OnExit k) = TypeExit"

text \<open>The header fields of an event.\<close>

definition describes :: "Event \<Rightarrow> event \<Rightarrow> time \<Rightarrow> bool" where
  "describes ev h boot \<longleftrightarrow>
     ev_TimestampNs ev = h_timestamp h \<and> ev_Time ev = boot + sint (h_timestamp h) \<and>
     p_PID (ev_Process ev) = h_tgid h \<and> p_TID (ev_Process ev) = h_pid h \<and>
     p_UID (ev_Process ev) = h_uid h \<and> p_GID (ev_Process ev) = h_gid h \<and>
     p_CgroupID (ev_Process ev) = h_cgroup_id h \<and> p_StartTimeNs (ev_Process ev) = h_start_time h \<and>
     pp_PID (ev_Parent ev) = h_ppid h \<and> pp_StartTimeNs (ev_Parent ev) = h_parent_start_time h \<and>
     ev_Container ev = None \<and> p_GUID (ev_Process ev) = [] \<and> pp_GUID (ev_Parent ev) = []"

lemma hook_event_header:
  assumes "helpers_ok (hook_kernel h)" and "length b = hook_size h"
  shows "ev_Type (hook_event h b boot) = hook_Type h \<and> describes (hook_event h b boot) (hook_header h) boot"
proof (cases h)
  case (OnExec k ctx)
  have "wf_exec_event (load_exec b)" using OnExec assms by (simp add: wire_simps)
  then show ?thesis using exec_record_fields(2) OnExec assms
    by (simp add: describes_def hook_header_def decode_exec_def fromHeader_def Let_def)
qed (simp_all add: describes_def hook_header_def decode_exit_def fromHeader_def Let_def
    fork_record_def exit_record_def)

text \<open>
  Every record a handler submits is decoded without error, to an event of the handler's
  type whose header fields are those \<open>fill_header\<close> read from the task: process, thread, user and
  cgroup ids, start time, parent and timestamp.
\<close>

lemma decode_hook_record:
  assumes "helpers_ok (hook_kernel h)"
    and "bpf_ringbuf_reserve (hook_kernel h) (hook_size h) = Some b"
  shows "\<exists>ev. decode (hook_record h b) boot = Inr ev \<and> ev_Type ev = hook_Type h \<and>
    describes ev (fill_header (hook_kernel h) (hook_type h) (hook_task h)
      (task_cgroup_id (hook_kernel h) (hook_task h))) boot"
  using decode_hook hook_event_header helpers_okD(6) [OF assms] assms(1)
  unfolding hook_header_def by blast

section \<open>Stale ring buffer contents\<close>

text \<open>
  Documented behaviour of the helpers that fill a buffer: what they report and the bytes they
  vouch for (the string up to its NUL, the bytes read) do not depend on the old contents.
\<close>

definition helpers_overwrite :: "kernel \<Rightarrow> bool" where
  "helpers_overwrite k \<longleftrightarrow>
     (\<forall>d d'. length d = length d' \<longrightarrow>
        CString (snd (bpf_get_current_comm k d)) = CString (snd (bpf_get_current_comm k d'))) \<and>
     (\<forall>a p d d'. length d = length d' \<longrightarrow>
        CString (snd (BPF_CORE_READ_STR_INTO k a p d)) = CString (snd (BPF_CORE_READ_STR_INTO k a p d'))) \<and>
     (\<forall>a n d d'. length d = length d' \<longrightarrow> n \<le> length d \<longrightarrow>
        fst (bpf_probe_read_user k a n d) = fst (bpf_probe_read_user k a n d') \<and>
        (0 \<le> fst (bpf_probe_read_user k a n d) \<longrightarrow>
           take n (snd (bpf_probe_read_user k a n d)) = take n (snd (bpf_probe_read_user k a n d')))) \<and>
     (\<forall>a d d'. length d = length d' \<longrightarrow>
        fst (bpf_probe_read_kernel_str k a (length d) d) = fst (bpf_probe_read_kernel_str k a (length d) d') \<and>
        (0 \<le> fst (bpf_probe_read_kernel_str k a (length d) d) \<longrightarrow>
           CString (snd (bpf_probe_read_kernel_str k a (length d) d)) =
           CString (snd (bpf_probe_read_kernel_str k a (length d) d'))))"

lemma helpers_overwriteD:
  assumes "helpers_overwrite k"
  shows "length d = length d' \<Longrightarrow>
      CString (snd (bpf_get_current_comm k d)) = CString (snd (bpf_get_current_comm k d'))"
    and "length d = length d' \<Longrightarrow>
      CString (snd (BPF_CORE_READ_STR_INTO k a p d)) = CString (snd (BPF_CORE_READ_STR_INTO k a p d'))"
    and "length d = length d' \<Longrightarrow> n \<le> length d \<Longrightarrow>
      fst (bpf_probe_read_user k a n d) = fst (bpf_probe_read_user k a n d') \<and>
      (0 \<le> fst (bpf_probe_read_user k a n d) \<longrightarrow>
         take n (snd (bpf_probe_read_user k a n d)) = take n (snd (bpf_probe_read_user k a n d')))"
    and "length d = n \<Longrightarrow> length d' = n \<Longrightarrow>
      fst (bpf_probe_read_kernel_str k a n d) = fst (bpf_probe_read_kernel_str k a n d') \<and>
      (0 \<le> fst (bpf_probe_read_kernel_str k a n d) \<longrightarrow>
         CString (snd (bpf_probe_read_kernel_str k a n d)) = CString (snd (bpf_probe_read_kernel_str k a n d')))"
  using assms unfolding helpers_overwrite_def by metis+

lemma CString_cut: "CString (b[0 := 0]) = []"
  by (cases b) (simp_all add: CString_def string_of_def)

text \<open>What the decoder looks at in an exec record.\<close>

definition exec_view :: "exec_event \<Rightarrow> event \<times> string \<times> string \<times> u8 \<times> u8 \<times> u8 \<times> bytes" where
  "exec_view r = (x_hdr r, CString (x_comm r), CString (x_filename r), x_argv_truncated r,
     x_argv_read_failed r, x_filename_truncated r, take (unat (x_argv_len r)) (x_argv r))"

lemma decode_exec_view:
  assumes "exec_view r = exec_view r'"
  shows "decode_exec r boot = decode_exec r' boot"
proof -
  have "take (min n (length xs)) xs = take n xs" for n and xs :: bytes by (simp add: min_def)
  then show ?thesis
    using assms by (simp add: exec_view_def decode_exec_def fromHeader_def Let_def)
qed

lemma exec_view_argv:
  assumes "helpers_overwrite k" and "length (x_argv e) = MAX_ARGV_LEN" and "length (x_argv e') = MAX_ARGV_LEN"
    and "x_hdr e = x_hdr e'" and "CString (x_comm e) = CString (x_comm e')"
    and "CString (x_filename e) = CString (x_filename e')" and "x_filename_truncated e = x_filename_truncated e'"
  shows "exec_view (exec_argv k task e) = exec_view (exec_argv k task e')"
proof -
  let ?a = "BPF_CORE_READ k task [[''mm''], [''arg_start'']]" and ?n = "argv_wanted k task"
  have n: "?n \<le> MAX_ARGV_LEN" by (rule argv_wanted_le)
  have u: "unat (of_nat ?n :: u32) = ?n" using n by (simp add: unat_of_nat wire_consts)
  have "fst (bpf_probe_read_user k ?a ?n (x_argv e)) = fst (bpf_probe_read_user k ?a ?n (x_argv e')) \<and>
      (0 \<le> fst (bpf_probe_read_user k ?a ?n (x_argv e)) \<longrightarrow>
       take ?n (snd (bpf_probe_read_user k ?a ?n (x_argv e))) = take ?n (snd (bpf_probe_read_user k ?a ?n (x_argv e'))))"
    using assms(2,3) n by (intro helpers_overwriteD(3) [OF assms(1)]) simp_all
  then show ?thesis
    using assms(4-) unfolding exec_argv_eq exec_view_def Let_def by (simp add: split_beta u)
qed

lemma exec_filename_stale:
  assumes "helpers_overwrite k" and "length (x_filename e) = MAX_FILENAME_LEN"
    and "length (x_filename e') = MAX_FILENAME_LEN"
  shows "CString (x_filename (exec_filename k ctx e)) = CString (x_filename (exec_filename k ctx e'))"
proof -
  let ?r = "\<lambda>e. bpf_probe_read_kernel_str k (ctx_addr ctx + ucast (data_loc_filename ctx AND 0xFFFF))
    MAX_FILENAME_LEN (x_filename e)"
  have "fst (?r e) = fst (?r e') \<and> (0 \<le> fst (?r e) \<longrightarrow> CString (snd (?r e)) = CString (snd (?r e')))"
    by (rule helpers_overwriteD(4) [OF assms])
  then show ?thesis unfolding exec_filename_def Let_def by (simp add: split_beta CString_cut)
qed

lemma exec_filename_frame [simp]:
  "x_hdr (exec_filename k ctx e) = x_hdr e" "x_comm (exec_filename k ctx e) = x_comm e"
  "x_argv (exec_filename k ctx e) = x_argv e"
  "x_filename_truncated (exec_filename k ctx e) =
     (if drop_bit 16 (data_loc_filename ctx) > of_nat MAX_FILENAME_LEN then 1 else 0)"
  by (simp_all add: exec_filename_def Let_def split_beta)

lemma exec_record_stale:
  assumes "helpers_overwrite k" and "wf_exec_event e" and "wf_exec_event e'"
  shows "exec_view (exec_record k ctx task cgid e) = exec_view (exec_record k ctx task cgid e')"
proof -
  have len: "length (x_comm e) = length (x_comm e')" "length (x_filename e) = MAX_FILENAME_LEN"
    "length (x_filename e') = MAX_FILENAME_LEN" "length (x_argv e) = MAX_ARGV_LEN" "length (x_argv e') = MAX_ARGV_LEN"
    using assms(2,3) by (simp_all add: wf_exec_event_def)
  show ?thesis
    unfolding exec_record_def Let_def
    by (rule exec_view_argv [OF assms(1)])
      (rule exec_filename_stale [OF assms(1)] | simp add: len helpers_overwriteD(1) [OF assms(1) len(1)])+
qed



lemma demo_helpers_overwrite: "helpers_overwrite (demo_kernel pid cg live args block)"
proof -
  have fst: "take n (fill src n d) = take n (src @ replicate n 0)" for n src d
    by (simp add: fill_def)
  moreover have "fill src n d = take n (src @ replicate n 0)" if "length d = n" for src n d
    using that by (simp add: fill_def)
  ultimately show ?thesis
    unfolding helpers_overwrite_def demo_kernel_def by simp
qed


section \<open>The argument list, end to end\<close>

text \<open>
  The argument area \<open>area\<close> lies at \<open>mm->arg_start\<close> of the task and can be read: reading \<open>n\<close>
  bytes there succeeds and yields its first \<open>n\<close> bytes.
\<close>

definition area_readable :: "kernel \<Rightarrow> u64 \<Rightarrow> bytes \<Rightarrow> bool" where
  "area_readable k task area \<longleftrightarrow>
     unat (argv_length k task) = length area \<and>
     (\<forall>n d. n \<le> length area \<longrightarrow> n \<le> length d \<longrightarrow>
        (let (r, d') = bpf_probe_read_user k (BPF_CORE_READ k task [[''mm''], [''arg_start'']]) n d
         in 0 \<le> r \<and> take n d' = take n area))"

lemma exec_record_area:
  assumes "wf_exec_event e" and "area_readable k task area"
  shows "take (unat (x_argv_len (exec_record k ctx task cgid e))) (x_argv (exec_record k ctx task cgid e)) =
      take MAX_ARGV_LEN area"
    and "x_argv_truncated (exec_record k ctx task cgid e) = (if MAX_ARGV_LEN < length area then 1 else 0)"
    and "x_argv_read_failed (exec_record k ctx task cgid e) = 0"
proof -
  let ?n = "min (length area) MAX_ARGV_LEN"
  have w: "argv_wanted k task = ?n" using assms(2) by (simp add: argv_wanted_def area_readable_def)
  have u: "unat (of_nat ?n :: u32) = ?n" by (simp add: unat_of_nat wire_consts)
  have "take ?n area = take MAX_ARGV_LEN area" by (simp add: min_def)
  moreover have "?n \<le> length (x_argv e)" using assms(1) by (simp add: wf_exec_event_def)
  ultimately show
    "take (unat (x_argv_len (exec_record k ctx task cgid e))) (x_argv (exec_record k ctx task cgid e)) =
      take MAX_ARGV_LEN area"
    "x_argv_truncated (exec_record k ctx task cgid e) = (if MAX_ARGV_LEN < length area then 1 else 0)"
    "x_argv_read_failed (exec_record k ctx task cgid e) = 0"
    using assms(2) unfolding exec_record_def exec_argv_eq Let_def w area_readable_def
    by (auto simp: split_beta u dest!: spec [of _ ?n] spec [of _ "x_argv e"])
qed


lemma demo_area_readable:
  assumes "length args < 2 ^ 32"
  shows "area_readable (demo_kernel pid cg live args block) task args"
proof -
  have "(4096 :: u64) < 4096 + of_nat (length args) \<longleftrightarrow> length args \<noteq> 0"
    using assms by (simp add: word_less_nat_alt unat_word_ariths unat_of_nat)
  then show ?thesis
    using assms by (auto simp: area_readable_def argv_length_def demo_kernel_def demo_read_def fill_def
        unat_of_nat Let_def)
qed


section \<open>Decoding arbitrary bytes\<close>

text \<open>
  C11: the decoder accepts a record exactly when its type tag is known and its length is the
  size of the C structure of that type; every other input gives an error, never an event.
\<close>

theorem decode_accepts_iff:
  "(\<exists>ev. decode raw boot = Inr ev) \<longleftrightarrow>
     4 \<le> length raw \<and>
     (get32 raw = EVENT_EXEC \<and> length raw = sizeof exec_event_t \<or>
      get32 raw = EVENT_FORK \<and> length raw = sizeof fork_event_t \<or>
      get32 raw = EVENT_EXIT \<and> length raw = sizeof exit_event_t)"
  unfolding decode_def
  by (auto simp: read_struct_def binary_Size_structs go_types wire_consts wire_simps Let_def)

end
