(* ===== verification/CgroupMap.thy ===== *)
theory CgroupMap
  imports Prelude
begin

text \<open>
  The interface \<open>CgroupMap\<close> of \<open>internal/container/watcher.go\<close>: the kernel-side set of captured
  cgroups, as the watcher uses it and the loader provides it. An operation returns its error
  (\<open>None\<close> is nil) and the new state.
\<close>

locale cgroup_map =
  fixes add_op :: "u64 \<Rightarrow> 'k \<Rightarrow> 'e option \<times> 'k"
    and remove_op :: "u64 \<Rightarrow> 'k \<Rightarrow> 'e option \<times> 'k"
    and captured :: "'k \<Rightarrow> u64 set"
  assumes add_nil: "add_op i k = (None, k') \<Longrightarrow> captured k' = insert i (captured k)"
    and add_err: "add_op i k = (Some e, k') \<Longrightarrow> captured k' = captured k"
    and remove_nil: "remove_op i k = (None, k') \<Longrightarrow> captured k' = captured k - {i}"
    and remove_err: "remove_op i k = (Some e, k') \<Longrightarrow> captured k' = captured k"
begin

lemma add_mono: "captured k \<subseteq> captured (snd (add_op i k))"
  using add_nil [of i k] add_err [of i k] by (cases "add_op i k"; cases "fst (add_op i k)") auto

lemma remove_others: "captured k - {i} \<subseteq> captured (snd (remove_op i k))"
  using remove_nil [of i k] remove_err [of i k] by (cases "remove_op i k"; cases "fst (remove_op i k)") auto

lemma remove_subset: "captured (snd (remove_op i k)) \<subseteq> captured k"
  using remove_nil [of i k] remove_err [of i k] by (cases "remove_op i k"; cases "fst (remove_op i k)") auto

end

text \<open>A map whose removals always succeed, whether or not the cgroup was there.\<close>

locale reliable_cgroup_map = cgroup_map +
  assumes remove_never_fails: "fst (remove_op i k) = None"
begin

lemma remove_exact: "captured (snd (remove_op i k)) = captured k - {i}"
  using remove_nil [of i k "snd (remove_op i k)"] remove_never_fails [of i k] by (metis prod.collapse)

end

end
