(* ===== verification/Loader.thy ===== *)
theory Loader
  imports Delivery CgroupMap
begin

text \<open>
  The loader (\<open>internal/loader/loader.go\<close> and the generated Close functions): loading and
  attaching, the set of captured cgroups, the event loop, the counters and closing.

  The library cilium/ebpf, the kernel calls behind it and the clocks are parameters: the record
  \<open>LoadEnv\<close> has what each call of one \<open>Load\<close> answers, \<open>MapLib\<close> the two map operations, and the
  event loop reads a list of what \<open>Read\<close> returns. After a successful load the maps are empty,
  the counters zero and \<open>mode_host\<close> has the value set in the specification.
\<close>

section \<open>The target map\<close>

datatype map_error = ErrKeyNotExist | MapErrno nat

record MapLib =
  Put :: "u64 \<Rightarrow> u8 \<Rightarrow> (u64 \<rightharpoonup> u8) \<Rightarrow> map_error option \<times> (u64 \<rightharpoonup> u8)"
  Delete :: "u64 \<Rightarrow> (u64 \<rightharpoonup> u8) \<Rightarrow> map_error option \<times> (u64 \<rightharpoonup> u8)"

definition AddCgroup :: "MapLib \<Rightarrow> u64 \<Rightarrow> bpf_state \<Rightarrow> map_error option \<times> bpf_state" where
  "AddCgroup lib i s =
     (case Put lib i 1 (target_cgroups s) of (err, m) \<Rightarrow> (err, s\<lparr>target_cgroups := m\<rparr>))"

definition RemoveCgroup :: "MapLib \<Rightarrow> u64 \<Rightarrow> bpf_state \<Rightarrow> map_error option \<times> bpf_state" where
  "RemoveCgroup lib i s =
     (case Delete lib i (target_cgroups s) of (err, m) \<Rightarrow>
        (if err \<noteq> None \<and> err \<noteq> Some ErrKeyNotExist then err else None, s\<lparr>target_cgroups := m\<rparr>))"

definition targets :: "bpf_state \<Rightarrow> u64 set" where
  "targets s = dom (target_cgroups s)"

text \<open>
  What the library documents: \<open>Put\<close> and \<open>Delete\<close> either do what their names say or return an
  error and change nothing; \<open>Delete\<close> of a missing key is \<open>ErrKeyNotExist\<close>.
\<close>

locale hash_map =
  fixes lib :: MapLib
  assumes put_nil: "Put lib i v m = (None, m') \<Longrightarrow> m' = m(i \<mapsto> v)"
    and put_err: "Put lib i v m = (Some e, m') \<Longrightarrow> m' = m"
    and delete_nil: "Delete lib i m = (None, m') \<Longrightarrow> m' = m(i := None)"
    and delete_err: "Delete lib i m = (Some e, m') \<Longrightarrow> m' = m"
    and delete_missing: "Delete lib i m = (Some ErrKeyNotExist, m') \<Longrightarrow> m i = None"

sublocale hash_map \<subseteq> cgroup_map "AddCgroup lib" "RemoveCgroup lib" targets
proof
  fix i s s' and e :: map_error
  show "AddCgroup lib i s = (None, s') \<Longrightarrow> targets s' = insert i (targets s)"
    using put_nil [of i 1 "target_cgroups s"] by (auto simp: AddCgroup_def targets_def split: prod.splits)
  show "AddCgroup lib i s = (Some e, s') \<Longrightarrow> targets s' = targets s"
    using put_err [of i 1 "target_cgroups s"] by (auto simp: AddCgroup_def targets_def split: prod.splits)
  show "RemoveCgroup lib i s = (None, s') \<Longrightarrow> targets s' = targets s - {i}"
    using delete_nil [of i "target_cgroups s"] delete_err [of i "target_cgroups s"] delete_missing [of i "target_cgroups s"]
    by (cases "fst (Delete lib i (target_cgroups s))")
      (auto simp: RemoveCgroup_def targets_def split: prod.splits if_splits)
  show "RemoveCgroup lib i s = (Some e, s') \<Longrightarrow> targets s' = targets s"
    using delete_err [of i "target_cgroups s"] by (auto simp: RemoveCgroup_def targets_def split: prod.splits if_splits)
qed

text \<open>Deleting fails only for a missing key.\<close>

locale sound_hash_map = hash_map +
  assumes delete_fails: "Delete lib i m = (Some e, m') \<Longrightarrow> e = ErrKeyNotExist"

sublocale sound_hash_map \<subseteq> reliable_cgroup_map "AddCgroup lib" "RemoveCgroup lib" targets
proof
  fix i s
  show "fst (RemoveCgroup lib i s) = None"
    using delete_fails [of i "target_cgroups s"] by (auto simp: RemoveCgroup_def split: prod.splits)
qed

text \<open>
  A BPF hash map of the declared size, as bpf(2) describes it: updating an existing key always
  works, a new key is refused with E2BIG when the map is full, deleting a missing key gives
  ENOENT, which the library reports as \<open>ErrKeyNotExist\<close>.
\<close>

definition kernel_lib :: MapLib where
  "kernel_lib = \<lparr>
     Put = (\<lambda>i v m. if m i \<noteq> None \<or> card (dom m) < max_entries target_cgroups_decl
       then (None, m(i \<mapsto> v)) else (Some (MapErrno 7), m)),
     Delete = (\<lambda>i m. if m i = None then (Some ErrKeyNotExist, m) else (None, m(i := None)))\<rparr>"

interpretation kernel_map: sound_hash_map kernel_lib
  by unfold_locales (auto simp: kernel_lib_def split: if_splits)

section \<open>Closing\<close>

datatype resource =
    ProgHandleExec | ProgHandleExit | ProgHandleFork
  | MapDropCount | MapEvents | MapTargetCgroups
  | LinkExec | LinkFork | LinkExit
  | Reader

text \<open>
  A call of \<open>Close\<close> on a closer: its error and the resources on which \<open>Close\<close> was called.
  \<open>_ProcessClose\<close> stops at the first error.
\<close>

type_synonym closing = "nat option \<times> resource list"

fun ProcessClose :: "closing list \<Rightarrow> closing" where
  "ProcessClose [] = (None, [])"
| "ProcessClose ((Some e, rs) # cs) = (Some e, rs)"
| "ProcessClose ((None, rs) # cs) = (case ProcessClose cs of (err, rs') \<Rightarrow> (err, rs @ rs'))"

definition close1 :: "(resource \<Rightarrow> nat option) \<Rightarrow> resource \<Rightarrow> closing" where
  "close1 cl r = (cl r, [r])"

definition processPrograms_Close :: "(resource \<Rightarrow> nat option) \<Rightarrow> closing" where
  "processPrograms_Close cl = ProcessClose [close1 cl ProgHandleExec, close1 cl ProgHandleExit, close1 cl ProgHandleFork]"

definition processMaps_Close :: "(resource \<Rightarrow> nat option) \<Rightarrow> closing" where
  "processMaps_Close cl = ProcessClose [close1 cl MapDropCount, close1 cl MapEvents, close1 cl MapTargetCgroups]"

definition processObjects_Close :: "(resource \<Rightarrow> nat option) \<Rightarrow> closing" where
  "processObjects_Close cl = ProcessClose [processPrograms_Close cl, processMaps_Close cl]"

record Loader =
  objs :: bpf_state
  links :: "resource list"
  rd :: "resource option"
  boot :: time
  decodeErrors :: u64
  l_err :: "nat option"

text \<open>\<open>Close\<close> goes on after an error and joins the errors.\<close>

definition Close :: "(resource \<Rightarrow> nat option) \<Rightarrow> Loader \<Rightarrow> nat list \<times> resource list" where
  "Close cl l =
     (let cs = (case rd l of None \<Rightarrow> [] | Some r \<Rightarrow> [close1 cl r]) @ map (close1 cl) (links l) @ [processObjects_Close cl]
      in (List.map_filter fst cs, concat (map snd cs)))"

section \<open>Loading\<close>

datatype load_error =
    MemlockErr nat | RealtimeErr nat | BoottimeErr nat | SpecErr nat | SetModeErr nat
  | VerifierErr nat | LoadErr nat | AttachErr string nat | ReaderErr nat

record LoadEnv =
  RemoveMemlock :: "nat option"
  ClockRealtime :: "nat + u64"
  ClockBoottime :: "nat + u64"
  LoadCollectionSpec :: "nat option"
  SetModeHost :: "nat option"
  LoadAndAssign :: "(bool \<times> nat) option"
  Attach :: "resource \<Rightarrow> nat option"
  NewReader :: "nat option"
  CloseErr :: "resource \<Rightarrow> nat option"

text \<open>\<open>time.Unix(0, 0)\<close>, counted from the zero time (1 January of year 1).\<close>

definition unixEpoch :: time where
  "unixEpoch = 62135596800 * 1000000000"

definition bootTime :: "LoadEnv \<Rightarrow> load_error + time" where
  "bootTime env =
     (case ClockRealtime env of Inl e \<Rightarrow> Inl (RealtimeErr e)
      | Inr rt \<Rightarrow>
        (case ClockBoottime env of Inl e \<Rightarrow> Inl (BoottimeErr e)
         | Inr bt \<Rightarrow> Inr (unixEpoch + sint (rt - bt))))"

definition Hooks :: "string list" where
  "Hooks = [''tracepoint/sched/sched_process_exec'', ''tp_btf/sched_process_fork'', ''tracepoint/sched/sched_process_exit'']"

definition attach_list :: "(string \<times> resource) list" where
  "attach_list = [(''tracepoint/sched/sched_process_exec'', LinkExec), (''tp_btf/sched_process_fork'', LinkFork),
     (''tracepoint/sched/sched_process_exit'', LinkExit)]"

definition object_resources :: "resource list" where
  "object_resources = [ProgHandleExec, ProgHandleExit, ProgHandleFork, MapDropCount, MapEvents, MapTargetCgroups]"

text \<open>What stays open when \<open>Load\<close> gives up: the resources opened so far on which \<open>Close\<close> was not called.\<close>

definition give_up :: "LoadEnv \<Rightarrow> load_error \<Rightarrow> Loader \<Rightarrow> (load_error + Loader) \<times> resource list" where
  "give_up env err l =
     (Inl err, filter (\<lambda>r. r \<notin> set (snd (Close (CloseErr env) l))) (object_resources @ links l))"

fun attach_loop :: "LoadEnv \<Rightarrow> (string \<times> resource) list \<Rightarrow> Loader \<Rightarrow> (load_error \<times> Loader) + Loader" where
  "attach_loop env [] l = Inr l"
| "attach_loop env ((name, lk) # as) l =
     (case Attach env lk of Some e \<Rightarrow> Inl (AttachErr name e, l)
      | None \<Rightarrow> attach_loop env as (l\<lparr>links := links l @ [lk]\<rparr>))"

definition Load :: "LoadEnv \<Rightarrow> bool \<Rightarrow> (load_error + Loader) \<times> resource list" where
  "Load env hostMode =
     (case RemoveMemlock env of Some e \<Rightarrow> (Inl (MemlockErr e), [])
      | None \<Rightarrow>
     (case bootTime env of Inl e \<Rightarrow> (Inl e, [])
      | Inr bt \<Rightarrow>
     (case LoadCollectionSpec env of Some e \<Rightarrow> (Inl (SpecErr e), [])
      | None \<Rightarrow>
     (case SetModeHost env of Some e \<Rightarrow> (Inl (SetModeErr e), [])
      | None \<Rightarrow>
     (case LoadAndAssign env of
        Some (ve, e) \<Rightarrow> (Inl (if ve then VerifierErr e else LoadErr e), [])
      | None \<Rightarrow>
        let l = \<lparr>objs = bpf_init hostMode, links = [], rd = None, boot = bt, decodeErrors = 0, l_err = None\<rparr> in
        (case attach_loop env attach_list l of
           Inl (err, l) \<Rightarrow> give_up env err l
         | Inr l \<Rightarrow>
           (case NewReader env of Some e \<Rightarrow> give_up env (ReaderErr e) l
            | None \<Rightarrow> (Inr (l\<lparr>rd := Some Reader\<rparr>), object_resources @ links l @ [Reader]))))))))"

lemma ProcessClose_nil: "list_all (\<lambda>c. fst c = None) cs \<Longrightarrow> ProcessClose cs = (None, concat (map snd cs))"
  by (induction cs rule: ProcessClose.induct) auto

lemma Close_links: "set (links l) \<subseteq> set (snd (Close cl l))"
  by (auto simp: Close_def Let_def close1_def)

lemma Close_all: "(\<forall>r. cl r = None) \<Longrightarrow> set object_resources \<subseteq> set (snd (Close cl l))"
  by (simp add: Close_def Let_def processObjects_Close_def processPrograms_Close_def processMaps_Close_def
      close1_def object_resources_def)

lemma give_up_links: "snd (give_up env err l) = r \<Longrightarrow> set r \<inter> set (links l) = {}"
  using Close_links [of l "CloseErr env"] by (auto simp: give_up_def)

lemma give_up_all: "(\<forall>r. CloseErr env r = None) \<Longrightarrow> give_up env err l = (Inl err, [])"
  using Close_links [of l "CloseErr env"] Close_all [of "CloseErr env" l]
  by (auto simp: give_up_def filter_empty_conv)

lemma give_up_subset: "set (snd (give_up env err l)) \<subseteq> set object_resources"
  using Close_links [of l "CloseErr env"] by (auto simp: give_up_def)

text \<open>
  C29: loading is all or nothing. A successful \<open>Load\<close> has attached all three hooks and opened the
  reader, starts with no targets, an empty ring buffer and the requested mode. A failed one
  leaves nothing attached, and no program or map open as long as the \<open>Close\<close> calls succeed.
\<close>

theorem Load_all_or_nothing:
  "case Load env hostMode of
     (Inr l, opened) \<Rightarrow> links l = [LinkExec, LinkFork, LinkExit] \<and> rd l = Some Reader \<and>
       objs l = bpf_init hostMode \<and> opened = object_resources @ links l @ [Reader]
   | (Inl err, opened) \<Rightarrow> set opened \<subseteq> set object_resources \<and>
       ((\<forall>r. CloseErr env r = None) \<longrightarrow> opened = [])"
proof -
  let ?P = "\<lambda>res. case res of
     (Inr l, opened) \<Rightarrow> links l = [LinkExec, LinkFork, LinkExit] \<and> rd l = Some Reader \<and>
       objs l = bpf_init hostMode \<and> opened = object_resources @ links l @ [Reader]
   | (Inl err, opened) \<Rightarrow> set opened \<subseteq> set object_resources \<and>
       ((\<forall>r. CloseErr env r = None) \<longrightarrow> opened = [])"
  have fail: "?P (give_up env err l)" for err l
    using give_up_subset [of env err l] give_up_all [of env err l] by (auto simp: give_up_def)
  show "?P (Load env hostMode)"
    unfolding Load_def Let_def attach_list_def
    by (simp add: fail split: option.split sum.split prod.split)
qed

text \<open>
  \<open>Close\<close> does not release everything when one of its steps fails: the generated
  \<open>_ProcessClose\<close> stops at the first error, so an error of the first program leaves the two
  other programs and all maps open. The reader and the links are closed all the same.
\<close>

lemma Close_stops_at_first_error:
  assumes "links l = [LinkExec, LinkFork, LinkExit]" and "rd l = Some Reader" and "cl ProgHandleExec = Some e"
  shows "snd (Close cl l) = [Reader, LinkExec, LinkFork, LinkExit, ProgHandleExec]"
  using assms by (simp add: Close_def close1_def processObjects_Close_def processPrograms_Close_def)

section \<open>The event loop\<close>

text \<open>
  What one turn of the loop meets: \<open>Read\<close> returns a record, and the send is taken or the context
  is cancelled first; or \<open>Read\<close> fails, because the reader was closed or for another reason. When
  the list is used up, the goroutine waits in \<open>Read\<close>.
\<close>

datatype turn = Sent bytes | Cancelled bytes | ErrClosed | ReadFailed nat

text \<open>The result: the events sent on the channel, the loader, and whether the channel is closed.\<close>

fun Events_loop :: "turn list \<Rightarrow> Loader \<Rightarrow> Event list \<times> Loader \<times> bool" where
  "Events_loop [] l = ([], l, False)"
| "Events_loop (ErrClosed # ts) l = ([], l, True)"
| "Events_loop (ReadFailed e # ts) l = ([], l\<lparr>l_err := Some e\<rparr>, True)"
| "Events_loop (Sent b # ts) l =
     (case decode b (boot l) of
        Inl err \<Rightarrow> Events_loop ts (l\<lparr>decodeErrors := decodeErrors l + 1\<rparr>)
      | Inr ev \<Rightarrow> (case Events_loop ts l of (evs, l', closed) \<Rightarrow> (ev # evs, l', closed)))"
| "Events_loop (Cancelled b # ts) l =
     (case decode b (boot l) of
        Inl err \<Rightarrow> Events_loop ts (l\<lparr>decodeErrors := decodeErrors l + 1\<rparr>)
      | Inr ev \<Rightarrow> ([], l, True))"

definition Err :: "Loader \<Rightarrow> nat option" where
  "Err l = l_err l"

record LStats =
  KernelRingbufFull :: u64
  DecodeErrors :: u64

text \<open>\<open>Stats\<close>; \<open>look\<close> is what the lookup of the drop counter returns, one value per CPU.\<close>

definition l_Stats :: "nat + u64 list \<Rightarrow> Loader \<Rightarrow> nat + LStats" where
  "l_Stats look l =
     (case look of Inl e \<Rightarrow> Inl e
      | Inr perCPU \<Rightarrow> Inr \<lparr>KernelRingbufFull = fold (\<lambda>v sum. sum + v) perCPU 0, DecodeErrors = decodeErrors l\<rparr>)"

text \<open>The lookup on a state with \<open>n\<close> CPUs.\<close>

definition drop_lookup :: "nat \<Rightarrow> bpf_state \<Rightarrow> u64 list" where
  "drop_lookup n s = map (\<lambda>c. drop_count s c ! unat DROP_RINGBUF_FULL) [0..<n]"

text \<open>The hook runs that leave a record, and the event that each record stands for.\<close>

definition submits :: "bpf_state \<Rightarrow> hook \<Rightarrow> bool" where
  "submits s h \<longleftrightarrow> hook_attempts s h \<and> bpf_ringbuf_reserve (hook_kernel h) (hook_size h) \<noteq> None"

definition submitted_event :: "time \<Rightarrow> hook \<Rightarrow> Event" where
  "submitted_event bt h = hook_event h (the (bpf_ringbuf_reserve (hook_kernel h) (hook_size h))) bt"

lemma Events_loop_records:
  assumes "list_all2 (\<lambda>r ev. decode r (boot l) = Inr ev) rs evs"
  shows "Events_loop (map Sent rs @ ts) l = (case Events_loop ts l of (es, l', c) \<Rightarrow> (evs @ es, l', c))"
  using assms by (induction rs evs rule: list_all2_induct) (auto split: prod.splits)

lemma concat_if_filter: "concat (map (\<lambda>h. if P h then [f h] else []) hs) = map f (filter P hs)"
  by (induction hs) auto

lemma ring_submits:
  "ring (run_hooks hs s) = ring s @ map (\<lambda>h. hook_record h (the (bpf_ringbuf_reserve (hook_kernel h) (hook_size h)))) (filter (submits s) hs)"
proof -
  have "(\<lambda>h. if hook_attempts s h then (case bpf_ringbuf_reserve (hook_kernel h) (hook_size h) of
      None \<Rightarrow> [] | Some b \<Rightarrow> [hook_record h b]) else []) =
    (\<lambda>h. if submits s h then [hook_record h (the (bpf_ringbuf_reserve (hook_kernel h) (hook_size h)))] else [])"
    by (intro ext) (auto simp: submits_def split: option.split)
  then show ?thesis unfolding run_hooks_def hooks.ring_fold by (simp add: concat_if_filter)
qed

lemma decode_submitted:
  assumes "helpers_ok (hook_kernel h)" and "submits s h"
  shows "decode (hook_record h (the (bpf_ringbuf_reserve (hook_kernel h) (hook_size h)))) bt = Inr (submitted_event bt h)"
proof -
  obtain b where b: "bpf_ringbuf_reserve (hook_kernel h) (hook_size h) = Some b" using assms(2) by (auto simp: submits_def)
  then show ?thesis using decode_hook [OF assms(1) helpers_okD(6) [OF assms(1) b]] by (simp add: submitted_event_def)
qed

lemma Events_ring:
  assumes "\<forall>h \<in> set hs. helpers_ok (hook_kernel h)" and "ring s = []"
  shows "Events_loop (map Sent (ring (run_hooks hs s))) l =
    (map (submitted_event (boot l)) (filter (submits s) hs), l, False)"
proof -
  let ?hs = "filter (submits s) hs"
  let ?r = "\<lambda>h. hook_record h (the (bpf_ringbuf_reserve (hook_kernel h) (hook_size h)))"
  have "list_all2 (\<lambda>r ev. decode r (boot l) = Inr ev) (map ?r ?hs) (map (submitted_event (boot l)) ?hs)"
    using decode_submitted assms(1) by (auto simp: list_all2_conv_all_nth in_set_conv_nth dest!: nth_mem)
  from Events_loop_records [OF this, of "[]"] show ?thesis unfolding ring_submits assms(2) by simp
qed

lemma submitted_header:
  assumes "helpers_ok (hook_kernel h)" and "submits s h"
  shows "ev_Type (submitted_event bt h) = hook_Type h \<and> describes (submitted_event bt h) (hook_header h) bt"
proof -
  obtain b where b: "bpf_ringbuf_reserve (hook_kernel h) (hook_size h) = Some b" using assms(2) by (auto simp: submits_def)
  show ?thesis using hook_event_header [OF assms(1) helpers_okD(6) [OF assms(1) b]] b by (simp add: submitted_event_def)
qed

text \<open>
  C5: end to end, from the hooks to the event channel. Reading the ring buffer after any sequence
  of hook runs, the loader sends one event per run that was in scope and got a reservation, in
  the order of the runs, each with the type and the header of its run; no record fails to
  decode, so the error counter stays as it was, and the goroutine goes on reading.
\<close>

theorem events_delivered:
  assumes "\<forall>h \<in> set hs. helpers_ok (hook_kernel h)" and "ring s = []"
  shows "\<exists>evs. Events_loop (map Sent (ring (run_hooks hs s))) l = (evs, l, False) \<and>
    list_all2 (\<lambda>h ev. ev_Type ev = hook_Type h \<and> describes ev (hook_header h) (boot l)) (filter (submits s) hs) evs"
  using Events_ring [OF assms] submitted_header assms(1) by (auto simp: list_all2_map2 list_all2_same)

lemma unat_fold_sum:
  "unat acc + sum_list (map unat xs) < 2 ^ 64 \<Longrightarrow> unat (fold (\<lambda>v sum. sum + v) xs (acc :: u64)) = unat acc + sum_list (map unat xs)"
proof (induction xs arbitrary: acc)
  case (Cons x xs)
  then have "unat (acc + x) = unat acc + unat x" by (intro unat_add_lem [THEN iffD1]) simp
  then show ?case using Cons by (simp add: add.assoc)
qed simp

lemma total_drops_lookup: "sum_list (map unat (drop_lookup n s)) = total_drops n s"
  by (simp add: drop_lookup_def total_drops_def comp_def interv_sum_list_conv_sum_set_nat atLeast0LessThan)

lemma Load_ok_fields: "fst (Load env host) = Inr l \<Longrightarrow> links l = [LinkExec, LinkFork, LinkExit] \<and> rd l = Some Reader \<and>
    objs l = bpf_init host \<and> decodeErrors l = 0 \<and> l_err l = None"
  unfolding Load_def Let_def attach_list_def give_up_def by (auto split: option.splits sum.splits)

text \<open>
  C6: the counters account for every event. After any sequence of hook runs from a fresh load,
  with the ring buffer read to its end: the events sent on the channel and the drops that
  \<open>Stats\<close> reports add up to the hook runs that fired in scope, and \<open>DecodeErrors\<close> is 0.
\<close>

theorem stats_account_for_all:
  assumes "\<forall>h \<in> set hs. helpers_ok (hook_kernel h) \<and> cpu (hook_kernel h) < n" and "length hs < 2 ^ 64"
    and "fst (Load env host) = Inr l" and "s = (bpf_init host)\<lparr>target_cgroups := t\<rparr>"
    and "Events_loop (map Sent (ring (run_hooks hs s))) l = (evs, l', closed)"
  shows "\<exists>st. l_Stats (Inr (drop_lookup n (run_hooks hs s))) l' = Inr st \<and>
    length evs + unat (KernelRingbufFull st) = length (filter (hook_attempts s) hs) \<and> DecodeErrors st = 0"
proof -
  have sum: "length (ring (run_hooks hs s)) + total_drops n (run_hooks hs s) = length (filter (hook_attempts s) hs)"
    using assms(1,2) by (intro run_hooks_accounting [OF _ _ assms(4)]) simp_all
  have ring: "ring s = []" by (simp add: assms(4) bpf_init_def)
  have "length (filter (hook_attempts s) hs) < 2 ^ 64" using assms(2) length_filter_le le_less_trans by blast
  with sum have "unat (fold (\<lambda>v sum. sum + v) (drop_lookup n (run_hooks hs s)) 0) = total_drops n (run_hooks hs s)"
    by (subst unat_fold_sum) (simp_all add: total_drops_lookup)
  moreover have "l' = l" "length evs = length (ring (run_hooks hs s))"
    using Events_ring [of hs s l] assms(1,5) ring by (auto simp: ring_submits)
  ultimately show ?thesis using sum Load_ok_fields [OF assms(3)] by (simp add: l_Stats_def)
qed

text \<open>An environment in which everything works, for the witness.\<close>

definition demo_load :: LoadEnv where
  "demo_load = \<lparr>RemoveMemlock = None, ClockRealtime = Inr 500, ClockBoottime = Inr 300, LoadCollectionSpec = None,
     SetModeHost = None, LoadAndAssign = None, Attach = (\<lambda>_. None), NewReader = None, CloseErr = (\<lambda>_. None)\<rparr>"

lemma demo_loaded: "\<exists>l. fst (Load demo_load host) = Inr l"
  by (simp add: Load_def demo_load_def bootTime_def attach_list_def)

lemma demo_hooks: "\<forall>h \<in> set [demo_exit 8, demo_exit 7]. helpers_ok (hook_kernel h) \<and> cpu (hook_kernel h) < 1"
  by (simp add: demo_exit_def zero_block_ok) (simp add: demo_kernel_def)

lemma demo_submits: "filter (submits demo_state) [demo_exit 8, demo_exit 7] = [demo_exit 7]"
  by (simp add: submits_def demo_exit_attempts) (simp add: demo_exit_def demo_kernel_def zero_block_def)

theorem events_delivered_witness:
  "\<exists>l ev. fst (Load demo_load False) = Inr l \<and>
    Events_loop (map Sent (ring (run_hooks [demo_exit 8, demo_exit 7] demo_state))) l = ([ev], l, False) \<and> ev_Type ev = TypeExit"
proof -
  obtain l where l: "fst (Load demo_load False) = Inr l" using demo_loaded by blast
  have "ring demo_state = []" by (simp add: demo_state_def bpf_init_def)
  with events_delivered [of "[demo_exit 8, demo_exit 7]" demo_state l] demo_hooks show ?thesis
    unfolding demo_submits using l by (auto simp: list_all2_Cons1 demo_exit_def)
qed

theorem stats_account_for_all_witness:
  "\<exists>l evs l' closed st. fst (Load demo_load False) = Inr l \<and>
    Events_loop (map Sent (ring (run_hooks [demo_exit 8, demo_exit 7] demo_state))) l = (evs, l', closed) \<and>
    l_Stats (Inr (drop_lookup 1 (run_hooks [demo_exit 8, demo_exit 7] demo_state))) l' = Inr st \<and>
    length evs + unat (KernelRingbufFull st) = 1"
proof -
  obtain l where l: "fst (Load demo_load False) = Inr l" using demo_loaded by blast
  obtain evs l' closed where e:
    "Events_loop (map Sent (ring (run_hooks [demo_exit 8, demo_exit 7] demo_state))) l = (evs, l', closed)"
    by (metis prod_cases3)
  have "length [demo_exit 8, demo_exit 7] < 2 ^ 64" by simp
  from stats_account_for_all [OF demo_hooks this l demo_state_def e] show ?thesis
    using l e by (auto simp: demo_exit_attempts)
qed

theorem Load_all_or_nothing_witness:
  "\<exists>opened. Load (demo_load\<lparr>Attach := (\<lambda>r. if r = LinkFork then Some 1 else None)\<rparr>) False =
    (Inl (AttachErr ''tp_btf/sched_process_fork'' 1), opened) \<and> opened = []"
proof -
  let ?env = "demo_load\<lparr>Attach := (\<lambda>r. if r = LinkFork then Some 1 else None)\<rparr>"
  have "\<exists>opened. Load ?env False = (Inl (AttachErr ''tp_btf/sched_process_fork'' 1), opened)"
    by (simp add: Load_def demo_load_def bootTime_def attach_list_def give_up_def Let_def)
  then show ?thesis using Load_all_or_nothing [of ?env False] by (auto simp: demo_load_def)
qed

end
