(* ===== verification/Json.thy ===== *)
theory Json
  imports GoStrings
begin

text \<open>
  The part of \<open>encoding/json\<close> that the sensor relies on: the text the encoder writes for a value,
  with the escaping of strings, and the decoder, as the scanner with its stack of open arrays and
  objects. Both work on bytes; a byte that is not part of a valid UTF-8 sequence becomes U+FFFD.
  The decoder reads one value and leaves the rest of the input, as \<open>Decoder.Decode\<close> does.

  The lemmas show that decoding the encoded text gives the value back, whatever bytes its strings
  hold, and that the text has no control characters.
\<close>

section \<open>UTF-8\<close>

abbreviation code :: "char \<Rightarrow> nat" where
  "code \<equiv> of_char"

text \<open>
  The first byte of a sequence of two to four bytes gives the number of continuation bytes and the
  range of the first of them.
\<close>

definition lead :: "nat \<Rightarrow> (nat \<times> nat \<times> nat) option" where
  "lead b =
     (if b < 0xC2 then None
      else if b < 0xE0 then Some (1, 0x80, 0xBF)
      else if b < 0xF0 then Some (2, if b = 0xE0 then 0xA0 else 0x80, if b = 0xED then 0x9F else 0xBF)
      else if b < 0xF5 then Some (3, if b = 0xF0 then 0x90 else 0x80, if b = 0xF4 then 0x8F else 0xBF)
      else None)"

definition follow :: "nat \<Rightarrow> nat \<Rightarrow> nat \<Rightarrow> string \<Rightarrow> bool" where
  "follow k lo hi cs \<longleftrightarrow>
     k \<le> length cs \<and> list_all (\<lambda>c. lo \<le> code c \<and> code c \<le> hi) (take 1 cs) \<and>
     list_all (\<lambda>c. 0x80 \<le> code c \<and> code c \<le> 0xBF) (take k cs)"

text \<open>The number of bytes of the UTF-8 sequence at the start of a string, 0 if there is no valid one.\<close>

definition utf8_len :: "string \<Rightarrow> nat" where
  "utf8_len s =
     (case s of [] \<Rightarrow> 0
      | c # cs \<Rightarrow>
        if code c < 0x80 then 1
        else (case lead (code c) of None \<Rightarrow> 0 | Some (k, lo, hi) \<Rightarrow> if follow k lo hi cs then Suc k else 0))"

definition RuneError :: string where
  "RuneError = [CHR 0xEF, CHR 0xBF, CHR 0xBD]"

text \<open>\<open>utf8.AppendRune\<close>\<close>

definition encode_rune :: "nat \<Rightarrow> string" where
  "encode_rune r =
     (if r < 0x80 then [char_of r]
      else if r < 0x800 then [char_of (0xC0 + r div 64), char_of (0x80 + r mod 64)]
      else if (0xD800 \<le> r \<and> r < 0xE000) \<or> 0x10FFFF < r then RuneError
      else if r < 0x10000 then [char_of (0xE0 + r div 4096), char_of (0x80 + r div 64 mod 64), char_of (0x80 + r mod 64)]
      else [char_of (0xF0 + r div 262144), char_of (0x80 + r div 4096 mod 64), char_of (0x80 + r div 64 mod 64),
            char_of (0x80 + r mod 64)])"

text \<open>Every byte outside a valid sequence replaced by U+FFFD.\<close>

function to_valid :: "string \<Rightarrow> string" where
  "to_valid [] = []"
| "to_valid (c # cs) =
     (let n = utf8_len (c # cs) in
      if n = 0 then RuneError @ to_valid cs else take n (c # cs) @ to_valid (drop n (c # cs)))"
  by pat_completeness auto
termination by (relation "measure length") auto

function valid_utf8 :: "string \<Rightarrow> bool" where
  "valid_utf8 [] \<longleftrightarrow> True"
| "valid_utf8 (c # cs) \<longleftrightarrow> (let n = utf8_len (c # cs) in if n = 0 then False else valid_utf8 (drop n (c # cs)))"
  by pat_completeness auto
termination by (relation "measure length") auto

section \<open>Values\<close>

datatype json =
    JNull
  | JBool bool
  | JNum string
  | JStr string
  | JArr "json list"
  | JObj "(string \<times> json) list"

section \<open>Encoder\<close>

definition hex_lower :: "nat \<Rightarrow> char" where
  "hex_lower n = char_of (if n < 10 then 48 + n else 87 + n)"

text \<open>\<open>appendString\<close> with HTML escaping, as \<open>Encoder\<close> has it by default.\<close>

definition escape :: "char \<Rightarrow> string" where
  "escape c =
     (if c = CHR 0x22 \<or> c = CHR 0x5C then [CHR 0x5C, c]
      else if c = CHR 0x08 then [CHR 0x5C, CHR ''b'']
      else if c = CHR 0x0C then [CHR 0x5C, CHR ''f'']
      else if c = CHR 0x0A then [CHR 0x5C, CHR ''n'']
      else if c = CHR 0x0D then [CHR 0x5C, CHR ''r'']
      else if c = CHR 0x09 then [CHR 0x5C, CHR ''t'']
      else if code c < 0x20 \<or> c = CHR ''<'' \<or> c = CHR ''>'' \<or> c = CHR ''&'' then
        [CHR 0x5C, CHR ''u'', CHR ''0'', CHR ''0'', hex_lower (code c div 16), hex_lower (code c mod 16)]
      else [c])"

function quote_body :: "string \<Rightarrow> string" where
  "quote_body [] = []"
| "quote_body (c # cs) =
     (if code c < 0x80 then escape c @ quote_body cs
      else let n = utf8_len (c # cs); r = take n (c # cs) in
        if n = 0 then CHR 0x5C # ''ufffd'' @ quote_body cs
        else if r = [CHR 0xE2, CHR 0x80, CHR 0xA8] then CHR 0x5C # ''u2028'' @ quote_body (drop n (c # cs))
        else if r = [CHR 0xE2, CHR 0x80, CHR 0xA9] then CHR 0x5C # ''u2029'' @ quote_body (drop n (c # cs))
        else r @ quote_body (drop n (c # cs)))"
  by pat_completeness auto
termination by (relation "measure length") auto

definition quote :: "string \<Rightarrow> string" where
  "quote s = CHR 0x22 # quote_body s @ [CHR 0x22]"

fun print :: "json \<Rightarrow> string" where
  "print JNull = ''null''"
| "print (JBool b) = (if b then ''true'' else ''false'')"
| "print (JNum s) = s"
| "print (JStr s) = quote s"
| "print (JArr vs) = ''['' @ joinWith '','' (map print vs) @ '']''"
| "print (JObj kvs) = ''{'' @ joinWith '','' (map (\<lambda>(k, v). quote k @ '':'' @ print v) kvs) @ ''}''"

section \<open>Decoder\<close>

definition hex_value :: "char \<Rightarrow> nat option" where
  "hex_value c =
     (let b = code c in
      if 48 \<le> b \<and> b \<le> 57 then Some (b - 48)
      else if 97 \<le> b \<and> b \<le> 102 then Some (b - 87)
      else if 65 \<le> b \<and> b \<le> 70 then Some (b - 55)
      else None)"

text \<open>The value of the four hexadecimal digits after \<open>\u\<close>.\<close>

definition getu4 :: "string \<Rightarrow> nat option" where
  "getu4 s =
     (if length s < 4 then None
      else foldl (\<lambda>acc c. case (acc, hex_value c) of (Some n, Some d) \<Rightarrow> Some (16 * n + d) | _ \<Rightarrow> None) (Some 0) (take 4 s))"

definition escaped :: "char \<Rightarrow> char option" where
  "escaped c =
     map_of [(CHR 0x22, CHR 0x22), (CHR 0x5C, CHR 0x5C), (CHR ''/'', CHR ''/''), (CHR ''b'', CHR 0x08),
       (CHR ''f'', CHR 0x0C), (CHR ''n'', CHR 0x0A), (CHR ''r'', CHR 0x0D), (CHR ''t'', CHR 0x09)] c"

text \<open>The second half of a surrogate pair, at the start of a string.\<close>

definition low_surrogate :: "string \<Rightarrow> nat option" where
  "low_surrogate s =
     (if take 2 s = [CHR 0x5C, CHR ''u''] then
        (case getu4 (drop 2 s) of None \<Rightarrow> None | Some r \<Rightarrow> if 0xDC00 \<le> r \<and> r < 0xE000 then Some r else None)
      else None)"

text \<open>A string literal after its opening quote: the unquoted string, and what follows the literal.\<close>

function lex_str :: "string \<Rightarrow> (string \<times> string) option" where
  "lex_str [] = None"
| "lex_str (c # cs) =
     (let found = (\<lambda>t r. map_option (\<lambda>(s, rest). (t @ s, rest)) r) in
      if c = CHR 0x22 then Some ([], cs)
      else if c = CHR 0x5C then
        (case cs of [] \<Rightarrow> None
         | e # es \<Rightarrow>
           if e = CHR ''u'' then
             (case getu4 es of None \<Rightarrow> None
              | Some r \<Rightarrow>
                (case if 0xD800 \<le> r \<and> r < 0xDC00 then low_surrogate (drop 4 es) else None of
                   Some r1 \<Rightarrow> found (encode_rune (0x10000 + (r - 0xD800) * 1024 + (r1 - 0xDC00))) (lex_str (drop 10 es))
                 | None \<Rightarrow> found (encode_rune r) (lex_str (drop 4 es))))
           else (case escaped e of None \<Rightarrow> None | Some d \<Rightarrow> found [d] (lex_str es)))
      else if code c < 0x20 then None
      else let n = utf8_len (c # cs) in
        if n = 0 then found RuneError (lex_str cs) else found (take n (c # cs)) (lex_str (drop n (c # cs))))"
  by pat_completeness auto
termination by (relation "measure length") auto

text \<open>A number literal: its text, and what follows.\<close>

definition lex_sign :: "string \<Rightarrow> string \<times> string" where
  "lex_sign s = (case s of [] \<Rightarrow> ([], []) | c # cs \<Rightarrow> if c = CHR ''-'' then ([c], cs) else ([], s))"

definition lex_int :: "string \<Rightarrow> (string \<times> string) option" where
  "lex_int s =
     (case s of [] \<Rightarrow> None
      | c # cs \<Rightarrow>
        if c = CHR ''0'' then Some ([c], cs)
        else if is_digit c then Some (takeWhile is_digit s, dropWhile is_digit s)
        else None)"

definition lex_digits :: "string \<Rightarrow> string \<Rightarrow> (string \<times> string) option" where
  "lex_digits p s = (if takeWhile is_digit s = [] then None else Some (p @ takeWhile is_digit s, dropWhile is_digit s))"

definition lex_frac :: "string \<Rightarrow> (string \<times> string) option" where
  "lex_frac s = (case s of [] \<Rightarrow> Some ([], []) | c # cs \<Rightarrow> if c = CHR ''.'' then lex_digits [c] cs else Some ([], s))"

definition lex_exp :: "string \<Rightarrow> (string \<times> string) option" where
  "lex_exp s =
     (case s of [] \<Rightarrow> Some ([], [])
      | c # cs \<Rightarrow>
        if c = CHR ''e'' \<or> c = CHR ''E'' then
          (case cs of [] \<Rightarrow> None
           | d # ds \<Rightarrow> if d = CHR ''+'' \<or> d = CHR ''-'' then lex_digits [c, d] ds else lex_digits [c] cs)
        else Some ([], s))"

definition lex_num :: "string \<Rightarrow> (string \<times> string) option" where
  "lex_num s =
     (let (g, s) = lex_sign s in
      case lex_int s of None \<Rightarrow> None
      | Some (i, s) \<Rightarrow>
        (case lex_frac s of None \<Rightarrow> None
         | Some (f, s) \<Rightarrow> (case lex_exp s of None \<Rightarrow> None | Some (e, s) \<Rightarrow> Some (g @ i @ f @ e, s))))"

datatype token = OpenArr | CloseArr | OpenObj | CloseObj | Comma | Colon | Str string | Scalar json

definition punct :: "char \<Rightarrow> token option" where
  "punct c =
     map_of [(CHR ''['', OpenArr), (CHR '']'', CloseArr), (CHR ''{'', OpenObj), (CHR ''}'', CloseObj),
       (CHR '','', Comma), (CHR '':'', Colon)] c"

definition is_space :: "char \<Rightarrow> bool" where
  "is_space c \<longleftrightarrow> c = CHR '' '' \<or> c = CHR 0x09 \<or> c = CHR 0x0D \<or> c = CHR 0x0A"

definition lex_word :: "string \<Rightarrow> (token \<times> string) option" where
  "lex_word s =
     (if HasPrefix s ''true'' then Some (Scalar (JBool True), drop 4 s)
      else if HasPrefix s ''false'' then Some (Scalar (JBool False), drop 5 s)
      else if HasPrefix s ''null'' then Some (Scalar JNull, drop 4 s)
      else map_option (\<lambda>(n, rest). (Scalar (JNum n), rest)) (lex_num s))"

definition lex :: "string \<Rightarrow> (token \<times> string) option" where
  "lex s =
     (case dropWhile is_space s of [] \<Rightarrow> None
      | c # cs \<Rightarrow>
        (case punct c of Some t \<Rightarrow> Some (t, cs)
         | None \<Rightarrow>
           if c = CHR 0x22 then map_option (\<lambda>(t, rest). (Str t, rest)) (lex_str cs) else lex_word (c # cs)))"

text \<open>
  The scanner's stack. \<open>InKey\<close> is an object whose last key waits for its value. The mode says what
  may come next.
\<close>

datatype frame = InArr "json list" | InObj "(string \<times> json) list" | InKey "(string \<times> json) list" string
datatype mode = BeginValue | BeginValueOrEmpty | BeginString | BeginStringOrEmpty | EndKey | EndValue
datatype progress = Failed | Complete json | Going "frame list" mode

definition maxNestingDepth :: nat where
  "maxNestingDepth = 10000"

fun deliver :: "json \<Rightarrow> frame list \<Rightarrow> progress" where
  "deliver v [] = Complete v"
| "deliver v (InArr vs # fs) = Going (InArr (vs @ [v]) # fs) EndValue"
| "deliver v (InKey kvs k # fs) = Going (InObj (kvs @ [(k, v)]) # fs) EndValue"
| "deliver v (InObj kvs # fs) = Failed"

definition push :: "frame \<Rightarrow> mode \<Rightarrow> frame list \<Rightarrow> progress" where
  "push f m fs = (if length fs < maxNestingDepth then Going (f # fs) m else Failed)"

fun close_arr :: "frame list \<Rightarrow> progress" where
  "close_arr (InArr vs # fs) = deliver (JArr vs) fs"
| "close_arr fs = Failed"

fun close_obj :: "frame list \<Rightarrow> progress" where
  "close_obj (InObj kvs # fs) = deliver (JObj kvs) fs"
| "close_obj fs = Failed"

definition begin_value :: "frame list \<Rightarrow> token \<Rightarrow> progress" where
  "begin_value fs t =
     (case t of Scalar v \<Rightarrow> deliver v fs | Str s \<Rightarrow> deliver (JStr s) fs
      | OpenArr \<Rightarrow> push (InArr []) BeginValueOrEmpty fs | OpenObj \<Rightarrow> push (InObj []) BeginStringOrEmpty fs
      | _ \<Rightarrow> Failed)"

fun begin_string :: "frame list \<Rightarrow> token \<Rightarrow> progress" where
  "begin_string (InObj kvs # fs) (Str k) = Going (InKey kvs k # fs) EndKey"
| "begin_string fs t = Failed"

fun end_value :: "frame list \<Rightarrow> token \<Rightarrow> progress" where
  "end_value (InArr vs # fs) Comma = Going (InArr vs # fs) BeginValue"
| "end_value (InArr vs # fs) CloseArr = close_arr (InArr vs # fs)"
| "end_value (InObj kvs # fs) Comma = Going (InObj kvs # fs) BeginString"
| "end_value (InObj kvs # fs) CloseObj = close_obj (InObj kvs # fs)"
| "end_value fs t = Failed"

definition scan_step :: "frame list \<Rightarrow> mode \<Rightarrow> token \<Rightarrow> progress" where
  "scan_step fs m t =
     (case m of
        BeginValue \<Rightarrow> begin_value fs t
      | BeginValueOrEmpty \<Rightarrow> if t = CloseArr then close_arr fs else begin_value fs t
      | BeginString \<Rightarrow> begin_string fs t
      | BeginStringOrEmpty \<Rightarrow> if t = CloseObj then close_obj fs else begin_string fs t
      | EndKey \<Rightarrow> if t = Colon then Going fs BeginValue else Failed
      | EndValue \<Rightarrow> end_value fs t)"

text \<open>Every token takes at least one byte, so scanning ends.\<close>

lemma lex_str_shorter: "lex_str s = Some (t, rest) \<Longrightarrow> length rest < length s"
proof (induction s arbitrary: t rest rule: lex_str.induct)
  case (2 c cs)
  then show ?case
    by (auto simp: Let_def split: if_splits list.splits option.splits) fastforce+
qed simp

lemma length_dropWhile_less: "is_digit c \<Longrightarrow> length (dropWhile is_digit (c # cs)) < length (c # cs)"
  using length_dropWhile_le [of is_digit cs] by simp

lemma lex_int_shorter: "lex_int s = Some (t, rest) \<Longrightarrow> length rest < length s"
  using length_dropWhile_le [of is_digit "tl s"] by (auto simp: lex_int_def split: list.splits if_splits)

lemma lex_digits_le: "lex_digits p s = Some (t, rest) \<Longrightarrow> length rest \<le> length s"
  by (auto simp: lex_digits_def length_dropWhile_le split: if_splits)

lemma lex_frac_le: "lex_frac s = Some (t, rest) \<Longrightarrow> length rest \<le> length s"
  by (auto simp: lex_frac_def split: list.splits if_splits dest!: lex_digits_le)

lemma lex_exp_le: "lex_exp s = Some (t, rest) \<Longrightarrow> length rest \<le> length s"
  by (auto simp: lex_exp_def split: list.splits if_splits dest!: lex_digits_le)

lemma lex_sign_le: "lex_sign s = (g, rest) \<Longrightarrow> length rest \<le> length s"
  by (auto simp: lex_sign_def split: list.splits if_splits)

lemma lex_num_shorter: "lex_num s = Some (t, rest) \<Longrightarrow> length rest < length s"
  by (auto simp: lex_num_def split: prod.splits option.splits
    dest!: lex_int_shorter lex_frac_le lex_exp_le lex_sign_le)

lemma lex_shorter:
  assumes "lex s = Some (t, rest)"
  shows "length rest < length s"
proof -
  obtain c cs where w: "dropWhile is_space s = c # cs" using assms by (cases "dropWhile is_space s") (auto simp: lex_def)
  have "length rest < length (c # cs)" using assms w
    by (auto simp: lex_def lex_word_def HasPrefix_def split: option.splits if_splits
      dest!: lex_str_shorter lex_num_shorter)
  also have "\<dots> \<le> length s" using length_dropWhile_le [of is_space s] w by simp
  finally show ?thesis .
qed

function scan :: "frame list \<Rightarrow> mode \<Rightarrow> string \<Rightarrow> (json \<times> string) option" where
  "scan fs m s =
     (case lex s of None \<Rightarrow> None
      | Some (t, rest) \<Rightarrow>
        (case scan_step fs m t of Failed \<Rightarrow> None | Complete v \<Rightarrow> Some (v, rest) | Going fs m \<Rightarrow> scan fs m rest))"
  by pat_completeness auto
termination by (relation "measure (\<lambda>(fs, m, s). length s)") (auto dest: lex_shorter)

declare scan.simps [simp del] to_valid.simps [simp del] valid_utf8.simps [simp del]
  quote_body.simps [simp del] lex_str.simps [simp del]

text \<open>\<open>Decoder.Decode\<close> up to the conversion to a Go value.\<close>

definition decode_value :: "string \<Rightarrow> (json \<times> string) option" where
  "decode_value s = scan [] BeginValue s"

section \<open>Strings\<close>

lemma follow_prefix: "lead b = Some (k, lo, hi) \<Longrightarrow> follow k lo hi cs \<Longrightarrow> follow k lo hi (take k cs @ t)"
  by (auto simp: lead_def follow_def take_Cons' list_all_iff split: if_splits)

lemma utf8_len_le: "utf8_len s \<le> length s"
  by (auto simp: utf8_len_def follow_def split: list.splits option.splits)

text \<open>Only the bytes of the sequence itself count.\<close>

lemma utf8_len_prefix:
  assumes "utf8_len s = n" "n \<noteq> 0"
  shows "utf8_len (take n s @ t) = n"
  using assms
  by (auto simp: utf8_len_def dest: follow_prefix [of _ _ _ _ _ t] split: list.splits option.splits if_splits)

lemma utf8_len_ascii: "code c < 0x80 \<Longrightarrow> utf8_len (c # cs) = 1"
  by (simp add: utf8_len_def)

lemma utf8_high_bytes:
  "0x80 \<le> code c \<Longrightarrow> \<forall>x \<in> set (take (utf8_len (c # cs)) (c # cs)). 0x80 \<le> code x"
  by (auto simp: utf8_len_def follow_def list_all_iff split: option.splits)

lemma to_valid_valid: "valid_utf8 s \<Longrightarrow> to_valid s = s"
  by (induction s rule: valid_utf8.induct) (auto simp: to_valid.simps valid_utf8.simps Let_def split: if_splits)

lemma to_valid_ascii: "list_all (\<lambda>c. code c < 0x80) s \<Longrightarrow> to_valid s = s"
  by (induction s) (auto simp: to_valid.simps utf8_len_def)

lemma lex_str_copy:
  assumes "utf8_len s = n" "n \<noteq> 0" "0x80 \<le> code (hd s)"
  shows "lex_str (take n s @ t) = map_option (\<lambda>(u, rest). (take n s @ u, rest)) (lex_str t)"
proof -
  obtain c cs where s: "take n s = c # cs" "s \<noteq> []" "hd s = c" using assms(1,2) by (cases s; cases n) (auto simp: utf8_len_def)
  have len: "length (take n s) = n" using utf8_len_le [of s] assms(1) by simp
  have "c \<noteq> CHR 0x22" "c \<noteq> CHR 0x5C" "\<not> code c < 0x20" using assms(3) s(3) by auto
  moreover have "utf8_len (c # cs @ t) = n" using utf8_len_prefix [OF assms(1,2), of t] s by simp
  moreover have "take n (c # cs @ t) = take n s" "drop n (c # cs @ t) = t"
    using len s(1) by (metis append_Cons append_eq_conv_conj)+
  ultimately show ?thesis using s assms(2) by (simp add: lex_str.simps Let_def)
qed

lemma hex_lower_value: "n < 16 \<Longrightarrow> hex_value (hex_lower n) = Some n"
  by (simp add: hex_value_def hex_lower_def Let_def)

lemma hex_value_0: "hex_value (CHR ''0'') = Some 0"
  by (simp add: hex_value_def)

lemma getu4_byte:
  "n < 256 \<Longrightarrow> getu4 (CHR ''0'' # CHR ''0'' # hex_lower (n div 16) # hex_lower (n mod 16) # t) = Some n"
  by (simp add: getu4_def hex_lower_value hex_value_0)

lemma lex_str_u: "getu4 es = Some r \<Longrightarrow> r < 0xD800 \<or> 0xDC00 \<le> r \<Longrightarrow>
  lex_str (CHR 0x5C # CHR ''u'' # es) = map_option (\<lambda>(s, rest). (encode_rune r @ s, rest)) (lex_str (drop 4 es))"
  by (auto simp: lex_str.simps Let_def)

lemma lex_str_short: "e \<noteq> CHR ''u'' \<Longrightarrow> escaped e = Some d \<Longrightarrow>
  lex_str (CHR 0x5C # e # t) = map_option (\<lambda>(s, rest). (d # s, rest)) (lex_str t)"
  by (subst lex_str.simps) simp

lemma lex_str_plain: "c \<noteq> CHR 0x22 \<Longrightarrow> c \<noteq> CHR 0x5C \<Longrightarrow> \<not> code c < 0x20 \<Longrightarrow> code c < 0x80 \<Longrightarrow>
  lex_str (c # t) = map_option (\<lambda>(s, rest). (c # s, rest)) (lex_str t)"
  by (subst lex_str.simps) (simp add: utf8_len_ascii)

lemma escape_short:
  "c \<in> {CHR 0x22, CHR 0x5C, CHR 0x08, CHR 0x0C, CHR 0x0A, CHR 0x0D, CHR 0x09} \<Longrightarrow>
    \<exists>e. escape c = [CHR 0x5C, e] \<and> e \<noteq> CHR ''u'' \<and> escaped e = Some c"
  unfolding insert_iff empty_iff by (elim disjE) (simp_all add: escape_def escaped_def)

lemma escape_hex:
  "c \<notin> {CHR 0x22, CHR 0x5C, CHR 0x08, CHR 0x0C, CHR 0x0A, CHR 0x0D, CHR 0x09} \<Longrightarrow>
    code c < 0x20 \<or> c \<in> {CHR ''<'', CHR ''>'', CHR ''&''} \<Longrightarrow>
    escape c = [CHR 0x5C, CHR ''u'', CHR ''0'', CHR ''0'', hex_lower (code c div 16), hex_lower (code c mod 16)]"
  unfolding insert_iff empty_iff by (simp add: escape_def)

lemma escape_same:
  "c \<notin> {CHR 0x22, CHR 0x5C, CHR 0x08, CHR 0x0C, CHR 0x0A, CHR 0x0D, CHR 0x09} \<Longrightarrow>
    \<not> (code c < 0x20 \<or> c \<in> {CHR ''<'', CHR ''>'', CHR ''&''}) \<Longrightarrow> escape c = [c]"
  unfolding insert_iff empty_iff by (simp add: escape_def)

lemma lex_str_escape:
  assumes "code c < 0x80"
  shows "lex_str (escape c @ t) = map_option (\<lambda>(s, rest). (c # s, rest)) (lex_str t)"
proof (cases "c \<in> {CHR 0x22, CHR 0x5C, CHR 0x08, CHR 0x0C, CHR 0x0A, CHR 0x0D, CHR 0x09}")
  case True
  from escape_short [OF this] obtain e where e: "escape c = [CHR 0x5C, e]" "e \<noteq> CHR ''u''" "escaped e = Some c"
    by blast
  show ?thesis unfolding e(1) using lex_str_short [OF e(2,3)] by simp
next
  case short: False
  show ?thesis
  proof (cases "code c < 0x20 \<or> c \<in> {CHR ''<'', CHR ''>'', CHR ''&''}")
    case True
    have "code c < 256" by simp
    then have "lex_str (escape c @ t) = map_option (\<lambda>(s, rest). (encode_rune (code c) @ s, rest)) (lex_str t)"
      unfolding escape_hex [OF short True] using lex_str_u [OF getu4_byte, of "code c" t] assms by simp
    then show ?thesis using assms by (simp add: encode_rune_def)
  next
    case False
    have "lex_str (c # t) = map_option (\<lambda>(s, rest). (c # s, rest)) (lex_str t)"
      by (rule lex_str_plain) (use False short assms in blast)+
    then show ?thesis unfolding escape_same [OF short False] by simp
  qed
qed

lemma getu4_fixed: "getu4 (''fffd'' @ t) = Some 0xFFFD" "getu4 (''2028'' @ t) = Some 0x2028" "getu4 (''2029'' @ t) = Some 0x2029"
  by (simp_all add: getu4_def hex_value_def Let_def)

lemma encode_rune_fixed: "encode_rune 0xFFFD = RuneError" "encode_rune 0x2028 = [CHR 0xE2, CHR 0x80, CHR 0xA8]"
  "encode_rune 0x2029 = [CHR 0xE2, CHR 0x80, CHR 0xA9]"
  by (simp_all add: encode_rune_def RuneError_def char_of_eq_iff)

lemma lex_str_quote_body: "lex_str (quote_body s @ CHR 0x22 # rest) = Some (to_valid s, rest)"
proof (induction s rule: quote_body.induct)
  case 1
  then show ?case by (simp add: quote_body.simps to_valid.simps lex_str.simps)
next
  case (2 c cs)
  let ?n = "utf8_len (c # cs)"
  show ?case
  proof (cases "code c < 0x80")
    case True
    then show ?thesis using 2(1) by (simp add: quote_body.simps to_valid.simps lex_str_escape utf8_len_ascii)
  next
    case high: False
    let ?r = "take ?n (c # cs)" and ?q = "\<lambda>s. quote_body s @ CHR 0x22 # rest"
    consider (bad) "?n = 0" | (ls) "?n \<noteq> 0" "?r = [CHR 0xE2, CHR 0x80, CHR 0xA8]"
      | (ps) "?n \<noteq> 0" "?r = [CHR 0xE2, CHR 0x80, CHR 0xA9]"
      | (copy) "?n \<noteq> 0" "?r \<noteq> [CHR 0xE2, CHR 0x80, CHR 0xA8]" "?r \<noteq> [CHR 0xE2, CHR 0x80, CHR 0xA9]"
      by blast
    then show ?thesis
    proof cases
      case bad
      then have "?q (c # cs) = CHR 0x5C # CHR ''u'' # ''fffd'' @ ?q cs" using high by (simp add: quote_body.simps)
      then show ?thesis using 2(2) [OF high refl refl bad] bad
        by (simp add: lex_str_u [OF getu4_fixed(1), simplified] encode_rune_fixed to_valid.simps)
    next
      case ls
      then have "?q (c # cs) = CHR 0x5C # CHR ''u'' # ''2028'' @ ?q (drop ?n (c # cs))" using high by (simp add: quote_body.simps Let_def)
      then show ?thesis using 2(3) [OF high refl refl ls] ls
        by (simp add: lex_str_u [OF getu4_fixed(2), simplified] encode_rune_fixed to_valid.simps Let_def)
    next
      case ps
      then have "?q (c # cs) = CHR 0x5C # CHR ''u'' # ''2029'' @ ?q (drop ?n (c # cs))" using high by (simp add: quote_body.simps Let_def)
      then show ?thesis using 2(4) [OF high refl refl ps(1) _ ps(2)] ps
        by (simp add: lex_str_u [OF getu4_fixed(3), simplified] encode_rune_fixed to_valid.simps Let_def)
    next
      case copy
      then have "?q (c # cs) = ?r @ ?q (drop ?n (c # cs))" using high by (simp add: quote_body.simps Let_def)
      then show ?thesis using 2(5) [OF high refl refl copy] lex_str_copy [OF refl copy(1)] copy(1) high
        by (simp add: to_valid.simps Let_def)
    qed
  qed
qed

lemma lex_quote: "lex (quote s @ rest) = Some (Str (to_valid s), rest)"
  using lex_str_quote_body [of s rest] by (simp add: lex_def quote_def is_space_def punct_def)

text \<open>The text of a string has no control characters.\<close>

definition printable :: "string \<Rightarrow> bool" where
  "printable s \<longleftrightarrow> list_all (\<lambda>c. 0x20 \<le> code c) s"

lemma printable_append [simp]: "printable (s @ t) \<longleftrightarrow> printable s \<and> printable t"
  by (simp add: printable_def)

lemma printable_Cons [simp]: "printable (c # s) \<longleftrightarrow> 0x20 \<le> code c \<and> printable s"
  by (simp add: printable_def)

lemma printable_Nil [simp]: "printable []"
  by (simp add: printable_def)

lemma hex_lower_printable: "n < 16 \<Longrightarrow> 0x20 \<le> code (hex_lower n)"
  by (simp add: hex_lower_def)

lemma escape_printable: "printable (escape c)"
  by (simp add: escape_def hex_lower_printable less_mult_imp_div_less)

lemma utf8_printable: "0x80 \<le> code c \<Longrightarrow> printable (take (utf8_len (c # cs)) (c # cs))"
  unfolding printable_def list_all_iff using utf8_high_bytes [of c cs] by fastforce

lemma quote_body_printable: "printable (quote_body s)"
proof (induction s rule: quote_body.induct)
  case (2 c cs)
  show ?case
  proof (cases "code c < 0x80")
    case True
    then show ?thesis using 2(1) by (simp add: quote_body.simps escape_printable)
  next
    case False
    then show ?thesis using 2(2-) utf8_printable [of c cs] by (auto simp: quote_body.simps Let_def)
  qed
qed (simp add: quote_body.simps)

lemma quote_printable: "printable (quote s)"
  by (simp add: quote_def quote_body_printable)

section \<open>Numbers\<close>

definition num_ok :: "string \<Rightarrow> bool" where
  "num_ok s \<longleftrightarrow> lex_num s = Some (s, [])"

text \<open>What may follow a number: the characters that go on with one are not among them.\<close>

definition num_end :: "string \<Rightarrow> bool" where
  "num_end s \<longleftrightarrow> (case s of [] \<Rightarrow> True | c # _ \<Rightarrow> \<not> is_digit c \<and> c \<notin> {CHR ''.'', CHR ''e'', CHR ''E''})"

lemma takeWhile_end: "num_end t \<Longrightarrow> takeWhile is_digit (s @ t) = takeWhile is_digit s"
  by (induction s) (auto simp: num_end_def split: list.splits)

lemma dropWhile_end: "num_end t \<Longrightarrow> dropWhile is_digit (s @ t) = dropWhile is_digit s @ t"
  by (induction s) (auto simp: num_end_def split: list.splits)

lemma lex_sign_end: "s \<noteq> [] \<Longrightarrow> lex_sign (s @ t) = (fst (lex_sign s), snd (lex_sign s) @ t)"
  by (auto simp: lex_sign_def split: list.splits)

lemma lex_int_end: "num_end t \<Longrightarrow> lex_int s = Some (i, r) \<Longrightarrow> lex_int (s @ t) = Some (i, r @ t)"
  by (auto simp: lex_int_def takeWhile_end dropWhile_end split: list.splits if_splits)

lemma lex_digits_end: "num_end t \<Longrightarrow> lex_digits p s = Some (i, r) \<Longrightarrow> lex_digits p (s @ t) = Some (i, r @ t)"
  by (auto simp: lex_digits_def takeWhile_end dropWhile_end split: if_splits)

lemma lex_frac_end: "num_end t \<Longrightarrow> lex_frac s = Some (i, r) \<Longrightarrow> lex_frac (s @ t) = Some (i, r @ t)"
  by (cases s; cases t) (auto simp: lex_frac_def lex_digits_end num_end_def split: if_splits)

lemma lex_digits_end_Cons:
  "num_end t \<Longrightarrow> lex_digits p (c # s) = Some (i, r) \<Longrightarrow> lex_digits p (c # s @ t) = Some (i, r @ t)"
  using lex_digits_end [of t p "c # s"] by simp

lemma lex_exp_num_end: "num_end t \<Longrightarrow> lex_exp t = Some ([], t)"
  by (auto simp: lex_exp_def num_end_def split: list.splits)

lemma lex_exp_end:
  assumes "num_end t" "lex_exp s = Some (i, r)"
  shows "lex_exp (s @ t) = Some (i, r @ t)"
proof (cases s)
  case Nil
  then show ?thesis using assms lex_exp_num_end [of t] by (simp add: lex_exp_def)
next
  case (Cons c cs)
  then show ?thesis using assms
    by (auto simp: lex_exp_def lex_digits_end lex_digits_end_Cons split: if_splits list.splits)
qed

lemma lex_num_end:
  assumes "num_ok s" "num_end t"
  shows "lex_num (s @ t) = Some (s, t)"
proof -
  have "s \<noteq> []" using assms(1) by (auto simp: num_ok_def lex_num_def lex_sign_def lex_int_def)
  obtain i s1 f s2 e where "lex_int (snd (lex_sign s)) = Some (i, s1)" "lex_frac s1 = Some (f, s2)"
    "lex_exp s2 = Some (e, [])" "fst (lex_sign s) @ i @ f @ e = s"
    using assms(1) by (auto simp: num_ok_def lex_num_def split: prod.splits option.splits)
  then show ?thesis using assms(2) \<open>s \<noteq> []\<close> by (simp add: lex_num_def lex_sign_end lex_int_end lex_frac_end lex_exp_end)
qed

lemma is_digit_0: "is_digit (CHR ''0'')"
  by (simp add: is_digit_def)

lemma num_ok_first: "num_ok s \<Longrightarrow> \<exists>c cs. s = c # cs \<and> (c = CHR ''-'' \<or> is_digit c)"
  by (cases s) (auto simp: is_digit_0 num_ok_def lex_num_def lex_sign_def lex_int_def split: prod.splits option.splits if_splits list.splits)

lemma FormatUint_first: "\<exists>c cs. FormatUint n = c # cs \<and> is_digit c \<and> (0 < n \<longrightarrow> c \<noteq> CHR ''0'')"
proof (induction n rule: FormatUint.induct)
  case (1 n)
  show ?case
  proof (cases "n < 10")
    case True
    then have "is_digit (char_of (48 + n))" using digit_char by blast
    moreover have "char_of (48 + n) = CHR ''0'' \<longleftrightarrow> n = 0" using True by (simp add: char_of_eq_iff take_bit_eq_mod)
    ultimately show ?thesis using True by (simp add: FormatUint.simps [of n])
  next
    case False
    then show ?thesis using 1 [OF False] by (subst (1) FormatUint.simps) (auto simp: div_greater_zero_iff)
  qed
qed

lemma num_ok_FormatUint: "num_ok (FormatUint n)"
proof -
  obtain c cs where c: "FormatUint n = c # cs" "is_digit c" "0 < n \<longrightarrow> c \<noteq> CHR ''0''" using FormatUint_first by blast
  have all: "list_all is_digit (FormatUint n)" using FormatUint_digits [of n] by blast
  have "c \<noteq> CHR ''-''" using c(2) by (auto simp: is_digit_def)
  moreover have "lex_int (FormatUint n) = Some (FormatUint n, [])"
  proof (cases "n = 0")
    case True
    then have "FormatUint n = ''0''" by (simp add: FormatUint.simps [of 0] char_of_eq_iff)
    then show ?thesis by (simp add: lex_int_def)
  next
    case False
    then show ?thesis using c all by (simp add: lex_int_def list_all_iff takeWhile_eq_all_conv dropWhile_eq_Nil_conv)
  qed
  ultimately show ?thesis using c(1) by (simp add: num_ok_def lex_num_def lex_sign_def lex_frac_def lex_exp_def)
qed

section \<open>Round trip\<close>

fun norm :: "json \<Rightarrow> json" where
  "norm (JStr s) = JStr (to_valid s)"
| "norm (JArr vs) = JArr (map norm vs)"
| "norm (JObj kvs) = JObj (map (\<lambda>(k, v). (to_valid k, norm v)) kvs)"
| "norm v = v"

fun nesting :: "json \<Rightarrow> nat" where
  "nesting (JArr vs) = Suc (foldr max (map nesting vs) 0)"
| "nesting (JObj kvs) = Suc (foldr max (map (\<lambda>(k, v). nesting v) kvs) 0)"
| "nesting v = 0"

fun nums_ok :: "json \<Rightarrow> bool" where
  "nums_ok (JNum s) = num_ok s"
| "nums_ok (JArr vs) = list_all nums_ok vs"
| "nums_ok (JObj kvs) = list_all (\<lambda>(k, v). nums_ok v) kvs"
| "nums_ok v = True"

definition resume :: "progress \<Rightarrow> string \<Rightarrow> (json \<times> string) option" where
  "resume p rest = (case p of Failed \<Rightarrow> None | Complete v \<Rightarrow> Some (v, rest) | Going fs m \<Rightarrow> scan fs m rest)"

lemma resume_simps [simp]:
  "resume (Complete v) rest = Some (v, rest)" "resume (Going fs m) rest = scan fs m rest"
  by (simp_all add: resume_def)

lemma scan_lex: "lex s = Some (t, rest) \<Longrightarrow> scan fs m s = resume (scan_step fs m t) rest"
  by (subst scan.simps) (simp add: resume_def)

lemma lex_punct: "punct c = Some t \<Longrightarrow> \<not> is_space c \<Longrightarrow> lex (c # rest) = Some (t, rest)"
  by (simp add: lex_def)

lemma lex_marks [simp]:
  "lex (CHR ''['' # rest) = Some (OpenArr, rest)" "lex (CHR '']'' # rest) = Some (CloseArr, rest)"
  "lex (CHR ''{'' # rest) = Some (OpenObj, rest)" "lex (CHR ''}'' # rest) = Some (CloseObj, rest)"
  "lex (CHR '','' # rest) = Some (Comma, rest)" "lex (CHR '':'' # rest) = Some (Colon, rest)"
  by (simp_all add: lex_punct punct_def is_space_def)

lemma lex_words:
  "lex (''null'' @ rest) = Some (Scalar JNull, rest)" "lex (''true'' @ rest) = Some (Scalar (JBool True), rest)"
  "lex (''false'' @ rest) = Some (Scalar (JBool False), rest)"
  by (simp_all add: lex_def is_space_def punct_def lex_word_def HasPrefix_def)

lemma lex_number:
  assumes "num_ok s" "num_end rest"
  shows "lex (s @ rest) = Some (Scalar (JNum s), rest)"
proof -
  obtain c cs where c: "s = c # cs" "c = CHR ''-'' \<or> is_digit c" using num_ok_first [OF assms(1)] by blast
  then have "\<not> is_space c" "punct c = None" "c \<noteq> CHR 0x22" "c \<noteq> CHR ''t''" "c \<noteq> CHR ''f''" "c \<noteq> CHR ''n''"
    by (auto simp: is_digit_def is_space_def punct_def)
  then show ?thesis using lex_num_end [OF assms] c(1) by (simp add: lex_def lex_word_def HasPrefix_def)
qed

lemma num_end_marks [simp]: "num_end (CHR '','' # s)" "num_end (CHR '']'' # s)" "num_end (CHR ''}'' # s)"
  by (simp_all add: num_end_def is_digit_def)

text \<open>Reading the text of a value where a value may begin delivers the value.\<close>

definition reads :: "json \<Rightarrow> bool" where
  "reads v \<longleftrightarrow> (\<forall>fs m rest. m = BeginValue \<or> m = BeginValueOrEmpty \<longrightarrow> num_end rest \<longrightarrow>
     length fs + nesting v \<le> maxNestingDepth \<longrightarrow> scan fs m (print v @ rest) = resume (deliver (norm v) fs) rest)"

lemma readsI:
  assumes "\<And>fs m rest. m = BeginValue \<or> m = BeginValueOrEmpty \<Longrightarrow> num_end rest \<Longrightarrow>
    length fs + nesting v \<le> maxNestingDepth \<Longrightarrow> scan fs m (print v @ rest) = resume (deliver (norm v) fs) rest"
  shows "reads v"
  unfolding reads_def using assms by blast

lemma readsD: "reads v \<Longrightarrow> m = BeginValue \<or> m = BeginValueOrEmpty \<Longrightarrow> num_end rest \<Longrightarrow>
  length fs + nesting v \<le> maxNestingDepth \<Longrightarrow> scan fs m (print v @ rest) = resume (deliver (norm v) fs) rest"
  unfolding reads_def by blast

lemma reads_token:
  assumes "\<And>rest. num_end rest \<Longrightarrow> lex (print v @ rest) = Some (t, rest)"
    and "\<And>fs. begin_value fs t = deliver (norm v) fs" and "t \<noteq> CloseArr"
  shows "reads v"
proof (rule readsI)
  fix fs :: "frame list" and m rest
  assume m: "m = BeginValue \<or> m = BeginValueOrEmpty" and "num_end rest"
  have "scan_step fs m t = deliver (norm v) fs" using m assms(2) [of fs] assms(3) by (elim disjE) (simp_all add: scan_step_def)
  then show "scan fs m (print v @ rest) = resume (deliver (norm v) fs) rest"
    using scan_lex [OF assms(1)] \<open>num_end rest\<close> by simp
qed

lemma scan_elements:
  assumes "vs \<noteq> []" "list_all reads vs" "m = BeginValue \<or> m = BeginValueOrEmpty"
    and "Suc (length fs) + foldr max (map nesting vs) 0 \<le> maxNestingDepth"
  shows "scan (InArr us # fs) m (joinWith '','' (map print vs) @ CHR '']'' # rest) =
    resume (deliver (JArr (us @ map norm vs)) fs) rest"
  using assms
proof (induction vs arbitrary: us m)
  case (Cons v vs)
  let ?tail = "(if vs = [] then [] else CHR '','' # joinWith '','' (map print vs)) @ CHR '']'' # rest"
  have "joinWith '','' (map print (v # vs)) @ CHR '']'' # rest = print v @ ?tail" by (cases vs) auto
  moreover have "num_end ?tail" by simp
  ultimately have "scan (InArr us # fs) m (joinWith '','' (map print (v # vs)) @ CHR '']'' # rest) =
      scan (InArr (us @ [norm v]) # fs) EndValue ?tail"
    using Cons.prems readsD [of v m ?tail "InArr us # fs"] by simp
  also have "\<dots> = resume (deliver (JArr (us @ map norm (v # vs))) fs) rest"
  proof (cases "vs = []")
    case True
    then show ?thesis by (simp add: scan_lex scan_step_def)
  next
    case False
    then show ?thesis using Cons.IH [of BeginValue "us @ [norm v]"] Cons.prems by (simp add: scan_lex scan_step_def)
  qed
  finally show ?case .
qed simp

definition member :: "string \<times> json \<Rightarrow> string" where
  "member kv = quote (fst kv) @ '':'' @ print (snd kv)"

lemma scan_members:
  assumes "kvs \<noteq> []" "list_all (\<lambda>(k, v). reads v) kvs" "m = BeginString \<or> m = BeginStringOrEmpty"
    and "Suc (length fs) + foldr max (map (\<lambda>(k, v). nesting v) kvs) 0 \<le> maxNestingDepth"
  shows "scan (InObj us # fs) m (joinWith '','' (map member kvs) @ CHR ''}'' # rest) =
    resume (deliver (JObj (us @ map (\<lambda>(k, v). (to_valid k, norm v)) kvs)) fs) rest"
  using assms
proof (induction kvs arbitrary: us m)
  case (Cons kv kvs)
  obtain k v where kv: "kv = (k, v)" by force
  let ?tail = "(if kvs = [] then [] else CHR '','' # joinWith '','' (map member kvs)) @ CHR ''}'' # rest"
  have "joinWith '','' (map member (kv # kvs)) @ CHR ''}'' # rest = quote k @ CHR '':'' # print v @ ?tail"
    by (cases kvs) (auto simp: kv member_def)
  moreover have "scan (InObj us # fs) m (quote k @ CHR '':'' # print v @ ?tail) =
      scan (InKey us (to_valid k) # fs) BeginValue (print v @ ?tail)"
    using Cons.prems(3) by (auto simp: scan_lex [OF lex_quote] scan_lex scan_step_def)
  moreover have "scan (InKey us (to_valid k) # fs) BeginValue (print v @ ?tail) =
      scan (InObj (us @ [(to_valid k, norm v)]) # fs) EndValue ?tail"
    using Cons.prems readsD [of v BeginValue ?tail "InKey us (to_valid k) # fs"] by (simp add: kv)
  moreover have "scan (InObj (us @ [(to_valid k, norm v)]) # fs) EndValue ?tail =
      resume (deliver (JObj (us @ map (\<lambda>(k, v). (to_valid k, norm v)) (kv # kvs))) fs) rest"
  proof (cases "kvs = []")
    case True
    then show ?thesis by (simp add: kv scan_lex scan_step_def)
  next
    case False
    then show ?thesis using Cons.IH [of BeginString "us @ [(to_valid k, norm v)]"] Cons.prems
      by (simp add: kv scan_lex scan_step_def)
  qed
  ultimately show ?case by simp
qed simp

lemma reads_JArr:
  assumes "list_all reads vs"
  shows "reads (JArr vs)"
proof (rule readsI, goal_cases)
  case (1 fs m rest)
  then have "scan fs m (print (JArr vs) @ rest) =
      scan (InArr [] # fs) BeginValueOrEmpty (joinWith '','' (map print vs) @ CHR '']'' # rest)"
    by (auto simp: scan_lex scan_step_def begin_value_def push_def)
  also have "\<dots> = resume (deliver (norm (JArr vs)) fs) rest"
    using scan_elements [of vs BeginValueOrEmpty fs "[]"] assms 1(3) by (cases "vs = []") (simp_all add: scan_lex scan_step_def)
  finally show ?case .
qed

lemma reads_JObj:
  assumes "list_all (\<lambda>(k, v). reads v) kvs"
  shows "reads (JObj kvs)"
proof (rule readsI, goal_cases)
  case (1 fs m rest)
  have "(\<lambda>(k, v). quote k @ CHR '':'' # print v) = member" by (simp add: member_def fun_eq_iff)
  then have "scan fs m (print (JObj kvs) @ rest) =
      scan (InObj [] # fs) BeginStringOrEmpty (joinWith '','' (map member kvs) @ CHR ''}'' # rest)"
    using 1 by (auto simp: scan_lex scan_step_def begin_value_def push_def)
  also have "\<dots> = resume (deliver (norm (JObj kvs)) fs) rest"
    using scan_members [of kvs BeginStringOrEmpty fs "[]"] assms 1(3) by (cases "kvs = []") (simp_all add: scan_lex scan_step_def)
  finally show ?case .
qed

lemma reads_all: "nums_ok v \<Longrightarrow> reads v"
proof (induction v)
  case JNull
  show ?case by (rule reads_token [of _ "Scalar JNull"]) (simp_all add: lex_words [simplified] begin_value_def)
next
  case (JBool b)
  show ?case by (rule reads_token [of _ "Scalar (JBool b)"]) (simp_all add: lex_words [simplified] begin_value_def)
next
  case (JNum s)
  then show ?case by (intro reads_token [of _ "Scalar (JNum s)"]) (simp_all add: lex_number begin_value_def)
next
  case (JStr s)
  show ?case by (rule reads_token [of _ "Str (to_valid s)"]) (simp_all add: lex_quote begin_value_def)
next
  case (JArr vs)
  then show ?case by (intro reads_JArr) (simp add: list_all_iff)
next
  case (JObj kvs)
  then show ?case by (intro reads_JObj) (fastforce simp: list_all_iff)
qed

lemma decode_print:
  "nums_ok v \<Longrightarrow> nesting v \<le> maxNestingDepth \<Longrightarrow> num_end rest \<Longrightarrow> decode_value (print v @ rest) = Some (norm v, rest)"
  using readsD [OF reads_all, of v BeginValue rest "[]"] by (simp add: decode_value_def)

text \<open>A text of a value: it decodes to the value wherever it stands. The printed text is one.\<close>

definition text_of :: "string \<Rightarrow> json \<Rightarrow> bool" where
  "text_of t v \<longleftrightarrow> (\<forall>rest. num_end rest \<longrightarrow> decode_value (t @ rest) = Some (v, rest))"

lemma text_ofD: "text_of t v \<Longrightarrow> num_end rest \<Longrightarrow> decode_value (t @ rest) = Some (v, rest)"
  by (simp add: text_of_def)

lemma text_of_print: "nums_ok v \<Longrightarrow> nesting v \<le> maxNestingDepth \<Longrightarrow> text_of (print v) (norm v)"
  by (simp add: text_of_def decode_print)

lemma decode_value_space: "is_space c \<Longrightarrow> decode_value (c # s) = decode_value s"
  by (simp add: decode_value_def scan.simps [of "[]" BeginValue] lex_def)

text \<open>The text of a value is one line.\<close>

lemma digits_printable: "printable (takeWhile is_digit s)"
  by (induction s) (auto simp: is_digit_def)

lemma lex_parts_printable:
  "printable (fst (lex_sign s))" "lex_int s = Some (i, r) \<Longrightarrow> printable i"
  "printable p \<Longrightarrow> lex_digits p s = Some (i, r) \<Longrightarrow> printable i"
  by (auto simp: lex_sign_def lex_int_def lex_digits_def digits_printable simp del: takeWhile.simps split: list.splits if_splits)

lemma num_ok_printable:
  assumes "num_ok s"
  shows "printable s"
proof -
  obtain i s1 f s2 e where p: "lex_int (snd (lex_sign s)) = Some (i, s1)" "lex_frac s1 = Some (f, s2)"
    "lex_exp s2 = Some (e, [])" "fst (lex_sign s) @ i @ f @ e = s"
    using assms by (auto simp: num_ok_def lex_num_def split: prod.splits option.splits)
  have "printable f" using p(2) by (auto simp: lex_frac_def split: list.splits if_splits dest: lex_parts_printable(3) [rotated])
  moreover have "printable e" using p(3) by (auto simp: lex_exp_def split: list.splits if_splits dest: lex_parts_printable(3) [rotated])
  ultimately have "printable (fst (lex_sign s) @ i @ f @ e)" using lex_parts_printable(1,2) p(1) by simp
  then show ?thesis unfolding p(4) .
qed

lemma printable_joinWith: "list_all printable ss \<Longrightarrow> printable d \<Longrightarrow> printable (joinWith d ss)"
  by (induction d ss rule: joinWith.induct) auto

lemma print_printable: "nums_ok v \<Longrightarrow> printable (print v)"
proof (induction v)
  case (JArr vs)
  then have "list_all printable (map print vs)" by (simp add: list_all_iff)
  then show ?case using printable_joinWith [of "map print vs" "'',''"] by simp
next
  case (JObj kvs)
  have "printable (quote k @ '':'' @ print v)" if "(k, v) \<in> set kvs" for k v
    using JObj that by (fastforce simp: quote_printable list_all_iff)
  then have "list_all printable (map (\<lambda>(k, v). quote k @ '':'' @ print v) kvs)" unfolding list_all_iff by fastforce
  then show ?case using printable_joinWith [of _ "'',''"] by simp
qed (simp_all add: num_ok_printable quote_printable)

lemma nesting_JObj: "list_all (\<lambda>(k, v). nesting v \<le> n) kvs \<Longrightarrow> nesting (JObj kvs) \<le> Suc n"
  by (induction kvs) auto

end
