(* ===== verification/Unmarshal.thy ===== *)
theory Unmarshal
  imports Json
begin

text \<open>
  The conversion of decoded JSON to Go values, as \<open>encoding/json\<close> does it for the types the sensor
  decodes: strings, booleans, integers, maps of strings, slices and structures. A decoder changes
  an existing value; \<open>null\<close> leaves it as it is; a value of the wrong type is an error, the result
  \<open>None\<close>. A structure takes the members of an object in order, each by its exact name or else by its
  name up to case, and ignores members it has no field for.
\<close>

type_synonym 'a unmarshal = "json \<Rightarrow> 'a \<Rightarrow> 'a option"

section \<open>Basic types\<close>

definition un_string :: "string unmarshal" where
  "un_string v x = (case v of JNull \<Rightarrow> Some x | JStr s \<Rightarrow> Some s | _ \<Rightarrow> None)"

definition un_bool :: "bool unmarshal" where
  "un_bool v x = (case v of JNull \<Rightarrow> Some x | JBool b \<Rightarrow> Some b | _ \<Rightarrow> None)"

text \<open>\<open>strconv.ParseInt\<close> in base 10 for 64 bits, on the text of a number.\<close>

definition ParseInt :: "string \<Rightarrow> num_error + int" where
  "ParseInt s =
     (let neg = (s \<noteq> [] \<and> hd s = CHR ''-''); s = (if s \<noteq> [] \<and> (hd s = CHR ''-'' \<or> hd s = CHR ''+'') then tl s else s) in
      case ParseUint s 64 of Inl e \<Rightarrow> Inl e
      | Inr un \<Rightarrow>
        if \<not> neg \<and> 2 ^ 63 \<le> unat un then Inl ErrRange
        else if neg \<and> 2 ^ 63 < unat un then Inl ErrRange
        else Inr (if neg then - int (unat un) else int (unat un)))"

definition un_int :: "int unmarshal" where
  "un_int v x =
     (case v of JNull \<Rightarrow> Some x | JNum s \<Rightarrow> (case ParseInt s of Inl e \<Rightarrow> None | Inr i \<Rightarrow> Some i) | _ \<Rightarrow> None)"

section \<open>Composite types\<close>

fun un_members :: "(string \<times> json) list \<Rightarrow> (string \<rightharpoonup> string) \<Rightarrow> (string \<rightharpoonup> string) option" where
  "un_members [] m = Some m"
| "un_members ((k, v) # kvs) m =
     (case un_string v [] of None \<Rightarrow> None | Some s \<Rightarrow> un_members kvs (m(k \<mapsto> s)))"

definition un_map :: "(string \<rightharpoonup> string) unmarshal" where
  "un_map v m = (case v of JNull \<Rightarrow> Some Map.empty | JObj kvs \<Rightarrow> un_members kvs m | _ \<Rightarrow> None)"

text \<open>Into an empty slice of elements with zero value \<open>z\<close>.\<close>

definition un_slice :: "'a unmarshal \<Rightarrow> 'a \<Rightarrow> 'a list unmarshal" where
  "un_slice un z v xs = (case v of JNull \<Rightarrow> Some [] | JArr vs \<Rightarrow> those (map (\<lambda>v. un v z) vs) | _ \<Rightarrow> None)"

text \<open>
  \<open>foldName\<close>. The only characters beyond ASCII that fold to an ASCII letter are U+017F and the
  Kelvin sign.
\<close>

definition upper :: "char \<Rightarrow> char" where
  "upper c = (if 97 \<le> code c \<and> code c \<le> 122 then char_of (code c - 32) else c)"

fun fold_name :: "string \<Rightarrow> string" where
  "fold_name [] = []"
| "fold_name (c # cs) =
     (if c = CHR 0xC5 \<and> take 1 cs = [CHR 0xBF] then CHR ''S'' # fold_name (drop 1 cs)
      else if c = CHR 0xE2 \<and> take 2 cs = [CHR 0x84, CHR 0xAA] then CHR ''K'' # fold_name (drop 2 cs)
      else upper c # fold_name cs)"

definition find_field :: "(string \<times> 'f) list \<Rightarrow> string \<Rightarrow> 'f option" where
  "find_field fields k =
     (case map_of fields k of Some f \<Rightarrow> Some f
      | None \<Rightarrow> map_of (map (\<lambda>(n, f). (fold_name n, f)) fields) (fold_name k))"

fun un_fields :: "(string \<times> 's unmarshal) list \<Rightarrow> (string \<times> json) list \<Rightarrow> 's \<Rightarrow> 's option" where
  "un_fields fields [] s = Some s"
| "un_fields fields ((k, v) # kvs) s =
     (case find_field fields k of None \<Rightarrow> un_fields fields kvs s
      | Some un \<Rightarrow> (case un v s of None \<Rightarrow> None | Some s \<Rightarrow> un_fields fields kvs s))"

definition un_struct :: "(string \<times> 's unmarshal) list \<Rightarrow> 's unmarshal" where
  "un_struct fields v s = (case v of JNull \<Rightarrow> Some s | JObj kvs \<Rightarrow> un_fields fields kvs s | _ \<Rightarrow> None)"

text \<open>A field, given by its type, how it is read and how it is updated.\<close>

definition fld :: "'a unmarshal \<Rightarrow> ('s \<Rightarrow> 'a) \<Rightarrow> (('a \<Rightarrow> 'a) \<Rightarrow> 's \<Rightarrow> 's) \<Rightarrow> 's unmarshal" where
  "fld un get upd v s = map_option (\<lambda>x. upd (\<lambda>_. x) s) (un v (get s))"

section \<open>Facts\<close>

lemma un_string_JStr [simp]: "un_string (JStr s) x = Some s"
  by (simp add: un_string_def)

lemma un_bool_JBool [simp]: "un_bool (JBool b) x = Some b"
  by (simp add: un_bool_def)

lemma un_int_FormatUint [simp]: "n < 2 ^ 63 \<Longrightarrow> un_int (JNum (FormatUint n)) x = Some (int n)"
proof -
  assume n: "n < 2 ^ 63"
  obtain c cs where c: "FormatUint n = c # cs" "is_digit c" using FormatUint_first by blast
  have "c \<noteq> CHR ''-''" "c \<noteq> CHR ''+''" using c(2) by (auto simp: is_digit_def)
  moreover have "ParseUint (FormatUint n) 64 = Inr (of_nat n)" using ParseUint_FormatUint [of 64 n] n by simp
  ultimately show ?thesis using c(1) n by (simp add: un_int_def ParseInt_def unat_of_nat_u64)
qed

lemma un_members_strings: "un_members (map (\<lambda>(k, s). (k, JStr s)) kss) m = Some (m ++ map_of (rev kss))"
  by (induction kss arbitrary: m) (auto simp: map_add_upd_left split: prod.splits)

lemma un_fields_append:
  "un_fields fields (kvs @ kvs') s = Option.bind (un_fields fields kvs s) (un_fields fields kvs')"
  by (induction kvs arbitrary: s) (auto split: option.splits)

text \<open>Members without a field change nothing.\<close>

definition foreign :: "(string \<times> 'f) list \<Rightarrow> (string \<times> json) list \<Rightarrow> bool" where
  "foreign fields kvs \<longleftrightarrow> list_all (\<lambda>(k, v). find_field fields k = None) kvs"

lemma un_fields_foreign: "foreign fields kvs \<Longrightarrow> un_fields fields kvs s = Some s"
  by (induction kvs) (auto simp: foreign_def)

section \<open>Members in any order\<close>

text \<open>Members of an object whose names differ up to case.\<close>

definition distinct_names :: "(string \<times> json) list \<Rightarrow> bool" where
  "distinct_names kvs \<longleftrightarrow> distinct (map (\<lambda>(k, v). fold_name k) kvs)"

text \<open>
  A field that only the member of its own name changes has, after all members are taken, the
  value of that member.
\<close>

definition own_field :: "(string \<times> 's unmarshal) list \<Rightarrow> string \<Rightarrow> 'a unmarshal \<Rightarrow> ('s \<Rightarrow> 'a) \<Rightarrow> bool" where
  "own_field fields n un get \<longleftrightarrow>
     (\<forall>v s s'. \<forall>u. find_field fields n = Some u \<longrightarrow> u v s = Some s' \<longrightarrow> un v (get s) = Some (get s')) \<and>
     find_field fields n \<noteq> None \<and>
     (\<forall>k u v s s'. fold_name k \<noteq> fold_name n \<longrightarrow> find_field fields k = Some u \<longrightarrow> u v s = Some s' \<longrightarrow> get s' = get s)"

lemma own_field_other:
  assumes "own_field fields n un get" "un_fields fields kvs s = Some s'"
    and "fold_name n \<notin> set (map (\<lambda>(k, v). fold_name k) kvs)"
  shows "get s' = get s"
  using assms(2,3)
proof (induction kvs arbitrary: s)
  case (Cons kv kvs)
  obtain k v where kv: "kv = (k, v)" by force
  have k: "fold_name k \<noteq> fold_name n" using Cons.prems(2) kv by auto
  show ?case
  proof (cases "find_field fields k")
    case None
    then show ?thesis using Cons kv by simp
  next
    case (Some u)
    then obtain s1 where "u v s = Some s1" "un_fields fields kvs s1 = Some s'"
      using Cons.prems(1) kv by (auto split: option.splits)
    moreover have "get s1 = get s" using assms(1) k Some \<open>u v s = Some s1\<close> unfolding own_field_def by blast
    ultimately show ?thesis using Cons.IH [of s1] Cons.prems(2) by simp
  qed
qed simp

lemma own_field_value:
  assumes "own_field fields n un get" "un_fields fields kvs s = Some s'" "distinct_names kvs" "map_of kvs n = Some v"
  shows "un v (get s) = Some (get s')"
  using assms(2-4)
proof (induction kvs arbitrary: s)
  case (Cons kv kvs)
  obtain k w where kv: "kv = (k, w)" by force
  show ?case
  proof (cases "k = n")
    case True
    obtain u where u: "find_field fields n = Some u" using assms(1) by (auto simp: own_field_def)
    obtain s1 where s1: "u v s = Some s1" "un_fields fields kvs s1 = Some s'"
      using Cons.prems kv True u by (auto split: option.splits)
    have "get s' = get s1" using own_field_other [OF assms(1) s1(2)] Cons.prems(2) kv True by (simp add: distinct_names_def)
    moreover have "un v (get s) = Some (get s1)" using assms(1) u s1(1) unfolding own_field_def by blast
    ultimately show ?thesis by simp
  next
    case False
    then have v: "map_of kvs n = Some v" using Cons.prems(3) kv by simp
    then have "fold_name n \<in> set (map (\<lambda>(k, v). fold_name k) kvs)" by (force dest: map_of_SomeD)
    then have k: "fold_name k \<noteq> fold_name n" using Cons.prems(2) kv by (auto simp: distinct_names_def)
    have d: "distinct_names kvs" using Cons.prems(2) by (simp add: distinct_names_def)
    show ?thesis
    proof (cases "find_field fields k")
      case None
      then show ?thesis using Cons.IH [of s] Cons.prems(1) kv d v by simp
    next
      case (Some u)
      then obtain s1 where "u w s = Some s1" "un_fields fields kvs s1 = Some s'"
        using Cons.prems(1) kv by (auto split: option.splits)
      moreover have "get s1 = get s" using assms(1) k Some \<open>u w s = Some s1\<close> unfolding own_field_def by blast
      ultimately show ?thesis using Cons.IH [of s1] d v by simp
    qed
  qed
qed simp

lemma find_field_SomeD: "find_field fields k = Some u \<Longrightarrow> \<exists>n. (n, u) \<in> set fields \<and> fold_name n = fold_name k"
  by (force simp: find_field_def split: option.splits dest: map_of_SomeD)

lemma own_fieldI:
  assumes "map_of fields n = Some (fld un get upd)" and "\<And>x s. get (upd (\<lambda>_. x) s) = x"
    and "\<forall>(m, u) \<in> set fields. m \<noteq> n \<longrightarrow> (\<forall>v s s'. u v s = Some s' \<longrightarrow> get s' = get s)"
  shows "own_field fields n un get"
  unfolding own_field_def
proof (intro conjI allI impI)
  have f: "find_field fields n = Some (fld un get upd)" using assms(1) by (simp add: find_field_def)
  then show "find_field fields n \<noteq> None" by simp
  show "un v (get s) = Some (get s')" if "find_field fields n = Some u" "u v s = Some s'" for u v s s'
    using that f assms(2) by (auto simp: fld_def)
  show "get s' = get s" if "fold_name k \<noteq> fold_name n" "find_field fields k = Some u" "u v s = Some s'" for k u v s s'
    using find_field_SomeD [OF that(2)] that(1,3) assms(3) by fastforce
qed

text \<open>
  Decoding succeeds if every field has a member of its exact name with a value of its type.
\<close>

lemma un_fields_total:
  assumes "distinct_names kvs" and "\<forall>(n, u) \<in> set fields. \<exists>v. map_of kvs n = Some v \<and> (\<forall>s. u v s \<noteq> None)"
  shows "\<exists>s'. un_fields fields kvs s = Some s'"
proof -
  have "\<exists>s'. un_fields fields kvs' s = Some s'"
    if "\<forall>(k, v) \<in> set kvs'. \<forall>u s. find_field fields k = Some u \<longrightarrow> u v s \<noteq> None" for kvs' s
    using that by (induction kvs' arbitrary: s) (auto split: option.splits, metis option.distinct(1))
  moreover have "u v s \<noteq> None" if kv: "(k, v) \<in> set kvs" and u: "find_field fields k = Some u" for k v u s
  proof -
    obtain n where n: "(n, u) \<in> set fields" "fold_name n = fold_name k" using find_field_SomeD [OF u] by blast
    then obtain w where w: "map_of kvs n = Some w" "\<forall>s. u w s \<noteq> None" using assms(2) by blast
    have "inj_on (\<lambda>(k, v). fold_name k) (set kvs)" using assms(1) by (simp add: distinct_names_def distinct_map)
    from inj_onD [OF this _ kv map_of_SomeD [OF w(1)]] have "(k, v) = (n, w)" using n(2) by simp
    then show ?thesis using w(2) by simp
  qed
  ultimately show ?thesis by blast
qed

end
