(* ===== verification/Container.thy ===== *)
theory Container
  imports GoStrings
begin

text \<open>
  Containers and the target selector (\<open>internal/container/runtime.go\<close>): the metadata record,
  the three ways to select a container, and the lifecycle events of a container runtime.
\<close>

record Container =
  c_ID :: string
  c_Name :: string
  c_Image :: string
  c_ImageID :: string
  c_Labels :: "string \<rightharpoonup> string"
  c_Pid :: int
  c_Running :: bool

record Target =
  tg_Name :: string
  tg_ID :: string
  tg_Label :: string

definition Target_String :: "Target \<Rightarrow> string" where
  "Target_String t =
     (if tg_Name t \<noteq> [] then ''name='' @ tg_Name t
      else if tg_ID t \<noteq> [] then ''id='' @ tg_ID t
      else ''label='' @ tg_Label t)"

datatype target_error = SelectorCount nat | LabelForm string

text \<open>\<open>None\<close> is the nil error.\<close>

definition Validate :: "Target \<Rightarrow> target_error option" where
  "Validate t =
     (let n = length (filter (\<lambda>s. s \<noteq> []) [tg_Name t, tg_ID t, tg_Label t]) in
      if n \<noteq> 1 then Some (SelectorCount n)
      else if tg_Label t \<noteq> [] \<and> \<not> Contains (tg_Label t) ''='' then Some (LabelForm (tg_Label t))
      else None)"

definition Matches :: "Target \<Rightarrow> Container \<Rightarrow> bool" where
  "Matches t c =
     (if tg_Name t \<noteq> [] then c_Name c = TrimPrefix (tg_Name t) ''/''
      else if tg_ID t \<noteq> [] then HasPrefix (c_ID c) (tg_ID t)
      else case Cut (tg_Label t) ''='' of (k, v, _) \<Rightarrow>
        (case c_Labels c k of None \<Rightarrow> False | Some got \<Rightarrow> got = v))"

text \<open>An \<open>EventKind\<close> is a string; the runtime may send others than these.\<close>

type_synonym EventKind = string

definition EventCreate :: EventKind where "EventCreate = ''create''"
definition EventStart :: EventKind where "EventStart = ''start''"
definition EventDie :: EventKind where "EventDie = ''die''"
definition EventDestroy :: EventKind where "EventDestroy = ''destroy''"
definition EventRename :: EventKind where "EventRename = ''rename''"

lemmas event_kinds = EventCreate_def EventStart_def EventDie_def EventDestroy_def EventRename_def

record LifeEvent =
  le_Kind :: EventKind
  le_ID :: string

text \<open>What the three selectors mean once they are valid.\<close>

datatype selector = ByName string | ByID string | ByLabel string string

definition selector_target :: "selector \<Rightarrow> Target" where
  "selector_target s =
     (case s of
        ByName n \<Rightarrow> \<lparr>tg_Name = n, tg_ID = [], tg_Label = []\<rparr>
      | ByID i \<Rightarrow> \<lparr>tg_Name = [], tg_ID = i, tg_Label = []\<rparr>
      | ByLabel k v \<Rightarrow> \<lparr>tg_Name = [], tg_ID = [], tg_Label = k @ ''='' @ v\<rparr>)"

definition selects :: "selector \<Rightarrow> Container \<Rightarrow> bool" where
  "selects s c \<longleftrightarrow>
     (case s of
        ByName n \<Rightarrow> n = c_Name c \<and> \<not> HasPrefix n ''/'' \<or> n = CHR ''/'' # c_Name c
      | ByID i \<Rightarrow> (\<exists>rest. c_ID c = i @ rest)
      | ByLabel k v \<Rightarrow> c_Labels c k = Some v)"

definition selector_ok :: "selector \<Rightarrow> bool" where
  "selector_ok s \<longleftrightarrow> (case s of ByName n \<Rightarrow> n \<noteq> [] | ByID i \<Rightarrow> i \<noteq> [] | ByLabel k v \<Rightarrow> CHR ''='' \<notin> set k)"

lemma label_split:
  assumes "CHR ''='' \<in> set l"
  obtains k v where "l = k @ CHR ''='' # v" "CHR ''='' \<notin> set k"
  using split_list_first [OF assms] by blast

lemma Validate_iff: "Validate t = None \<longleftrightarrow> (\<exists>s. selector_ok s \<and> t = selector_target s)"
proof
  assume v: "Validate t = None"
  then consider "tg_Name t \<noteq> []" "tg_ID t = []" "tg_Label t = []"
    | "tg_Name t = []" "tg_ID t \<noteq> []" "tg_Label t = []"
    | "tg_Name t = []" "tg_ID t = []" "CHR ''='' \<in> set (tg_Label t)"
    by (auto simp: Validate_def Contains_single Let_def split: if_splits)
  then show "\<exists>s. selector_ok s \<and> t = selector_target s"
  proof cases
    case 1
    then show ?thesis by (intro exI [of _ "ByName (tg_Name t)"]) (simp add: selector_ok_def selector_target_def)
  next
    case 2
    then show ?thesis by (intro exI [of _ "ByID (tg_ID t)"]) (simp add: selector_ok_def selector_target_def)
  next
    case 3
    from label_split [OF 3(3)] obtain k v where "tg_Label t = k @ CHR ''='' # v" "CHR ''='' \<notin> set k" by blast
    then show ?thesis using 3(1,2)
      by (intro exI [of _ "ByLabel k v"]) (cases t, simp add: selector_ok_def selector_target_def)
  qed
next
  assume "\<exists>s. selector_ok s \<and> t = selector_target s"
  then show "Validate t = None"
    by (auto simp: selector_ok_def selector_target_def Validate_def Contains_single split: selector.splits)
qed

lemma Matches_selector:
  assumes "selector_ok s"
  shows "Matches (selector_target s) c \<longleftrightarrow> selects s c"
proof (cases s)
  case (ByName n)
  show ?thesis
  proof (cases "HasPrefix n ''/''")
    case True
    then obtain r where "n = CHR ''/'' # r" by (cases n) (auto simp: HasPrefix_single)
    then show ?thesis using ByName TrimPrefix_append [of "''/''" r]
      by (auto simp: Matches_def selector_target_def selects_def HasPrefix_single)
  next
    case False
    then show ?thesis using ByName assms TrimPrefix_no [OF False]
      by (auto simp: Matches_def selector_target_def selects_def HasPrefix_single selector_ok_def)
  qed
next
  case (ByID i)
  then show ?thesis using assms
    by (auto simp: Matches_def selector_target_def selects_def selector_ok_def HasPrefix_def)
      (metis append_take_drop_id)
next
  case (ByLabel k v)
  then show ?thesis using assms Cut_single [of "CHR ''=''" k v]
    by (auto simp: Matches_def selector_target_def selects_def selector_ok_def split: option.split)
qed

text \<open>
  C35: target selection. A target passes \<open>Validate\<close> exactly if it is one of the three selectors, by
  name, by identifier or by label with a \<open>=\<close>; and a valid target matches exactly the containers
  the selector means: the name with or without a leading slash, the identifiers that start with
  the given prefix, or the given value of the label (which may itself contain \<open>=\<close>).
\<close>

theorem Target_correct:
  "(Validate t = None \<longleftrightarrow> (\<exists>s. selector_ok s \<and> t = selector_target s)) \<and>
   (\<forall>s c. selector_ok s \<longrightarrow> Matches (selector_target s) c = selects s c)"
  by (simp add: Validate_iff Matches_selector)

theorem Target_correct_witness:
  "selector_ok (ByLabel ''app'' ''a=b'') \<and>
   Matches (selector_target (ByLabel ''app'' ''a=b''))
     \<lparr>c_ID = ''1'', c_Name = ''w'', c_Image = [], c_ImageID = [], c_Labels = [''app'' \<mapsto> ''a=b''], c_Pid = 0, c_Running = False\<rparr>"
  using Target_correct by (simp add: selector_ok_def selects_def)

section \<open>Cgroup paths\<close>

text \<open>
  What the watcher relies on in the paths a runtime gives to its containers: the cgroups of all
  containers are directories in one parent directory, each with a name of its own.
\<close>

definition container_id :: "string \<Rightarrow> bool" where
  "container_id i \<longleftrightarrow> i \<noteq> [] \<and> list_all (\<lambda>c. c \<in> set ''0123456789abcdef'') i"

locale cgroup_paths =
  fixes path :: "string \<Rightarrow> 'e + string" and parent :: string and leaf :: "string \<Rightarrow> string"
  assumes path_form: "path i = Inr p \<Longrightarrow> p = parent @ CHR ''/'' # leaf i"
    and parent_clean: "HasPrefix parent ''/''" "Clean (parent @ ''/'') = parent"
    and leaf_component: "container_id i \<Longrightarrow> component (leaf i)"
    and leaf_inj: "leaf i = leaf j \<Longrightarrow> i = j"
begin

lemma Base_path: "container_id i \<Longrightarrow> path i = Inr p \<Longrightarrow> Base p = leaf i"
  using leaf_component [of i] by (auto dest: path_form simp: component_def Base_last)

lemma Dir_path: "container_id i \<Longrightarrow> path i = Inr p \<Longrightarrow> Dir p = parent"
  using leaf_component [of i] parent_clean(2) by (auto dest: path_form simp: component_def Dir_append)

text \<open>The directory watched for one container is the parent of the cgroup of every other one.\<close>

lemma watched_directory:
  assumes "HasPrefix root ''/''" "container_id i" "path i = Inr p" "container_id j" "path j = Inr q"
  shows "Join [Join [root, Dir q], leaf i] = Join [root, p]"
proof -
  have root: "root \<noteq> []" using assms(1) by (auto simp: HasPrefix_def)
  have pre: "HasPrefix (root @ CHR ''/'' # parent) ''/''" using assms(1) by (cases root) (auto simp: HasPrefix_def)
  then have "Clean (root @ CHR ''/'' # parent) \<noteq> []" by (simp add: Clean_def Let_def)
  then show ?thesis
    using Clean_Clean_append [OF pre leaf_component [OF assms(2)]] root
    by (simp add: Dir_path [OF assms(4,5)] path_form [OF assms(3)] Join_two)
qed

end

end
