(* ===== verification/Docker.thy ===== *)
theory Docker
  imports Unmarshal Container
begin

text \<open>
  The Docker client (\<open>internal/container/docker.go\<close>), which implements the \<open>Runtime\<close> interface of
  the watcher. The engine is a parameter: the answer to a GET request, by its path and query. The
  transport, its timeouts and the closing of response bodies are left out; a URL made of the
  fixed parts and an escaped identifier always parses, so \<open>http.NewRequest\<close> does not fail.
\<close>

section \<open>Escaping\<close>

text \<open>\<open>url.PathEscape\<close> and \<open>url.QueryEscape\<close>\<close>

definition is_alnum :: "char \<Rightarrow> bool" where
  "is_alnum c \<longleftrightarrow> (let b = code c in 48 \<le> b \<and> b \<le> 57 \<or> 65 \<le> b \<and> b \<le> 90 \<or> 97 \<le> b \<and> b \<le> 122)"

definition hex_upper :: "nat \<Rightarrow> char" where
  "hex_upper n = char_of (if n < 10 then 48 + n else 55 + n)"

definition percent :: "char \<Rightarrow> string" where
  "percent c = [CHR ''%'', hex_upper (code c div 16), hex_upper (code c mod 16)]"

definition PathEscape :: "string \<Rightarrow> string" where
  "PathEscape s = concat (map (\<lambda>c. if is_alnum c \<or> c \<in> set ''-_.~$&+:=@'' then [c] else percent c) s)"

definition QueryEscape :: "string \<Rightarrow> string" where
  "QueryEscape s =
     concat (map (\<lambda>c. if is_alnum c \<or> c \<in> set ''-_.~'' then [c] else if c = CHR '' '' then ''+'' else percent c) s)"

section \<open>Types\<close>

record response =
  StatusCode :: nat
  Status :: string
  Body :: string

type_synonym engine = "string \<Rightarrow> nat + response"

datatype rt_error =
    ErrNotFound string
  | DoErr string nat
  | StatusErr string string string
  | DecodeErr
  | BadDriver string
  | BadVersion string

record Docker =
  socket :: string
  cgroupDriver :: string

record InspectState =
  is_Running :: bool
  is_Pid :: int

record InspectConfig =
  ic_Image :: string
  ic_Labels :: "string \<rightharpoonup> string"

record dockerInspect =
  di_ID :: string
  di_Name :: string
  di_Image :: string
  di_State :: InspectState
  di_Config :: InspectConfig

record dockerSummary =
  ds_ID :: string

record dockerInfo =
  in_CgroupDriver :: string
  in_CgroupVersion :: string

record dockerActor =
  da_ID :: string

record dockerMessage =
  dm_Action :: string
  dm_Actor :: dockerActor

text \<open>The tags of the fields.\<close>

definition state_fields :: "(string \<times> InspectState unmarshal) list" where
  "state_fields = [(''Running'', fld un_bool is_Running is_Running_update), (''Pid'', fld un_int is_Pid is_Pid_update)]"

definition config_fields :: "(string \<times> InspectConfig unmarshal) list" where
  "config_fields =
     [(''Image'', fld un_string ic_Image ic_Image_update), (''Labels'', fld un_map ic_Labels ic_Labels_update)]"

definition inspect_fields :: "(string \<times> dockerInspect unmarshal) list" where
  "inspect_fields =
     [(''Id'', fld un_string di_ID di_ID_update), (''Name'', fld un_string di_Name di_Name_update),
      (''Image'', fld un_string di_Image di_Image_update),
      (''State'', fld (un_struct state_fields) di_State di_State_update),
      (''Config'', fld (un_struct config_fields) di_Config di_Config_update)]"

definition summary_fields :: "(string \<times> dockerSummary unmarshal) list" where
  "summary_fields = [(''Id'', fld un_string ds_ID ds_ID_update)]"

definition info_fields :: "(string \<times> dockerInfo unmarshal) list" where
  "info_fields =
     [(''CgroupDriver'', fld un_string in_CgroupDriver in_CgroupDriver_update),
      (''CgroupVersion'', fld un_string in_CgroupVersion in_CgroupVersion_update)]"

definition actor_fields :: "(string \<times> dockerActor unmarshal) list" where
  "actor_fields = [(''ID'', fld un_string da_ID da_ID_update)]"

definition message_fields :: "(string \<times> dockerMessage unmarshal) list" where
  "message_fields =
     [(''Action'', fld un_string dm_Action dm_Action_update),
      (''Actor'', fld (un_struct actor_fields) dm_Actor dm_Actor_update)]"

definition zero_inspect :: dockerInspect where
  "zero_inspect =
     \<lparr>di_ID = [], di_Name = [], di_Image = [], di_State = \<lparr>is_Running = False, is_Pid = 0\<rparr>,
      di_Config = \<lparr>ic_Image = [], ic_Labels = Map.empty\<rparr>\<rparr>"

section \<open>Requests\<close>

definition NewDocker :: "string \<Rightarrow> Docker" where
  "NewDocker sock = \<lparr>socket = sock, cgroupDriver = []\<rparr>"

definition d_get :: "engine \<Rightarrow> string \<Rightarrow> 'a unmarshal \<Rightarrow> 'a \<Rightarrow> rt_error + 'a" where
  "d_get http path un v =
     (case http path of Inl e \<Rightarrow> Inl (DoErr path e)
      | Inr resp \<Rightarrow>
        if StatusCode resp = 404 then Inl (ErrNotFound path)
        else if StatusCode resp \<noteq> 200 then Inl (StatusErr path (Status resp) (TrimSpace (take 512 (Body resp))))
        else (case decode_value (Body resp) of None \<Rightarrow> Inl DecodeErr
              | Some (j, _) \<Rightarrow> (case un j v of None \<Rightarrow> Inl DecodeErr | Some v \<Rightarrow> Inr v)))"

definition inspect_path :: "string \<Rightarrow> string" where
  "inspect_path idOrName = ''/containers/'' @ PathEscape idOrName @ ''/json''"

definition Inspect :: "engine \<Rightarrow> string \<Rightarrow> rt_error + Container" where
  "Inspect http idOrName =
     (case d_get http (inspect_path idOrName) (un_struct inspect_fields) zero_inspect of Inl e \<Rightarrow> Inl e
      | Inr in_ \<Rightarrow> Inr \<lparr>c_ID = di_ID in_, c_Name = TrimPrefix (di_Name in_) ''/'', c_Image = ic_Image (di_Config in_),
           c_ImageID = di_Image in_, c_Labels = ic_Labels (di_Config in_), c_Pid = is_Pid (di_State in_),
           c_Running = is_Running (di_State in_)\<rparr>)"

text \<open>The loop over the summaries.\<close>

fun inspect_all :: "engine \<Rightarrow> dockerSummary list \<Rightarrow> rt_error + Container list" where
  "inspect_all http [] = Inr []"
| "inspect_all http (s # ss) =
     (case Inspect http (ds_ID s) of
        Inl (ErrNotFound p) \<Rightarrow> inspect_all http ss
      | Inl e \<Rightarrow> Inl e
      | Inr c \<Rightarrow> (case inspect_all http ss of Inl e \<Rightarrow> Inl e | Inr cs \<Rightarrow> Inr (c # cs)))"

definition d_List :: "engine \<Rightarrow> rt_error + Container list" where
  "d_List http =
     (case d_get http ''/containers/json?all=1'' (un_slice (un_struct summary_fields) \<lparr>ds_ID = []\<rparr>) [] of
        Inl e \<Rightarrow> Inl e | Inr ss \<Rightarrow> inspect_all http ss)"

section \<open>Events\<close>

definition events_path :: string where
  "events_path = ''/events?filters='' @
     QueryEscape ''{\"type\":[\"container\"],\"event\":[\"create\",\"start\",\"die\",\"destroy\",\"rename\"]}''"

lemma scan_shorter: "scan fs m s = Some (v, rest) \<Longrightarrow> length rest < length s"
proof (induction fs m s rule: scan.induct)
  case (1 fs m s)
  show ?case
  proof (cases "lex s")
    case None
    then show ?thesis using 1(2) by (simp add: scan.simps [of fs m s])
  next
    case (Some tr)
    then obtain t r where t: "lex s = Some (t, r)" by (cases tr) auto
    show ?thesis using 1(2) 1(1) [OF t refl] lex_shorter [OF t] t
      by (cases "scan_step fs m t") (fastforce simp: scan.simps [of fs m s])+
  qed
qed

lemma decode_value_shorter: "decode_value s = Some (v, rest) \<Longrightarrow> length rest < length s"
  unfolding decode_value_def by (rule scan_shorter)

text \<open>
  The loop over the messages of the stream, with the number of events that are sent before the
  context is done. The result is the events sent and the error reported, if any.
\<close>

function message_loop :: "nat option \<Rightarrow> string \<Rightarrow> LifeEvent list \<times> rt_error option" where
  "message_loop ctx s =
     (case decode_value s of None \<Rightarrow> ([], if ctx = Some 0 then None else Some DecodeErr)
      | Some (j, rest) \<Rightarrow>
        (case un_struct message_fields j \<lparr>dm_Action = [], dm_Actor = \<lparr>da_ID = []\<rparr>\<rparr> of
           None \<Rightarrow> ([], if ctx = Some 0 then None else Some DecodeErr)
         | Some m \<Rightarrow>
           if ctx = Some 0 then ([], None)
           else let (evs, err) = message_loop (map_option (\<lambda>n. n - 1) ctx) rest
                in (\<lparr>le_Kind = dm_Action m, le_ID = da_ID (dm_Actor m)\<rparr> # evs, err)))"
  by pat_completeness auto
termination by (relation "measure (\<lambda>(ctx, s). length s)") (auto dest: decode_value_shorter)

declare message_loop.simps [simp del]

definition d_Events :: "engine \<Rightarrow> nat option \<Rightarrow> LifeEvent list \<times> rt_error option" where
  "d_Events http ctx =
     (case http events_path of Inl e \<Rightarrow> ([], Some (DoErr events_path e))
      | Inr resp \<Rightarrow>
        if StatusCode resp \<noteq> 200 then ([], Some (StatusErr events_path (Status resp) []))
        else message_loop ctx (Body resp))"

section \<open>Cgroup paths\<close>

text \<open>The whole of \<open>driver\<close> is a critical section.\<close>

definition driver :: "engine \<Rightarrow> Docker \<Rightarrow> (rt_error + string) \<times> Docker" where
  "driver http d =
     (if cgroupDriver d \<noteq> [] then (Inr (cgroupDriver d), d)
      else case d_get http ''/info'' (un_struct info_fields) \<lparr>in_CgroupDriver = [], in_CgroupVersion = []\<rparr> of
        Inl e \<Rightarrow> (Inl e, d)
      | Inr info \<Rightarrow>
        if in_CgroupVersion info \<noteq> ''2'' then (Inl (BadVersion (in_CgroupVersion info)), d)
        else (Inr (in_CgroupDriver info), d\<lparr>cgroupDriver := in_CgroupDriver info\<rparr>))"

definition d_CgroupPath :: "engine \<Rightarrow> string \<Rightarrow> Docker \<Rightarrow> (rt_error + string) \<times> Docker" where
  "d_CgroupPath http i d =
     (case driver http d of
        (Inl e, d) \<Rightarrow> (Inl e, d)
      | (Inr drv, d) \<Rightarrow>
        (if drv = ''systemd'' then Inr (''/system.slice/docker-'' @ i @ ''.scope'')
         else if drv = ''cgroupfs'' then Inr (''/docker/'' @ i)
         else Inl (BadDriver drv), d))"

end
