(* ===== verification/DockerProps.thy ===== *)
theory DockerProps
  imports Docker
begin

text \<open>
  Properties of the Docker client: the request for a container names exactly that container, the
  container returned is the one the engine describes, the list holds every container that still
  exists when it is inspected, the event stream is delivered message by message, and the cgroup
  paths of one client agree with each other over time.
\<close>

section \<open>Escaping\<close>

text \<open>The inverse of \<open>PathEscape\<close>, as the engine's router applies it to a path segment.\<close>

fun PathUnescape :: "string \<Rightarrow> string option" where
  "PathUnescape [] = Some []"
| "PathUnescape (c # cs) =
     (if c = CHR ''%'' then
        (case cs of a # b # ds \<Rightarrow>
           (case (hex_value a, hex_value b) of
              (Some m, Some n) \<Rightarrow> map_option ((#) (char_of (16 * m + n))) (PathUnescape ds)
            | _ \<Rightarrow> None)
         | _ \<Rightarrow> None)
      else map_option ((#) c) (PathUnescape cs))"

lemma hex_upper_value: "n < 16 \<Longrightarrow> hex_value (hex_upper n) = Some n"
  by (simp add: hex_value_def hex_upper_def Let_def)

lemma PathUnescape_percent: "PathUnescape (percent c @ s) = map_option ((#) c) (PathUnescape s)"
proof -
  have "code c < 256" by simp
  then have "code c div 16 < 16" by (simp add: less_mult_imp_div_less)
  moreover have "16 * (code c div 16) + code c mod 16 = code c" by simp
  ultimately show ?thesis by (simp add: percent_def hex_upper_value)
qed

lemma PathUnescape_PathEscape: "PathUnescape (PathEscape s) = Some s"
proof (induction s)
  case (Cons c s)
  have "PathEscape (c # s) = (if is_alnum c \<or> c \<in> set ''-_.~$&+:=@'' then [c] else percent c) @ PathEscape s"
    by (simp add: PathEscape_def)
  moreover have "c \<noteq> CHR ''%''" if "is_alnum c \<or> c \<in> set ''-_.~$&+:=@''"
    using that by (auto simp: is_alnum_def)
  ultimately show ?case using Cons by (auto simp: PathUnescape_percent simp del: set_simps)
qed (simp add: PathEscape_def)

lemma is_alnum_hex_upper: "n < 16 \<Longrightarrow> is_alnum (hex_upper n)"
  by (auto simp: hex_upper_def is_alnum_def Let_def)

lemma is_alnum_percent:
  assumes "x \<in> set (percent c)"
  shows "x = CHR ''%'' \<or> is_alnum x"
proof -
  have "code c < 256" by simp
  then have "code c div 16 < 16" by (simp add: less_mult_imp_div_less)
  then show ?thesis using assms by (auto simp: percent_def is_alnum_hex_upper)
qed

lemma PathEscape_chars:
  assumes "x \<in> set (PathEscape s)"
  shows "x = CHR ''%'' \<or> is_alnum x \<or> x \<in> set ''-_.~$&+:=@''"
proof -
  have plain: "x = CHR ''%'' \<or> is_alnum x \<or> x \<in> S"
    if "x \<in> set (concat (map (\<lambda>c. if is_alnum c \<or> c \<in> S then [c] else percent c) s))" for S
    using that by (induction s) (auto dest: is_alnum_percent split: if_splits)
  show ?thesis using assms unfolding PathEscape_def by (rule plain)
qed

lemma PathEscape_segment:
  assumes "x \<in> set ''/?#; ''"
  shows "x \<notin> set (PathEscape s)"
proof
  assume "x \<in> set (PathEscape s)"
  from PathEscape_chars [OF this] show False using assms by (auto simp: is_alnum_def)
qed

section \<open>Containers\<close>

text \<open>The engine answers a request with a text of a value.\<close>

definition answers :: "engine \<Rightarrow> string \<Rightarrow> json \<Rightarrow> bool" where
  "answers http path j \<longleftrightarrow>
     (\<exists>resp t rest. http path = Inr resp \<and> StatusCode resp = 200 \<and> Body resp = t @ rest \<and> text_of t j \<and> num_end rest)"

lemma answersI: "http path = Inr \<lparr>StatusCode = 200, Status = st, Body = t\<rparr> \<Longrightarrow> text_of t j \<Longrightarrow> answers http path j"
  by (force simp: answers_def num_end_def)

definition missing :: "engine \<Rightarrow> string \<Rightarrow> bool" where
  "missing http path \<longleftrightarrow> (\<exists>resp. http path = Inr resp \<and> StatusCode resp = 404)"

lemma d_get_answers: "answers http path j \<Longrightarrow> un j v = Some x \<Longrightarrow> d_get http path un v = Inr x"
  by (auto simp: answers_def d_get_def dest!: text_ofD)

lemma d_get_missing: "missing http path \<Longrightarrow> d_get http path un v = Inl (ErrNotFound path)"
  by (auto simp: missing_def d_get_def)

text \<open>
  The engine's description of a container: an object with the members the client reads, among any
  others, in any order. The name has a leading slash, and of labels given twice the last counts.
\<close>

definition state_of :: "Container \<Rightarrow> json \<Rightarrow> bool" where
  "state_of c j \<longleftrightarrow> (\<exists>kvs. j = JObj kvs \<and> distinct_names kvs \<and> map_of kvs ''Running'' = Some (JBool (c_Running c)) \<and>
     map_of kvs ''Pid'' = Some (JNum (FormatUint (nat (c_Pid c)))) \<and> 0 \<le> c_Pid c \<and> c_Pid c < 2 ^ 63)"

definition config_of :: "Container \<Rightarrow> json \<Rightarrow> bool" where
  "config_of c j \<longleftrightarrow> (\<exists>kvs ls. j = JObj kvs \<and> distinct_names kvs \<and> map_of kvs ''Image'' = Some (JStr (c_Image c)) \<and>
     map_of kvs ''Labels'' = Some (JObj (map (\<lambda>(k, s). (k, JStr s)) ls)) \<and> c_Labels c = map_of (rev ls))"

definition container_of :: "Container \<Rightarrow> json \<Rightarrow> bool" where
  "container_of c j \<longleftrightarrow> (\<exists>kvs st cf. j = JObj kvs \<and> distinct_names kvs \<and> map_of kvs ''Id'' = Some (JStr (c_ID c)) \<and>
     map_of kvs ''Name'' = Some (JStr (CHR ''/'' # c_Name c)) \<and> map_of kvs ''Image'' = Some (JStr (c_ImageID c)) \<and>
     map_of kvs ''State'' = Some st \<and> state_of c st \<and> map_of kvs ''Config'' = Some cf \<and> config_of c cf)"

lemma own_state_fields:
  "own_field state_fields ''Running'' un_bool is_Running" "own_field state_fields ''Pid'' un_int is_Pid"
  unfolding state_fields_def by (rule own_fieldI, simp, simp, force simp: fld_def)+

lemma own_config_fields:
  "own_field config_fields ''Image'' un_string ic_Image" "own_field config_fields ''Labels'' un_map ic_Labels"
  unfolding config_fields_def by (rule own_fieldI, simp, simp, force simp: fld_def)+

lemma own_inspect_fields:
  "own_field inspect_fields ''Id'' un_string di_ID" "own_field inspect_fields ''Name'' un_string di_Name"
  "own_field inspect_fields ''Image'' un_string di_Image"
  "own_field inspect_fields ''State'' (un_struct state_fields) di_State"
  "own_field inspect_fields ''Config'' (un_struct config_fields) di_Config"
  unfolding inspect_fields_def by (rule own_fieldI, simp, simp, force simp: fld_def)+

lemma un_map_labels [simp]: "un_map (JObj (map (\<lambda>(k, s). (k, JStr s)) ls)) m = Some (m ++ map_of (rev ls))"
  by (simp add: un_map_def un_members_strings)

lemma un_state:
  assumes "state_of c j"
  shows "\<exists>s'. un_struct state_fields j s = Some s' \<and> is_Running s' = c_Running c \<and> is_Pid s' = c_Pid c"
proof -
  obtain kvs where j: "j = JObj kvs" and d: "distinct_names kvs" and m: "map_of kvs ''Running'' = Some (JBool (c_Running c))"
    "map_of kvs ''Pid'' = Some (JNum (FormatUint (nat (c_Pid c))))" and pid: "0 \<le> c_Pid c" "nat (c_Pid c) < 2 ^ 63"
    using assms by (auto simp: state_of_def)
  obtain s' where s': "un_fields state_fields kvs s = Some s'"
    using un_fields_total [OF d, of state_fields s] m pid(2) by (auto simp: state_fields_def fld_def)
  show ?thesis using own_state_fields [THEN own_field_value, OF s' d] m pid s'
    by (fastforce simp: j un_struct_def)
qed

lemma un_config:
  assumes "config_of c j"
  shows "\<exists>s'. un_struct config_fields j s = Some s' \<and> ic_Image s' = c_Image c \<and> ic_Labels s' = ic_Labels s ++ c_Labels c"
proof -
  obtain kvs ls where j: "j = JObj kvs" and d: "distinct_names kvs" and m: "map_of kvs ''Image'' = Some (JStr (c_Image c))"
    "map_of kvs ''Labels'' = Some (JObj (map (\<lambda>(k, s). (k, JStr s)) ls))" and ls: "c_Labels c = map_of (rev ls)"
    using assms by (auto simp: config_of_def)
  obtain s' where s': "un_fields config_fields kvs s = Some s'"
    using un_fields_total [OF d, of config_fields s] m by (auto simp: config_fields_def fld_def)
  show ?thesis using own_config_fields [THEN own_field_value, OF s' d] m s' ls
    by (fastforce simp: j un_struct_def)
qed

lemma Inspect_answers:
  assumes "answers http (inspect_path i) j" "container_of c j"
  shows "Inspect http i = Inr c"
proof -
  obtain kvs st cf where j: "j = JObj kvs" and d: "distinct_names kvs" and m: "map_of kvs ''Id'' = Some (JStr (c_ID c))"
    "map_of kvs ''Name'' = Some (JStr (CHR ''/'' # c_Name c))" "map_of kvs ''Image'' = Some (JStr (c_ImageID c))"
    "map_of kvs ''State'' = Some st" "map_of kvs ''Config'' = Some cf" and sub: "state_of c st" "config_of c cf"
    using assms(2) by (auto simp: container_of_def)
  have total: "un_struct state_fields st s \<noteq> None" "un_struct config_fields cf s' \<noteq> None" for s s'
    using un_state [OF sub(1), of s] un_config [OF sub(2), of s'] by auto
  obtain x where x: "un_fields inspect_fields kvs zero_inspect = Some x"
    using un_fields_total [OF d, of inspect_fields zero_inspect] m total by (auto simp: inspect_fields_def fld_def)
  note own = own_inspect_fields [THEN own_field_value, OF x d]
  have "is_Running (di_State x) = c_Running c" "is_Pid (di_State x) = c_Pid c"
    using own(4) [OF m(4)] un_state [OF sub(1), of "di_State zero_inspect"] by auto
  moreover have "ic_Image (di_Config x) = c_Image c" "ic_Labels (di_Config x) = c_Labels c"
    using own(5) [OF m(5)] un_config [OF sub(2), of "di_Config zero_inspect"] by (auto simp: zero_inspect_def)
  moreover have "di_ID x = c_ID c" "di_Name x = CHR ''/'' # c_Name c" "di_Image x = c_ImageID c"
    using own(1) [OF m(1)] own(2) [OF m(2)] own(3) [OF m(3)] by simp_all
  moreover have "d_get http (inspect_path i) (un_struct inspect_fields) zero_inspect = Inr x"
    by (intro d_get_answers [OF assms(1)]) (simp add: j un_struct_def x)
  ultimately show ?thesis using TrimPrefix_append [of "''/''" "c_Name c"] by (simp add: Inspect_def)
qed

section \<open>Lists\<close>

definition summary_of :: "string \<Rightarrow> json \<Rightarrow> bool" where
  "summary_of i j \<longleftrightarrow> (\<exists>kvs. j = JObj kvs \<and> distinct_names kvs \<and> map_of kvs ''Id'' = Some (JStr i))"

lemma own_summary_fields: "own_field summary_fields ''Id'' un_string ds_ID"
  unfolding summary_fields_def by (rule own_fieldI, simp, simp, force simp: fld_def)

lemma un_summary:
  assumes "summary_of i j"
  shows "un_struct summary_fields j s = Some \<lparr>ds_ID = i\<rparr>"
proof -
  obtain kvs where j: "j = JObj kvs" and d: "distinct_names kvs" and m: "map_of kvs ''Id'' = Some (JStr i)"
    using assms by (auto simp: summary_of_def)
  obtain x where x: "un_fields summary_fields kvs s = Some x"
    using un_fields_total [OF d, of summary_fields s] m by (auto simp: summary_fields_def fld_def)
  show ?thesis using own_field_value [OF own_summary_fields x d m] x by (simp add: j un_struct_def)
qed

lemma un_summaries:
  assumes "list_all2 summary_of ids js"
  shows "un_slice (un_struct summary_fields) z (JArr js) xs = Some (map (\<lambda>i. \<lparr>ds_ID = i\<rparr>) ids)"
proof -
  have "those (map (\<lambda>v. un_struct summary_fields v z) js) = Some (map (\<lambda>i. \<lparr>ds_ID = i\<rparr>) ids)"
    using assms by (induction rule: list_all2_induct) (simp_all add: un_summary)
  then show ?thesis by (simp add: un_slice_def)
qed

definition found :: "engine \<Rightarrow> string \<Rightarrow> Container option" where
  "found http i = (case Inspect http i of Inr c \<Rightarrow> Some c | Inl e \<Rightarrow> None)"

text \<open>The list is complete or an error: only a container that does not exist any more is skipped.\<close>

lemma inspect_all_Inr:
  "inspect_all http ss = Inr cs \<longleftrightarrow>
     (\<forall>s \<in> set ss. \<forall>e. Inspect http (ds_ID s) = Inl e \<longrightarrow> (\<exists>p. e = ErrNotFound p)) \<and>
     cs = List.map_filter (\<lambda>s. found http (ds_ID s)) ss"
proof (induction ss arbitrary: cs)
  case (Cons s ss)
  show ?case
  proof (cases "Inspect http (ds_ID s)")
    case (Inl e)
    then show ?thesis using Cons by (cases e) (auto simp: found_def map_filter_simps)
  next
    case (Inr c)
    then show ?thesis using Cons
      by (cases "inspect_all http ss") (auto simp: found_def map_filter_simps)
  qed
qed (auto simp: map_filter_simps)

lemma Inspect_missing: "missing http (inspect_path i) \<Longrightarrow> Inspect http i = Inl (ErrNotFound (inspect_path i))"
  by (simp add: Inspect_def d_get_missing)

lemma map_filter_cong: "(\<And>x. x \<in> set xs \<Longrightarrow> f x = g x) \<Longrightarrow> List.map_filter f xs = List.map_filter g xs"
  by (induction xs) (auto simp: map_filter_simps split: option.splits)

lemma d_List_store:
  assumes "answers http ''/containers/json?all=1'' (JArr js)" and "list_all2 summary_of ids js"
    and "\<forall>i \<in> set ids. case store i of None \<Rightarrow> missing http (inspect_path i)
      | Some c \<Rightarrow> \<exists>j. answers http (inspect_path i) j \<and> container_of c j"
  shows "d_List http = Inr (List.map_filter store ids)"
proof -
  have found: "found http i = store i \<and> (\<forall>e. Inspect http i = Inl e \<longrightarrow> (\<exists>p. e = ErrNotFound p))" if "i \<in> set ids" for i
    using assms(3) that Inspect_missing [of http i] Inspect_answers [of http i] by (fastforce simp: found_def split: option.splits)
  have "List.map_filter (\<lambda>i. found http i) ids = List.map_filter store ids"
    using found by (intro map_filter_cong) blast
  then have "inspect_all http (map (\<lambda>i. \<lparr>ds_ID = i\<rparr>) ids) = Inr (List.map_filter store ids)"
    using found by (auto simp: inspect_all_Inr map_filter_def filter_map comp_def)
  then show ?thesis
    by (simp add: d_List_def d_get_answers [OF assms(1), where un = "un_slice _ _", OF un_summaries [OF assms(2)]])
qed

text \<open>
  C37: the container list. If the engine lists the identifiers of its containers and answers the
  request for each of them with its description, or with 404 if it has been removed since, then
  \<open>List\<close> returns exactly the containers that are still there, in the order of the list, with the
  identifier, name, image, labels, process and state the engine describes.
\<close>

theorem List_correct:
  assumes "answers http ''/containers/json?all=1'' (JArr js)" and "list_all2 summary_of ids js"
    and "\<forall>i \<in> set ids. case store i of None \<Rightarrow> missing http (inspect_path i)
      | Some c \<Rightarrow> \<exists>j. answers http (inspect_path i) j \<and> container_of c j"
  shows "d_List http = Inr (List.map_filter store ids)"
  using assms by (rule d_List_store)

section \<open>Events\<close>

definition message_of :: "LifeEvent \<Rightarrow> json \<Rightarrow> bool" where
  "message_of ev j \<longleftrightarrow> (\<exists>kvs ac. j = JObj kvs \<and> distinct_names kvs \<and> map_of kvs ''Action'' = Some (JStr (le_Kind ev)) \<and>
     map_of kvs ''Actor'' = Some (JObj ac) \<and> distinct_names ac \<and> map_of ac ''ID'' = Some (JStr (le_ID ev)))"

lemma own_message_fields:
  "own_field message_fields ''Action'' un_string dm_Action"
  "own_field message_fields ''Actor'' (un_struct actor_fields) dm_Actor"
  unfolding message_fields_def by (rule own_fieldI, simp, simp, force simp: fld_def)+

lemma own_actor_fields: "own_field actor_fields ''ID'' un_string da_ID"
  unfolding actor_fields_def by (rule own_fieldI, simp, simp, force simp: fld_def)

lemma un_actor:
  assumes "distinct_names kvs" "map_of kvs ''ID'' = Some (JStr i)"
  shows "un_struct actor_fields (JObj kvs) s = Some \<lparr>da_ID = i\<rparr>"
proof -
  obtain x where x: "un_fields actor_fields kvs s = Some x"
    using un_fields_total [OF assms(1), of actor_fields s] assms(2) by (auto simp: actor_fields_def fld_def)
  show ?thesis using own_field_value [OF own_actor_fields x assms] x by (simp add: un_struct_def)
qed

lemma un_message:
  assumes "message_of ev j"
  shows "un_struct message_fields j s = Some \<lparr>dm_Action = le_Kind ev, dm_Actor = \<lparr>da_ID = le_ID ev\<rparr>\<rparr>"
proof -
  obtain kvs ac where j: "j = JObj kvs" and d: "distinct_names kvs" "distinct_names ac"
    and m: "map_of kvs ''Action'' = Some (JStr (le_Kind ev))" "map_of kvs ''Actor'' = Some (JObj ac)"
      "map_of ac ''ID'' = Some (JStr (le_ID ev))"
    using assms by (auto simp: message_of_def)
  obtain x where x: "un_fields message_fields kvs s = Some x"
    using un_fields_total [OF d(1), of message_fields s] m un_actor [OF d(2) m(3)] by (auto simp: message_fields_def fld_def)
  show ?thesis
    using own_message_fields [THEN own_field_value, OF x d(1)] m un_actor [OF d(2) m(3)] x by (auto simp: j un_struct_def)
qed

lemma message_loop_space: "is_space c \<Longrightarrow> message_loop ctx (c # s) = message_loop ctx s"
  by (simp add: message_loop.simps [of ctx "c # s"] message_loop.simps [of ctx s] decode_value_space)

lemma message_loop_done: "message_loop (Some 0) s = ([], None)"
  by (simp add: message_loop.simps split: option.splits)

lemma message_loop_message:
  assumes "text_of t j" "message_of ev j" "ctx \<noteq> Some 0"
  shows "message_loop ctx (t @ CHR 0x0A # s) =
    (let (evs, err) = message_loop (map_option (\<lambda>n. n - 1) ctx) s in (ev # evs, err))"
proof -
  have "num_end (CHR 0x0A # s)" by (simp add: num_end_def is_digit_def)
  then have "decode_value (t @ CHR 0x0A # s) = Some (j, CHR 0x0A # s)" by (rule text_ofD [OF assms(1)])
  then show ?thesis using assms(3)
    by (cases ev) (simp add: message_loop.simps [of ctx "t @ CHR 0x0A # s"] un_message [OF assms(2)] message_loop_space is_space_def)
qed

text \<open>
  C38: the event stream. A stream of messages, one per line, is delivered as one event per message,
  in order, with its action and the identifier of its container. The loop ends on every stream:
  at its end with an error, on which the watcher connects again, and when the context is done
  after some number of events without one.
\<close>

theorem Events_correct:
  assumes "http events_path = Inr resp" and "StatusCode resp = 200" and "Body resp = concat (map (\<lambda>t. t @ [CHR 0x0A]) ts)"
    and "list_all2 (\<lambda>ev t. \<exists>j. text_of t j \<and> message_of ev j) evs ts"
  shows "d_Events http ctx = (case ctx of None \<Rightarrow> (evs, Some DecodeErr)
    | Some n \<Rightarrow> if n \<le> length evs then (take n evs, None) else (evs, Some DecodeErr))"
proof -
  have "message_loop ctx (concat (map (\<lambda>t. t @ [CHR 0x0A]) ts)) = (case ctx of None \<Rightarrow> (evs, Some DecodeErr)
      | Some n \<Rightarrow> if n \<le> length evs then (take n evs, None) else (evs, Some DecodeErr))"
    using assms(4)
  proof (induction arbitrary: ctx rule: list_all2_induct)
    case Nil
    show ?case
      by (auto simp: message_loop.simps [of ctx "[]"] decode_value_def scan.simps [of "[]" BeginValue "[]"] lex_def split: option.splits)
  next
    case (Cons ev evs t ts)
    then obtain j where j: "text_of t j" "message_of ev j" by blast
    show ?case
    proof (cases "ctx = Some 0")
      case True
      then show ?thesis by (simp add: message_loop_done)
    next
      case False
      then show ?thesis using message_loop_message [OF j False] Cons.IH [of "map_option (\<lambda>n. n - 1) ctx"]
        by (cases ctx) (auto simp: take_Cons' le_diff_conv)
    qed
  qed
  then show ?thesis using assms(1-3) by (simp add: d_Events_def)
qed

section \<open>Cgroup paths\<close>

definition docker_parent :: "engine \<Rightarrow> Docker \<Rightarrow> string" where
  "docker_parent http d = (if fst (driver http d) = Inr ''systemd'' then ''/system.slice'' else ''/docker'')"

definition docker_leaf :: "engine \<Rightarrow> Docker \<Rightarrow> string \<Rightarrow> string" where
  "docker_leaf http d i = (if fst (driver http d) = Inr ''systemd'' then ''docker-'' @ i @ ''.scope'' else i)"

lemma id_component: "container_id i \<Longrightarrow> component i"
  by (cases i) (auto simp: container_id_def component_def list_all_iff)

lemma scope_component: "container_id i \<Longrightarrow> component (''docker-'' @ i @ ''.scope'')"
  by (auto simp: container_id_def component_def list_all_iff)

interpretation docker: cgroup_paths "\<lambda>i. fst (d_CgroupPath http i d)" "docker_parent http d" "docker_leaf http d" for http d
proof
  show "p = docker_parent http d @ CHR ''/'' # docker_leaf http d i" if "fst (d_CgroupPath http i d) = Inr p" for i p
    using that by (auto simp: d_CgroupPath_def docker_parent_def docker_leaf_def split: prod.splits sum.splits if_splits)
  show "HasPrefix (docker_parent http d) ''/''" "Clean (docker_parent http d @ ''/'') = docker_parent http d"
    by (simp_all add: docker_parent_def HasPrefix_def Clean_def)
  show "component (docker_leaf http d i)" if "container_id i" for i
    using that by (simp add: docker_leaf_def id_component scope_component [simplified])
  show "i = j" if "docker_leaf http d i = docker_leaf http d j" for i j
    using that by (simp add: docker_leaf_def split: if_splits)
qed

text \<open>A sequence of calls of \<open>CgroupPath\<close>, each meeting the engine in some state.\<close>

fun path_calls :: "(engine \<times> string) list \<Rightarrow> Docker \<Rightarrow> (rt_error + string) list" where
  "path_calls [] d = []"
| "path_calls ((http, i) # calls) d = (let (r, d) = d_CgroupPath http i d in r # path_calls calls d)"

definition driver_path :: "string \<Rightarrow> string \<Rightarrow> rt_error + string" where
  "driver_path drv i =
     (if drv = ''systemd'' then Inr (''/system.slice/docker-'' @ i @ ''.scope'')
      else if drv = ''cgroupfs'' then Inr (''/docker/'' @ i) else Inl (BadDriver drv))"

lemma d_CgroupPath_cached: "cgroupDriver d \<noteq> [] \<Longrightarrow> d_CgroupPath http i d = (driver_path (cgroupDriver d) i, d)"
  by (simp add: d_CgroupPath_def driver_def driver_path_def)

lemma path_calls_cached: "cgroupDriver d \<noteq> [] \<Longrightarrow> path_calls calls d = map (\<lambda>(http, i). driver_path (cgroupDriver d) i) calls"
  by (induction calls) (auto simp: d_CgroupPath_cached)

lemma d_CgroupPath_new:
  assumes "cgroupDriver d = []" "d_CgroupPath http i d = (r, d')"
  shows "(\<exists>e. r = Inl e \<and> d' = d) \<or> cgroupDriver d' \<noteq> [] \<and> r = driver_path (cgroupDriver d') i"
  using assms by (auto simp: d_CgroupPath_def driver_def driver_path_def split: sum.splits if_splits)

text \<open>
  C39: the cgroup driver is found out once. In any sequence of calls of \<open>CgroupPath\<close> of one client,
  whatever the engine answers at each of them, the calls before some point fail and leave nothing
  behind, and all calls from that point on use one and the same driver; so if one call succeeds,
  all later ones do, whether the engine is reachable or not, with paths in the same directory.
\<close>

theorem CgroupPath_stable:
  "\<exists>k drv. k \<le> length calls \<and> list_all isl (take k (path_calls calls (NewDocker sock))) \<and>
     drop k (path_calls calls (NewDocker sock)) = map (\<lambda>(http, i). driver_path drv i) (drop k calls)"
proof -
  have "\<exists>k drv. k \<le> length calls \<and> list_all isl (take k (path_calls calls d)) \<and>
      drop k (path_calls calls d) = map (\<lambda>(http, i). driver_path drv i) (drop k calls)" if "cgroupDriver d = []" for d
    using that
  proof (induction calls)
    case (Cons call calls)
    obtain http i where call: "call = (http, i)" by force
    obtain r d' where r: "d_CgroupPath http i d = (r, d')" by force
    then have run: "path_calls (call # calls) d = r # path_calls calls d'" by (simp add: call)
    from d_CgroupPath_new [OF Cons.prems r] show ?case
    proof (elim disjE exE conjE)
      fix e assume e: "r = Inl e" "d' = d"
      obtain k drv where "k \<le> length calls" "list_all isl (take k (path_calls calls d))"
        "drop k (path_calls calls d) = map (\<lambda>(http, i). driver_path drv i) (drop k calls)"
        using Cons by blast
      then show ?thesis unfolding run e
        by (intro exI [of _ "Suc k"] exI [of _ drv]) simp
    next
      assume "cgroupDriver d' \<noteq> []" "r = driver_path (cgroupDriver d') i"
      then show ?thesis unfolding run
        by (intro exI [of _ 0] exI [of _ "cgroupDriver d'"]) (simp add: call path_calls_cached)
    qed
  qed simp
  then show ?thesis by (simp add: NewDocker_def)
qed

text \<open>
  A request for a container is about that container. The path segment made from an identifier
  or name holds no character that ends a segment or a path, and the engine, which unescapes the
  segment, gets exactly the given text, whatever bytes it holds.
\<close>

lemma inspect_path_segment:
  "\<exists>seg. inspect_path i = ''/containers/'' @ seg @ ''/json'' \<and> PathUnescape seg = Some i \<and>
     set seg \<inter> set ''/?#; '' = {}"
  using PathUnescape_PathEscape PathEscape_segment unfolding inspect_path_def by blast

section \<open>The properties at a concrete engine\<close>

definition web :: Container where
  "web = \<lparr>c_ID = ''0a1b'', c_Name = ''web'', c_Image = ''nginx'', c_ImageID = ''sha256:1'', c_Labels = [''app'' \<mapsto> ''a''],
     c_Pid = 7, c_Running = True\<rparr>"

definition web_json :: json where
  "web_json = JObj [(''Id'', JStr ''0a1b''), (''Created'', JNum (FormatUint 5)),
     (''State'', JObj [(''Running'', JBool True), (''Pid'', JNum (FormatUint 7))]), (''Image'', JStr ''sha256:1''), (''Name'', JStr ''/web''),
     (''Config'', JObj [(''Image'', JStr ''nginx''), (''Labels'', JObj [(''app'', JStr ''a'')])])]"

definition list_json :: "json list" where
  "list_json = [JObj [(''Id'', JStr ''0a1b'')], JObj [(''Id'', JStr ''ffff'')]]"

definition die_json :: json where
  "die_json = JObj [(''Type'', JStr ''container''), (''Action'', JStr ''die''), (''Actor'', JObj [(''ID'', JStr ''0a1b'')])]"

definition info_json :: json where
  "info_json = JObj [(''CgroupDriver'', JStr ''systemd''), (''CgroupVersion'', JStr ''2'')]"

definition web_engine :: engine where
  "web_engine path = Inr (
     if path = ''/info'' then \<lparr>StatusCode = 200, Status = [], Body = print info_json\<rparr>
     else if path = ''/containers/json?all=1'' then \<lparr>StatusCode = 200, Status = [], Body = print (JArr list_json)\<rparr>
     else if path = ''/containers/0a1b/json'' then \<lparr>StatusCode = 200, Status = [], Body = print web_json\<rparr>
     else if path = events_path then \<lparr>StatusCode = 200, Status = [], Body = print die_json @ [CHR 0x0A]\<rparr>
     else \<lparr>StatusCode = 404, Status = [], Body = []\<rparr>)"

lemma text_of_ascii: "nums_ok v \<Longrightarrow> nesting v \<le> maxNestingDepth \<Longrightarrow> norm v = v \<Longrightarrow> text_of (print v) v"
  using text_of_print [of v] by simp

lemma web_texts:
  "text_of (print web_json) web_json" "text_of (print (JArr list_json)) (JArr list_json)" "text_of (print die_json) die_json"
  "text_of (print info_json) info_json"
  by (rule text_of_ascii; simp add: web_json_def list_json_def die_json_def info_json_def num_ok_FormatUint maxNestingDepth_def to_valid_ascii)+

lemma web_paths: "inspect_path ''0a1b'' = ''/containers/0a1b/json''" "inspect_path ''ffff'' = ''/containers/ffff/json''"
  by (simp_all add: inspect_path_def PathEscape_def is_alnum_def)

lemma web_container: "container_of web web_json"
proof -
  let ?st = "JObj [(''Running'', JBool True), (''Pid'', JNum (FormatUint 7))]"
  let ?cf = "JObj [(''Image'', JStr ''nginx''), (''Labels'', JObj [(''app'', JStr ''a'')])]"
  have st: "state_of web ?st"
    unfolding state_of_def by (intro exI conjI, rule refl) (simp_all add: distinct_names_def upper_def web_def char_of_eq_iff)
  have cf: "config_of web ?cf" unfolding config_of_def
    by (rule exI, rule exI [of _ "[(''app'', ''a'')]"], intro conjI, rule refl)
      (simp_all add: distinct_names_def upper_def web_def char_of_eq_iff)
  show ?thesis unfolding container_of_def web_json_def
    by (rule exI, rule exI [of _ ?st], rule exI [of _ ?cf], intro conjI, rule refl)
      (simp_all add: distinct_names_def upper_def char_of_eq_iff st cf, simp_all add: web_def)
qed

lemma web_ids: "list_all2 summary_of [''0a1b'', ''ffff''] list_json"
  by (simp add: list_json_def summary_of_def distinct_names_def)

lemma web_engine_lists: "answers web_engine ''/containers/json?all=1'' (JArr list_json)"
  by (rule answersI [OF _ web_texts(2)]) (simp add: web_engine_def)

lemma web_engine_store:
  "\<forall>i \<in> set [''0a1b'', ''ffff'']. case [''0a1b'' \<mapsto> web] i of None \<Rightarrow> missing web_engine (inspect_path i)
     | Some c \<Rightarrow> \<exists>j. answers web_engine (inspect_path i) j \<and> container_of c j"
proof -
  have "answers web_engine (inspect_path ''0a1b'') web_json"
    by (rule answersI [OF _ web_texts(1)]) (simp add: web_engine_def web_paths)
  moreover have "missing web_engine (inspect_path ''ffff'')"
    by (simp add: missing_def web_paths web_engine_def events_path_def)
  ultimately show ?thesis using web_container by auto
qed

theorem List_correct_witness:
  "d_List web_engine = Inr [web]"
  using List_correct [OF web_engine_lists web_ids web_engine_store] by (simp add: map_filter_simps)

lemma web_CgroupPath:
  "fst (d_CgroupPath web_engine i (NewDocker sock)) = Inr (''/system.slice/docker-'' @ i @ ''.scope'')"
proof -
  let ?z = "\<lparr>in_CgroupDriver = [], in_CgroupVersion = []\<rparr>"
  have "answers web_engine ''/info'' info_json" by (rule answersI [OF _ web_texts(4)]) (simp add: web_engine_def)
  moreover have "un_struct info_fields info_json ?z = Some \<lparr>in_CgroupDriver = ''systemd'', in_CgroupVersion = ''2''\<rparr>"
    by (simp add: info_json_def un_struct_def info_fields_def find_field_def fld_def)
  ultimately have "d_get web_engine ''/info'' (un_struct info_fields) ?z = Inr \<lparr>in_CgroupDriver = ''systemd'', in_CgroupVersion = ''2''\<rparr>"
    by (intro d_get_answers)
  then show ?thesis by (simp add: d_CgroupPath_def driver_def NewDocker_def)
qed

theorem Events_correct_witness:
  "d_Events web_engine None = ([\<lparr>le_Kind = EventDie, le_ID = ''0a1b''\<rparr>], Some DecodeErr)"
proof -
  let ?ev = "\<lparr>le_Kind = EventDie, le_ID = ''0a1b''\<rparr>"
  have "message_of ?ev die_json"
    unfolding message_of_def die_json_def
    by (rule exI, rule exI [of _ "[(''ID'', JStr ''0a1b'')]"], intro conjI, rule refl)
      (simp_all add: distinct_names_def upper_def EventDie_def char_of_eq_iff)
  then have "list_all2 (\<lambda>ev t. \<exists>j. text_of t j \<and> message_of ev j) [?ev] [print die_json]" using web_texts(3) by auto
  moreover have "web_engine events_path = Inr \<lparr>StatusCode = 200, Status = [], Body = print die_json @ [CHR 0x0A]\<rparr>"
    by (simp add: web_engine_def events_path_def)
  ultimately show ?thesis
    using Events_correct [of web_engine _ "[print die_json]" "[?ev]" None] by simp
qed

end
