(* ===== verification/Goroutine.thy ===== *)
theory Goroutine
  imports Main
begin

text \<open>
  Goroutines that share a state behind a mutex. A program either returns, asks the outside
  world (a system call, a request to another service), or runs a critical section: it updates
  the shared state and continues with what it saw there. The same program has two readings:
  \<open>exec\<close> runs it alone, in a world that does not change meanwhile, and \<open>go_step\<close> interleaves any
  number of them, each question answered by the world of its moment.
\<close>

datatype ('w, 's, 'a) go =
    Ret 'a
  | Ask "'w \<Rightarrow> ('w, 's, 'a) go"
  | Lock "'s \<Rightarrow> 's" "'s \<Rightarrow> ('w, 's, 'a) go"

primrec bind_go :: "('w, 's, 'a) go \<Rightarrow> ('a \<Rightarrow> ('w, 's, 'b) go) \<Rightarrow> ('w, 's, 'b) go" where
  "bind_go (Ret a) f = f a"
| "bind_go (Ask g) f = Ask (\<lambda>w. bind_go (g w) f)"
| "bind_go (Lock u k) f = Lock u (\<lambda>s. bind_go (k s) f)"

text \<open>A critical section given as a function from states to a result and a new state.\<close>

definition crit :: "('s \<Rightarrow> 'b \<times> 's) \<Rightarrow> ('b \<Rightarrow> ('w, 's, 'a) go) \<Rightarrow> ('w, 's, 'a) go" where
  "crit f k = Lock (\<lambda>s. snd (f s)) (\<lambda>s. k (fst (f s)))"

primrec exec :: "'w \<Rightarrow> ('w, 's, 'a) go \<Rightarrow> 's \<Rightarrow> 'a \<times> 's" where
  "exec w (Ret a) s = (a, s)"
| "exec w (Ask g) s = exec w (g w) s"
| "exec w (Lock u k) s = exec w (k s) (u s)"

lemma exec_bind: "exec w (bind_go p f) s = (case exec w p s of (a, s') \<Rightarrow> exec w (f a) s')"
  by (induction p arbitrary: s) auto

lemma exec_crit: "exec w (crit f k) s = (case f s of (b, s') \<Rightarrow> exec w (k b) s')"
  by (simp add: crit_def split_beta)

text \<open>Every critical section of a program keeps an invariant of the shared state.\<close>

primrec keeps :: "('s \<Rightarrow> bool) \<Rightarrow> ('w, 's, 'a) go \<Rightarrow> bool" where
  "keeps I (Ret a) \<longleftrightarrow> True"
| "keeps I (Ask g) \<longleftrightarrow> (\<forall>w. keeps I (g w))"
| "keeps I (Lock u k) \<longleftrightarrow> (\<forall>s. I s \<longrightarrow> I (u s) \<and> keeps I (k s))"

lemma keeps_bind: "keeps I p \<Longrightarrow> (\<And>a. keeps I (f a)) \<Longrightarrow> keeps I (bind_go p f)"
  by (induction p) auto

lemma keeps_crit:
  "(\<And>s b s'. I s \<Longrightarrow> f s = (b, s') \<Longrightarrow> I s' \<and> keeps I (k b)) \<Longrightarrow> keeps I (crit f k)"
  by (simp add: crit_def) (metis prod.collapse)

lemma keeps_exec: "keeps I p \<Longrightarrow> I s \<Longrightarrow> I (snd (exec w p s))"
  by (induction p arbitrary: s) auto

text \<open>Interleaving: one step of one goroutine of a pool.\<close>

inductive go_step :: "'s \<times> ('w, 's, unit) go list \<Rightarrow> 's \<times> ('w, 's, unit) go list \<Rightarrow> bool" where
  ask: "i < length ps \<Longrightarrow> ps ! i = Ask g \<Longrightarrow> go_step (s, ps) (s, ps[i := g w])"
| lock: "i < length ps \<Longrightarrow> ps ! i = Lock u k \<Longrightarrow> go_step (s, ps) (u s, ps[i := k s])"

lemma list_all_update: "list_all P xs \<Longrightarrow> P x \<Longrightarrow> list_all P (xs[i := x])"
  by (auto simp: list_all_iff dest!: set_update_subset_insert [THEN subsetD])

lemma go_step_keeps:
  assumes "go_step (s, ps) (s', ps')" and "I s" and "list_all (keeps I) ps"
  shows "I s' \<and> list_all (keeps I) ps'"
  using assms(1)
proof cases
  case (ask i g w)
  then have "keeps I (g w)" using assms(3) by (auto simp: list_all_length dest!: spec [of _ i])
  then show ?thesis using ask assms(2,3) by (simp add: list_all_update)
next
  case (lock i u k)
  then have "I (u s)" "keeps I (k s)" using assms(2,3) by (auto simp: list_all_length dest!: spec [of _ i])
  then show ?thesis using lock assms(3) by (simp add: list_all_update)
qed

text \<open>
  A goroutine that is alone runs as \<open>exec\<close> says; so do the steps of a pool member while the
  others wait.
\<close>

definition discard :: "('w, 's, 'a) go \<Rightarrow> ('w, 's, unit) go" where
  "discard p = bind_go p (\<lambda>_. Ret ())"

lemma keeps_discard: "keeps I p \<Longrightarrow> keeps I (discard p)"
  by (simp add: discard_def keeps_bind)

lemma go_step_exec:
  assumes "i < length ps" and "ps ! i = p"
  shows "go_step\<^sup>*\<^sup>* (s, ps) (snd (exec w p s), ps[i := Ret ()])"
  using assms
proof (induction p arbitrary: s ps)
  case (Ret a)
  then have "ps[i := Ret ()] = ps" by (metis (full_types) list_update_id old.unit.exhaust)
  then show ?case by simp
next
  case (Ask g)
  then have "go_step (s, ps) (s, ps[i := g w])" by (intro go_step.ask)
  moreover have "go_step\<^sup>*\<^sup>* (s, ps[i := g w]) (snd (exec w (g w) s), (ps[i := g w])[i := Ret ()])"
    using Ask.prems by (intro Ask.IH) simp_all
  ultimately show ?case by (simp add: converse_rtranclp_into_rtranclp)
next
  case (Lock u k)
  then have "go_step (s, ps) (u s, ps[i := k s])" by (intro go_step.lock)
  moreover have "go_step\<^sup>*\<^sup>* (u s, ps[i := k s]) (snd (exec w (k s) (u s)), (ps[i := k s])[i := Ret ()])"
    using Lock.prems by (intro Lock.IH) simp_all
  ultimately show ?case by (simp add: converse_rtranclp_into_rtranclp)
qed

end
