(* ===== verification/Watcher.thy ===== *)
theory Watcher
  imports Docker Goroutine CgroupMap "HOL-Library.AList"
begin

unbundle bit_operations_syntax

text \<open>
  The watcher (\<open>internal/container/watcher.go\<close>): which cgroups are captured, for which container,
  and until when. Every method that takes the mutex is a critical section, and the methods that
  also ask the container runtime or the file system are programs of goroutines, so that runtime
  events, directory events, resyncs and timer callbacks can interleave between any two of them.

  The runtime, the file system and inotify answer through a record \<open>World\<close>; \<open>w_range\<close> is the
  order in which a \<open>range\<close> over the map visits the entries. The kernel-side map is the parameter
  \<open>addf\<close> and \<open>remf\<close> with its state \<open>kern\<close>. A timer is a number: it is armed, or it has fired and
  its callback waits for the mutex. Log output is left out.
\<close>

section \<open>Types\<close>

record World =
  w_List :: "rt_error + Container list"
  w_Inspect :: "string \<Rightarrow> rt_error + Container"
  w_CgroupPath :: "string \<Rightarrow> rt_error + string"
  w_ReadFile :: "string \<Rightarrow> bytes option"
  w_Stat :: "string \<Rightarrow> u64 option"
  w_inotify :: "string \<Rightarrow> bool"
  w_range :: "(u64 \<times> Container) list \<Rightarrow> (u64 \<times> Container) list"

record WatcherConfig =
  wc_Target :: Target
  wc_CgroupRoot :: string
  wc_Grace :: int

record 'k Watcher =
  wanted :: "Container option"
  byCgroup :: "(u64 \<times> Container) list"
  timers :: "(u64 \<times> nat) list"
  armed :: "(nat \<times> u64) list"
  fired :: "(nat \<times> u64) list"
  next_timer :: nat
  kern :: 'k

datatype 'e watch_error =
    TargetErr target_error
  | ListErr rt_error
  | Ambiguous nat
  | PathErr rt_error
  | CgroupErr string
  | AddErr 'e
  | WatchErr string

type_synonym ('k, 'a) routine = "(World, 'k Watcher, 'a) go"
type_synonym ('k, 'e) map_op = "u64 \<Rightarrow> 'k \<Rightarrow> 'e option \<times> 'k"

definition NewConfig :: "WatcherConfig \<Rightarrow> WatcherConfig" where
  "NewConfig cfg =
     (let cfg = (if wc_CgroupRoot cfg = [] then cfg\<lparr>wc_CgroupRoot := ''/sys/fs/cgroup''\<rparr> else cfg)
      in if wc_Grace cfg \<le> 0 then cfg\<lparr>wc_Grace := 5 * 1000000000\<rparr> else cfg)"

definition NewWatcher :: "'k \<Rightarrow> 'k Watcher" where
  "NewWatcher k = \<lparr>wanted = None, byCgroup = [], timers = [], armed = [], fired = [], next_timer = 0, kern = k\<rparr>"

section \<open>Critical sections\<close>

definition w_Lookup :: "u64 \<Rightarrow> 'k Watcher \<Rightarrow> Container option" where
  "w_Lookup cgroupID s = map_of (byCgroup s) cgroupID"

definition w_InScope :: "u64 \<Rightarrow> 'k Watcher \<Rightarrow> bool" where
  "w_InScope cgroupID s \<longleftrightarrow> w_Lookup cgroupID s \<noteq> None"

definition CgroupIDs :: "World \<Rightarrow> 'k Watcher \<Rightarrow> u64 list" where
  "CgroupIDs w s = map fst (w_range w (byCgroup s))"

definition setWanted :: "Container \<Rightarrow> 'k Watcher \<Rightarrow> 'k Watcher" where
  "setWanted c s = s\<lparr>wanted := Some c\<rparr>"

definition wantedContainer :: "'k Watcher \<Rightarrow> Container option" where
  "wantedContainer s = wanted s"

text \<open>\<open>t.Stop()\<close> has no effect on a timer whose callback has been started.\<close>

definition Stop :: "nat \<Rightarrow> 'k Watcher \<Rightarrow> 'k Watcher" where
  "Stop n s = s\<lparr>armed := filter (\<lambda>(m, i). m \<noteq> n) (armed s)\<rparr>"

definition w_add :: "('k, 'e) map_op \<Rightarrow> u64 \<Rightarrow> Container \<Rightarrow> 'k Watcher \<Rightarrow> 'e option \<times> 'k Watcher" where
  "w_add addf i c s =
     (let s = (case map_of (timers s) i of None \<Rightarrow> s
               | Some n \<Rightarrow> (Stop n s)\<lparr>timers := AList.delete i (timers s)\<rparr>)
      in if map_of (byCgroup s) i \<noteq> None then (None, s\<lparr>byCgroup := AList.update i c (byCgroup s)\<rparr>)
         else (case addf i (kern s) of
                 (Some e, k) \<Rightarrow> (Some e, s\<lparr>kern := k\<rparr>)
               | (None, k) \<Rightarrow> (None, s\<lparr>kern := k, byCgroup := AList.update i c (byCgroup s)\<rparr>)))"

definition w_release :: "u64 \<Rightarrow> 'k Watcher \<Rightarrow> 'k Watcher" where
  "w_release i s =
     (if map_of (byCgroup s) i = None then s
      else if map_of (timers s) i \<noteq> None then s
      else s\<lparr>timers := AList.update i (next_timer s) (timers s),
             armed := (next_timer s, i) # armed s, next_timer := next_timer s + 1\<rparr>)"

text \<open>The callback of the grace timer.\<close>

definition grace_end :: "('k, 'e) map_op \<Rightarrow> u64 \<Rightarrow> 'k Watcher \<Rightarrow> 'k Watcher" where
  "grace_end remf i s =
     s\<lparr>timers := AList.delete i (timers s), byCgroup := AList.delete i (byCgroup s), kern := snd (remf i (kern s))\<rparr>"

section \<open>Methods\<close>

definition CgroupPath :: "string \<Rightarrow> ('k, rt_error + string) routine" where
  "CgroupPath i = Ask (\<lambda>w. Ret (w_CgroupPath w i))"

definition inode :: "string \<Rightarrow> ('k, u64 option) routine" where
  "inode path = Ask (\<lambda>w. Ret (w_Stat w path))"

text \<open>The first usable line of \<open>/proc/<pid>/cgroup\<close>.\<close>

definition proc_cgroup :: "bytes \<Rightarrow> string option" where
  "proc_cgroup b =
     (case List.map_filter (\<lambda>line. case CutPrefix line ''0::'' of None \<Rightarrow> None
          | Some p \<Rightarrow> if p \<noteq> [] \<and> p \<noteq> ''/'' then Some p else None) (splitOn (CHR 0x0A) (string_of b)) of
        [] \<Rightarrow> None | p # _ \<Rightarrow> Some p)"

definition cgroupPath :: "Container \<Rightarrow> ('k, rt_error + string) routine" where
  "cgroupPath c =
     (if c_Pid c > 0 then
        Ask (\<lambda>w. case Option.bind (w_ReadFile w (''/proc/'' @ Itoa (c_Pid c) @ ''/cgroup'')) proc_cgroup of
          Some p \<Rightarrow> Ret (Inr p) | None \<Rightarrow> CgroupPath (c_ID c))
      else CgroupPath (c_ID c))"

definition addRunning :: "('k, 'e) map_op \<Rightarrow> WatcherConfig \<Rightarrow> Container \<Rightarrow> ('k, 'e watch_error option) routine" where
  "addRunning addf cfg c =
     bind_go (cgroupPath c) (\<lambda>r. case r of Inl e \<Rightarrow> Ret (Some (PathErr e))
       | Inr path \<Rightarrow> bind_go (inode (Join [wc_CgroupRoot cfg, path])) (\<lambda>r. case r of None \<Rightarrow> Ret (Some (CgroupErr path))
         | Some i \<Rightarrow> crit (w_add addf i c) (\<lambda>err. Ret (map_option AddErr err))))"

text \<open>The choice among the matching containers; \<open>Inr None\<close> if there is none yet.\<close>

definition pick :: "Container list \<Rightarrow> 'e watch_error + Container option" where
  "pick matches =
     (case matches of
        [] \<Rightarrow> Inr None
      | [c] \<Rightarrow> Inr (Some c)
      | _ \<Rightarrow> (case filter c_Running matches of
               [c] \<Rightarrow> Inr (Some c)
             | _ \<Rightarrow> Inl (Ambiguous (length matches))))"

definition resync :: "('k, 'e) map_op \<Rightarrow> WatcherConfig \<Rightarrow> ('k, 'e watch_error option) routine" where
  "resync addf cfg =
     Ask (\<lambda>w. case w_List w of Inl e \<Rightarrow> Ret (Some (ListErr e))
       | Inr all \<Rightarrow> (case pick (filter (Matches (wc_Target cfg)) all) of
           Inl e \<Rightarrow> Ret (Some e)
         | Inr None \<Rightarrow> Ret None
         | Inr (Some c) \<Rightarrow> Lock (setWanted c) (\<lambda>_. if c_Running c then addRunning addf cfg c else Ret None)))"

fun release_all :: "u64 list \<Rightarrow> ('k, unit) routine" where
  "release_all [] = Ret ()"
| "release_all (i # is) = Lock (w_release i) (\<lambda>_. release_all is)"

definition releaseContainer :: "WatcherConfig \<Rightarrow> string \<Rightarrow> ('k, unit) routine" where
  "releaseContainer cfg cid =
     bind_go (bind_go (CgroupPath cid) (\<lambda>r. case r of Inl e \<Rightarrow> Ret 0
         | Inr path \<Rightarrow> bind_go (inode (Join [wc_CgroupRoot cfg, path])) (\<lambda>r. case r of None \<Rightarrow> Ret 0 | Some i \<Rightarrow> Ret i)))
       (\<lambda>live. Ask (\<lambda>w. Lock (\<lambda>s. s) (\<lambda>s.
          release_all (map fst (filter (\<lambda>(cg, c). c_ID c = cid \<and> cg \<noteq> live) (w_range w (byCgroup s)))))))"

definition w_handle :: "('k, 'e) map_op \<Rightarrow> WatcherConfig \<Rightarrow> LifeEvent \<Rightarrow> ('k, unit) routine" where
  "w_handle addf cfg ev =
     (if le_Kind ev \<in> {EventCreate, EventStart, EventRename} then
        Ask (\<lambda>w. case w_Inspect w (le_ID ev) of Inl e \<Rightarrow> Ret ()
          | Inr c \<Rightarrow> Lock (\<lambda>s. s) (\<lambda>s.
              let cur = wantedContainer s in
              if Matches (wc_Target cfg) c then
                Lock (setWanted c) (\<lambda>_.
                  if le_Kind ev = EventStart \<and> c_Running c then discard (addRunning addf cfg c) else Ret ())
              else if map_option c_ID cur = Some (c_ID c) then
                bind_go (releaseContainer cfg (c_ID c)) (\<lambda>_. Lock (\<lambda>s. s\<lparr>wanted := None\<rparr>) (\<lambda>_. Ret ()))
              else Ret ()))
      else if le_Kind ev = EventDie then releaseContainer cfg (le_ID ev)
      else if le_Kind ev = EventDestroy then
        bind_go (releaseContainer cfg (le_ID ev)) (\<lambda>_.
          Lock (\<lambda>s. if map_option c_ID (wanted s) = Some (le_ID ev) then s\<lparr>wanted := None\<rparr> else s) (\<lambda>_. Ret ()))
      else Ret ())"

text \<open>
  The runtime event goroutine on a list of connections, each given by the events it brings
  before it ends. The result is the list of delays before reconnecting.
\<close>

fun handle_all :: "('k, 'e) map_op \<Rightarrow> WatcherConfig \<Rightarrow> LifeEvent list \<Rightarrow> ('k, unit) routine" where
  "handle_all addf cfg [] = Ret ()"
| "handle_all addf cfg (ev # evs) = bind_go (w_handle addf cfg ev) (\<lambda>_. handle_all addf cfg evs)"

definition second :: int where
  "second = 1000000000"

fun runtimeEvents ::
  "('k, 'e) map_op \<Rightarrow> WatcherConfig \<Rightarrow> bool \<Rightarrow> int \<Rightarrow> LifeEvent list list \<Rightarrow> ('k, int list) routine" where
  "runtimeEvents addf cfg first backoff [] = Ret []"
| "runtimeEvents addf cfg first backoff (evs # conns) =
     bind_go (if first then Ret () else discard (resync addf cfg)) (\<lambda>_.
     bind_go (handle_all addf cfg evs) (\<lambda>_.
       let backoff = (if evs = [] then backoff else second) in
       bind_go (runtimeEvents addf cfg False (min (backoff * 2) (30 * second)) conns) (\<lambda>ds. Ret (backoff # ds))))"

section \<open>Directory events\<close>

text \<open>The constants of package unix (inotify(7)).\<close>

definition IN_CREATE :: u32 where "IN_CREATE = 0x100"
definition IN_DELETE :: u32 where "IN_DELETE = 0x200"
definition SizeofInotifyEvent :: nat where "SizeofInotifyEvent = 16"

definition cgroupDirEvent ::
  "('k, 'e) map_op \<Rightarrow> WatcherConfig \<Rightarrow> string \<Rightarrow> string \<Rightarrow> u32 \<Rightarrow> ('k, unit) routine" where
  "cgroupDirEvent addf cfg dir name flags =
     Lock (\<lambda>s. s) (\<lambda>s. case wantedContainer s of None \<Rightarrow> Ret ()
       | Some c \<Rightarrow> bind_go (CgroupPath (c_ID c)) (\<lambda>r. case r of Inl e \<Rightarrow> Ret ()
         | Inr want \<Rightarrow>
           if Base want \<noteq> name then Ret ()
           else if flags AND IN_CREATE \<noteq> 0 then
             bind_go (inode (Join [dir, name])) (\<lambda>r. case r of None \<Rightarrow> Ret ()
               | Some i \<Rightarrow> crit (w_add addf i c) (\<lambda>_. Ret ()))
           else if flags AND IN_DELETE \<noteq> 0 then releaseContainer cfg (c_ID c)
           else Ret ()))"

text \<open>
  The loop over the buffer of one \<open>Read\<close>, from offset \<open>off\<close> to \<open>n\<close>: name and mask of every event.
  A slice beyond the buffer is a panic, the result \<open>None\<close>.
\<close>

definition trimNul :: "string \<Rightarrow> string" where
  "trimNul s = rev (dropWhile (\<lambda>c. c = CHR 0x00) (rev s))"

function inotify_events :: "bytes \<Rightarrow> nat \<Rightarrow> nat \<Rightarrow> (string \<times> u32) list option" where
  "inotify_events buf n off =
     (if off + SizeofInotifyEvent \<le> n then
        let len = unat (get32 (drop (off + 12) buf)); stop = off + SizeofInotifyEvent + len in
        if length buf < stop then None
        else map_option ((#) (trimNul (string_of (take len (drop (off + SizeofInotifyEvent) buf))), get32 (drop (off + 4) buf)))
               (inotify_events buf n stop)
      else Some [])"
  by pat_completeness auto
termination by (relation "measure (\<lambda>(buf, n, off). n - off)") (auto simp: SizeofInotifyEvent_def)

declare inotify_events.simps [simp del]

text \<open>The inotify goroutine on the events of a list of reads.\<close>

fun dir_events ::
  "('k, 'e) map_op \<Rightarrow> WatcherConfig \<Rightarrow> string \<Rightarrow> (string \<times> u32) list \<Rightarrow> ('k, unit) routine" where
  "dir_events addf cfg dir [] = Ret ()"
| "dir_events addf cfg dir ((name, flags) # es) =
     bind_go (cgroupDirEvent addf cfg dir name flags) (\<lambda>_. dir_events addf cfg dir es)"

section \<open>Start\<close>

definition Start :: "('k, 'e) map_op \<Rightarrow> WatcherConfig \<Rightarrow> ('k, 'e watch_error option) routine" where
  "Start addf cfg =
     (case Validate (wc_Target cfg) of Some e \<Rightarrow> Ret (Some (TargetErr e))
      | None \<Rightarrow> bind_go (resync addf cfg) (\<lambda>r. case r of Some e \<Rightarrow> Ret (Some e)
        | None \<Rightarrow> bind_go (CgroupPath ''0'') (\<lambda>r. case r of Inl e \<Rightarrow> Ret (Some (PathErr e))
          | Inr probe \<Rightarrow>
            (let parent = Join [wc_CgroupRoot cfg, Dir probe] in
             Ask (\<lambda>w. Ret (if w_inotify w parent then None else Some (WatchErr parent)))))))"

end
