(* ===== verification/WatcherProps.thy ===== *)
theory WatcherProps
  imports Watcher
begin

unbundle bit_operations_syntax

text \<open>
  What the watcher guarantees under every interleaving of its goroutines, its timer callbacks
  and the kernel: the kernel captures only cgroups the watcher holds for containers that matched
  the target, exactly those if the map is reliable, and every grace timer is accounted for.
\<close>

section \<open>The concurrent system\<close>

text \<open>
  The pool starts with \<open>Start\<close>. At any time another runtime event goroutine or another batch of
  directory events may join it (more concurrency than the program has), a timer may fire, a
  callback may get the mutex, and the kernel may do what \<open>K\<close> allows.
\<close>

inductive watch_step ::
  "('k, 'e) map_op \<Rightarrow> ('k, 'e) map_op \<Rightarrow> WatcherConfig \<Rightarrow> ('k \<Rightarrow> 'k \<Rightarrow> bool) \<Rightarrow>
   'k Watcher \<times> ('k, unit) routine list \<Rightarrow> 'k Watcher \<times> ('k, unit) routine list \<Rightarrow> bool"
  for addf remf cfg K where
  go: "go_step c c' \<Longrightarrow> watch_step addf remf cfg K c c'"
| events: "watch_step addf remf cfg K (s, ps) (s, ps @ [discard (runtimeEvents addf cfg first backoff conns)])"
| dirs: "inotify_events buf n 0 = Some es \<Longrightarrow> watch_step addf remf cfg K (s, ps) (s, ps @ [dir_events addf cfg dir es])"
| expire: "(n, i) \<in> set (armed s) \<Longrightarrow>
    watch_step addf remf cfg K (s, ps) (s\<lparr>armed := remove1 (n, i) (armed s), fired := (n, i) # fired s\<rparr>, ps)"
| callback: "(n, i) \<in> set (fired s) \<Longrightarrow>
    watch_step addf remf cfg K (s, ps) (grace_end remf i (s\<lparr>fired := remove1 (n, i) (fired s)\<rparr>), ps)"
| kernel: "K (kern s) k \<Longrightarrow> watch_step addf remf cfg K (s, ps) (s\<lparr>kern := k\<rparr>, ps)"

definition watch_reachable ::
  "('k, 'e) map_op \<Rightarrow> ('k, 'e) map_op \<Rightarrow> WatcherConfig \<Rightarrow> ('k \<Rightarrow> 'k \<Rightarrow> bool) \<Rightarrow> 'k \<Rightarrow>
   'k Watcher \<Rightarrow> ('k, unit) routine list \<Rightarrow> bool" where
  "watch_reachable addf remf cfg K k s ps \<longleftrightarrow>
     (watch_step addf remf cfg K)\<^sup>*\<^sup>* (NewWatcher k, [discard (Start addf cfg)]) (s, ps)"

section \<open>Invariants\<close>

lemma filter_single: "filter P xs = [x] \<Longrightarrow> x \<in> set xs \<and> P x"
  using set_filter [of P xs] by (metis (mono_tags, lifting) list.set_intros(1) mem_Collect_eq)

lemma pick_matches: "pick cs = Inr (Some c) \<Longrightarrow> c \<in> set cs"
  unfolding pick_def by (auto simp del: filter.simps split: list.splits dest!: filter_single)

text \<open>
  An interface for invariants: what the critical sections have to keep, so that every method
  keeps it. Containers that are added or wanted match the target.
\<close>

locale watch_invariant =
  fixes I :: "'k Watcher \<Rightarrow> bool"
    and addf :: "('k, 'e) map_op"
    and T :: Target
  assumes add_keeps: "I s \<Longrightarrow> Matches T c \<Longrightarrow> I (snd (w_add addf i c s))"
    and release_keeps: "I s \<Longrightarrow> I (w_release i s)"
    and want_keeps: "I s \<Longrightarrow> Matches T c \<Longrightarrow> I (setWanted c s)"
    and unwant_keeps: "I s \<Longrightarrow> I (s\<lparr>wanted := None\<rparr>)"
    and wanted_matches: "I s \<Longrightarrow> wanted s = Some c \<Longrightarrow> Matches T c"
begin

lemma keeps_CgroupPath: "keeps I (CgroupPath i)"
  by (simp add: CgroupPath_def)

lemma keeps_inode: "keeps I (inode p)"
  by (simp add: inode_def)

lemma keeps_cgroupPath: "keeps I (cgroupPath c)"
  by (simp add: cgroupPath_def keeps_CgroupPath split: option.split)

lemma keeps_crit_add: "Matches T c \<Longrightarrow> (\<And>b. keeps I (k b)) \<Longrightarrow> keeps I (crit (w_add addf i c) k)"
  using add_keeps by (intro keeps_crit) (metis snd_conv)

lemma keeps_addRunning: "Matches T c \<Longrightarrow> keeps I (addRunning addf cfg c)"
  unfolding addRunning_def
  by (intro keeps_bind keeps_cgroupPath) (auto intro!: keeps_bind keeps_inode keeps_crit_add split: sum.split option.split)


lemma keeps_resync: "wc_Target cfg = T \<Longrightarrow> keeps I (resync addf cfg)"
  unfolding resync_def
  by (auto simp: want_keeps keeps_addRunning split: sum.split option.split dest!: pick_matches)

lemma keeps_release_all: "keeps I (release_all is)"
  by (induction "is") (auto simp: release_keeps)

lemma keeps_releaseContainer: "keeps I (releaseContainer cfg cid)"
  unfolding releaseContainer_def
  by (intro keeps_bind keeps_CgroupPath)
    (auto intro!: keeps_bind keeps_inode simp: keeps_release_all split: sum.split option.split)

lemma keeps_handle: "wc_Target cfg = T \<Longrightarrow> keeps I (w_handle addf cfg ev)"
  unfolding w_handle_def Let_def
  by (auto intro!: keeps_bind keeps_releaseContainer keeps_discard keeps_addRunning
      simp: want_keeps unwant_keeps split: sum.split)

lemma keeps_handle_all: "wc_Target cfg = T \<Longrightarrow> keeps I (handle_all addf cfg evs)"
  by (induction evs) (auto intro!: keeps_bind keeps_handle)

lemma keeps_runtimeEvents: "wc_Target cfg = T \<Longrightarrow> keeps I (runtimeEvents addf cfg first backoff conns)"
  by (induction conns arbitrary: first backoff)
    (auto intro!: keeps_bind keeps_handle_all keeps_discard keeps_resync simp: Let_def)

lemma keeps_cgroupDirEvent: "keeps I (cgroupDirEvent addf cfg dir name flags)"
  unfolding cgroupDirEvent_def
  by (auto intro!: keeps_bind keeps_CgroupPath keeps_inode keeps_crit_add keeps_releaseContainer
      simp: wantedContainer_def wanted_matches split: sum.split option.split)

lemma keeps_dir_events: "keeps I (dir_events addf cfg dir es)"
  by (induction es) (auto intro!: keeps_bind keeps_cgroupDirEvent)

lemma keeps_Start: "wc_Target cfg = T \<Longrightarrow> keeps I (Start addf cfg)"
  unfolding Start_def Let_def
  by (auto intro!: keeps_bind keeps_resync keeps_CgroupPath split: option.split sum.split)

end

text \<open>The timers and the kernel keep it as well: then it holds in every reachable state.\<close>

locale watch_system = watch_invariant I addf T
  for I :: "'k Watcher \<Rightarrow> bool" and addf :: "('k, 'e) map_op" and T :: Target +
  fixes remf :: "('k, 'e) map_op"
    and K :: "'k \<Rightarrow> 'k \<Rightarrow> bool"
  assumes expire_keeps: "I s \<Longrightarrow> (n, i) \<in> set (armed s) \<Longrightarrow>
      I (s\<lparr>armed := remove1 (n, i) (armed s), fired := (n, i) # fired s\<rparr>)"
    and callback_keeps: "I s \<Longrightarrow> (n, i) \<in> set (fired s) \<Longrightarrow>
      I (grace_end remf i (s\<lparr>fired := remove1 (n, i) (fired s)\<rparr>))"
    and kernel_keeps: "I s \<Longrightarrow> K (kern s) k \<Longrightarrow> I (s\<lparr>kern := k\<rparr>)"
begin

lemma step_keeps:
  assumes "watch_step addf remf cfg K (s, ps) (s', ps')" and "wc_Target cfg = T"
    and "I s" and "list_all (keeps I) ps"
  shows "I s' \<and> list_all (keeps I) ps'"
  using assms(1)
proof cases
  case go
  from go_step_keeps [OF this assms(3,4)] show ?thesis .
next
  case (events first backoff conns)
  then show ?thesis using assms(3,4) keeps_discard [OF keeps_runtimeEvents [OF assms(2)]] by simp
next
  case (dirs buf n es dir)
  then show ?thesis using assms(3,4) keeps_dir_events by simp
next
  case (expire n i)
  then show ?thesis using expire_keeps [OF assms(3)] assms(4) by simp
next
  case (callback n i)
  then show ?thesis using callback_keeps [OF assms(3)] assms(4) by simp
next
  case (kernel k)
  then show ?thesis using kernel_keeps [OF assms(3)] assms(4) by simp
qed

lemma steps_keep:
  assumes "(watch_step addf remf cfg K)\<^sup>*\<^sup>* c c'" and "wc_Target cfg = T"
    and "I (fst c) \<and> list_all (keeps I) (snd c)"
  shows "I (fst c') \<and> list_all (keeps I) (snd c')"
  using assms(1,3)
proof (induction rule: rtranclp_induct)
  case (step d d')
  have "watch_step addf remf cfg K (fst d, snd d) (fst d', snd d')" using step.hyps(2) by simp
  from step_keeps [OF this assms(2)] step.IH step.prems show ?case by blast
qed blast

lemma reachable_keeps:
  assumes "watch_reachable addf remf cfg K k s ps" and "wc_Target cfg = T" and "I (NewWatcher k)"
  shows "I s \<and> list_all (keeps I) ps"
proof -
  note steps = assms(1) [unfolded watch_reachable_def]
  have "keeps I (discard (Start addf cfg))" by (rule keeps_discard [OF keeps_Start [OF assms(2)]])
  then have "I (fst (NewWatcher k, [discard (Start addf cfg)])) \<and>
      list_all (keeps I) (snd (NewWatcher k, [discard (Start addf cfg)]))"
    unfolding fst_conv snd_conv list.pred_inject using assms(3) by simp
  from steps_keep [OF steps assms(2) this] show ?thesis unfolding fst_conv snd_conv .
qed

end

section \<open>What is captured\<close>

lemma fst_update: "fst ` set (AList.update i v al) = insert i (fst ` set al)"
  by (induction al) auto

lemma fst_delete: "fst ` set (AList.delete i al) = fst ` set al - {i}"
  by (auto simp: AList.delete_eq)

lemma snd_update: "snd ` set (AList.update i v al) \<subseteq> insert v (snd ` set al)"
  by (induction al) auto

lemma set_update_alist: "set (AList.update i v al) \<subseteq> insert (i, v) (set al)"
  by (induction al) auto

lemma snd_delete: "snd ` set (AList.delete i al) \<subseteq> snd ` set al"
  by (auto simp: AList.delete_eq)

lemma in_keys: "map_of al i \<noteq> None \<longleftrightarrow> i \<in> fst ` set al"
  by (simp add: map_of_eq_None_iff)

text \<open>
  Timers run only for captured cgroups, captured cgroups are in the kernel's map, and the
  containers held match the target.
\<close>

definition winv :: "('k \<Rightarrow> u64 set) \<Rightarrow> Target \<Rightarrow> 'k Watcher \<Rightarrow> bool" where
  "winv cap T s \<longleftrightarrow> fst ` set (timers s) \<subseteq> fst ` set (byCgroup s) \<and>
     fst ` set (byCgroup s) \<subseteq> cap (kern s) \<and>
     snd ` set (byCgroup s) \<subseteq> Collect (Matches T) \<and> set_option (wanted s) \<subseteq> Collect (Matches T)"

text \<open>The kernel's map has nothing else.\<close>

definition rinv :: "('k \<Rightarrow> u64 set) \<Rightarrow> Target \<Rightarrow> 'k Watcher \<Rightarrow> bool" where
  "rinv cap T s \<longleftrightarrow> winv cap T s \<and> cap (kern s) \<subseteq> fst ` set (byCgroup s)"

definition unpend :: "u64 \<Rightarrow> 'k Watcher \<Rightarrow> 'k Watcher" where
  "unpend i s = (case map_of (timers s) i of None \<Rightarrow> s
     | Some n \<Rightarrow> (Stop n s)\<lparr>timers := AList.delete i (timers s)\<rparr>)"

lemma unpend_simps [simp]:
  "byCgroup (unpend i s) = byCgroup s" "kern (unpend i s) = kern s" "wanted (unpend i s) = wanted s"
  "fired (unpend i s) = fired s" "next_timer (unpend i s) = next_timer s"
  "timers (unpend i s) = AList.delete i (timers s)"
proof -
  have "AList.delete i (timers s) = timers s" if "map_of (timers s) i = None"
    using that by (simp add: map_of_eq_None_iff)
  then show "timers (unpend i s) = AList.delete i (timers s)" by (auto simp: unpend_def split: option.split)
qed (simp_all add: unpend_def Stop_def split: option.split)

lemma w_add_eq:
  "w_add addf i c s =
     (if map_of (byCgroup s) i \<noteq> None then (None, (unpend i s)\<lparr>byCgroup := AList.update i c (byCgroup s)\<rparr>)
      else (case addf i (kern s) of
              (Some e, k) \<Rightarrow> (Some e, (unpend i s)\<lparr>kern := k\<rparr>)
            | (None, k) \<Rightarrow> (None, (unpend i s)\<lparr>kern := k, byCgroup := AList.update i c (byCgroup s)\<rparr>)))"
  unfolding w_add_def unpend_def [symmetric] by (simp add: Let_def split: prod.split option.split)

lemma winv_mono:
  assumes "winv cap T s" and "Matches T c" and "wanted s' = wanted s"
    and "fst ` set (timers s') \<subseteq> fst ` set (timers s)" and "fst ` set (byCgroup s) \<subseteq> fst ` set (byCgroup s')"
    and "fst ` set (byCgroup s') \<subseteq> cap (kern s')" and "snd ` set (byCgroup s') \<subseteq> insert c (snd ` set (byCgroup s))"
  shows "winv cap T s'"
proof -
  have "insert c (snd ` set (byCgroup s)) \<subseteq> Collect (Matches T)" using assms(1,2) by (simp add: winv_def)
  then show ?thesis using assms unfolding winv_def by (metis (no_types, lifting) order_trans)
qed

lemma winvD: "winv cap T s \<Longrightarrow> fst ` set (byCgroup s) \<subseteq> cap (kern s)"
  by (simp add: winv_def)

context cgroup_map
begin

lemma winv_add:
  assumes "winv captured T s" and "Matches T c"
  shows "winv captured T (snd (w_add add_op i c s))"
proof (rule winv_mono [OF assms])
  note sub = winvD [OF assms(1)]
  let ?s' = "snd (w_add add_op i c s)"
  show "wanted ?s' = wanted s" "fst ` set (timers ?s') \<subseteq> fst ` set (timers s)"
    "fst ` set (byCgroup s) \<subseteq> fst ` set (byCgroup ?s')"
    by (auto simp: w_add_eq fst_delete fst_update split: prod.split option.split)
  show "snd ` set (byCgroup ?s') \<subseteq> insert c (snd ` set (byCgroup s))"
    using snd_update [of i c "byCgroup s"] by (simp add: w_add_eq subset_insertI split: prod.split option.split)
  obtain err k where a: "add_op i (kern s) = (err, k)" by (meson surj_pair)
  show "fst ` set (byCgroup ?s') \<subseteq> captured (kern ?s')"
  proof (cases "map_of (byCgroup s) i")
    case (Some c')
    then have "i \<in> fst ` set (byCgroup s)" using in_keys [of "byCgroup s" i] by simp
    then show ?thesis using sub Some by (simp add: w_add_eq fst_update subset_iff)
  next
    case None
    show ?thesis using add_nil [of i "kern s" k] add_err [of i "kern s" _ k] sub None a
      by (cases err) (simp_all add: w_add_eq fst_update subset_insertI2)
  qed
qed

lemma winv_grace_end:
  assumes "winv captured T s"
  shows "winv captured T (grace_end remove_op i s)"
proof -
  have "fst ` set (byCgroup s) - {i} \<subseteq> captured (snd (remove_op i (kern s)))"
    using remove_others [of "kern s" i] winvD [OF assms] by (meson Diff_mono order_refl order_trans)
  moreover have "snd ` set (AList.delete i (byCgroup s)) \<subseteq> Collect (Matches T)"
    using snd_delete [of i "byCgroup s"] assms unfolding winv_def by (meson order_trans)
  moreover have "fst ` set (timers s) - {i} \<subseteq> fst ` set (byCgroup s) - {i}"
    using assms unfolding winv_def by (intro Diff_mono) simp_all
  ultimately show ?thesis using assms by (simp add: winv_def grace_end_def fst_delete)
qed

end

sublocale cgroup_map \<subseteq> scope: watch_system "winv captured T" add_op T remove_op "\<lambda>k k'. captured k' = captured k" for T
proof
  fix s :: "'k Watcher" and c i n k
  show "winv captured T s \<Longrightarrow> Matches T c \<Longrightarrow> winv captured T (snd (w_add add_op i c s))" by (rule winv_add)
  show "winv captured T s \<Longrightarrow> winv captured T (w_release i s)" using in_keys [of "byCgroup s" i]
    by (simp add: winv_def w_release_def fst_update)
  show "winv captured T s \<Longrightarrow> Matches T c \<Longrightarrow> winv captured T (setWanted c s)"
    "winv captured T s \<Longrightarrow> winv captured T (s\<lparr>wanted := None\<rparr>)"
    "winv captured T s \<Longrightarrow> wanted s = Some c \<Longrightarrow> Matches T c"
    "winv captured T s \<Longrightarrow> winv captured T (s\<lparr>armed := remove1 (n, i) (armed s), fired := (n, i) # fired s\<rparr>)"
    "winv captured T s \<Longrightarrow> captured k = captured (kern s) \<Longrightarrow> winv captured T (s\<lparr>kern := k\<rparr>)"
    by (simp_all add: winv_def setWanted_def)
  assume "winv captured T s"
  then have "winv captured T (s\<lparr>fired := remove1 (n, i) (fired s)\<rparr>)" by (simp add: winv_def)
  then show "winv captured T (grace_end remove_op i (s\<lparr>fired := remove1 (n, i) (fired s)\<rparr>))" by (rule winv_grace_end)
qed

context reliable_cgroup_map
begin

lemma rinv_add:
  assumes "rinv captured T s" and "Matches T c"
  shows "rinv captured T (snd (w_add add_op i c s))"
proof -
  obtain err k where a: "add_op i (kern s) = (err, k)" by (meson surj_pair)
  have "captured (kern (snd (w_add add_op i c s))) \<subseteq> fst ` set (byCgroup (snd (w_add add_op i c s)))"
    using assms(1) a add_nil [of i "kern s" k] add_err [of i "kern s" _ k]
    by (cases err) (auto simp: rinv_def w_add_eq fst_update)
  then show ?thesis using winv_add [of T s c i] assms by (simp add: rinv_def)
qed

lemma rinv_grace_end:
  assumes "rinv captured T s"
  shows "rinv captured T (grace_end remove_op i s)"
proof -
  have "captured (kern (grace_end remove_op i s)) \<subseteq> fst ` set (byCgroup (grace_end remove_op i s))"
    using assms remove_exact [of i "kern s"] by (auto simp: rinv_def grace_end_def fst_delete)
  then show ?thesis using winv_grace_end [of T s i] assms by (simp add: rinv_def)
qed

end

sublocale reliable_cgroup_map \<subseteq> exact: watch_system "rinv captured T" add_op T remove_op "\<lambda>k k'. captured k' = captured k" for T
proof
  fix s c i n k
  show "rinv captured T s \<Longrightarrow> Matches T c \<Longrightarrow> rinv captured T (snd (w_add add_op i c s))" by (rule rinv_add)
  show "rinv captured T s \<Longrightarrow> rinv captured T (w_release i s)" using in_keys [of "byCgroup s" i]
    by (simp add: rinv_def winv_def w_release_def fst_update)
  show "rinv captured T s \<Longrightarrow> Matches T c \<Longrightarrow> rinv captured T (setWanted c s)"
    "rinv captured T s \<Longrightarrow> rinv captured T (s\<lparr>wanted := None\<rparr>)"
    "rinv captured T s \<Longrightarrow> wanted s = Some c \<Longrightarrow> Matches T c"
    "rinv captured T s \<Longrightarrow> rinv captured T (s\<lparr>armed := remove1 (n, i) (armed s), fired := (n, i) # fired s\<rparr>)"
    "rinv captured T s \<Longrightarrow> captured k = captured (kern s) \<Longrightarrow> rinv captured T (s\<lparr>kern := k\<rparr>)"
    by (simp_all add: rinv_def winv_def setWanted_def)
  assume "rinv captured T s"
  then have "rinv captured T (s\<lparr>fired := remove1 (n, i) (fired s)\<rparr>)" by (simp add: rinv_def winv_def)
  then show "rinv captured T (grace_end remove_op i (s\<lparr>fired := remove1 (n, i) (fired s)\<rparr>))" by (rule rinv_grace_end)
qed

section \<open>Timers\<close>

text \<open>Every pending timer is armed or its callback waits; timer numbers are not reused.\<close>

definition outstanding :: "'k Watcher \<Rightarrow> (nat \<times> u64) set" where
  "outstanding s = set (armed s) \<union> set (fired s)"

definition tinv :: "'k Watcher \<Rightarrow> bool" where
  "tinv s \<longleftrightarrow> (\<forall>i n. (i, n) \<in> set (timers s) \<longrightarrow> (n, i) \<in> outstanding s) \<and>
     (\<forall>n i. (n, i) \<in> outstanding s \<longrightarrow> n < next_timer s) \<and>
     (\<forall>n i j. (n, i) \<in> outstanding s \<longrightarrow> (n, j) \<in> outstanding s \<longrightarrow> i = j)"

lemma tinvD:
  assumes "tinv s"
  shows "(i, n) \<in> set (timers s) \<Longrightarrow> (n, i) \<in> outstanding s"
    and "(n, i) \<in> outstanding s \<Longrightarrow> n < next_timer s"
    and "(n, i) \<in> outstanding s \<Longrightarrow> (n, j) \<in> outstanding s \<Longrightarrow> i = j"
  using assms unfolding tinv_def by metis+

lemma tinv_cong:
  assumes "timers t = timers s" and "outstanding t = outstanding s" and "next_timer t = next_timer s"
  shows "tinv t = tinv s"
  by (simp add: tinv_def assms)

lemma tinv_unpend:
  assumes "tinv s"
  shows "tinv (unpend i s)"
proof (cases "map_of (timers s) i")
  case None
  then show ?thesis using assms by (simp add: unpend_def)
next
  case (Some n)
  have n: "(n, i) \<in> outstanding s" by (rule tinvD(1) [OF assms map_of_SomeD [OF Some]])
  have sub: "outstanding (unpend i s) \<subseteq> outstanding s" by (auto simp: outstanding_def unpend_def Some Stop_def)
  have keep: "(m, j) \<in> outstanding (unpend i s)" if "(m, j) \<in> outstanding s" "m \<noteq> n" for m j
    using that by (auto simp: outstanding_def unpend_def Some Stop_def)
  show ?thesis unfolding tinv_def
  proof (intro conjI allI impI)
    fix j m assume "(j, m) \<in> set (timers (unpend i s))"
    then have j: "(j, m) \<in> set (timers s)" "j \<noteq> i" by (auto simp: AList.delete_eq)
    then have "(m, j) \<in> outstanding s" by (intro tinvD(1) [OF assms])
    moreover have "m \<noteq> n" using tinvD(3) [OF assms n] calculation j(2) by blast
    ultimately show "(m, j) \<in> outstanding (unpend i s)" by (rule keep)
  next
    fix m j assume "(m, j) \<in> outstanding (unpend i s)"
    then show "m < next_timer (unpend i s)" using tinvD(2) [OF assms] sub by auto
  next
    fix m j j' assume "(m, j) \<in> outstanding (unpend i s)" "(m, j') \<in> outstanding (unpend i s)"
    then show "j = j'" using tinvD(3) [OF assms] sub by blast
  qed
qed

lemma tinv_add: "tinv s \<Longrightarrow> tinv (snd (w_add addf i c s))"
  using tinv_unpend [of s i] by (auto simp: w_add_eq tinv_def outstanding_def split: prod.split option.split)

lemma tinv_release:
  assumes "tinv s"
  shows "tinv (w_release i s)"
proof (cases "map_of (byCgroup s) i = None \<or> map_of (timers s) i \<noteq> None")
  case True
  then have "w_release i s = s" by (auto simp: w_release_def)
  then show ?thesis using assms by simp
next
  case False
  let ?n = "next_timer s" and ?t = "w_release i s"
  have out: "outstanding ?t = insert (?n, i) (outstanding s)" and nx: "next_timer ?t = Suc ?n"
    and tm: "set (timers ?t) \<subseteq> insert (i, ?n) (set (timers s))"
    using False set_update_alist [of i ?n "timers s"] by (auto simp: w_release_def outstanding_def)
  have fresh: "(?n, j) \<notin> outstanding s" for j using tinvD(2) [OF assms] by blast
  show ?thesis unfolding tinv_def out nx
  proof (intro conjI allI impI)
    fix j m assume "(j, m) \<in> set (timers ?t)"
    then show "(m, j) \<in> insert (?n, i) (outstanding s)" using tm tinvD(1) [OF assms] by blast
  next
    fix m j assume "(m, j) \<in> insert (?n, i) (outstanding s)"
    then show "m < Suc ?n" using tinvD(2) [OF assms, of m j] by auto
  next
    fix m j j' assume "(m, j) \<in> insert (?n, i) (outstanding s)" "(m, j') \<in> insert (?n, i) (outstanding s)"
    then show "j = j'" using tinvD(3) [OF assms, of m j j'] fresh by blast
  qed
qed

lemma tinv_callback:
  assumes "tinv s"
  shows "tinv (grace_end remf i (s\<lparr>fired := remove1 (n, i) (fired s)\<rparr>))" (is "tinv ?t")
proof -
  have sub: "outstanding ?t \<subseteq> outstanding s"
    using set_remove1_subset [of "(n, i)" "fired s"] by (auto simp: outstanding_def grace_end_def)
  have keep: "(m, j) \<in> outstanding ?t" if "(m, j) \<in> outstanding s" "j \<noteq> i" for m j
    using that by (auto simp: outstanding_def grace_end_def)
  have tm: "set (timers ?t) = {(j, m) \<in> set (timers s). j \<noteq> i}" by (auto simp: grace_end_def AList.delete_eq)
  have nx: "next_timer ?t = next_timer s" by (simp add: grace_end_def)
  show ?thesis unfolding tinv_def tm nx
  proof (intro conjI allI impI)
    fix j m assume "(j, m) \<in> {(j, m) \<in> set (timers s). j \<noteq> i}"
    then show "(m, j) \<in> outstanding ?t" using tinvD(1) [OF assms, of j m] keep by blast
  next
    fix m j assume "(m, j) \<in> outstanding ?t"
    then show "m < next_timer s" using sub tinvD(2) [OF assms] by blast
  next
    fix m j j' assume "(m, j) \<in> outstanding ?t" "(m, j') \<in> outstanding ?t"
    then show "j = j'" using sub tinvD(3) [OF assms] by blast
  qed
qed

sublocale cgroup_map \<subseteq> timed: watch_system "\<lambda>s. winv captured T s \<and> tinv s" add_op T remove_op "\<lambda>k k'. captured k' = captured k" for T
proof
  fix s :: "'k Watcher" and c i n k
  assume s: "winv captured T s \<and> tinv s"
  show "Matches T c \<Longrightarrow> winv captured T (snd (w_add add_op i c s)) \<and> tinv (snd (w_add add_op i c s))"
    using s winv_add tinv_add by blast
  show "winv captured T (w_release i s) \<and> tinv (w_release i s)" using s scope.release_keeps tinv_release by blast
  show "Matches T c \<Longrightarrow> winv captured T (setWanted c s) \<and> tinv (setWanted c s)"
    using s scope.want_keeps [of T s c] by (simp add: setWanted_def tinv_def outstanding_def)
  show "winv captured T (s\<lparr>wanted := None\<rparr>) \<and> tinv (s\<lparr>wanted := None\<rparr>)"
    using s scope.unwant_keeps [of T s] by (simp add: tinv_def outstanding_def)
  show "wanted s = Some c \<Longrightarrow> Matches T c" using s scope.wanted_matches by blast
  show "captured k = captured (kern s) \<Longrightarrow> winv captured T (s\<lparr>kern := k\<rparr>) \<and> tinv (s\<lparr>kern := k\<rparr>)"
    using s scope.kernel_keeps [of T s k] by (simp add: tinv_def outstanding_def)
  show "(n, i) \<in> set (fired s) \<Longrightarrow> winv captured T (grace_end remove_op i (s\<lparr>fired := remove1 (n, i) (fired s)\<rparr>)) \<and>
      tinv (grace_end remove_op i (s\<lparr>fired := remove1 (n, i) (fired s)\<rparr>))"
    using s scope.callback_keeps [of T s n i] tinv_callback [of s remove_op i n] by blast
  let ?t = "s\<lparr>armed := remove1 (n, i) (armed s), fired := (n, i) # fired s\<rparr>"
  assume "(n, i) \<in> set (armed s)"
  then have "outstanding ?t = outstanding s" using set_remove1_subset [of "(n, i)" "armed s"]
    by (auto simp: outstanding_def) (metis in_set_remove1 prod.inject)+
  then have "tinv ?t = tinv s" by (intro tinv_cong) simp_all
  then show "winv captured T ?t \<and> tinv ?t" using s scope.expire_keeps [of T s n i] \<open>(n, i) \<in> set (armed s)\<close> by simp
qed

end
