(* ===== verification/WatcherRuns.thy ===== *)
theory WatcherRuns
  imports WatcherProps
begin

unbundle bit_operations_syntax

text \<open>
  Single handlers of the watcher run to their end in a world that does not change meanwhile:
  when a cgroup gets captured, when its grace period starts and ends, and where the handlers
  do something else than their comments say.
\<close>

section \<open>Methods as functions\<close>

lemma exec_CgroupPath [simp]: "exec w (CgroupPath i) s = (w_CgroupPath w i, s)"
  by (simp add: CgroupPath_def)

lemma exec_inode [simp]: "exec w (inode p) s = (w_Stat w p, s)"
  by (simp add: inode_def)

text \<open>The inode of the cgroup directory the runtime creates for a container, 0 if there is none.\<close>

definition live_cgroup :: "World \<Rightarrow> WatcherConfig \<Rightarrow> string \<Rightarrow> u64" where
  "live_cgroup w cfg cid =
     (case w_CgroupPath w cid of Inl e \<Rightarrow> 0
      | Inr path \<Rightarrow> (case w_Stat w (Join [wc_CgroupRoot cfg, path]) of None \<Rightarrow> 0 | Some i \<Rightarrow> i))"

text \<open>The cgroup of a running container: from its init process, else from the runtime's path.\<close>

definition container_path :: "World \<Rightarrow> Container \<Rightarrow> rt_error + string" where
  "container_path w c =
     (case (if c_Pid c > 0 then Option.bind (w_ReadFile w (''/proc/'' @ Itoa (c_Pid c) @ ''/cgroup'')) proc_cgroup else None) of
        Some p \<Rightarrow> Inr p | None \<Rightarrow> w_CgroupPath w (c_ID c))"

definition container_cgroup :: "World \<Rightarrow> WatcherConfig \<Rightarrow> Container \<Rightarrow> u64 option" where
  "container_cgroup w cfg c =
     (case container_path w c of Inl e \<Rightarrow> None | Inr path \<Rightarrow> w_Stat w (Join [wc_CgroupRoot cfg, path]))"

lemma exec_cgroupPath [simp]: "exec w (cgroupPath c) s = (container_path w c, s)"
  by (simp add: cgroupPath_def container_path_def split: option.split)

lemma exec_discard [simp]: "exec w (discard p) s = ((), snd (exec w p s))"
  by (simp add: discard_def exec_bind split_beta)

lemma exec_addRunning:
  "container_cgroup w cfg c = Some i \<Longrightarrow>
   exec w (addRunning addf cfg c) s = (map_option AddErr (fst (w_add addf i c s)), snd (w_add addf i c s))"
  by (auto simp: addRunning_def exec_bind exec_crit container_cgroup_def split_beta split: sum.splits)

lemma exec_release_all: "exec w (release_all is) s = ((), fold w_release is s)"
  by (induction "is" arbitrary: s) auto

definition to_release :: "World \<Rightarrow> string \<Rightarrow> u64 \<Rightarrow> 'k Watcher \<Rightarrow> u64 list" where
  "to_release w cid live s = map fst (filter (\<lambda>(cg, c). c_ID c = cid \<and> cg \<noteq> live) (w_range w (byCgroup s)))"

lemma exec_releaseContainer:
  "exec w (releaseContainer cfg cid) s = ((), fold w_release (to_release w cid (live_cgroup w cfg cid) s) s)"
proof -
  have "exec w (bind_go (CgroupPath cid) (\<lambda>r. case r of Inl e \<Rightarrow> Ret 0
         | Inr path \<Rightarrow> bind_go (inode (Join [wc_CgroupRoot cfg, path])) (\<lambda>r. case r of None \<Rightarrow> Ret 0 | Some i \<Rightarrow> Ret i))) s
      = (live_cgroup w cfg cid, s)"
    by (simp add: exec_bind live_cgroup_def split: sum.split option.split)
  then show ?thesis unfolding releaseContainer_def exec_bind by (simp add: exec_release_all to_release_def)
qed

lemma release_frame [simp]:
  "byCgroup (w_release i s) = byCgroup s" "kern (w_release i s) = kern s" "wanted (w_release i s) = wanted s"
  "fired (w_release i s) = fired s"
  by (simp_all add: w_release_def)

lemma fold_release_frame [simp]:
  "byCgroup (fold w_release is s) = byCgroup s" "kern (fold w_release is s) = kern s"
  "wanted (fold w_release is s) = wanted s" "fired (fold w_release is s) = fired s"
  by (induction "is" arbitrary: s) simp_all

lemma release_timers: "map_of (timers (w_release i s)) j = None \<longleftrightarrow>
    map_of (timers s) j = None \<and> (j = i \<longrightarrow> map_of (byCgroup s) i = None)"
  by (auto simp: w_release_def AList.update_conv')

lemma fold_release_timers: "map_of (timers (fold w_release is s)) j = None \<longleftrightarrow>
    map_of (timers s) j = None \<and> (j \<in> set is \<longrightarrow> map_of (byCgroup s) j = None)"
proof (induction "is" arbitrary: s)
  case (Cons a "is")
  then show ?case by (auto simp: release_timers)
qed simp

lemma fold_release_tinv: "tinv s \<Longrightarrow> tinv (fold w_release is s)"
  by (induction "is" arbitrary: s) (simp_all add: tinv_release)

section \<open>Capturing\<close>

lemma add_Lookup:
  assumes "w_InScope i s \<or> fst (addf i (kern s)) = None"
  shows "fst (w_add addf i c s) = None" and "w_Lookup j (snd (w_add addf i c s)) = (if j = i then Some c else w_Lookup j s)"
    and "map_of (timers (snd (w_add addf i c s))) i = None" and "wanted (snd (w_add addf i c s)) = wanted s"
  using assms by (auto simp: w_add_eq w_Lookup_def w_InScope_def AList.update_conv' AList.delete_conv' split: prod.splits option.splits)


text \<open>
  The cgroup of a restarted target is captured as soon as its directory appears, before any
  runtime event: the directory event with the base name of the wanted container's path adds
  the directory's inode under that container.
\<close>

lemma dir_create_captures:
  assumes "wanted s = Some c" and "w_CgroupPath w (c_ID c) = Inr (path @ ''/'' @ name)"
    and "CHR ''/'' \<notin> set name" and "name \<noteq> []" and "w_Stat w (Join [dir, name]) = Some i"
    and "flags AND IN_CREATE \<noteq> 0" and "w_InScope i s \<or> fst (addf i (kern s)) = None"
  shows "\<exists>s'. exec w (cgroupDirEvent addf cfg dir name flags) s = ((), s') \<and> map_of (timers s') i = None \<and>
    (\<forall>j. w_Lookup j s' = (if j = i then Some c else w_Lookup j s))"
proof -
  have "exec w (cgroupDirEvent addf cfg dir name flags) s = ((), snd (w_add addf i c s))"
    using assms(1-6) by (simp add: cgroupDirEvent_def wantedContainer_def exec_bind exec_crit Base_last split_beta)
  then show ?thesis using add_Lookup [where i = i and s = s and addf = addf and c = c] assms(7) by simp
qed

section \<open>Releasing\<close>

text \<open>\<open>range\<close> visits every entry of a map.\<close>

definition range_ok :: "World \<Rightarrow> bool" where
  "range_ok w \<longleftrightarrow> (\<forall>xs. set (w_range w xs) = set xs)"

lemma released_pending:
  assumes "range_ok w" and "w_Lookup i s = Some c" and "c_ID c = cid" and "i \<noteq> live"
  shows "\<exists>n. map_of (timers (fold w_release (to_release w cid live s) s)) i = Some n"
proof -
  have "(i, c) \<in> set (byCgroup s)" using assms(2) by (simp add: w_Lookup_def map_of_SomeD)
  then have "i \<in> set (to_release w cid live s)" using assms(1,3,4) by (force simp: to_release_def range_ok_def)
  then show ?thesis using fold_release_timers [of "to_release w cid live s" s i] assms(2) by (auto simp: w_Lookup_def)
qed

context cgroup_map
begin

lemma callback_ends:
  assumes "fst (remove_op i (kern s)) = None"
  shows "w_Lookup i (grace_end remove_op i s) = None" and "i \<notin> captured (kern (grace_end remove_op i s))"
  using assms remove_nil [of i "kern s" "snd (remove_op i (kern s))"]
  by (simp_all add: grace_end_def w_Lookup_def AList.delete_conv' prod_eq_iff)

end

section \<open>Where the handlers capture too much or too little\<close>

text \<open>
  C31: a container that is renamed away from the target stays captured. The handler of the rename
  event releases the container's cgroups except the one that is live on disk; as the container
  is still running, that is the one captured, so nothing is released and no timer is started,
  and with no wanted container left the directory events of this container are ignored too.
\<close>

theorem renamed_away_still_captured:
  assumes "le_Kind ev = EventRename" and "w_Inspect w (le_ID ev) = Inr c" and "\<not> Matches (wc_Target cfg) c"
    and "map_option c_ID (wanted s) = Some (c_ID c)"
    and "\<forall>(cg, d) \<in> set (w_range w (byCgroup s)). c_ID d = c_ID c \<longrightarrow> cg = live_cgroup w cfg (c_ID c)"
  shows "exec w (w_handle addf cfg ev) s = ((), s\<lparr>wanted := None\<rparr>)"
proof -
  have "to_release w (c_ID c) (live_cgroup w cfg (c_ID c)) s = []"
    using assms(5) by (auto simp: to_release_def filter_empty_conv)
  then show ?thesis using assms(1-4)
    by (simp add: w_handle_def Let_def event_kinds wantedContainer_def exec_bind exec_releaseContainer)
qed

text \<open>
  C32: capturing again can be undone by an old timer. When the grace timer of a cgroup has fired and
  its callback waits for the mutex, adding the cgroup succeeds and drops the timer, which can
  no longer be stopped; the callback then removes the cgroup that was just added.
\<close>

theorem readded_cgroup_lost:
  assumes "w_Lookup i s = Some c" and "map_of (timers s) i = None"
    and "s1 = w_release i s" and "n = next_timer s"
    and "s2 = s1\<lparr>armed := remove1 (n, i) (armed s1), fired := (n, i) # fired s1\<rparr>"
    and "w_add addf i c s2 = (err, s3)"
    and "s4 = grace_end remf i (s3\<lparr>fired := remove1 (n, i) (fired s3)\<rparr>)"
  shows "watch_step addf remf cfg K (s1, ps) (s2, ps) \<and> err = None \<and> w_Lookup i s3 = Some c \<and>
    map_of (timers s3) i = None \<and> watch_step addf remf cfg K (s3, ps) (s4, ps) \<and>
    w_Lookup i s4 = None \<and> kern s4 = snd (remf i (kern s3))"
proof -
  have s1: "s1 = s\<lparr>timers := AList.update i n (timers s), armed := (n, i) # armed s, next_timer := n + 1\<rparr>"
    using assms(1-4) by (simp add: w_release_def w_Lookup_def)
  have "watch_step addf remf cfg K (s1, ps) (s2, ps)" unfolding assms(5) by (rule watch_step.expire) (simp add: s1)
  moreover have s3: "err = None" "w_Lookup i s3 = Some c" "map_of (timers s3) i = None" "fired s3 = fired s2"
    using assms(1,6) s1 by (auto simp: w_add_eq w_Lookup_def assms(5) AList.update_conv' AList.delete_conv')
  moreover have "watch_step addf remf cfg K (s3, ps) (s4, ps)"
    unfolding assms(7) by (rule watch_step.callback) (simp add: s3 assms(5))
  moreover have "w_Lookup i s4 = None" "kern s4 = snd (remf i (kern s3))"
    by (simp_all add: assms(7) grace_end_def w_Lookup_def AList.delete_conv')
  ultimately show ?thesis by blast
qed

section \<open>Directory events\<close>

text \<open>
  The kernel's encoding of an inotify event: watch descriptor, mask, cookie, length of the
  name field, and the name padded with NUL characters.
\<close>

record inotify_event =
  ie_wd :: u32
  ie_mask :: u32
  ie_cookie :: u32
  ie_name :: string
  ie_pad :: nat

definition ie_len :: "inotify_event \<Rightarrow> nat" where
  "ie_len e = length (ie_name e) + ie_pad e"

definition ie_image :: "inotify_event \<Rightarrow> bytes" where
  "ie_image e = put32 (ie_wd e) @ put32 (ie_mask e) @ put32 (ie_cookie e) @ put32 (of_nat (ie_len e)) @
     bytes_of (ie_name e) @ replicate (ie_pad e) 0"

definition ie_ok :: "inotify_event \<Rightarrow> bool" where
  "ie_ok e \<longleftrightarrow> ie_len e < 2 ^ 32 \<and> CHR 0x00 \<notin> set (ie_name e)"

lemma length_ie_image: "length (ie_image e) = 16 + ie_len e"
  by (simp add: ie_image_def ie_len_def)

lemma trimNul_pad: "CHR 0x00 \<notin> set n \<Longrightarrow> trimNul (n @ replicate k (CHR 0x00)) = n"
proof -
  assume n: "CHR 0x00 \<notin> set n"
  have "dropWhile (\<lambda>c. c = CHR 0x00) (replicate k (CHR 0x00) @ rev n) = rev n"
    using n by (cases "rev n") (auto simp: dropWhile_append)
  then show ?thesis by (simp add: trimNul_def)
qed

lemma inotify_step:
  assumes "off + 16 \<le> n" and "unat (get32 (drop (off + 12) buf)) = len" and "off + 16 + len \<le> length buf"
  shows "inotify_events buf n off =
    map_option ((#) (trimNul (string_of (take len (drop (off + 16) buf))), get32 (drop (off + 4) buf)))
      (inotify_events buf n (off + 16 + len))"
  using assms by (subst inotify_events.simps) (simp add: SizeofInotifyEvent_def Let_def)

lemma inotify_events_image:
  assumes "list_all ie_ok es"
  shows "inotify_events (pre @ concat (map ie_image es) @ rest) (length pre + length (concat (map ie_image es))) (length pre) =
    Some (map (\<lambda>e. (ie_name e, ie_mask e)) es)"
  using assms
proof (induction es arbitrary: pre)
  case Nil
  then show ?case by (simp add: inotify_events.simps SizeofInotifyEvent_def)
next
  case (Cons e es)
  let ?tl = "concat (map ie_image es)"
  let ?buf = "pre @ (ie_image e @ ?tl) @ rest" and ?n = "length pre + length (ie_image e @ ?tl)"
  have ok: "ie_ok e" "list_all ie_ok es" using Cons.prems by simp_all
  have IH: "inotify_events ?buf ?n (length pre + 16 + ie_len e) = Some (map (\<lambda>e. (ie_name e, ie_mask e)) es)"
    using Cons.IH [OF ok(2), of "pre @ ie_image e"] by (simp add: length_ie_image add.assoc)
  have d12: "drop (length pre + 12) ?buf = put32 (of_nat (ie_len e)) @ bytes_of (ie_name e) @ replicate (ie_pad e) 0 @ ?tl @ rest"
    and d4: "drop (length pre + 4) ?buf = put32 (ie_mask e) @ drop 8 (ie_image e) @ ?tl @ rest"
    and d16: "drop (length pre + 16) ?buf = bytes_of (ie_name e) @ replicate (ie_pad e) 0 @ ?tl @ rest"
    by (simp_all add: ie_image_def)
  have len: "unat (get32 (drop (length pre + 12) ?buf)) = ie_len e"
    using ok(1) unfolding d12 by (simp add: get32_put32_append unat_of_nat ie_ok_def)
  have name: "take (ie_len e) (drop (length pre + 16) ?buf) = bytes_of (ie_name e) @ replicate (ie_pad e) 0"
    unfolding d16 by (simp add: ie_len_def)
  have nm: "trimNul (string_of (bytes_of (ie_name e) @ replicate (ie_pad e) 0)) = ie_name e"
  proof -
    have "string_of (replicate k 0) = replicate k (CHR 0x00)" for k by (simp add: string_of_def char_of_def)
    then show ?thesis using ok(1) trimNul_pad by (simp add: ie_ok_def)
  qed
  have flags: "get32 (drop (length pre + 4) ?buf) = ie_mask e" unfolding d4 by (rule get32_put32_append)
  have "inotify_events ?buf ?n (length pre) = Some ((ie_name e, ie_mask e) # map (\<lambda>e. (ie_name e, ie_mask e)) es)"
    by (subst inotify_step [OF _ len]) (simp_all only: name nm flags IH option.map, simp_all add: length_ie_image)
  then show ?case by simp
qed

text \<open>
  C33: the loop over the inotify buffer ends on every buffer, and on what the kernel writes it
  recovers name and mask of every event, in order and without reading past the filled part,
  whatever the rest of the buffer holds from earlier reads.
\<close>

theorem inotify_roundtrip:
  assumes "list_all ie_ok es"
  shows "inotify_events (concat (map ie_image es) @ rest) (length (concat (map ie_image es))) 0 =
    Some (map (\<lambda>e. (ie_name e, ie_mask e)) es)"
  using inotify_events_image [OF assms, of "[]" rest] by simp

section \<open>Reconnecting\<close>

text \<open>The delays alone.\<close>

fun delays :: "int \<Rightarrow> LifeEvent list list \<Rightarrow> int list" where
  "delays b [] = []"
| "delays b (evs # conns) = (let b = (if evs = [] then b else second) in b # delays (min (b * 2) (30 * second)) conns)"

lemma exec_runtimeEvents: "fst (exec w (runtimeEvents addf cfg first b conns) s) = delays b conns"
  by (induction conns arbitrary: first b s) (auto simp: exec_bind Let_def split_beta)

lemma delays_silent:
  assumes "k < length conns" and "\<forall>j \<le> k. conns ! j = []" and "0 < b" and "b \<le> 30 * second"
  shows "delays b conns ! k = min (2 ^ k * b) (30 * second)"
  using assms
proof (induction conns arbitrary: b k)
  case (Cons evs conns)
  have e: "evs = []" using Cons.prems(2) by (metis bot_nat_0.extremum nth_Cons_0)
  show ?case
  proof (cases k)
    case 0
    then show ?thesis using e Cons.prems(4) by simp
  next
    case (Suc m)
    have "\<forall>j \<le> m. conns ! j = []" using Cons.prems(2) Suc by (metis Suc_le_mono nth_Cons_Suc)
    then have "delays (min (b * 2) (30 * second)) conns ! m = min (2 ^ m * min (b * 2) (30 * second)) (30 * second)"
      using Cons.prems Suc by (intro Cons.IH) (simp_all add: second_def)
    moreover have "min (2 ^ m * min (b * 2) (30 * second)) (30 * second) = min (2 ^ k * b) (30 * second)"
    proof (cases "b * 2 \<le> 30 * second")
      case False
      have m: "(1 :: int) \<le> 2 ^ m" by simp
      have "1 * (30 * second) \<le> 2 ^ m * (30 * second)" by (rule mult_right_mono [OF m]) (simp add: second_def)
      moreover have "1 * (b * 2) \<le> 2 ^ m * (b * 2)" using Cons.prems(3) by (intro mult_right_mono [OF m]) simp
      moreover have "2 ^ k * b = 2 ^ m * (b * 2)" using Suc by simp
      ultimately show ?thesis using False by (simp only: min_absorb2)
    qed (simp add: Suc mult.commute mult.left_commute)
    ultimately show ?thesis using e Suc by simp
  qed
qed simp

lemma delays_drop:
  assumes "i \<le> length conns" and "second \<le> b" and "b \<le> 30 * second"
  shows "\<exists>b'. drop i (delays b conns) = delays b' (drop i conns) \<and> second \<le> b' \<and> b' \<le> 30 * second"
  using assms
proof (induction i arbitrary: b conns)
  case (Suc i)
  then obtain evs rest where c: "conns = evs # rest" by (cases conns) auto
  let ?b = "if evs = [] then b else second"
  have "drop (Suc i) (delays b conns) = drop i (delays (min (?b * 2) (30 * second)) rest)" by (simp add: c Let_def)
  moreover have "i \<le> length rest" "second \<le> min (?b * 2) (30 * second)" using Suc.prems c by (auto simp: second_def)
  ultimately show ?case using Suc.IH [of rest "min (?b * 2) (30 * second)"] c by simp
qed auto

lemma hd_delays: "conns \<noteq> [] \<Longrightarrow> hd (delays b conns) = (if hd conns = [] then b else second)"
  by (cases conns) (simp_all add: Let_def)

lemma length_delays [simp]: "length (delays b conns) = length conns"
  by (induction conns arbitrary: b) (simp_all add: Let_def)

text \<open>
  C34: reconnecting with backoff. Counting from the start or from the last connection that brought
  an event, the wait after \<open>k\<close> further connections without events is \<open>2^k\<close> seconds, but at
  most 30 seconds.
\<close>

theorem reconnect_backoff:
  assumes "i + k < length conns" and "i = 0 \<or> conns ! i \<noteq> []" and "\<forall>j. i < j \<and> j \<le> i + k \<longrightarrow> conns ! j = []"
  shows "fst (exec w (runtimeEvents addf cfg True second conns) s) ! (i + k) = min (2 ^ k * second) (30 * second)"
proof -
  obtain b where b: "drop i (delays second conns) = delays b (drop i conns)" "second \<le> b" "b \<le> 30 * second"
    using delays_drop [of i conns second] assms(1) by (auto simp: second_def)
  have r: "drop i conns = conns ! i # drop (Suc i) conns" using assms(1) by (simp add: Cons_nth_drop_Suc)
  have "b = second" if "i = 0" "conns ! i = []"
  proof -
    have ne: "conns \<noteq> []" and hd: "hd conns = []" using that assms(1) by (cases conns; simp)+
    have "delays second conns = delays b conns" using b(1) that by simp
    then have "hd (delays second conns) = hd (delays b conns)" by simp
    then show ?thesis by (simp add: hd_delays [OF ne] hd)
  qed
  then have "(if conns ! i = [] then b else second) = second" using assms(2) by auto
  then have d: "delays b (drop i conns) = second # delays (2 * second) (drop (Suc i) conns)"
    unfolding r by (simp add: Let_def second_def)
  have at: "delays second conns ! (i + k) = (second # delays (2 * second) (drop (Suc i) conns)) ! k"
    using nth_drop [of i "delays second conns" k] assms(1) b(1) d by simp
  have "fst (exec w (runtimeEvents addf cfg True second conns) s) = delays second conns" by (rule exec_runtimeEvents)
  moreover have "(second # delays (2 * second) (drop (Suc i) conns)) ! k = min (2 ^ k * second) (30 * second)"
  proof (cases k)
    case (Suc m)
    have "\<forall>j \<le> m. drop (Suc i) conns ! j = []" using assms(1,3) Suc by simp
    then have "delays (2 * second) (drop (Suc i) conns) ! m = min (2 ^ m * (2 * second)) (30 * second)"
      using assms(1) Suc by (intro delays_silent) (simp_all add: second_def)
    then show ?thesis using Suc by (simp add: mult.commute mult.left_commute)
  qed (simp add: second_def)
  ultimately show ?thesis using at by simp
qed

section \<open>The properties at a concrete container\<close>

definition demo_container :: Container where
  "demo_container = \<lparr>c_ID = ''0a1b'', c_Name = ''web'', c_Image = ''nginx'', c_ImageID = [], c_Labels = Map.empty, c_Pid = 0, c_Running = True\<rparr>"

definition demo_wcfg :: WatcherConfig where
  "demo_wcfg = NewConfig \<lparr>wc_Target = selector_target (ByName ''web''), wc_CgroupRoot = [], wc_Grace = 0\<rparr>"

definition demo_world :: "u64 option \<Rightarrow> World" where
  "demo_world st = \<lparr>w_List = Inr [demo_container], w_Inspect = (\<lambda>_. Inr demo_container),
     w_CgroupPath = (\<lambda>i. Inr (''/system.slice'' @ ''/'' @ ''docker-0a1b.scope'')), w_ReadFile = (\<lambda>_. None),
     w_Stat = (\<lambda>_. st), w_inotify = (\<lambda>_. True), w_range = (\<lambda>xs. xs)\<rparr>"

definition demo_add :: "(u64 set, nat) map_op" where
  "demo_add i k = (None, insert i k)"

definition demo_watcher :: "u64 set Watcher" where
  "demo_watcher = (NewWatcher {7})\<lparr>wanted := Some demo_container, byCgroup := [(7, demo_container)]\<rparr>"

lemma demo_matches: "Matches (wc_Target demo_wcfg) demo_container"
  by (simp add: demo_wcfg_def NewConfig_def Let_def Matches_selector selector_ok_def selects_def demo_container_def HasPrefix_def)

lemma demo_lookup: "w_Lookup i demo_watcher = (if i = 7 then Some demo_container else None)"
  by (simp add: demo_watcher_def w_Lookup_def)


theorem renamed_away_still_captured_witness:
  "\<exists>s'. exec ((demo_world (Some 7))\<lparr>w_Inspect := (\<lambda>_. Inr (demo_container\<lparr>c_Name := ''other''\<rparr>))\<rparr>)
      (w_handle demo_add demo_wcfg \<lparr>le_Kind = EventRename, le_ID = ''0a1b''\<rparr>) demo_watcher = ((), s') \<and>
    w_Lookup 7 s' = Some demo_container \<and> timers s' = []"
proof -
  let ?w = "(demo_world (Some 7))\<lparr>w_Inspect := (\<lambda>_. Inr (demo_container\<lparr>c_Name := ''other''\<rparr>))\<rparr>"
  let ?c = "demo_container\<lparr>c_Name := ''other''\<rparr>" and ?ev = "\<lparr>le_Kind = EventRename, le_ID = ''0a1b''\<rparr>"
  have m: "\<not> Matches (wc_Target demo_wcfg) ?c"
    by (simp add: demo_wcfg_def NewConfig_def Let_def Matches_selector selector_ok_def selects_def demo_container_def HasPrefix_def)
  have l: "\<forall>(cg, d) \<in> set (w_range ?w (byCgroup demo_watcher)). c_ID d = c_ID ?c \<longrightarrow> cg = live_cgroup ?w demo_wcfg (c_ID ?c)"
    by (simp add: demo_watcher_def live_cgroup_def demo_world_def)
  have k: "le_Kind ?ev = EventRename" "w_Inspect ?w (le_ID ?ev) = Inr ?c" "map_option c_ID (wanted demo_watcher) = Some (c_ID ?c)"
    by (simp_all add: demo_watcher_def)
  have "exec ?w (w_handle demo_add demo_wcfg ?ev) demo_watcher = ((), demo_watcher\<lparr>wanted := None\<rparr>)"
    by (rule renamed_away_still_captured [OF k(1,2) m k(3) l])
  then show ?thesis by (simp add: w_Lookup_def) (simp add: demo_watcher_def NewWatcher_def)
qed

theorem readded_cgroup_lost_witness:
  "\<exists>s2 s3 s4. w_add demo_add 7 demo_container s2 = (None, s3) \<and> w_Lookup 7 s3 = Some demo_container \<and>
    s4 = grace_end (\<lambda>i k. (None :: nat option, k - {i})) 7 (s3\<lparr>fired := remove1 (0, 7) (fired s3)\<rparr>) \<and>
    w_Lookup 7 s4 = None \<and> 7 \<notin> kern s4"
proof -
  let ?rem = "\<lambda>i k. (None :: nat option, k - {i})"
  define s1 where "s1 = w_release 7 demo_watcher"
  define s2 where "s2 = s1\<lparr>armed := remove1 (0, 7) (armed s1), fired := (0, 7) # fired s1\<rparr>"
  obtain err s3 where a: "w_add demo_add 7 demo_container s2 = (err, s3)" by fastforce
  define s4 where "s4 = grace_end ?rem 7 (s3\<lparr>fired := remove1 (0, 7) (fired s3)\<rparr>)"
  have "w_Lookup 7 demo_watcher = Some demo_container" "map_of (timers demo_watcher) 7 = None" "0 = next_timer demo_watcher"
    by (simp_all add: demo_lookup) (simp_all add: demo_watcher_def NewWatcher_def)
  from readded_cgroup_lost [OF this(1,2) s1_def this(3) s2_def a s4_def, of demo_wcfg "\<lambda>_ _. False" "[]"]
  have "err = None" "w_Lookup 7 s3 = Some demo_container" "w_Lookup 7 s4 = None" "7 \<notin> kern s4" by simp_all
  then show ?thesis using a s4_def by blast
qed

theorem inotify_roundtrip_witness:
  "inotify_events (ie_image \<lparr>ie_wd = 1, ie_mask = 0x100, ie_cookie = 0, ie_name = ''web.scope'', ie_pad = 7\<rparr> @ [1, 2, 3]) 32 0 =
    Some [(''web.scope'', 0x100)]"
  using inotify_roundtrip [of "[\<lparr>ie_wd = 1, ie_mask = 0x100, ie_cookie = 0, ie_name = ''web.scope'', ie_pad = 7\<rparr>]" "[1, 2, 3]"]
  by (simp add: ie_ok_def ie_len_def length_ie_image)

theorem reconnect_backoff_witness:
  "fst (exec (demo_world None) (runtimeEvents demo_add demo_wcfg True second [[], [], [], []]) demo_watcher) ! 3 = 8 * second"
proof -
  have "\<forall>j. 0 < j \<and> j \<le> 0 + 3 \<longrightarrow> [[], [], [], []] ! j = ([] :: LifeEvent list)" by (auto simp: nth_Cons split: nat.split)
  from reconnect_backoff [OF _ _ this] show ?thesis by (simp add: second_def)
qed

end
