(* ===== verification/DockerWatch.thy ===== *)
theory DockerWatch
  imports DockerProps WatcherRuns
begin

unbundle bit_operations_syntax

text \<open>
  The watcher on top of the Docker client, as \<open>main.go\<close> composes them: the runtime's answers in the
  watcher's world are those of the client. Shown are the start with a running target, from the
  engine's JSON to the kernel map, and that the one watched directory is the right one for every
  container.
\<close>

definition docker_world :: "engine \<Rightarrow> Docker \<Rightarrow> World \<Rightarrow> World" where
  "docker_world http d w =
     w\<lparr>w_List := d_List http, w_Inspect := Inspect http, w_CgroupPath := (\<lambda>i. fst (d_CgroupPath http i d))\<rparr>"

lemma docker_world_simps [simp]:
  "w_List (docker_world http d w) = d_List http" "w_Inspect (docker_world http d w) = Inspect http"
  "w_CgroupPath (docker_world http d w) = (\<lambda>i. fst (d_CgroupPath http i d))"
  "w_Stat (docker_world http d w) = w_Stat w" "w_inotify (docker_world http d w) = w_inotify w"
  by (simp_all add: docker_world_def)

section \<open>Directory events\<close>

context cgroup_paths
begin

text \<open>The event of another container's directory changes nothing.\<close>

lemma foreign_directory:
  assumes "\<And>i p. w_CgroupPath w i = Inr p \<Longrightarrow> path i = Inr p" and "wanted s = Some c" and "container_id (c_ID c)"
    and "j \<noteq> c_ID c"
  shows "exec w (cgroupDirEvent addf cfg dir (leaf j) flags) s = ((), s)"
proof (cases "w_CgroupPath w (c_ID c)")
  case (Inl e)
  then show ?thesis using assms(2) by (simp add: cgroupDirEvent_def wantedContainer_def exec_bind)
next
  case (Inr p)
  then have "Base p \<noteq> leaf j" using Base_path [OF assms(3) assms(1)] leaf_inj assms(4) by metis
  then show ?thesis using assms(2) Inr by (simp add: cgroupDirEvent_def wantedContainer_def exec_bind)
qed

text \<open>The creation of its own directory in the watched one captures the cgroup the runtime means.\<close>

lemma own_directory:
  assumes "\<And>i p. w_CgroupPath w i = Inr p \<Longrightarrow> path i = Inr p" and "wanted s = Some c" and "container_id (c_ID c)"
    and "w_CgroupPath w (c_ID c) = Inr p"
    and "HasPrefix root ''/''" and "container_id j" and "path j = Inr q"
    and "w_Stat w (Join [root, p]) = Some i" and "flags AND IN_CREATE \<noteq> 0"
    and "w_InScope i s \<or> fst (addf i (kern s)) = None"
  shows "\<exists>s'. exec w (cgroupDirEvent addf cfg (Join [root, Dir q]) (leaf (c_ID c)) flags) s = ((), s') \<and>
    map_of (timers s') i = None \<and> (\<forall>j. w_Lookup j s' = (if j = i then Some c else w_Lookup j s))"
proof (rule dir_create_captures [where addf = addf and s = s and i = i, OF assms(2) _ _ _ _ assms(9,10)])
  show "w_CgroupPath w (c_ID c) = Inr (parent @ ''/'' @ leaf (c_ID c))" using assms(4) path_form [OF assms(1)] by simp
  show "CHR ''/'' \<notin> set (leaf (c_ID c))" "leaf (c_ID c) \<noteq> []" using leaf_component [OF assms(3)] by (auto simp: component_def)
  show "w_Stat w (Join [Join [root, Dir q], leaf (c_ID c)]) = Some i"
    using watched_directory [OF assms(5,3) assms(1) [OF assms(4)] assms(6,7)] assms(8) by simp
qed

end


section \<open>Start\<close>

lemma docker_start:
  assumes "w = docker_world http d w0" and "Validate (wc_Target cfg) = None"
    and "answers http ''/containers/json?all=1'' (JArr js)" and "list_all2 summary_of ids js"
    and "\<forall>i \<in> set ids. case store i of None \<Rightarrow> missing http (inspect_path i)
      | Some c \<Rightarrow> \<exists>j. answers http (inspect_path i) j \<and> container_of c j"
    and "filter (Matches (wc_Target cfg)) (List.map_filter store ids) = [c]" and "c_Running c"
    and "container_cgroup w cfg c = Some cg" and "addf cg k = (None, k')"
    and "fst (d_CgroupPath http ''0'' d) = Inr probe" and "w_inotify w0 (Join [wc_CgroupRoot cfg, Dir probe])"
  shows "\<exists>s'. exec w (Start addf cfg) (NewWatcher k) = (None, s') \<and> wanted s' = Some c \<and> kern s' = k' \<and>
    (\<forall>j. w_Lookup j s' = (if j = cg then Some c else None))"
proof -
  have list: "d_List http = Inr (List.map_filter store ids)" using assms(3-5) by (rule d_List_store)
  have "exec w (resync addf cfg) (NewWatcher k) =
      (map_option AddErr (fst (w_add addf cg c (setWanted c (NewWatcher k)))), snd (w_add addf cg c (setWanted c (NewWatcher k))))"
    using assms(6,7) exec_addRunning [OF assms(8)] by (simp add: resync_def pick_def assms(1) list)
  moreover have "w_add addf cg c (setWanted c (NewWatcher k)) =
      (None, (setWanted c (NewWatcher k))\<lparr>kern := k', byCgroup := [(cg, c)]\<rparr>)"
    using assms(9) by (simp add: w_add_def setWanted_def NewWatcher_def)
  ultimately have "exec w (Start addf cfg) (NewWatcher k) = (None, (setWanted c (NewWatcher k))\<lparr>kern := k', byCgroup := [(cg, c)]\<rparr>)"
    using assms(2,10,11) by (simp add: Start_def exec_bind Let_def assms(1))
  then show ?thesis by (simp add: setWanted_def w_Lookup_def)
qed

text \<open>
  C3: starting with a running target, from the engine's answers to the kernel map. When the engine
  lists its containers and describes those that exist, exactly one of them matches the target
  and runs, its cgroup directory can be found, and the kernel map takes the entry, then \<open>Start\<close>
  succeeds, the container is the wanted one, exactly its cgroup is captured, and the
  directory is watched.
\<close>

theorem docker_start_captures:
  assumes "w = docker_world http d w0" and "Validate (wc_Target cfg) = None"
    and "answers http ''/containers/json?all=1'' (JArr js)" and "list_all2 summary_of ids js"
    and "\<forall>i \<in> set ids. case store i of None \<Rightarrow> missing http (inspect_path i)
      | Some c \<Rightarrow> \<exists>j. answers http (inspect_path i) j \<and> container_of c j"
    and "filter (Matches (wc_Target cfg)) (List.map_filter store ids) = [c]" and "c_Running c"
    and "container_cgroup w cfg c = Some cg" and "addf cg k = (None, k')"
    and "fst (d_CgroupPath http ''0'' d) = Inr probe" and "w_inotify w0 (Join [wc_CgroupRoot cfg, Dir probe])"
  shows "\<exists>s'. exec w (Start addf cfg) (NewWatcher k) = (None, s') \<and> wanted s' = Some c \<and> kern s' = k' \<and>
    (\<forall>j. w_Lookup j s' = (if j = cg then Some c else None))"
  using assms by (rule docker_start)

section \<open>The properties at a concrete engine\<close>

abbreviation web_docker :: Docker where
  "web_docker \<equiv> NewDocker ''/var/run/docker.sock''"

abbreviation web_world :: World where
  "web_world \<equiv> docker_world web_engine web_docker (demo_world (Some 9))"


lemma web_start_facts:
  "Validate (wc_Target demo_wcfg) = None"
  "filter (Matches (wc_Target demo_wcfg)) (List.map_filter [''0a1b'' \<mapsto> web] [''0a1b'', ''ffff'']) = [web]" "c_Running web"
  "container_cgroup web_world demo_wcfg web = Some 9"
  "fst (d_CgroupPath web_engine ''0'' web_docker) = Inr ''/system.slice/docker-0.scope''"
  "w_inotify (demo_world (Some 9)) (Join [wc_CgroupRoot demo_wcfg, Dir ''/system.slice/docker-0.scope''])"
proof -
  show "Validate (wc_Target demo_wcfg) = None"
    by (simp add: demo_wcfg_def NewConfig_def Let_def selector_target_def Validate_def)
  have "Matches (wc_Target demo_wcfg) web"
    by (simp add: demo_wcfg_def NewConfig_def Let_def Matches_selector selector_ok_def selects_def web_def HasPrefix_def)
  then show "filter (Matches (wc_Target demo_wcfg)) (List.map_filter [''0a1b'' \<mapsto> web] [''0a1b'', ''ffff'']) = [web]"
    by (simp add: map_filter_simps)
  show "c_Running web" by (simp add: web_def)
  show "container_cgroup web_world demo_wcfg web = Some 9"
    by (simp add: container_cgroup_def container_path_def web_CgroupPath) (simp add: docker_world_def demo_world_def web_CgroupPath)
  show "fst (d_CgroupPath web_engine ''0'' web_docker) = Inr ''/system.slice/docker-0.scope''" by (simp add: web_CgroupPath)
  show "w_inotify (demo_world (Some 9)) (Join [wc_CgroupRoot demo_wcfg, Dir ''/system.slice/docker-0.scope''])"
    by (simp add: demo_world_def)
qed

theorem docker_start_captures_witness:
  "\<exists>s'. exec web_world (Start demo_add demo_wcfg) (NewWatcher {}) = (None, s') \<and> w_Lookup 9 s' = Some web \<and> kern s' = {9}"
proof -
  have "demo_add 9 {} = (None, {9})" by (simp add: demo_add_def)
  from docker_start_captures [where addf = demo_add and k = "{}" and cg = 9 and store = "[''0a1b'' \<mapsto> web]",
      OF refl web_start_facts(1) web_engine_lists web_ids web_engine_store web_start_facts(2-4) this web_start_facts(5,6)]
  show ?thesis by auto
qed

end
