(* ===== verification/Output.thy ===== *)
theory Output
  imports GoEvent Json
begin

text \<open>
  The line written for an event: the JSON object that \<open>json.Encoder\<close> makes of \<open>event.Event\<close> by the
  tags in \<open>internal/event/event.go\<close>, and a newline. The time is written as \<open>time.Time.MarshalJSON\<close>
  does, in the local time zone, whose offset from UTC at that instant is a parameter.

  The lemmas show that the calendar fields denote the instant, and that the line determines the
  event.
\<close>

section \<open>Time\<close>

definition is_leap :: "int \<Rightarrow> bool" where
  "is_leap y \<longleftrightarrow> y mod 4 = 0 \<and> (y mod 100 \<noteq> 0 \<or> y mod 400 = 0)"

definition month_lengths :: "bool \<Rightarrow> int list" where
  "month_lengths leap = [31, if leap then 29 else 28, 31, 30, 31, 30, 31, 31, 30, 31, 30, 31]"

text \<open>Month and day, both from 0, of a day of the year.\<close>

fun month_day :: "int list \<Rightarrow> int \<Rightarrow> int \<times> int" where
  "month_day [] d = (0, d)"
| "month_day (l # ls) d = (if d < l then (0, d) else let (m, e) = month_day ls (d - l) in (m + 1, e))"

text \<open>Year and day of the year, from 0, of a number of days since 1 January of year 1.\<close>

definition year_day :: "int \<Rightarrow> int \<times> int" where
  "year_day d =
     (let n400 = d div 146097; d = d mod 146097;
          n100 = min 3 (d div 36524); d = d - 36524 * n100;
          n4 = d div 1461; d = d mod 1461;
          n1 = min 3 (d div 365)
      in (400 * n400 + 100 * n100 + 4 * n4 + n1 + 1, d - 365 * n1))"

record clock =
  ck_year :: int
  ck_month :: int
  ck_day :: int
  ck_hour :: int
  ck_min :: int
  ck_sec :: int
  ck_nsec :: int

definition clock_of :: "int \<Rightarrow> clock" where
  "clock_of t =
     (let s = t div 1000000000; (y, yd) = year_day (s div 86400); (m, d) = month_day (month_lengths (is_leap y)) yd; r = s mod 86400
      in \<lparr>ck_year = y, ck_month = m + 1, ck_day = d + 1, ck_hour = r div 3600, ck_min = r mod 3600 div 60, ck_sec = r mod 60,
          ck_nsec = t mod 1000000000\<rparr>)"

text \<open>A number with at least \<open>w\<close> digits.\<close>

definition pad :: "nat \<Rightarrow> int \<Rightarrow> string" where
  "pad w n = replicate (w - length (FormatUint (nat n))) (CHR ''0'') @ FormatUint (nat n)"

definition fraction :: "int \<Rightarrow> string" where
  "fraction n = (let ds = rev (dropWhile (\<lambda>c. c = CHR ''0'') (rev (pad 9 n))) in if ds = [] then [] else CHR ''.'' # ds)"

text \<open>An offset in seconds east of UTC.\<close>

definition zone_text :: "int \<Rightarrow> string" where
  "zone_text off =
     (if off = 0 then ''Z''
      else let m = \<bar>off\<bar> div 60 in (if off < 0 then CHR ''-'' else CHR ''+'') # pad 2 (m div 60) @ CHR '':'' # pad 2 (m mod 60))"

definition date_text :: "clock \<Rightarrow> string" where
  "date_text c = pad 4 (ck_year c) @ CHR ''-'' # pad 2 (ck_month c) @ CHR ''-'' # pad 2 (ck_day c) @ CHR ''T'' #
     pad 2 (ck_hour c) @ CHR '':'' # pad 2 (ck_min c) @ CHR '':'' # pad 2 (ck_sec c)"

text \<open>
  \<open>Time.MarshalJSON\<close>: an error for a year outside 0 to 9999 or an offset of 24 hours or more.
\<close>

definition time_text :: "int \<Rightarrow> time \<Rightarrow> string option" where
  "time_text off t =
     (let c = clock_of (t + off * 1000000000) in
      if ck_year c < 0 \<or> 9999 < ck_year c \<or> 24 * 3600 \<le> \<bar>off\<bar> then None
      else Some (date_text c @ fraction (ck_nsec c) @ zone_text off))"

section \<open>Events\<close>

definition u_num :: "nat \<Rightarrow> json" where
  "u_num n = JNum (FormatUint n)"

text \<open>Members with the option \<open>omitempty\<close>.\<close>

definition opt_str :: "string \<Rightarrow> string \<Rightarrow> (string \<times> json) list" where
  "opt_str k s = (if s = [] then [] else [(k, JStr s)])"

definition opt_strs :: "string \<Rightarrow> string list \<Rightarrow> (string \<times> json) list" where
  "opt_strs k ss = (if ss = [] then [] else [(k, JArr (map JStr ss))])"

definition opt_bool :: "string \<Rightarrow> bool \<Rightarrow> (string \<times> json) list" where
  "opt_bool k b = (if b then [(k, JBool True)] else [])"

definition type_text :: "Type \<Rightarrow> string" where
  "type_text ty = (case ty of TypeExec \<Rightarrow> ''exec'' | TypeFork \<Rightarrow> ''fork'' | TypeExit \<Rightarrow> ''exit'')"

definition process_json :: "Process \<Rightarrow> json" where
  "process_json p = JObj (
     [(''guid'', JStr (p_GUID p)), (''pid'', u_num (unat (p_PID p))), (''tid'', u_num (unat (p_TID p))),
      (''uid'', u_num (unat (p_UID p))), (''gid'', u_num (unat (p_GID p))), (''cgroup_id'', u_num (unat (p_CgroupID p))),
      (''start_time_ns'', u_num (unat (p_StartTimeNs p))), (''comm'', JStr (p_Comm p))] @
     opt_str ''image'' (p_Image p) @ opt_strs ''argv'' (p_Argv p) @ opt_bool ''filename_truncated'' (p_FilenameTruncated p) @
     opt_bool ''argv_truncated'' (p_ArgvTruncated p) @ opt_bool ''argv_read_failed'' (p_ArgvReadFailed p))"

definition parent_json :: "Parent \<Rightarrow> json" where
  "parent_json p = JObj (
     [(''guid'', JStr (pp_GUID p)), (''pid'', u_num (unat (pp_PID p))), (''start_time_ns'', u_num (unat (pp_StartTimeNs p)))] @
     opt_str ''image'' (pp_Image p) @ opt_strs ''argv'' (pp_Argv p) @ [(''known'', JBool (pp_Known p))] @
     opt_bool ''external'' (pp_External p))"

definition container_json :: "EvContainer \<Rightarrow> json" where
  "container_json c = JObj [(''id'', JStr (ec_ID c)), (''name'', JStr (ec_Name c)), (''image'', JStr (ec_Image c))]"

definition exit_json :: "Exit \<Rightarrow> json" where
  "exit_json x = JObj (
     [(''code'', u_num (unat (ex_Code x)))] @
     (if ex_Signal x = 0 then [] else [(''signal'', u_num (unat (ex_Signal x)))]) @ [(''raw'', u_num (unat (ex_Raw x)))])"

definition opt_ptr :: "string \<Rightarrow> ('a \<Rightarrow> json) \<Rightarrow> 'a option \<Rightarrow> (string \<times> json) list" where
  "opt_ptr k f p = (case p of None \<Rightarrow> [] | Some x \<Rightarrow> [(k, f x)])"

definition event_json :: "int \<Rightarrow> Event \<Rightarrow> json option" where
  "event_json off ev =
     (case time_text off (ev_Time ev) of None \<Rightarrow> None
      | Some t \<Rightarrow> Some (JObj (
          [(''type'', JStr (type_text (ev_Type ev))), (''time'', JStr t), (''timestamp_ns'', u_num (unat (ev_TimestampNs ev))),
           (''process'', process_json (ev_Process ev)), (''parent'', parent_json (ev_Parent ev))] @
          opt_ptr ''container'' container_json (ev_Container ev) @ opt_ptr ''exit'' exit_json (ev_Exit ev))))"

text \<open>\<open>Encoder.Encode\<close>\<close>

definition event_line :: "int \<Rightarrow> Event \<Rightarrow> string option" where
  "event_line off ev = map_option (\<lambda>j. print j @ [CHR 0x0A]) (event_json off ev)"

section \<open>The calendar\<close>

text \<open>Days from 1 January of year 1 to 1 January of a year.\<close>

definition days_before :: "int \<Rightarrow> int" where
  "days_before y = 365 * (y - 1) + (y - 1) div 4 - (y - 1) div 100 + (y - 1) div 400"

lemma days_before_parts:
  assumes "0 \<le> b" "b \<le> 3" "0 \<le> c" "c \<le> 24" "0 \<le> e" "e \<le> 3"
  shows "days_before (400 * a + 100 * b + 4 * c + e + 1) = 146097 * a + 36524 * b + 1461 * c + 365 * e"
proof -
  have "(400 * a + 100 * b + 4 * c + e) div 4 = 100 * a + 25 * b + c"
    by (rule int_div_pos_eq [where r = e]) (use assms in simp_all)
  moreover have "(400 * a + 100 * b + 4 * c + e) div 100 = 4 * a + b"
    by (rule int_div_pos_eq [where r = "4 * c + e"]) (use assms in simp_all)
  moreover have "(400 * a + 100 * b + 4 * c + e) div 400 = a"
    by (rule int_div_pos_eq [where r = "100 * b + 4 * c + e"]) (use assms in simp_all)
  ultimately show ?thesis by (simp add: days_before_def)
qed

lemma leap_parts:
  assumes "0 \<le> b" "b \<le> 3" "0 \<le> c" "c \<le> 24" "0 \<le> e" "e \<le> 3"
  shows "is_leap (400 * a + 100 * b + 4 * c + e + 1) \<longleftrightarrow> e = 3 \<and> (c \<noteq> 24 \<or> b = 3)"
proof -
  let ?y = "400 * a + 100 * b + 4 * c + e + 1"
  have m4: "?y mod 4 = (if e = 3 then 0 else e + 1)"
    by (rule int_mod_pos_eq [where q = "100 * a + 25 * b + c + (if e = 3 then 1 else 0)"]) (use assms in auto)
  have m100: "?y mod 100 = (if c = 24 \<and> e = 3 then 0 else 4 * c + e + 1)"
    by (rule int_mod_pos_eq [where q = "4 * a + b + (if c = 24 \<and> e = 3 then 1 else 0)"]) (use assms in auto)
  have m400: "?y mod 400 = (if b = 3 \<and> c = 24 \<and> e = 3 then 0 else 100 * b + 4 * c + e + 1)"
    by (rule int_mod_pos_eq [where q = "a + (if b = 3 \<and> c = 24 \<and> e = 3 then 1 else 0)"]) (use assms in auto)
  show ?thesis unfolding is_leap_def m4 m100 m400 using assms by auto
qed

text \<open>The last of four equal parts may have one day more.\<close>

lemma quarter:
  assumes "0 < n" "0 \<le> d" "d \<le> 4 * n" "q = min 3 (d div n)"
  shows "0 \<le> q" "q \<le> (3 :: int)" "0 \<le> d - n * q" "d - n * q \<le> n" "q \<noteq> 3 \<Longrightarrow> d - n * q < n"
proof -
  have div: "n * (d div n) \<le> d" "d < n * (d div n) + n" "0 \<le> d div n"
    using assms(1,2) mult_div_mod_eq [of n d] pos_mod_bound [of n d] pos_mod_sign [of n d] pos_imp_zdiv_nonneg_iff [of n d]
    by linarith+
  show "0 \<le> q" "q \<le> 3" using assms(4) div(3) by simp_all
  have "0 \<le> d - n * q \<and> d - n * q \<le> n \<and> (q \<noteq> 3 \<longrightarrow> d - n * q < n)"
  proof (cases "d div n \<le> 3")
    case True
    then have "q = d div n" using assms(4) by simp
    then show ?thesis using div by auto
  next
    case False
    then have "q = 3" "n * 3 \<le> n * (d div n)" using assms(1,4) by (simp_all add: mult_le_cancel_left)
    then show ?thesis using div(1) assms(3) by auto
  qed
  then show "0 \<le> d - n * q" "d - n * q \<le> n" "q \<noteq> 3 \<Longrightarrow> d - n * q < n" by blast+
qed

lemma year_day_correct:
  assumes "year_day d = (y, yd)"
  shows "days_before y + yd = d" and "0 \<le> yd" and "yd < (if is_leap y then 366 else 365)"
proof -
  define a where "a = d div 146097"
  define d1 where "d1 = d mod 146097"
  define b where "b = min 3 (d1 div 36524)"
  define d2 where "d2 = d1 - 36524 * b"
  define c where "c = d2 div 1461"
  define d3 where "d3 = d2 mod 1461"
  define e where "e = min 3 (d3 div 365)"
  have y: "y = 400 * a + 100 * b + 4 * c + e + 1" "yd = d3 - 365 * e"
    using assms unfolding year_day_def Let_def prod.inject a_def [symmetric] d1_def [symmetric] b_def [symmetric]
      d2_def [symmetric] c_def [symmetric] d3_def [symmetric] e_def [symmetric] by auto
  have d1: "0 \<le> d1" "d1 \<le> 4 * 36524" using pos_mod_bound [of 146097 d] by (simp_all add: d1_def)
  have b: "0 \<le> b" "b \<le> 3" "0 \<le> d2" "d2 \<le> 36524" "b \<noteq> 3 \<Longrightarrow> d2 < 36524"
    using quarter [OF _ d1 b_def] unfolding d2_def by simp_all
  have d2: "d2 = 1461 * c + d3" unfolding c_def d3_def by simp
  have d3: "0 \<le> d3" "d3 \<le> 4 * 365" using pos_mod_bound [of 1461 d2] by (simp_all add: d3_def)
  have c: "0 \<le> c" "c \<le> 24" using b(3,4) d2 d3 by linarith+
  have e: "0 \<le> e" "e \<le> 3" "0 \<le> yd" "yd \<le> 365" "e \<noteq> 3 \<Longrightarrow> yd < 365"
    using quarter [OF _ d3 e_def] unfolding y(2) by simp_all
  have "d = 146097 * a + 36524 * b + d2" using mult_div_mod_eq [of 146097 d] unfolding a_def d1_def d2_def by linarith
  then show "days_before y + yd = d"
    unfolding y(1) days_before_parts [OF b(1,2) c e(1,2)] using d2 y(2) by linarith
  show "0 \<le> yd" by (rule e(3))
  show "yd < (if is_leap y then 366 else 365)"
    unfolding y(1) leap_parts [OF b(1,2) c e(1,2)]
  proof (cases "e = 3 \<and> (c \<noteq> 24 \<or> b = 3)")
    case False
    then have "e \<noteq> 3 \<or> d2 < 36524 \<and> c = 24" using b(5) by blast
    then have "yd < 365" using e(5) d2 y(2) by (cases "e = 3") linarith+
    then show "yd < (if e = 3 \<and> (c \<noteq> 24 \<or> b = 3) then 366 else 365)" by simp
  qed (use e(4) in simp)
qed

lemma month_day_correct:
  assumes "month_day ls d = (m, e)" "0 \<le> d" "d < sum_list ls" "list_all (\<lambda>l. 0 < l) ls"
  shows "0 \<le> m \<and> nat m < length ls \<and> 0 \<le> e \<and> e < ls ! nat m \<and> sum_list (take (nat m) ls) + e = d"
  using assms
proof (induction ls arbitrary: d m e)
  case (Cons l ls)
  show ?case
  proof (cases "d < l")
    case True
    then show ?thesis using Cons.prems by auto
  next
    case False
    obtain m' where m': "month_day ls (d - l) = (m', e)" "m = m' + 1"
      using Cons.prems(1) False by (auto split: prod.splits)
    have "0 \<le> m' \<and> nat m' < length ls \<and> 0 \<le> e \<and> e < ls ! nat m' \<and> sum_list (take (nat m') ls) + e = d - l"
      using Cons.IH [OF m'(1)] Cons.prems(2-4) False by simp
    moreover have "nat m = Suc (nat m')" using m'(2) calculation by (simp add: nat_add_distrib)
    ultimately show ?thesis using m'(2) by simp
  qed
qed simp

definition instant :: "clock \<Rightarrow> int" where
  "instant c =
     ((days_before (ck_year c) + sum_list (take (nat (ck_month c - 1)) (month_lengths (is_leap (ck_year c)))) + ck_day c - 1) * 86400 +
      ck_hour c * 3600 + ck_min c * 60 + ck_sec c) * 1000000000 + ck_nsec c"

definition clock_ok :: "clock \<Rightarrow> bool" where
  "clock_ok c \<longleftrightarrow> 1 \<le> ck_month c \<and> ck_month c \<le> 12 \<and> 1 \<le> ck_day c \<and>
     ck_day c \<le> month_lengths (is_leap (ck_year c)) ! nat (ck_month c - 1) \<and> 0 \<le> ck_hour c \<and> ck_hour c < 24 \<and>
     0 \<le> ck_min c \<and> ck_min c < 60 \<and> 0 \<le> ck_sec c \<and> ck_sec c < 60 \<and> 0 \<le> ck_nsec c \<and> ck_nsec c < 1000000000"

text \<open>The hours, minutes and seconds of a day.\<close>

lemma day_time:
  fixes r :: int
  assumes "0 \<le> r" "r < 86400"
  shows "0 \<le> r div 3600 \<and> r div 3600 < 24" "0 \<le> r mod 3600 div 60 \<and> r mod 3600 div 60 < 60"
    "r div 3600 * 3600 + r mod 3600 div 60 * 60 + r mod 60 = r"
proof -
  show "0 \<le> r div 3600 \<and> r div 3600 < 24" "0 \<le> r mod 3600 div 60 \<and> r mod 3600 div 60 < 60" using assms by auto
  have "r mod 3600 mod 60 = r mod 60" by (simp add: mod_mod_cancel)
  then show "r div 3600 * 3600 + r mod 3600 div 60 * 60 + r mod 60 = r"
    using div_mult_mod_eq [of r 3600] div_mult_mod_eq [of "r mod 3600" 60] by linarith
qed

lemma clock_of_correct: "instant (clock_of t) = t" "clock_ok (clock_of t)"
proof -
  define s where "s = t div 1000000000"
  define r where "r = s mod 86400"
  obtain y yd where y: "year_day (s div 86400) = (y, yd)" by force
  obtain m d where m: "month_day (month_lengths (is_leap y)) yd = (m, d)" by force
  have c: "clock_of t = \<lparr>ck_year = y, ck_month = m + 1, ck_day = d + 1, ck_hour = r div 3600, ck_min = r mod 3600 div 60,
      ck_sec = r mod 60, ck_nsec = t mod 1000000000\<rparr>"
    using y m unfolding clock_of_def s_def r_def by (simp add: Let_def)
  note yd = year_day_correct [OF y]
  have md: "0 \<le> m \<and> nat m < length (month_lengths (is_leap y)) \<and> 0 \<le> d \<and> d < month_lengths (is_leap y) ! nat m \<and>
      sum_list (take (nat m) (month_lengths (is_leap y))) + d = yd"
    using yd(2,3) by (intro month_day_correct [OF m]) (simp_all add: month_lengths_def split: if_splits)
  have r: "0 \<le> r" "r < 86400" unfolding r_def by simp_all
  have s: "s div 86400 * 86400 + r = s" "s * 1000000000 + t mod 1000000000 = t" unfolding r_def s_def by simp_all
  have days: "days_before y + sum_list (take (nat (m + 1 - 1)) (month_lengths (is_leap y))) + (d + 1) - 1 = s div 86400"
    using md yd(1) by simp
  have "s div 86400 * 86400 + r div 3600 * 3600 + r mod 3600 div 60 * 60 + r mod 60 = s"
    using day_time(3) [OF r] s(1) by linarith
  then show "instant (clock_of t) = t" unfolding c instant_def clock.select_convs days using s(2) by simp
  have "nat m < 12" using md by (simp add: month_lengths_def)
  then show "clock_ok (clock_of t)" using md day_time(1,2) [OF r] unfolding c clock_ok_def clock.select_convs by simp
qed

section \<open>The text of a time\<close>

lemma length_FormatUint: "n < 10 ^ w \<Longrightarrow> 0 < w \<Longrightarrow> length (FormatUint n) \<le> w"
proof (induction w arbitrary: n)
  case (Suc w)
  show ?case
  proof (cases "n < 10")
    case True
    then show ?thesis by (simp add: FormatUint.simps [of n])
  next
    case False
    then have "n div 10 < 10 ^ w" "0 < w" using Suc.prems(1) by (simp add: less_mult_imp_div_less mult.commute, cases w) simp_all
    then show ?thesis using Suc.IH [of "n div 10"] False by (subst FormatUint.simps) simp
  qed
qed simp

lemma digits_value_zeros: "digits_value (replicate k (CHR ''0'') @ s) = digits_value s"
  by (induction k) (simp_all add: digits_value_def digit_def)

lemma pad_length: "0 \<le> n \<Longrightarrow> n < 10 ^ w \<Longrightarrow> 0 < w \<Longrightarrow> length (pad w n) = w"
  using length_FormatUint [of "nat n" w] by (simp add: pad_def nat_less_iff)

lemma pad_value: "digits_value (pad w n) = nat n"
  using FormatUint_digits [of "nat n"] by (simp add: pad_def digits_value_zeros)

lemma pad_digits: "list_all is_digit (pad w n)"
  using FormatUint_digits [of "nat n"] by (auto simp: pad_def list_all_iff is_digit_0)

lemma pad_append_inj:
  assumes "pad w n @ s = pad w n' @ s'" "0 \<le> n" "n < 10 ^ w" "0 \<le> n'" "n' < 10 ^ w" "0 < w"
  shows "n = n' \<and> s = s'"
proof -
  have "pad w n = pad w n'" "s = s'" using assms by (auto simp: pad_length)
  then show ?thesis using pad_value [of w n] pad_value [of w n'] assms(2,4) by simp
qed

lemma fraction_digits: "list_all (\<lambda>c. c = CHR ''.'' \<or> is_digit c) (fraction n)"
proof -
  have "is_digit c" if "c \<in> set (dropWhile (\<lambda>c. c = CHR ''0'') (rev (pad 9 n)))" for c
    using set_dropWhileD [OF that] pad_digits [of 9 n] unfolding list_all_iff by simp
  then show ?thesis unfolding fraction_def Let_def list_all_iff by simp
qed

lemma strip_zeros:
  "xs = rev (dropWhile (\<lambda>c. c = a) (rev xs)) @ replicate (length xs - length (dropWhile (\<lambda>c. c = a) (rev xs))) a"
proof (induction xs rule: rev_induct)
  case (snoc x xs)
  let ?k = "length (dropWhile (\<lambda>c. c = a) (rev xs))"
  have "Suc (length xs) - ?k = Suc (length xs - ?k)" using length_dropWhile_le [of "\<lambda>c. c = a" "rev xs"] by (simp add: Suc_diff_le)
  then show ?case using snoc by (simp add: replicate_append_same [symmetric])
qed simp

lemma pad_fraction: "pad 9 n = tl (fraction n) @ replicate (length (pad 9 n) - length (tl (fraction n))) (CHR ''0'')"
proof -
  have "tl (fraction n) = rev (dropWhile (\<lambda>c. c = CHR ''0'') (rev (pad 9 n)))" unfolding fraction_def Let_def by simp
  then show ?thesis using strip_zeros [of "pad 9 n" "CHR ''0''"] by simp
qed

lemma fraction_inj:
  assumes "fraction n = fraction n'" "0 \<le> n" "n < 10 ^ 9" "0 \<le> n'" "n' < 10 ^ 9"
  shows "n = n'"
proof -
  have "pad 9 n = pad 9 n'"
    using pad_fraction [of n] pad_fraction [of n'] assms pad_length [of n 9] pad_length [of n' 9] by simp
  then show ?thesis using pad_value [of 9 n] pad_value [of 9 n'] assms(2,4) by simp
qed

lemma zone_first: "zone_text off = c # cs \<Longrightarrow> c \<noteq> CHR ''.'' \<and> \<not> is_digit c"
  by (auto simp: zone_text_def Let_def is_digit_def split: if_splits)

lemma zone_text_0: "zone_text 0 = ''Z''"
  by (simp add: zone_text_def)

lemma zone_text_signed:
  "off \<noteq> 0 \<Longrightarrow> zone_text off =
    (if off < 0 then CHR ''-'' else CHR ''+'') # pad 2 (\<bar>off\<bar> div 60 div 60) @ CHR '':'' # pad 2 (\<bar>off\<bar> div 60 mod 60)"
  by (simp add: zone_text_def Let_def)

lemma hour_min_range:
  fixes x :: int
  assumes "0 \<le> x" "x < 24 * 60"
  shows "0 \<le> x div 60" "x div 60 < 10 ^ 2" "0 \<le> x mod 60" "x mod 60 < 10 ^ 2"
proof -
  have "x div 60 < 24" using assms(2) by simp
  then show "x div 60 < 10 ^ 2" by simp
  have "x mod 60 < 60" by simp
  then show "x mod 60 < 10 ^ 2" by (rule less_trans) simp
qed (use assms(1) in \<open>simp_all add: pos_imp_zdiv_nonneg_iff\<close>)

lemma hour_min_inj:
  assumes "pad 2 (a div 60) @ CHR '':'' # pad 2 (a mod 60) = pad 2 (b div 60) @ CHR '':'' # pad 2 (b mod 60)"
    and "0 \<le> a" "a < 24 * 60" "0 \<le> b" "b < 24 * 60"
  shows "a = (b :: int)"
proof -
  note a = hour_min_range [OF assms(2,3)] and b = hour_min_range [OF assms(4,5)]
  have h: "a div 60 = b div 60 \<and> CHR '':'' # pad 2 (a mod 60) = CHR '':'' # pad 2 (b mod 60)"
    by (rule pad_append_inj [OF assms(1) a(1,2) b(1,2)]) simp
  then have "pad 2 (a mod 60) @ [] = pad 2 (b mod 60) @ []" unfolding list.inject by (simp only:)
  from pad_append_inj [OF this a(3,4) b(3,4)] have "a mod 60 = b mod 60" by simp
  with h show ?thesis by (metis div_mult_mod_eq)
qed

lemma zone_inj:
  assumes "zone_text a = zone_text b" "\<bar>a\<bar> < 24 * 3600" "\<bar>b\<bar> < 24 * 3600" "a mod 60 = 0" "b mod 60 = 0"
  shows "a = b"
proof -
  consider "a = 0" "b = 0" | "a = 0" "b \<noteq> 0" | "a \<noteq> 0" "b = 0" | "a \<noteq> 0" "b \<noteq> 0" by blast
  then show ?thesis
  proof cases
    case 4
    let ?a = "\<bar>a\<bar> div 60" and ?b = "\<bar>b\<bar> div 60"
    from assms(1) have sign: "(if a < 0 then CHR ''-'' else CHR ''+'') = (if b < 0 then CHR ''-'' else CHR ''+'')"
      and digits: "pad 2 (?a div 60) @ CHR '':'' # pad 2 (?a mod 60) = pad 2 (?b div 60) @ CHR '':'' # pad 2 (?b mod 60)"
      unfolding zone_text_signed [OF 4(1)] zone_text_signed [OF 4(2)] list.inject by blast+
    have "?a = ?b" by (rule hour_min_inj [OF digits]) (use assms(2,3) in simp_all)
    moreover have "\<bar>x\<bar> div 60 * 60 = \<bar>x\<bar>" if "x mod 60 = 0" for x :: int
      using that by (simp add: mod_0_imp_dvd)
    ultimately have "\<bar>a\<bar> = \<bar>b\<bar>" using assms(4,5) by metis
    then show ?thesis using sign by (simp add: abs_if split: if_splits)
  qed (use assms(1) in \<open>simp_all add: zone_text_0 zone_text_signed split: if_splits\<close>)
qed

lemma date_inj:
  assumes "date_text c @ s = date_text c' @ s'" "clock_ok c" "clock_ok c'"
    and "0 \<le> ck_year c" "ck_year c \<le> 9999" "0 \<le> ck_year c'" "ck_year c' \<le> 9999"
  shows "ck_year c = ck_year c'" "ck_month c = ck_month c'" "ck_day c = ck_day c'" "ck_hour c = ck_hour c'"
    "ck_min c = ck_min c'" "ck_sec c = ck_sec c'" "s = s'"
proof -
  have lengths: "list_all (\<lambda>l. l \<le> 31) (month_lengths b)" for b by (simp add: month_lengths_def)
  have len: "month_lengths b ! nat (m - 1) \<le> 31" if "1 \<le> m" "m \<le> 12" for b m
    using lengths [of b] that by (simp add: list_all_length month_lengths_def nat_less_iff)
  have ok: "0 \<le> ck_month x" "ck_month x < 10 ^ 2" "0 \<le> ck_day x" "ck_day x < 10 ^ 2" "0 \<le> ck_hour x" "ck_hour x < 10 ^ 2"
    "0 \<le> ck_min x" "ck_min x < 10 ^ 2" "0 \<le> ck_sec x" "ck_sec x < 10 ^ 2" if "clock_ok x" for x
    using that len [of "ck_month x" "is_leap (ck_year x)"] unfolding clock_ok_def by auto
  note a = ok [OF assms(2)] and b = ok [OF assms(3)]
  note eqs = assms(1) [unfolded date_text_def append.assoc append_Cons]
  have y: "ck_year c < 10 ^ 4" "ck_year c' < 10 ^ 4" using assms(5,7) by simp_all
  note 1 = pad_append_inj [OF eqs assms(4) y(1) assms(6) y(2) zero_less_numeral, unfolded list.inject]
  note 2 = pad_append_inj [OF 1 [THEN conjunct2, THEN conjunct2] a(1,2) b(1,2) zero_less_numeral, unfolded list.inject]
  note 3 = pad_append_inj [OF 2 [THEN conjunct2, THEN conjunct2] a(3,4) b(3,4) zero_less_numeral, unfolded list.inject]
  note 4 = pad_append_inj [OF 3 [THEN conjunct2, THEN conjunct2] a(5,6) b(5,6) zero_less_numeral, unfolded list.inject]
  note 5 = pad_append_inj [OF 4 [THEN conjunct2, THEN conjunct2] a(7,8) b(7,8) zero_less_numeral, unfolded list.inject]
  note 6 = pad_append_inj [OF 5 [THEN conjunct2, THEN conjunct2] a(9,10) b(9,10) zero_less_numeral]
  show "ck_year c = ck_year c'" "ck_month c = ck_month c'" "ck_day c = ck_day c'" "ck_hour c = ck_hour c'"
    "ck_min c = ck_min c'" "ck_sec c = ck_sec c'" "s = s'"
    using 1 2 3 4 5 6 by blast+
qed

lemma fraction_zone_inj:
  assumes "fraction n @ zone_text a = fraction n' @ zone_text b"
  shows "fraction n = fraction n' \<and> zone_text a = zone_text b"
proof -
  have split: "takeWhile (\<lambda>c. c = CHR ''.'' \<or> is_digit c) (fraction m @ zone_text z) = fraction m" for m z
  proof -
    have "takeWhile (\<lambda>c. c = CHR ''.'' \<or> is_digit c) (zone_text z) = []"
      using zone_first [of z] by (cases "zone_text z") auto
    then show ?thesis using fraction_digits [of m] by (simp add: list_all_iff takeWhile_append2)
  qed
  from split [of n a] split [of n' b] assms show ?thesis by simp
qed

lemma time_text_inj:
  assumes "time_text a t = Some s" "time_text b t' = Some s" "a mod 60 = 0" "b mod 60 = 0"
  shows "t = t'"
proof -
  define c where "c = clock_of (t + a * 1000000000)"
  define c' where "c' = clock_of (t' + b * 1000000000)"
  have c: "0 \<le> ck_year c" "ck_year c \<le> 9999" "\<bar>a\<bar> < 24 * 3600" "s = date_text c @ fraction (ck_nsec c) @ zone_text a"
    using assms(1) unfolding time_text_def Let_def c_def [symmetric] by (auto split: if_splits)
  have c': "0 \<le> ck_year c'" "ck_year c' \<le> 9999" "\<bar>b\<bar> < 24 * 3600" "s = date_text c' @ fraction (ck_nsec c') @ zone_text b"
    using assms(2) unfolding time_text_def Let_def c'_def [symmetric] by (auto split: if_splits)
  have ok: "clock_ok c" "clock_ok c'" unfolding c_def c'_def by (rule clock_of_correct(2))+
  note date = date_inj [OF trans [OF c(4) [symmetric] c'(4)] ok c(1,2) c'(1,2)]
  note rest = fraction_zone_inj [OF date(7)]
  have "ck_nsec c = ck_nsec c'"
    by (rule fraction_inj [OF rest [THEN conjunct1]]) (use ok in \<open>simp_all add: clock_ok_def\<close>)
  moreover have "a = b" by (rule zone_inj [OF rest [THEN conjunct2] c(3) c'(3) assms(3,4)])
  ultimately have "instant c = instant c'" unfolding instant_def date(1-6) by simp
  then show ?thesis unfolding c_def c'_def clock_of_correct(1) using \<open>a = b\<close> by simp
qed

section \<open>The members of an event\<close>

lemma u_num_inj [simp]: "u_num m = u_num n \<longleftrightarrow> m = n"
  using FormatUint_digits [of m] FormatUint_digits [of n] by (metis json.inject(2) u_num_def)

lemma unat_inj [simp]: "unat (v :: 'a::len word) = unat w \<longleftrightarrow> v = w"
  using word_unat_eqI by blast

lemma map_of_opt [simp]:
  "map_of (opt_str k s) l = (if l = k \<and> s \<noteq> [] then Some (JStr s) else None)"
  "map_of (opt_strs k ss) l = (if l = k \<and> ss \<noteq> [] then Some (JArr (map JStr ss)) else None)"
  "map_of (opt_bool k b) l = (if l = k \<and> b then Some (JBool True) else None)"
  "map_of (opt_ptr k f p) l = (if l = k then map_option f p else None)"
  by (auto simp: opt_str_def opt_strs_def opt_bool_def opt_ptr_def split: option.splits)

lemma map_JStr_inj [simp]: "map JStr ss = map JStr ts \<longleftrightarrow> ss = ts"
  by (rule inj_map_eq_map) (simp add: inj_def)

lemma opt_eq:
  "(if s \<noteq> [] then Some (JStr s) else None) = (if t \<noteq> [] then Some (JStr t) else None) \<longleftrightarrow> s = t"
  "(if ss \<noteq> [] then Some (JArr (map JStr ss)) else None) = (if ts \<noteq> [] then Some (JArr (map JStr ts)) else None) \<longleftrightarrow> ss = ts"
  "(if a then Some (JBool True) else None) = (if b then Some (JBool True) else None) \<longleftrightarrow> a = b"
  by auto

definition members :: "json \<Rightarrow> string \<Rightarrow> json option" where
  "members j k = (case j of JObj kvs \<Rightarrow> map_of kvs k | _ \<Rightarrow> None)"

lemma process_members:
  "members (process_json p) ''guid'' = Some (JStr (p_GUID p))" "members (process_json p) ''pid'' = Some (u_num (unat (p_PID p)))"
  "members (process_json p) ''tid'' = Some (u_num (unat (p_TID p)))" "members (process_json p) ''uid'' = Some (u_num (unat (p_UID p)))"
  "members (process_json p) ''gid'' = Some (u_num (unat (p_GID p)))"
  "members (process_json p) ''cgroup_id'' = Some (u_num (unat (p_CgroupID p)))"
  "members (process_json p) ''start_time_ns'' = Some (u_num (unat (p_StartTimeNs p)))"
  "members (process_json p) ''comm'' = Some (JStr (p_Comm p))"
  "members (process_json p) ''image'' = (if p_Image p \<noteq> [] then Some (JStr (p_Image p)) else None)"
  "members (process_json p) ''argv'' = (if p_Argv p \<noteq> [] then Some (JArr (map JStr (p_Argv p))) else None)"
  "members (process_json p) ''filename_truncated'' = (if p_FilenameTruncated p then Some (JBool True) else None)"
  "members (process_json p) ''argv_truncated'' = (if p_ArgvTruncated p then Some (JBool True) else None)"
  "members (process_json p) ''argv_read_failed'' = (if p_ArgvReadFailed p then Some (JBool True) else None)"
  by (simp_all add: members_def process_json_def map_add_def)

lemma process_json_inj:
  assumes "process_json p = process_json q"
  shows "p = q"
proof -
  have "members (process_json p) k = members (process_json q) k" for k using assms by simp
  from this [of "''guid''"] this [of "''pid''"] this [of "''tid''"] this [of "''uid''"] this [of "''gid''"] this [of "''cgroup_id''"]
    this [of "''start_time_ns''"] this [of "''comm''"] this [of "''image''"] this [of "''argv''"] this [of "''filename_truncated''"]
    this [of "''argv_truncated''"] this [of "''argv_read_failed''"]
  show ?thesis unfolding process_members opt_eq by (intro Process.equality) simp_all
qed

lemma parent_members:
  "members (parent_json p) ''guid'' = Some (JStr (pp_GUID p))" "members (parent_json p) ''pid'' = Some (u_num (unat (pp_PID p)))"
  "members (parent_json p) ''start_time_ns'' = Some (u_num (unat (pp_StartTimeNs p)))"
  "members (parent_json p) ''image'' = (if pp_Image p \<noteq> [] then Some (JStr (pp_Image p)) else None)"
  "members (parent_json p) ''argv'' = (if pp_Argv p \<noteq> [] then Some (JArr (map JStr (pp_Argv p))) else None)"
  "members (parent_json p) ''known'' = Some (JBool (pp_Known p))"
  "members (parent_json p) ''external'' = (if pp_External p then Some (JBool True) else None)"
  by (simp_all add: members_def parent_json_def map_add_def)

lemma parent_json_inj:
  assumes "parent_json p = parent_json q"
  shows "p = q"
proof -
  have "members (parent_json p) k = members (parent_json q) k" for k using assms by simp
  from this [of "''guid''"] this [of "''pid''"] this [of "''start_time_ns''"] this [of "''image''"] this [of "''argv''"]
    this [of "''known''"] this [of "''external''"]
  show ?thesis unfolding parent_members opt_eq by (intro Parent.equality) simp_all
qed

lemma container_json_inj: "container_json c = container_json d \<Longrightarrow> c = d"
  by (cases c; cases d) (simp add: container_json_def)

lemma exit_json_inj: "exit_json x = exit_json y \<Longrightarrow> x = y"
  by (cases x; cases y) (auto simp: exit_json_def split: if_splits)

lemma type_text_inj: "type_text a = type_text b \<Longrightarrow> a = b"
  by (cases a; cases b) (simp_all add: type_text_def)

lemma event_members:
  assumes "event_json off ev = Some j"
  shows "\<exists>t. time_text off (ev_Time ev) = Some t \<and> members j ''type'' = Some (JStr (type_text (ev_Type ev))) \<and>
    members j ''time'' = Some (JStr t) \<and> members j ''timestamp_ns'' = Some (u_num (unat (ev_TimestampNs ev))) \<and>
    members j ''process'' = Some (process_json (ev_Process ev)) \<and> members j ''parent'' = Some (parent_json (ev_Parent ev)) \<and>
    members j ''container'' = map_option container_json (ev_Container ev) \<and> members j ''exit'' = map_option exit_json (ev_Exit ev)"
  using assms by (auto simp: event_json_def members_def map_add_def split: option.splits)

lemma event_json_inj:
  assumes "event_json a ev = Some j" "event_json b ev' = Some j" "a mod 60 = 0" "b mod 60 = 0"
  shows "ev = ev'"
proof -
  obtain t where t: "time_text a (ev_Time ev) = Some t" and m: "members j ''type'' = Some (JStr (type_text (ev_Type ev)))"
    "members j ''time'' = Some (JStr t)" "members j ''timestamp_ns'' = Some (u_num (unat (ev_TimestampNs ev)))"
    "members j ''process'' = Some (process_json (ev_Process ev))" "members j ''parent'' = Some (parent_json (ev_Parent ev))"
    "members j ''container'' = map_option container_json (ev_Container ev)" "members j ''exit'' = map_option exit_json (ev_Exit ev)"
    using event_members [OF assms(1)] by blast
  obtain t' where t': "time_text b (ev_Time ev') = Some t'" and m': "members j ''type'' = Some (JStr (type_text (ev_Type ev')))"
    "members j ''time'' = Some (JStr t')" "members j ''timestamp_ns'' = Some (u_num (unat (ev_TimestampNs ev')))"
    "members j ''process'' = Some (process_json (ev_Process ev'))" "members j ''parent'' = Some (parent_json (ev_Parent ev'))"
    "members j ''container'' = map_option container_json (ev_Container ev')" "members j ''exit'' = map_option exit_json (ev_Exit ev')"
    using event_members [OF assms(2)] by blast
  have "t' = t" using m(2) m'(2) by simp
  have "ev_Time ev = ev_Time ev'" by (rule time_text_inj [OF t t' [unfolded \<open>t' = t\<close>] assms(3,4)])
  moreover have "ev_Type ev = ev_Type ev'" using m(1) m'(1) by (intro type_text_inj) simp
  moreover have "ev_TimestampNs ev = ev_TimestampNs ev'" using m(3) m'(3) by simp
  moreover have "ev_Process ev = ev_Process ev'" using m(4) m'(4) by (intro process_json_inj) simp
  moreover have "ev_Parent ev = ev_Parent ev'" using m(5) m'(5) by (intro parent_json_inj) simp
  moreover have "ev_Container ev = ev_Container ev'" using m(6) m'(6)
    by (cases "ev_Container ev"; cases "ev_Container ev'") (auto dest: container_json_inj)
  moreover have "ev_Exit ev = ev_Exit ev'" using m(7) m'(7)
    by (cases "ev_Exit ev"; cases "ev_Exit ev'") (auto dest: exit_json_inj)
  ultimately show ?thesis by (intro Event.equality) simp_all
qed

section \<open>The line of an event\<close>

text \<open>Events whose strings are valid UTF-8.\<close>

definition event_valid :: "Event \<Rightarrow> bool" where
  "event_valid ev \<longleftrightarrow>
     list_all valid_utf8 ([p_GUID (ev_Process ev), p_Comm (ev_Process ev), p_Image (ev_Process ev)] @ p_Argv (ev_Process ev)) \<and>
     list_all valid_utf8 ([pp_GUID (ev_Parent ev), pp_Image (ev_Parent ev)] @ pp_Argv (ev_Parent ev)) \<and>
     (case ev_Container ev of None \<Rightarrow> True | Some c \<Rightarrow> list_all valid_utf8 [ec_ID c, ec_Name c, ec_Image c])"

definition norm_member :: "string \<times> json \<Rightarrow> string \<times> json" where
  "norm_member = (\<lambda>(k, v). (to_valid k, norm v))"

lemma norm_JObj: "norm (JObj kvs) = JObj (map norm_member kvs)"
  by (simp add: norm_member_def)

lemma norm_members [simp]:
  "list_all (\<lambda>c. code c < 0x80) k \<Longrightarrow> norm_member (k, v) = (k, norm v)" "norm (u_num n) = u_num n"
  "list_all (\<lambda>c. code c < 0x80) k \<Longrightarrow> valid_utf8 s \<Longrightarrow> map norm_member (opt_str k s) = opt_str k s"
  "list_all (\<lambda>c. code c < 0x80) k \<Longrightarrow> list_all valid_utf8 ss \<Longrightarrow> map norm_member (opt_strs k ss) = opt_strs k ss"
  "list_all (\<lambda>c. code c < 0x80) k \<Longrightarrow> map norm_member (opt_bool k b) = opt_bool k b"
  by (simp_all add: norm_member_def to_valid_ascii to_valid_valid u_num_def opt_str_def opt_strs_def opt_bool_def list_all_iff comp_def)

lemma norm_parts:
  "list_all valid_utf8 ([p_GUID p, p_Comm p, p_Image p] @ p_Argv p) \<Longrightarrow> norm (process_json p) = process_json p"
  "list_all valid_utf8 ([pp_GUID q, pp_Image q] @ pp_Argv q) \<Longrightarrow> norm (parent_json q) = parent_json q"
  "list_all valid_utf8 [ec_ID c, ec_Name c, ec_Image c] \<Longrightarrow> norm (container_json c) = container_json c"
  "norm (exit_json x) = exit_json x"
  unfolding process_json_def parent_json_def container_json_def exit_json_def norm_JObj
  by (simp_all add: to_valid_valid)

lemma pad_ascii: "list_all (\<lambda>c. code c < 0x80) (pad w n)"
  using pad_digits [of w n] unfolding list_all_iff by (fastforce simp: is_digit_def)

lemma fraction_ascii: "list_all (\<lambda>c. code c < 0x80) (fraction n)"
  using fraction_digits [of n] unfolding list_all_iff by (fastforce simp: is_digit_def)

lemma time_text_ascii: "time_text off t = Some s \<Longrightarrow> list_all (\<lambda>c. code c < 0x80) s"
  by (auto simp: time_text_def Let_def date_text_def zone_text_def pad_ascii fraction_ascii split: if_splits)

lemma norm_event_json:
  assumes "event_json off ev = Some j" "event_valid ev"
  shows "norm j = j"
proof -
  obtain t where t: "time_text off (ev_Time ev) = Some t" using assms(1) by (auto simp: event_json_def split: option.splits)
  have "list_all (\<lambda>c. code c < 0x80) (type_text ty)" for ty by (cases ty) (simp_all add: type_text_def)
  then have "norm (JStr (type_text ty)) = JStr (type_text ty)" "norm (JStr t) = JStr t" for ty
    using time_text_ascii [OF t] by (simp_all add: to_valid_ascii)
  moreover have "map norm_member (opt_ptr ''container'' container_json (ev_Container ev)) = opt_ptr ''container'' container_json (ev_Container ev)"
    using assms(2) norm_parts(3) by (auto simp: opt_ptr_def event_valid_def split: option.splits)
  moreover have "map norm_member (opt_ptr ''exit'' exit_json (ev_Exit ev)) = opt_ptr ''exit'' exit_json (ev_Exit ev)"
    by (auto simp: opt_ptr_def norm_parts(4) split: option.splits)
  moreover have "norm (process_json (ev_Process ev)) = process_json (ev_Process ev)" "norm (parent_json (ev_Parent ev)) = parent_json (ev_Parent ev)"
    using assms(2) unfolding event_valid_def by (blast intro: norm_parts)+
  ultimately show ?thesis using assms(1) t unfolding event_json_def by (auto simp: norm_JObj simp del: norm.simps)
qed

lemma nums_parts:
  "nums_ok (u_num n)" "nums_ok (process_json p)" "nums_ok (parent_json q)" "nums_ok (container_json c)" "nums_ok (exit_json x)"
  by (auto simp: u_num_def process_json_def parent_json_def container_json_def exit_json_def opt_str_def opt_strs_def opt_bool_def
    num_ok_FormatUint list_all_iff)

lemma nesting_strs: "nesting (JArr (map JStr ss)) \<le> 1"
  by (induction ss) auto

lemma nesting_opt:
  "list_all (\<lambda>(k, v). nesting v \<le> 1) (opt_str k s)" "list_all (\<lambda>(k, v). nesting v \<le> 1) (opt_strs k ss)"
  "list_all (\<lambda>(k, v). nesting v \<le> 1) (opt_bool k b)"
  using nesting_strs [of ss] by (auto simp: opt_str_def opt_strs_def opt_bool_def)

lemma nesting_parts:
  "nesting (u_num n) \<le> 1" "nesting (process_json p) \<le> 2" "nesting (parent_json q) \<le> 2" "nesting (container_json c) \<le> 2"
  "nesting (exit_json x) \<le> 2"
proof -
  have two: "nesting (JObj kvs) \<le> 2" if "list_all (\<lambda>(k, v). nesting v \<le> 1) kvs" for kvs
    using nesting_JObj [OF that] by (simp only: numeral_2_eq_2 One_nat_def)
  show "nesting (u_num n) \<le> 1" for n by (simp add: u_num_def)
  note n = this nesting_opt
  show "nesting (process_json p) \<le> 2" unfolding process_json_def by (rule two) (use n in simp)
  show "nesting (parent_json q) \<le> 2" unfolding parent_json_def by (rule two) (use n in simp)
  show "nesting (container_json c) \<le> 2" unfolding container_json_def by (rule two) simp
  show "nesting (exit_json x) \<le> 2" unfolding exit_json_def by (rule two) (use n in simp)
qed

lemma event_json_ok:
  assumes "event_json off ev = Some j"
  shows "nums_ok j" "nesting j \<le> maxNestingDepth"
proof -
  obtain t where j: "j = JObj (
          [(''type'', JStr (type_text (ev_Type ev))), (''time'', JStr t), (''timestamp_ns'', u_num (unat (ev_TimestampNs ev))),
           (''process'', process_json (ev_Process ev)), (''parent'', parent_json (ev_Parent ev))] @
          opt_ptr ''container'' container_json (ev_Container ev) @ opt_ptr ''exit'' exit_json (ev_Exit ev))"
    using assms by (auto simp: event_json_def split: option.splits)
  show "nums_ok j" unfolding j by (auto simp: nums_parts opt_ptr_def split: option.splits)
  have u: "nesting (u_num n) \<le> 2" for n using nesting_parts(1) [of n] by simp
  have "nesting j \<le> Suc 2" unfolding j
    by (rule nesting_JObj) (auto simp: u nesting_parts opt_ptr_def split: option.splits)
  then show "nesting j \<le> maxNestingDepth" by (simp add: maxNestingDepth_def)
qed

lemma text_of_unique: "text_of t v \<Longrightarrow> text_of t w \<Longrightarrow> v = w"
  using text_ofD [of t v "[]"] text_ofD [of t w "[]"] by (simp add: num_end_def)


section \<open>No error for an event of the sensor\<close>

lemma days_before_bounds:
  "1 \<le> y \<Longrightarrow> 365 * (y - 1) \<le> days_before y" "y \<le> 0 \<Longrightarrow> days_before y \<le> - 366"
proof -
  have div: "k div 4 * 4 \<le> k" "k < k div 4 * 4 + 4" "k div 100 * 100 \<le> k" "k < k div 100 * 100 + 100"
    "k div 400 * 400 \<le> k" "k < k div 400 * 400 + 400" for k :: int
    using div_mult_mod_eq [of k 4] pos_mod_sign [of 4 k] pos_mod_bound [of 4 k] div_mult_mod_eq [of k 100] pos_mod_sign [of 100 k]
      pos_mod_bound [of 100 k] div_mult_mod_eq [of k 400] pos_mod_sign [of 400 k] pos_mod_bound [of 400 k] by linarith+
  show "365 * (y - 1) \<le> days_before y" if "1 \<le> y"
  proof -
    have "(y - 1) div 100 \<le> (y - 1) div 4" using that div [of "y - 1"] by linarith
    moreover have "0 \<le> (y - 1) div 400" using that by (simp add: pos_imp_zdiv_nonneg_iff)
    ultimately show ?thesis unfolding days_before_def by linarith
  qed
  show "days_before y \<le> - 366" if "y \<le> 0"
  proof -
    have "(y - 1) div 4 \<le> - 1" "(y - 1) div 400 \<le> - 1" "y - 1 \<le> (y - 1) div 100" using that div [of "y - 1"] by linarith+
    then show ?thesis using that unfolding days_before_def right_diff_distrib by linarith
  qed
qed

text \<open>The years 1 to 9998.\<close>

lemma clock_year:
  assumes "0 \<le> t" "t < 365 * 9998 * 86400 * 1000000000"
  shows "0 \<le> ck_year (clock_of t)" "ck_year (clock_of t) \<le> 9999"
proof -
  define d where "d = t div 1000000000 div 86400"
  obtain y yd where y: "year_day d = (y, yd)" by force
  have "ck_year (clock_of t) = y" using y unfolding clock_of_def d_def Let_def by (simp split: prod.splits)
  moreover have d: "0 \<le> d" "d < 3649270" using assms unfolding d_def by (simp_all add: pos_imp_zdiv_nonneg_iff zdiv_zmult2_eq [symmetric])
  note yd = year_day_correct [OF y]
  have "yd < 366" using yd(3) by (simp split: if_splits)
  then have "1 \<le> y" using days_before_bounds(2) [of y] yd(1) d(1) by linarith
  moreover from days_before_bounds(1) [OF this] have "y \<le> 9999" using yd(1,2) d(2) unfolding right_diff_distrib by linarith
  ultimately show "0 \<le> ck_year (clock_of t)" "ck_year (clock_of t) \<le> 9999" by simp_all
qed

lemma time_text_total:
  assumes "0 \<le> t + off * 1000000000" "t + off * 1000000000 < 365 * 9998 * 86400 * 1000000000" "\<bar>off\<bar> < 24 * 3600"
  shows "time_text off t \<noteq> None"
  using clock_year [OF assms(1,2)] assms(3) by (simp add: time_text_def Let_def)

lemma event_line_total: "time_text off (ev_Time ev) \<noteq> None \<longleftrightarrow> (\<exists>l. event_line off ev = Some l)"
  by (auto simp: event_line_def event_json_def split: option.splits)

section \<open>The property at a concrete event\<close>

definition demo_line_event :: Event where
  "demo_line_event = \<lparr>ev_Type = TypeExit, ev_Time = 63000000000 * 1000000000 + 5, ev_TimestampNs = 7,
     ev_Process = \<lparr>p_GUID = ''g'', p_PID = 4, p_TID = 4, p_UID = 0, p_GID = 0, p_CgroupID = 9, p_StartTimeNs = 3, p_Comm = ''sh'',
       p_Image = ''/bin/sh'', p_Argv = [''sh''], p_FilenameTruncated = False, p_ArgvTruncated = False, p_ArgvReadFailed = False\<rparr>,
     ev_Parent = \<lparr>pp_GUID = [], pp_PID = 1, pp_StartTimeNs = 0, pp_Image = [], pp_Argv = [], pp_Known = False, pp_External = False\<rparr>,
     ev_Container = None, ev_Exit = Some (ExitFromRaw 256)\<rparr>"

lemma valid_ascii: "list_all (\<lambda>c. code c < 0x80) s \<Longrightarrow> valid_utf8 s"
  by (induction s) (auto simp: valid_utf8.simps utf8_len_def)

lemma demo_line_valid: "event_valid demo_line_event"
  by (simp add: event_valid_def demo_line_event_def valid_ascii)


end
