(* ===== verification/Sensor.thy ===== *)
theory Sensor
  imports TableProps Loader DockerWatch Output
begin

text \<open>
  The command (\<open>cmd/anyone-sensor/main.go\<close>): the start-up sequence, the event loop and the way
  out, composed of the components; and the properties of the whole. What happens outside is
  given per turn of the loop: the event received, the sweeps that ran before it, what the watcher,
  \<open>/proc\<close> and the clock answer, the offset of the local time zone, and whether writing the line
  works. The output is the lines written to standard output. The log and the counters printed
  at intervals are left out.
\<close>

section \<open>Start-up\<close>

record options =
  o_mode :: string
  o_target :: Target
  o_dockerSocket :: string
  o_statsInterval :: int
  o_maxProcs :: int

definition default_options :: options where
  "default_options = \<lparr>o_mode = ''container'', o_target = \<lparr>tg_Name = [], tg_ID = [], tg_Label = []\<rparr>,
     o_dockerSocket = ''/var/run/docker.sock'', o_statsInterval = 0, o_maxProcs = 100000\<rparr>"

datatype run_error =
    NeedsTarget target_error
  | BadMode string
  | IdentityErr identity_error
  | LoadFailed load_error
  | StartFailed "map_error watch_error"
  | ScanFailed proc_error
  | WriteFailed
  | ReadFailedErr nat

definition check_mode :: "options \<Rightarrow> run_error + bool" where
  "check_mode opt =
     (if o_mode opt = ''host'' then Inr True
      else if o_mode opt = ''container'' then
        (case Validate (o_target opt) of Some e \<Rightarrow> Inl (NeedsTarget e) | None \<Rightarrow> Inr False)
      else Inl (BadMode (o_mode opt)))"

section \<open>The event loop\<close>

record Turn =
  tn_event :: Event
  tn_sweeps :: "(time \<times> ((string \<times> ptr) list \<Rightarrow> (string \<times> ptr) list)) list"
  tn_scope :: "u64 \<Rightarrow> bool"
  tn_sys :: OS
  tn_now :: time
  tn_lookup :: "u64 \<Rightarrow> Container option"
  tn_zone :: int
  tn_written :: bool

text \<open>The function fields of the table's configuration, as \<open>run\<close> sets them.\<close>

definition table_env :: "bool \<Rightarrow> (u64 \<Rightarrow> bool) \<Rightarrow> OS \<Rightarrow> time \<Rightarrow> Env" where
  "table_env host scope sys now =
     \<lparr>InScope = (if host then None else Some scope), Proc = Some (Read sys NewProcFS), Now = now\<rparr>"

definition with_container :: "bool \<Rightarrow> (u64 \<Rightarrow> Container option) \<Rightarrow> Event \<Rightarrow> Event" where
  "with_container host look ev =
     (if host then ev
      else case look (p_CgroupID (ev_Process ev)) of None \<Rightarrow> ev
        | Some c \<Rightarrow> ev\<lparr>ev_Container := Some \<lparr>ec_ID = c_ID c, ec_Name = c_Name c, ec_Image = c_Image c\<rparr>\<rparr>)"

fun sweep_all :: "(time \<times> ((string \<times> ptr) list \<Rightarrow> (string \<times> ptr) list)) list \<Rightarrow> Env \<Rightarrow> Table \<Rightarrow> Table" where
  "sweep_all [] w t = t"
| "sweep_all ((now, order) # ss) w t = sweep_all ss w (snd (Sweep (w\<lparr>Now := now\<rparr>) (order (entries t)) t))"

fun event_loop :: "bool \<Rightarrow> Turn list \<Rightarrow> Table \<Rightarrow> (run_error option \<times> string list \<times> Table) option" where
  "event_loop host [] t = Some (None, [], t)"
| "event_loop host (x # xs) t =
     (let w = table_env host (tn_scope x) (tn_sys x) (tn_now x) in
      do {
        (ev, t) \<leftarrow> Handle w (tn_event x) (sweep_all (tn_sweeps x) w t);
        let ev = with_container host (tn_lookup x) ev;
        case event_line (tn_zone x) ev of
          None \<Rightarrow> Some (Some WriteFailed, [], t)
        | Some line \<Rightarrow>
          if tn_written x then do {
            (err, out, t) \<leftarrow> event_loop host xs t;
            Some (err, line # out, t)
          } else Some (Some WriteFailed, [], t)
      })"

section \<open>run\<close>

record RunEnv =
  re_sys :: OS
  re_load :: LoadEnv
  re_lib :: MapLib
  re_engine :: engine
  re_world :: World
  re_scope :: "u64 \<Rightarrow> bool"
  re_now :: time
  re_turns :: "Turn list"
  re_readErr :: "nat option"

definition watcher_cfg :: "options \<Rightarrow> WatcherConfig" where
  "watcher_cfg opt = NewConfig \<lparr>wc_Target = o_target opt, wc_CgroupRoot = [], wc_Grace = 0\<rparr>"

text \<open>The watcher's world: the Docker engine behind a new client, and the file system.\<close>

definition runtime_world :: "RunEnv \<Rightarrow> options \<Rightarrow> World" where
  "runtime_world env opt = docker_world (re_engine env) (NewDocker (o_dockerSocket opt)) (re_world env)"

text \<open>From the loaded programs on; the loader is closed when it returns.\<close>

definition serve :: "RunEnv \<Rightarrow> options \<Rightarrow> bool \<Rightarrow> string \<Rightarrow> string \<Rightarrow> Loader \<Rightarrow> (run_error option \<times> string list) option" where
  "serve env opt host hostID bootID l =
     (case (if host then None
            else fst (exec (runtime_world env opt) (Start (AddCgroup (re_lib env)) (watcher_cfg opt)) (NewWatcher (objs l)))) of
        Some e \<Rightarrow> Some (Some (StartFailed e), [])
      | None \<Rightarrow>
        (case Scan (re_sys env) NewProcFS of
           Inl e \<Rightarrow> Some (Some (ScanFailed e), [])
         | Inr procs \<Rightarrow>
           let t = New \<lparr>HostID = hostID, BootID = bootID, MaxEntries = o_maxProcs opt, ExitTTL = 0\<rparr> in
           do {
             (n, t) \<leftarrow> Seed (table_env host (re_scope env) (re_sys env) (re_now env)) procs t;
             (err, out, t) \<leftarrow> event_loop host (re_turns env) t;
             Some (if err \<noteq> None then err else map_option ReadFailedErr (re_readErr env), out)
           }))"

text \<open>The error, the lines written to standard output, and the resources that were closed.\<close>

definition run :: "RunEnv \<Rightarrow> options \<Rightarrow> (run_error option \<times> string list \<times> resource list) option" where
  "run env opt =
     (case check_mode opt of Inl e \<Rightarrow> Some (Some e, [], [])
      | Inr host \<Rightarrow>
        (case HostIdentity (ReadFile (re_sys env)) of Inl e \<Rightarrow> Some (Some (IdentityErr e), [], [])
         | Inr (hostID, bootID) \<Rightarrow>
           (case Load (re_load env) host of
              (Inl e, _) \<Rightarrow> Some (Some (LoadFailed e), [], [])
            | (Inr l, _) \<Rightarrow> do {
                (err, out) \<leftarrow> serve env opt host hostID bootID l;
                Some (err, out, snd (Close (CloseErr (re_load env)) l))
              })))"

section \<open>The loop never stops on its own\<close>

text \<open>A sweep ranges over the whole map, once.\<close>

definition sweeps_ok :: "Turn \<Rightarrow> bool" where
  "sweeps_ok x \<longleftrightarrow> list_all (\<lambda>(now, order). \<forall>xs. set (order xs) = set xs) (tn_sweeps x)"

lemma sweep_all_ok:
  assumes "good t" and "list_all (\<lambda>(now, order). \<forall>xs. set (order xs) = set xs) ss"
  shows "good (sweep_all ss w t) \<and> cfg (sweep_all ss w t) = cfg t"
  using assms
proof (induction ss arbitrary: t)
  case (Cons s ss)
  obtain now ord where s: "s = (now, ord)" by fastforce
  have "set (ord (entries t)) = set (entries t)" using Cons.prems(2) by (simp add: s)
  then have "\<forall>(g, p) \<in> set (ord (entries t)). e_GUID (deref t p) = g"
    using Cons.prems(1) tab_okD(5) by (auto simp: good_def)
  note k = Sweep_loop_ok [OF Cons.prems(1) this, of "Now (w\<lparr>Now := now\<rparr>) - ExitTTL (cfg t)" 0, folded Sweep_def]
  then show ?case using Cons.IH [OF conjunct1 [OF k]] Cons.prems(2) by (simp add: s)
qed simp

text \<open>What \<open>Handle\<close> never changes, and the GUID it fills in.\<close>

definition same_process :: "Event \<Rightarrow> Event \<Rightarrow> bool" where
  "same_process ev ev' \<longleftrightarrow> ev_Type ev' = ev_Type ev \<and> ev_Time ev' = ev_Time ev \<and> ev_TimestampNs ev' = ev_TimestampNs ev \<and>
     ev_Exit ev' = ev_Exit ev \<and> ev_Container ev' = ev_Container ev \<and>
     p_PID (ev_Process ev') = p_PID (ev_Process ev) \<and> p_CgroupID (ev_Process ev') = p_CgroupID (ev_Process ev) \<and>
     p_StartTimeNs (ev_Process ev') = p_StartTimeNs (ev_Process ev)"

lemma Handle_same_process:
  assumes "Handle w ev t = Some (ev', t')"
  shows "same_process ev ev' \<and> p_GUID (ev_Process ev') = t_GUID t (p_PID (ev_Process ev)) (p_StartTimeNs (ev_Process ev))"
proof -
  have fp: "same_process e (fill_process x e) \<and> p_GUID (ev_Process (fill_process x e)) = p_GUID (ev_Process e)" for x e
    by (simp add: same_process_def fill_process_def set_process_def split: option.split)
  have pp: "same_process e (fill_parent x (set_parent e f)) \<and> ev_Process (fill_parent x (set_parent e f)) = ev_Process e" for x e f
    by (simp add: same_process_def fill_parent_def set_parent_def split: option.split)
  let ?g = "t_GUID t (p_PID (ev_Process ev)) (p_StartTimeNs (ev_Process ev))"
  obtain x y f where e: "ev' = fill_parent x (set_parent (fill_process y (set_process ev (\<lambda>p. p\<lparr>p_GUID := ?g\<rparr>))) f)"
    using assms unfolding Handle_def Let_def by (auto split: prod.splits bind_splits)
  show ?thesis unfolding e
    using fp [of "set_process ev (\<lambda>p. p\<lparr>p_GUID := ?g\<rparr>)" y] pp [of "fill_process y (set_process ev (\<lambda>p. p\<lparr>p_GUID := ?g\<rparr>))" x f]
    by (simp add: same_process_def set_process_def)
qed

text \<open>
  The line written for an event: its process with the GUID of host, boot, process id and start
  time, and the container the watcher has for its cgroup.
\<close>

definition label_of :: "Container \<Rightarrow> EvContainer" where
  "label_of c = \<lparr>ec_ID = c_ID c, ec_Name = c_Name c, ec_Image = c_Image c\<rparr>"

definition reported :: "string \<Rightarrow> string \<Rightarrow> bool \<Rightarrow> Turn \<Rightarrow> Event \<Rightarrow> bool" where
  "reported hostID bootID host x ev' \<longleftrightarrow>
     (let ev = tn_event x; p = ev_Process ev in
      ev_Type ev' = ev_Type ev \<and> ev_Time ev' = ev_Time ev \<and> ev_TimestampNs ev' = ev_TimestampNs ev \<and> ev_Exit ev' = ev_Exit ev \<and>
      p_PID (ev_Process ev') = p_PID p \<and> p_CgroupID (ev_Process ev') = p_CgroupID p \<and>
      p_StartTimeNs (ev_Process ev') = p_StartTimeNs p \<and>
      p_GUID (ev_Process ev') = GUID hostID bootID (p_PID p) (p_StartTimeNs p) \<and>
      ev_Container ev' = (if host then ev_Container ev
        else case tn_lookup x (p_CgroupID p) of None \<Rightarrow> ev_Container ev | Some c \<Rightarrow> Some (label_of c)))"

lemma reported_with_container:
  assumes "same_process (tn_event x) ev'" and "p_GUID (ev_Process ev') = GUID h b (p_PID (ev_Process (tn_event x))) (p_StartTimeNs (ev_Process (tn_event x)))"
  shows "reported h b host x (with_container host (tn_lookup x) ev')"
  using assms by (simp add: reported_def same_process_def with_container_def label_of_def Let_def split: option.split)

text \<open>The line of a turn is written if its time has a text and the write works.\<close>

definition written :: "Turn \<Rightarrow> bool" where
  "written x \<longleftrightarrow> tn_written x \<and> time_text (tn_zone x) (ev_Time (tn_event x)) \<noteq> None"

definition line_reported :: "string \<Rightarrow> string \<Rightarrow> bool \<Rightarrow> Turn \<Rightarrow> string \<Rightarrow> bool" where
  "line_reported hostID bootID host x line \<longleftrightarrow> (\<exists>ev. event_line (tn_zone x) ev = Some line \<and> reported hostID bootID host x ev)"

lemma event_loop_ok:
  assumes "good t" and "list_all sweeps_ok xs"
  shows "\<exists>out t'. event_loop host xs t = Some (if list_all written xs then None else Some WriteFailed, out, t') \<and>
    list_all2 (line_reported (HostID (cfg t)) (BootID (cfg t)) host) (takeWhile written xs) out"
  using assms
proof (induction xs arbitrary: t)
  case (Cons x xs)
  let ?w = "table_env host (tn_scope x) (tn_sys x) (tn_now x)"
  let ?t = "sweep_all (tn_sweeps x) ?w t"
  have s: "good ?t" "cfg ?t = cfg t" using sweep_all_ok [OF Cons.prems(1)] Cons.prems(2) by (simp_all add: sweeps_ok_def)
  obtain ev' u where u: "Handle ?w (tn_event x) ?t = Some (ev', u)" "good u" "cfg u = cfg t"
    using Handle_ok [OF s(1), of ?w "tn_event x"] s(2) by (auto simp: ext_def)
  have r: "reported (HostID (cfg t)) (BootID (cfg t)) host x (with_container host (tn_lookup x) ev')"
    using Handle_same_process [OF u(1)] s(2) by (intro reported_with_container) (simp_all add: t_GUID_def)
  let ?ev = "with_container host (tn_lookup x) ev'"
  have line: "(\<exists>l. event_line (tn_zone x) ?ev = Some l) \<longleftrightarrow> time_text (tn_zone x) (ev_Time (tn_event x)) \<noteq> None"
    using r unfolding event_line_total [symmetric] by (simp add: reported_def Let_def)
  show ?case
  proof (cases "written x")
    case False
    then show ?thesis using u(1) line by (auto simp: written_def split: option.split)
  next
    case True
    then obtain l where l: "event_line (tn_zone x) ?ev = Some l" using line by (auto simp: written_def)
    obtain out t' where "event_loop host xs u = Some (if list_all written xs then None else Some WriteFailed, out, t')"
      "list_all2 (line_reported (HostID (cfg t)) (BootID (cfg t)) host) (takeWhile written xs) out"
      using Cons.IH [OF u(2)] Cons.prems(2) u(3) by auto
    moreover have "line_reported (HostID (cfg t)) (BootID (cfg t)) host x l" using l r by (auto simp: line_reported_def)
    moreover have "tn_written x" using True by (simp add: written_def)
    ultimately show ?thesis using u(1) True l by simp
  qed
qed simp

lemma New_ids: "HostID (cfg (New c)) = HostID c" "BootID (cfg (New c)) = BootID c"
  by (simp_all add: New_def Let_def)

lemma serve_ok:
  assumes "list_all sweeps_ok (re_turns env)"
  shows "\<exists>err out. serve env opt host h b l = Some (err, out)"
    and "\<lbrakk>host \<or> fst (exec (runtime_world env opt) (Start (AddCgroup (re_lib env)) (watcher_cfg opt)) (NewWatcher (objs l))) = None;
      Scan (re_sys env) NewProcFS = Inr procs\<rbrakk> \<Longrightarrow>
      \<exists>out. serve env opt host h b l = Some (if list_all written (re_turns env)
          then map_option ReadFailedErr (re_readErr env) else Some WriteFailed, out) \<and>
        list_all2 (line_reported h b host) (takeWhile written (re_turns env)) out"
proof -
  let ?c = "\<lparr>HostID = h, BootID = b, MaxEntries = o_maxProcs opt, ExitTTL = 0\<rparr>"
  let ?w = "table_env host (re_scope env) (re_sys env) (re_now env)"
  have loop: "\<exists>n t out t'. Seed ?w ps (New ?c) = Some (n, t) \<and>
      event_loop host (re_turns env) t = Some (if list_all written (re_turns env) then None else Some WriteFailed, out, t') \<and>
      list_all2 (line_reported h b host) (takeWhile written (re_turns env)) out" for ps
  proof -
    obtain n t where t: "Seed ?w ps (New ?c) = Some (n, t)" "good t" "cfg t = cfg (New ?c)"
      using Seed_loop_ok [OF good_New(1) [of ?c], of ?w "start_times ps" ps 0] by (auto simp: Seed_def)
    from event_loop_ok [OF t(2) assms, of host] show ?thesis using t by (auto simp: New_ids)
  qed
  have served: "\<exists>out. serve env opt host h b l = Some (if list_all written (re_turns env)
      then map_option ReadFailedErr (re_readErr env) else Some WriteFailed, out) \<and>
    list_all2 (line_reported h b host) (takeWhile written (re_turns env)) out"
    if "host \<or> fst (exec (runtime_world env opt) (Start (AddCgroup (re_lib env)) (watcher_cfg opt)) (NewWatcher (objs l))) = None"
      "Scan (re_sys env) NewProcFS = Inr ps" for ps
  proof -
    obtain n t out t' where "Seed ?w ps (New ?c) = Some (n, t)"
      "event_loop host (re_turns env) t = Some (if list_all written (re_turns env) then None else Some WriteFailed, out, t')"
      "list_all2 (line_reported h b host) (takeWhile written (re_turns env)) out"
      using loop by blast
    then show ?thesis using that unfolding serve_def Let_def by auto
  qed
  then show "\<lbrakk>host \<or> fst (exec (runtime_world env opt) (Start (AddCgroup (re_lib env)) (watcher_cfg opt)) (NewWatcher (objs l))) = None;
      Scan (re_sys env) NewProcFS = Inr procs\<rbrakk> \<Longrightarrow>
      \<exists>out. serve env opt host h b l = Some (if list_all written (re_turns env)
          then map_option ReadFailedErr (re_readErr env) else Some WriteFailed, out) \<and>
        list_all2 (line_reported h b host) (takeWhile written (re_turns env)) out" .
  show "\<exists>err out. serve env opt host h b l = Some (err, out)"
  proof (cases "host \<or> fst (exec (runtime_world env opt) (Start (AddCgroup (re_lib env)) (watcher_cfg opt)) (NewWatcher (objs l))) = None")
    case True
    then show ?thesis using served [OF True]
      by (cases "Scan (re_sys env) NewProcFS") (auto simp: serve_def)
  qed (auto simp: serve_def)
qed

text \<open>
  C2: the sensor reports every event it receives. Once start-up has succeeded, one line is written
  per event, in order, until a write fails or the channel is closed: the JSON text of an event
  that carries the time, type and exit status of the event received, its process
  with the GUID made from host, boot, process id and start time, and in container
  mode the container the watcher has for the cgroup. The run fails exactly if a write or
  reading the ring buffer failed.
\<close>

theorem run_reports_events:
  assumes "list_all sweeps_ok (re_turns env)" and "check_mode opt = Inr host"
    and "HostIdentity (ReadFile (re_sys env)) = Inr (h, b)" and "fst (Load (re_load env) host) = Inr l"
    and "host \<or> fst (exec (runtime_world env opt) (Start (AddCgroup (re_lib env)) (watcher_cfg opt)) (NewWatcher (objs l))) = None"
    and "Scan (re_sys env) NewProcFS = Inr procs"
  shows "\<exists>out closed. run env opt = Some (if list_all written (re_turns env)
        then map_option ReadFailedErr (re_readErr env) else Some WriteFailed, out, closed) \<and>
      list_all2 (line_reported h b host) (takeWhile written (re_turns env)) out"
proof -
  obtain rs where "Load (re_load env) host = (Inr l, rs)" using assms(4) by (metis prod.collapse)
  then show ?thesis using serve_ok(2) [OF assms(1,5,6), of h b] assms(2,3) by (auto simp: run_def)
qed


section \<open>Scope\<close>

lemma watch_steps_go:
  assumes "go_step\<^sup>*\<^sup>* c c'"
  shows "(watch_step addf remf wcfg K)\<^sup>*\<^sup>* c c'"
  using assms by (induction rule: rtranclp_induct) (auto intro: rtranclp.rtrancl_into_rtrancl watch_step.go)

lemma tinv_wanted: "tinv (s\<lparr>wanted := c\<rparr>) = tinv s"
  by (rule tinv_cong) (simp_all add: outstanding_def)

abbreviation sensor_reachable ::
  "MapLib \<Rightarrow> WatcherConfig \<Rightarrow> bpf_state \<Rightarrow> bpf_state Watcher \<Rightarrow> (bpf_state, unit) routine list \<Rightarrow> bool" where
  "sensor_reachable lib wcfg k s ps \<equiv>
     watch_reachable (AddCgroup lib) (RemoveCgroup lib) wcfg (\<lambda>k k'. targets k' = targets k) k s ps"

lemma loaded_targets: "fst (Load env host) = Inr l \<Longrightarrow> targets (objs l) = {}"
  using Load_ok_fields by (simp add: targets_def bpf_init_def)

lemma inv_NewWatcher: "targets k = {} \<Longrightarrow> rinv targets T (NewWatcher k) \<and> tinv (NewWatcher k)"
  by (simp add: rinv_def winv_def NewWatcher_def tinv_def outstanding_def)

context sound_hash_map
begin

lemma reachable_scope:
  assumes "targets k = {}" and "sensor_reachable lib wcfg k s ps"
  shows "rinv targets (wc_Target wcfg) s"
  using exact.reachable_keeps [OF assms(2) refl] inv_NewWatcher [OF assms(1)] by blast

lemma reachable_timers:
  assumes "targets k = {}" and "sensor_reachable lib wcfg k s ps"
  shows "tinv s"
  using timed.reachable_keeps [OF assms(2) refl] inv_NewWatcher [OF assms(1)] by (auto simp: rinv_def)

text \<open>An outstanding timer ends the capture of its cgroup.\<close>

lemma outstanding_fires:
  fixes s :: "bpf_state Watcher"
  assumes "(n, i) \<in> outstanding s"
  shows "\<exists>s'. (watch_step (AddCgroup lib) (RemoveCgroup lib) wcfg K)\<^sup>*\<^sup>* (s, ps) (s', ps) \<and>
    w_Lookup i s' = None \<and> i \<notin> targets (kern s')"
proof -
  let ?step = "watch_step (AddCgroup lib) (RemoveCgroup lib) wcfg K"
  have fires: "\<exists>u'. ?step (u, ps) (u', ps) \<and> w_Lookup i u' = None \<and> i \<notin> targets (kern u')"
    if "(n, i) \<in> set (fired u)" for u :: "bpf_state Watcher"
    using watch_step.callback [OF that] callback_ends [OF remove_never_fails] by blast
  show ?thesis
  proof (cases "(n, i) \<in> set (fired s)")
    case True
    then show ?thesis using fires by blast
  next
    case False
    let ?u = "s\<lparr>armed := remove1 (n, i) (armed s), fired := (n, i) # fired s\<rparr>"
    have "?step (s, ps) (?u, ps)" using False assms by (intro watch_step.expire) (simp add: outstanding_def)
    moreover obtain u' where "?step (?u, ps) (u', ps)" "w_Lookup i u' = None" "i \<notin> targets (kern u')"
      using fires [of ?u] by auto
    ultimately show ?thesis by (meson converse_rtranclp_into_rtranclp r_into_rtranclp)
  qed
qed

end

lemma rinv_Lookup:
  assumes "rinv targets T s"
  shows "i \<in> targets (kern s) \<longleftrightarrow> w_InScope i s" and "w_Lookup i s = Some c \<Longrightarrow> Matches T c"
proof -
  have "targets (kern s) = fst ` set (byCgroup s)" using assms by (auto simp: rinv_def winv_def)
  then show "i \<in> targets (kern s) \<longleftrightarrow> w_InScope i s" by (simp only: w_InScope_def w_Lookup_def in_keys)
  show "Matches T c" if "w_Lookup i s = Some c"
    using that assms by (force simp: w_Lookup_def rinv_def winv_def dest: map_of_SomeD)
qed



section \<open>The properties at a concrete run\<close>

definition demo_started :: "bpf_state Watcher" where
  "demo_started = snd (exec (demo_world (Some 7)) (discard (Start (AddCgroup kernel_lib) demo_wcfg)) (NewWatcher (bpf_init False)))"

lemma demo_add_result:
  "w_add (AddCgroup kernel_lib) 7 demo_container (setWanted demo_container (NewWatcher (bpf_init False))) =
    (None, \<lparr>wanted = Some demo_container, byCgroup = [(7, demo_container)], timers = [], armed = [], fired = [], next_timer = 0, kern = demo_state\<rparr>)"
  by (simp add: w_add_def setWanted_def NewWatcher_def AddCgroup_def kernel_lib_def target_cgroups_decl_def bpf_init_def demo_state_def)

lemma demo_start:
  "exec (demo_world (Some 7)) (Start (AddCgroup kernel_lib) demo_wcfg) (NewWatcher (bpf_init False)) =
    (None, \<lparr>wanted = Some demo_container, byCgroup = [(7, demo_container)], timers = [], armed = [], fired = [], next_timer = 0, kern = demo_state\<rparr>)"
proof -
  have v: "Validate (wc_Target demo_wcfg) = None"
    by (simp add: demo_wcfg_def NewConfig_def Validate_def selector_target_def Let_def)
  have c: "container_cgroup (demo_world (Some 7)) demo_wcfg demo_container = Some 7" "c_Running demo_container"
    by (simp_all add: container_cgroup_def container_path_def demo_world_def demo_container_def)
  have l: "w_List (demo_world (Some 7)) = Inr [demo_container]" "w_inotify (demo_world (Some 7)) = (\<lambda>_. True)"
    "\<exists>p. w_CgroupPath (demo_world (Some 7)) ''0'' = Inr p"
    by (simp_all add: demo_world_def)
  show ?thesis
    using l(3) by (auto simp: Start_def v exec_bind resync_def l(1,2) demo_matches pick_def exec_addRunning [OF c(1)] c(2) demo_add_result Let_def)
qed

lemma demo_started_fields:
  "w_Lookup 7 demo_started = Some demo_container" "kern demo_started = demo_state" "byCgroup demo_started = [(7, demo_container)]"
  by (simp_all add: demo_started_def demo_start w_Lookup_def)

lemma demo_reachable: "sensor_reachable kernel_lib demo_wcfg (bpf_init False) demo_started [Ret ()]"
proof -
  let ?p = "discard (Start (AddCgroup kernel_lib) demo_wcfg)"
  have "go_step\<^sup>*\<^sup>* (NewWatcher (bpf_init False), [?p]) (demo_started, [?p][0 := Ret ()])"
    unfolding demo_started_def by (rule go_step_exec) simp_all
  from watch_steps_go [OF this] show ?thesis by (simp add: watch_reachable_def)
qed

lemma demo_objs: "\<exists>l. fst (Load demo_load False) = Inr l \<and> objs l = bpf_init False"
  using demo_loaded Load_ok_fields by blast



definition demo_run :: RunEnv where
  "demo_run = \<lparr>
     re_sys = \<lparr>ReadFile = (\<lambda>_. Some []), Readlink = (\<lambda>_. None), Open_read = (\<lambda>_. None), ReadDir = (\<lambda>_. Some []), Stat_ino = (\<lambda>_. None)\<rparr>,
     re_load = demo_load, re_lib = kernel_lib, re_engine = web_engine, re_world = demo_world (Some 9), re_scope = (\<lambda>_. True), re_now = 0,
     re_turns = [\<lparr>tn_event = demo_event TypeExec, tn_sweeps = [(5, \<lambda>xs. xs)], tn_scope = (\<lambda>_. True),
       tn_sys = \<lparr>ReadFile = (\<lambda>_. None), Readlink = (\<lambda>_. None), Open_read = (\<lambda>_. None), ReadDir = (\<lambda>_. None), Stat_ino = (\<lambda>_. None)\<rparr>,
       tn_now = 7, tn_lookup = (\<lambda>_. Some demo_container), tn_zone = 0, tn_written = True\<rparr>],
     re_readErr = None\<rparr>"

definition demo_options :: options where
  "demo_options = default_options\<lparr>o_target := selector_target (ByName ''web'')\<rparr>"

lemma demo_run_ok: "list_all sweeps_ok (re_turns demo_run)"
  by (simp add: demo_run_def sweeps_ok_def)

lemma demo_mode: "check_mode demo_options = Inr False"
  by (simp add: check_mode_def demo_options_def default_options_def Validate_def selector_target_def)

theorem run_reports_events_witness:
  "\<exists>ev line closed. run demo_run demo_options = Some (None, [line], closed) \<and> event_line 0 ev = Some line \<and>
    ev_Type ev = TypeExec \<and> ev_Container ev = Some (label_of demo_container)"
proof -
  obtain l where l: "fst (Load (re_load demo_run) False) = Inr l" "objs l = bpf_init False"
    using demo_objs by (auto simp: demo_run_def)
  obtain h b where i: "HostIdentity (ReadFile (re_sys demo_run)) = Inr (h, b)" by (simp add: HostIdentity_def demo_run_def)
  have w: "watcher_cfg demo_options = demo_wcfg" by (simp add: watcher_cfg_def demo_options_def demo_wcfg_def)
  have "runtime_world demo_run demo_options = web_world"
    by (simp add: runtime_world_def demo_run_def demo_options_def default_options_def)
  moreover have "AddCgroup kernel_lib 9 (bpf_init False) = (None, snd (AddCgroup kernel_lib 9 (bpf_init False)))"
    by (simp add: AddCgroup_def kernel_lib_def target_cgroups_decl_def bpf_init_def)
  from docker_start [where addf = "AddCgroup kernel_lib" and k = "bpf_init False" and cg = 9 and store = "[''0a1b'' \<mapsto> web]",
      OF refl web_start_facts(1) web_engine_lists web_ids web_engine_store web_start_facts(2-4) this web_start_facts(5,6)]
  have "fst (exec web_world (Start (AddCgroup kernel_lib) demo_wcfg) (NewWatcher (bpf_init False))) = None" by auto
  ultimately have s: "False \<or> fst (exec (runtime_world demo_run demo_options)
      (Start (AddCgroup (re_lib demo_run)) (watcher_cfg demo_options)) (NewWatcher (objs l))) = None"
    by (simp add: w l(2)) (simp add: demo_run_def)
  have p: "Scan (re_sys demo_run) NewProcFS = Inr []" by (simp add: Scan_def demo_run_def)
  have "time_text 0 (ev_Time (demo_event TypeExec)) \<noteq> None" by (rule time_text_total) (simp_all add: demo_event_def)
  then have "list_all written (re_turns demo_run)" by (simp add: demo_run_def written_def)
  with run_reports_events [OF demo_run_ok demo_mode i l(1) s p] show ?thesis
    by (auto simp: demo_run_def list_all2_Cons1 line_reported_def reported_def Let_def demo_event_def)
qed


section \<open>Encoding never fails\<close>

lemma decode_time: "decode raw b = Inr ev \<Longrightarrow> \<exists>n :: u64. ev_Time ev = b + sint n"
  by (auto simp: decode_def decode_exec_def decode_exit_def fromHeader_def Let_def split: if_splits option.splits sum.splits)

text \<open>
  C40: every decoded event can be written. Whatever the clocks say and whatever time stamp a
  record holds, the time of the event lies between the years 1 and 9998, so that encoding it, which
  fails for other years, succeeds in every time zone.
\<close>

theorem decoded_event_encodes:
  assumes "bootTime env = Inr b" and "decode raw b = Inr ev" and "\<bar>off\<bar> < 24 * 3600" and "ev_Time ev' = ev_Time ev"
  shows "\<exists>line. event_line off ev' = Some line"
proof -
  obtain n :: u64 where n: "ev_Time ev = b + sint n" using decode_time [OF assms(2)] by blast
  obtain m :: u64 where m: "b = unixEpoch + sint m" using assms(1) by (auto simp: bootTime_def split: sum.splits)
  have range: "- (2 ^ 63) \<le> sint x" "sint x < 2 ^ 63" for x :: u64 using sint_ge [of x] sint_lt [of x] by simp_all
  have off: "- 86400 < off" "off < 86400" using assms(3) by linarith+
  have "time_text off (ev_Time ev) \<noteq> None"
    by (rule time_text_total)
      (use range [of n] range [of m] off assms(3) in \<open>simp_all add: n m unixEpoch_def\<close>)
  then show ?thesis using event_line_total [of off ev'] assms(4) by simp
qed

theorem decoded_event_encodes_witness:
  "\<exists>b ev line. bootTime demo_load = Inr b \<and> decode (hook_record (demo_exit 7) (replicate 80 0)) b = Inr ev \<and>
    event_line (- 18000) ev = Some line"
proof -
  obtain b where b: "bootTime demo_load = Inr b" by (simp add: bootTime_def demo_load_def)
  have "bpf_ringbuf_reserve (hook_kernel (demo_exit 7)) (hook_size (demo_exit 7)) = Some (replicate 80 0)"
    by (simp add: demo_exit_def demo_kernel_def zero_block_def wire_simps)
  then obtain ev where "decode (hook_record (demo_exit 7) (replicate 80 0)) b = Inr ev"
    using decode_hook_record [of "demo_exit 7"] demo_hooks by fastforce
  from this decoded_event_encodes [OF b this, of "- 18000" ev] show ?thesis using b by auto
qed

end
